(* ===== verification/Prelude.thy ===== *)
theory Prelude
  imports Main "HOL-Library.AList"
begin

section \<open>Prelude: Go maps, errors, contexts, decimal numerals\<close>

text \<open>
  What every component of the development shares.

  \<^item> A Go map is an association list (\<open>gomap\<close>): \<open>mget\<close> looks a key up, \<open>mput\<close> stores, \<open>mdel\<close>
    deletes. The empty list is the empty map (a nil map reads the same way), so \<open>len(m) == 0\<close> of
    the source is \<open>m = []\<close>. Ranging over a map visits the list; Go leaves that order open, and no
    property depends on it.
  \<^item> A Go \<open>error\<close> is a value of \<open>go_error\<close>; \<open>nil\<close> is the \<open>Inr\<close> side of a sum or \<open>None\<close>.
    \<open>fmt.Errorf\<close> with \<open>%w\<close> is \<open>Wrapped\<close> or \<open>WrappedBy\<close>, and \<open>errors.Is\<close> looks through it.
  \<^item> A \<open>context.Context\<close> is what \<open>ctx.Err()\<close> returns when it is asked: \<open>None\<close> while it is live.
  \<^item> \<open>strconv.Itoa\<close>, \<open>FormatInt\<close> and \<open>Atoi\<close> in base 10.
\<close>

named_theorems go_simps \<open>unfolding rules of the model's small definitions\<close>
named_theorems host_simps \<open>rewrite rules of session host operations\<close>

subsection \<open>Go maps\<close>

type_synonym ('k, 'v) gomap = "('k \<times> 'v) list"

definition mget :: "('k, 'v) gomap \<Rightarrow> 'k \<Rightarrow> 'v option" where
  "mget m k = map_of m k"

definition mput :: "'k \<Rightarrow> 'v \<Rightarrow> ('k, 'v) gomap \<Rightarrow> ('k, 'v) gomap" where
  "mput k v m = AList.update k v m"

definition mdel :: "'k \<Rightarrow> ('k, 'v) gomap \<Rightarrow> ('k, 'v) gomap" where
  "mdel k m = AList.delete k m"

definition mkeys :: "('k, 'v) gomap \<Rightarrow> 'k list" where
  "mkeys m = map fst m"

definition wf_map :: "('k, 'v) gomap \<Rightarrow> bool" where
  "wf_map m \<longleftrightarrow> distinct (mkeys m)"

lemma mget_Nil [simp]: "mget [] k = None"
  by (simp add: mget_def)

lemma mget_Cons [simp]: "mget ((a, b) # m) k = (if k = a then Some b else mget m k)"
  by (simp add: mget_def)

lemma mget_mput [simp]: "mget (mput k v m) k' = (if k' = k then Some v else mget m k')"
  by (simp add: mget_def mput_def update_conv')

lemma mget_mdel [simp]: "mget (mdel k m) k' = (if k' = k then None else mget m k')"
  by (simp add: mget_def mdel_def delete_conv')

lemma mput_simps [simp]:
  "mput k v [] = [(k, v)]"
  "mput k v ((a, b) # m) = (if a = k then (a, v) # m else (a, b) # mput k v m)"
  by (simp_all add: mput_def)

lemma mdel_simps [simp]:
  "mdel k [] = []"
  "mdel k ((a, b) # m) = (if a = k then mdel k m else (a, b) # mdel k m)"
  by (auto simp: mdel_def AList.delete_eq)

lemma mput_not_Nil [simp]: "mput k v m \<noteq> []"
  by (cases m) (auto split: if_splits)

lemma mget_None_iff: "mget m k = None \<longleftrightarrow> k \<notin> set (mkeys m)"
  by (simp add: mget_def mkeys_def map_of_eq_None_iff)

lemma mkeys_iff: "k \<in> set (mkeys m) \<longleftrightarrow> mget m k \<noteq> None"
  by (simp add: mget_None_iff)

lemma mget_SomeD: "mget m k = Some v \<Longrightarrow> (k, v) \<in> set m"
  by (simp add: mget_def map_of_SomeD)

lemma gomap_empty_iff: "m = [] \<longleftrightarrow> (\<forall>k. mget m k = None)"
  by (cases m) auto

lemma mdel_empty_iff: "mdel k m = [] \<longleftrightarrow> (\<forall>k'. k' \<noteq> k \<longrightarrow> mget m k' = None)"
  by (auto simp: gomap_empty_iff)

lemma wf_map_Nil [simp]: "wf_map []"
  by (simp add: wf_map_def mkeys_def)

lemma wf_map_mput [simp]: "wf_map m \<Longrightarrow> wf_map (mput k v m)"
  by (simp add: wf_map_def mkeys_def mput_def distinct_update)

lemma wf_map_mdel [simp]: "wf_map m \<Longrightarrow> wf_map (mdel k m)"
  by (simp add: wf_map_def mkeys_def mdel_def distinct_delete)

lemma mdel_absent: "mget m k = None \<Longrightarrow> mdel k m = m"
  by (induction m) (auto split: if_splits)

lemma mdel_mput_absent: "mget m k = None \<Longrightarrow> mdel k (mput k v m) = m"
  by (induction m) (auto split: if_splits)

subsection \<open>Errors and contexts\<close>

datatype go_error =
    ErrSessionNotFound          \<comment> \<open>sessions.ErrSessionNotFound\<close>
  | CtxCanceled                 \<comment> \<open>context.Canceled\<close>
  | CtxDeadlineExceeded         \<comment> \<open>context.DeadlineExceeded\<close>
  | ErrCancelled                \<comment> \<open>engine.ErrCancelled\<close>
  | ErrInvalidUserID            \<comment> \<open>engine.ErrInvalidUserID\<close>
  | ErrInvalidProtocolVersion   \<comment> \<open>engine.ErrInvalidProtocolVersion\<close>
  | ErrInternal                 \<comment> \<open>engine.ErrInternal\<close>
  | ErrInvalidLoggingLevel      \<comment> \<open>mcpservice.ErrInvalidLoggingLevel\<close>
  | ErrFinalized                \<comment> \<open>mcpservice.ErrFinalized\<close>
  | ErrUnauthorized             \<comment> \<open>auth.ErrUnauthorized\<close>
  | ErrInsufficientScope        \<comment> \<open>auth.ErrInsufficientScope\<close>
  | JwtErrUnauthorized          \<comment> \<open>jwtauth.ErrUnauthorized\<close>
  | JwtErrInsufficientScope     \<comment> \<open>jwtauth.ErrInsufficientScope\<close>
  | IoEOF                       \<comment> \<open>io.EOF\<close>
  | ErrText string              \<comment> \<open>errors.New or fmt.Errorf without a wrapped error\<close>
  | Wrapped string go_error     \<comment> \<open>fmt.Errorf of the form \<open>s: %w\<close>\<close>
  | WrappedBy go_error string   \<comment> \<open>fmt.Errorf of the form \<open>%w: s\<close>\<close>
  | Joined go_error go_error    \<comment> \<open>errors.Join of two errors\<close>

fun errors_is :: "go_error \<Rightarrow> go_error \<Rightarrow> bool" where
  "errors_is (Wrapped s e) t \<longleftrightarrow> Wrapped s e = t \<or> errors_is e t"
| "errors_is (WrappedBy e s) t \<longleftrightarrow> WrappedBy e s = t \<or> errors_is e t"
| "errors_is (Joined d e) t \<longleftrightarrow> Joined d e = t \<or> errors_is d t \<or> errors_is e t"
| "errors_is e t \<longleftrightarrow> e = t"

text \<open>The text of an error, as \<open>Error()\<close> returns it.\<close>

fun error_text :: "go_error \<Rightarrow> string" where
  "error_text ErrSessionNotFound = ''session not found''"
| "error_text CtxCanceled = ''context canceled''"
| "error_text CtxDeadlineExceeded = ''context deadline exceeded''"
| "error_text ErrCancelled = ''operation cancelled''"
| "error_text ErrInvalidUserID = ''invalid user id''"
| "error_text ErrInvalidProtocolVersion = ''invalid protocol version''"
| "error_text ErrInternal = ''internal error''"
| "error_text ErrInvalidLoggingLevel = ''invalid logging level''"
| "error_text ErrFinalized = ''result already finalized''"
| "error_text ErrUnauthorized = ''unauthorized''"
| "error_text ErrInsufficientScope = ''insufficient scope''"
| "error_text JwtErrUnauthorized = ''jwtauth: unauthorized''"
| "error_text JwtErrInsufficientScope = ''jwtauth: insufficient_scope''"
| "error_text IoEOF = ''EOF''"
| "error_text (ErrText s) = s"
| "error_text (Wrapped s e) = s @ '': '' @ error_text e"
| "error_text (WrappedBy e s) = error_text e @ '': '' @ s"
| "error_text (Joined d e) = error_text d @ [CHR 0x0A] @ error_text e"

text \<open>\<open>%q\<close> of a string of printable characters other than the quote and the backslash.\<close>

definition quoted :: "string \<Rightarrow> string" where
  "quoted s = [CHR 0x22] @ s @ [CHR 0x22]"

lemma errors_is_refl [simp]: "errors_is e e"
  by (cases e) auto

type_synonym ctx = "go_error option"

abbreviation ctx_background :: ctx where
  "ctx_background \<equiv> None"

definition without_cancel :: "ctx \<Rightarrow> ctx" where
  [go_simps]: "without_cancel c = None"

subsection \<open>Decimal numerals\<close>

definition digit_char :: "nat \<Rightarrow> char" where
  "digit_char d = char_of (48 + d)"

definition is_digit :: "char \<Rightarrow> bool" where
  "is_digit c \<longleftrightarrow> 48 \<le> (of_char c :: nat) \<and> (of_char c :: nat) \<le> 57"

definition digit_val :: "char \<Rightarrow> nat" where
  "digit_val c = of_char c - 48"

fun itoa :: "nat \<Rightarrow> string" where
  "itoa n = (if n < 10 then [digit_char n] else itoa (n div 10) @ [digit_char (n mod 10)])"

declare itoa.simps [simp del]

fun parse_digits :: "nat \<Rightarrow> string \<Rightarrow> nat option" where
  "parse_digits acc [] = Some acc"
| "parse_digits acc (c # cs) =
     (if is_digit c then parse_digits (10 * acc + digit_val c) cs else None)"

definition int64_ok :: "int \<Rightarrow> bool" where
  "int64_ok n \<longleftrightarrow> - (2 ^ 63) \<le> n \<and> n < 2 ^ 63"

definition in_range :: "int \<Rightarrow> int option" where
  "in_range n = (if int64_ok n then Some n else None)"

definition atoi :: "string \<Rightarrow> int option" where
  "atoi s = (case s of
       [] \<Rightarrow> None
     | c # cs \<Rightarrow>
         if c = CHR ''-'' then
           (if cs = [] then None else Option.bind (parse_digits 0 cs) (\<lambda>n. in_range (- int n)))
         else if c = CHR ''+'' then
           (if cs = [] then None else Option.bind (parse_digits 0 cs) (\<lambda>n. in_range (int n)))
         else Option.bind (parse_digits 0 (c # cs)) (\<lambda>n. in_range (int n)))"

definition itoa_int :: "int \<Rightarrow> string" where
  "itoa_int n = (if n < 0 then CHR ''-'' # itoa (nat (- n)) else itoa (nat n))"

lemma of_char_digit_char: "d < 10 \<Longrightarrow> (of_char (digit_char d) :: nat) = 48 + d"
  by (simp add: digit_char_def)

lemma is_digit_digit_char: "d < 10 \<Longrightarrow> is_digit (digit_char d)"
  by (simp add: is_digit_def of_char_digit_char)

lemma digit_val_digit_char: "d < 10 \<Longrightarrow> digit_val (digit_char d) = d"
  by (simp add: digit_val_def of_char_digit_char)

lemma parse_digits_append:
  "parse_digits acc (xs @ ys) = Option.bind (parse_digits acc xs) (\<lambda>a. parse_digits a ys)"
  by (induction xs arbitrary: acc) auto

lemma itoa_not_Nil [simp]: "itoa n \<noteq> []"
  by (subst itoa.simps) simp

lemma itoa_digits: "\<forall>c \<in> set (itoa n). is_digit c"
proof (induction n rule: itoa.induct)
  case (1 n)
  then show ?case
    by (subst itoa.simps) (auto simp: is_digit_digit_char)
qed

lemma parse_digits_itoa [simp]: "parse_digits 0 (itoa n) = Some n"
proof (induction n rule: itoa.induct)
  case (1 n)
  then show ?case
    by (subst itoa.simps)
       (auto simp: is_digit_digit_char digit_val_digit_char parse_digits_append)
qed

lemma itoa_inject [simp]: "itoa m = itoa n \<longleftrightarrow> m = n"
  by (metis option.inject parse_digits_itoa)

lemma is_digit_not_sign: "is_digit c \<Longrightarrow> c \<noteq> CHR ''-'' \<and> c \<noteq> CHR ''+''"
  by (auto simp: is_digit_def)

lemma atoi_itoa: "int n < 2 ^ 63 \<Longrightarrow> atoi (itoa n) = Some (int n)"
proof -
  assume n: "int n < 2 ^ 63"
  obtain c cs where s: "itoa n = c # cs"
    by (cases "itoa n") auto
  then have "is_digit c"
    using itoa_digits [of n] by simp
  then have "c \<noteq> CHR ''-''" "c \<noteq> CHR ''+''"
    using is_digit_not_sign by auto
  then have "atoi (itoa n) = Option.bind (parse_digits 0 (itoa n)) (\<lambda>n. in_range (int n))"
    by (simp add: atoi_def s)
  with n show ?thesis
    by (simp add: in_range_def int64_ok_def)
qed

lemma itoa_head_not_minus: "itoa n \<noteq> CHR ''-'' # s"
  using itoa_digits [of n] is_digit_not_sign by (metis list.set_intros(1))

lemma itoa_int_inject [simp]: "itoa_int m = itoa_int n \<longleftrightarrow> m = n"
  by (auto simp: itoa_int_def itoa_head_not_minus itoa_head_not_minus [symmetric] split: if_splits)

subsection \<open>Lists\<close>

lemma nth_upd: "j < length xs \<Longrightarrow> xs[i := x] ! j = (if i = j then x else xs ! j)"
  by (auto simp: nth_list_update_neq)

lemma take_drop_append: "i \<le> j \<Longrightarrow> take (j - i) (drop i xs) @ drop j xs = drop i xs"
  by (metis append_take_drop_id drop_drop le_add_diff_inverse2)

lemma foldl_append_map: "foldl (\<lambda>acc x. acc @ [f x]) acc xs = acc @ map f xs"
  by (induction xs arbitrary: acc) auto

end
