(* ===== verification/Json.thy ===== *)
theory Json
  imports Prelude
begin

section \<open>JSON documents and Go's encoding/json\<close>

text \<open>
  The server exchanges JSON text. A byte slice that holds a JSON document is represented by the
  document (\<open>Doc\<close>), a byte slice that \<open>encoding/json\<close> rejects by \<open>Garbage\<close>; \<open>json.Marshal\<close> of a
  struct is its document and \<open>json.Unmarshal\<close> reads the fields of one. A number literal whose
  float64 value is an integer in the range of int64 is \<open>JInt\<close> with the exact integer that was
  written; any other number is \<open>JFlt\<close> with the shortest decimal text of its float64 value (the text
  \<open>%v\<close> prints). \<open>json.RawMessage\<close> is an optional document: \<open>None\<close> is the empty slice of an absent
  field.

  The decoding rules kept here are those the source relies on: object keys match field names
  without regard to ASCII case, a repeated key overwrites, \<open>null\<close> leaves a plain field as it is,
  stores a nil pointer and is kept verbatim by \<open>RawMessage\<close>, unknown keys are skipped, and a value
  of the wrong kind makes the whole call fail.
\<close>

datatype json =
    JNull
  | JBool bool
  | JInt int
  | JFlt string
  | JStr string
  | JArr "json list"
  | JObj "(string \<times> json) list"

datatype wire = Doc json | Garbage

type_synonym raw = "json option"

definition raw_wire :: "raw \<Rightarrow> wire" where
  "raw_wire r = (case r of None \<Rightarrow> Garbage | Some j \<Rightarrow> Doc j)"

subsection \<open>Keys and fields\<close>

definition lower_char :: "char \<Rightarrow> char" where
  "lower_char c = (let n = of_char c :: nat in if 65 \<le> n \<and> n \<le> 90 then char_of (n + 32) else c)"

definition key_eq :: "string \<Rightarrow> string \<Rightarrow> bool" where
  "key_eq k n \<longleftrightarrow> map lower_char k = map lower_char n"

fun dec_field :: "('a \<Rightarrow> json \<Rightarrow> 'a option) \<Rightarrow> string \<Rightarrow> 'a \<Rightarrow> (string \<times> json) list \<Rightarrow> 'a option" where
  "dec_field f n acc [] = Some acc"
| "dec_field f n acc ((k, v) # r) =
     (if key_eq k n then Option.bind (f acc v) (\<lambda>a. dec_field f n a r) else dec_field f n acc r)"

fun as_string :: "string \<Rightarrow> json \<Rightarrow> string option" where
  "as_string acc (JStr s) = Some s"
| "as_string acc JNull = Some acc"
| "as_string acc _ = None"

fun as_bool :: "bool \<Rightarrow> json \<Rightarrow> bool option" where
  "as_bool acc (JBool b) = Some b"
| "as_bool acc JNull = Some acc"
| "as_bool acc _ = None"

fun as_int :: "int \<Rightarrow> json \<Rightarrow> int option" where
  "as_int acc (JInt n) = Some n"
| "as_int acc JNull = Some acc"
| "as_int acc _ = None"

definition as_raw :: "raw \<Rightarrow> json \<Rightarrow> raw option" where
  "as_raw acc v = Some (Some v)"

definition as_any :: "json option \<Rightarrow> json \<Rightarrow> json option option" where
  "as_any acc v = Some (if v = JNull then None else Some v)"

definition as_ptr :: "(json \<Rightarrow> 'a option) \<Rightarrow> 'a option \<Rightarrow> json \<Rightarrow> 'a option option" where
  "as_ptr f acc v = (if v = JNull then Some None else map_option Some (f v))"

fun as_list :: "(json \<Rightarrow> 'a option) \<Rightarrow> 'a list \<Rightarrow> json \<Rightarrow> 'a list option" where
  "as_list f acc JNull = Some []"
| "as_list f acc (JArr js) = those (map f js)"
| "as_list f acc _ = None"

definition unmarshal_struct :: "'a \<Rightarrow> ((string \<times> json) list \<Rightarrow> 'a option) \<Rightarrow> wire \<Rightarrow> 'a option" where
  "unmarshal_struct zero f w =
     (case w of Garbage \<Rightarrow> None
      | Doc (JObj kvs) \<Rightarrow> f kvs
      | Doc JNull \<Rightarrow> Some zero
      | Doc _ \<Rightarrow> None)"

subsection \<open>Integers through float64\<close>

text \<open>
  Decoding an integer literal into a float64 rounds it to 53 significant bits, ties to even.
  \<open>excess\<close> counts the bits beyond the 53rd.
\<close>

fun excess :: "nat \<Rightarrow> nat" where
  "excess a = (if a < 2 ^ 53 then 0 else Suc (excess (a div 2)))"

declare excess.simps [simp del]

definition f64_round_nat :: "nat \<Rightarrow> nat" where
  "f64_round_nat a =
     (let k = excess a; q = a div 2 ^ k; r = a mod 2 ^ k in
      if k = 0 then a
      else if 2 ^ (k - 1) < r \<or> (r = 2 ^ (k - 1) \<and> odd q) then (q + 1) * 2 ^ k
      else q * 2 ^ k)"

definition f64_round :: "int \<Rightarrow> int" where
  "f64_round n = (if n < 0 then - int (f64_round_nat (nat (- n))) else int (f64_round_nat (nat n)))"

lemma f64_round_nat_exact: "a \<le> 2 ^ 53 \<Longrightarrow> f64_round_nat a = a"
proof (cases "a < 2 ^ 53")
  case True
  then show ?thesis
    by (simp add: f64_round_nat_def excess.simps [of a])
next
  case False
  assume "a \<le> 2 ^ 53"
  with False have a: "a = 2 ^ 53" by simp
  have "excess 9007199254740992 = 1"
    by (simp add: excess.simps [of 9007199254740992] excess.simps [of 4503599627370496])
  then show ?thesis
    by (simp add: a f64_round_nat_def)
qed

lemma f64_round_exact: "\<bar>n\<bar> \<le> 2 ^ 53 \<Longrightarrow> f64_round n = n"
proof -
  assume n: "\<bar>n\<bar> \<le> 2 ^ 53"
  have "nat \<bar>n\<bar> \<le> nat (2 ^ 53)"
    using n by (rule nat_mono)
  then have "nat \<bar>n\<bar> \<le> 2 ^ 53"
    by (simp add: nat_power_eq)
  then show ?thesis
    by (auto simp: f64_round_def f64_round_nat_exact abs_if split: if_splits)
qed

lemma f64_round_collision: "f64_round (2 ^ 53 + 1) = 2 ^ 53"
proof -
  have "excess 9007199254740993 = 1"
    by (simp add: excess.simps [of 9007199254740993] excess.simps [of 4503599627370496])
  then show ?thesis
    by (simp add: f64_round_def f64_round_nat_def)
qed

lemma key_eq_refl [simp]: "key_eq k k"
  by (simp add: key_eq_def)

end
