(* ===== verification/JsonRpc.thy ===== *)
theory JsonRpc
  imports Json
begin

section \<open>JSON-RPC messages (internal/jsonrpc)\<close>

text \<open>
  The three files of \<^verbatim>\<open>internal/jsonrpc\<close>: error codes, request identifiers and the message
  structs with their validation. A nil \<open>*RequestID\<close> is \<open>None\<close>; \<open>IdNil\<close> is the identifier whose
  value is nil. The theorems: a message that passes \<open>UnmarshalJSON\<close> is exactly one of request,
  notification and response, and encoding followed by decoding gives the message back for every
  identifier a float64 can carry.
\<close>

subsection \<open>Error codes\<close>

definition ErrorCodeParseError :: int where "ErrorCodeParseError = -32700"
definition ErrorCodeInvalidRequest :: int where "ErrorCodeInvalidRequest = -32600"
definition ErrorCodeMethodNotFound :: int where "ErrorCodeMethodNotFound = -32601"
definition ErrorCodeInvalidParams :: int where "ErrorCodeInvalidParams = -32602"
definition ErrorCodeInternalError :: int where "ErrorCodeInternalError = -32603"

lemmas error_code_defs = ErrorCodeParseError_def ErrorCodeInvalidRequest_def
  ErrorCodeMethodNotFound_def ErrorCodeInvalidParams_def ErrorCodeInternalError_def

subsection \<open>Request identifiers\<close>

datatype RequestID = IdNil | IdStr string | IdInt int | IdFloat string

datatype go_value = GoString string | GoInt int | GoFloat string | GoOther

definition NewRequestID :: "go_value \<Rightarrow> RequestID" where
  "NewRequestID v = (case v of GoString s \<Rightarrow> IdStr s | GoInt n \<Rightarrow> IdInt n | GoFloat t \<Rightarrow> IdFloat t
     | GoOther \<Rightarrow> IdNil)"

definition id_String :: "RequestID option \<Rightarrow> string" where
  "id_String i = (case i of
       None \<Rightarrow> [] | Some IdNil \<Rightarrow> [] | Some (IdStr s) \<Rightarrow> s
     | Some (IdInt n) \<Rightarrow> itoa_int n | Some (IdFloat t) \<Rightarrow> t)"

definition id_IsNil :: "RequestID option \<Rightarrow> bool" where
  "id_IsNil i \<longleftrightarrow> i = None \<or> i = Some IdNil"

definition id_MarshalJSON :: "RequestID \<Rightarrow> json option" where
  "id_MarshalJSON i = (case i of IdNil \<Rightarrow> None | IdStr s \<Rightarrow> Some (JStr s) | IdInt n \<Rightarrow> Some (JInt n)
     | IdFloat t \<Rightarrow> Some (JFlt t))"

definition id_UnmarshalJSON :: "json \<Rightarrow> RequestID option" where
  "id_UnmarshalJSON j = (case j of
       JInt n \<Rightarrow> Some (IdInt (f64_round n))
     | JFlt t \<Rightarrow> Some (IdFloat t)
     | JNull \<Rightarrow> Some (IdInt 0)
     | JStr s \<Rightarrow> Some (IdStr s)
     | _ \<Rightarrow> None)"

subsection \<open>Messages\<close>

record Error =
  err_Code :: int
  err_Message :: string
  err_Data :: "json option"

record AnyMessage =
  am_JSONRPCVersion :: string
  am_Method :: string
  am_Params :: raw
  am_Result :: raw
  am_Error :: "Error option"
  am_ID :: "RequestID option"

record Request =
  req_JSONRPCVersion :: string
  req_Method :: string
  req_Params :: raw
  req_ID :: "RequestID option"

record Response =
  res_JSONRPCVersion :: string
  res_Result :: raw
  res_Error :: "Error option"
  res_ID :: "RequestID option"

definition ProtocolVersion :: string where
  "ProtocolVersion = ''2.0''"

text \<open>\<open>json.Marshal(result)\<close> may fail, so the result to encode is an optional document.\<close>

definition NewResultResponse :: "RequestID option \<Rightarrow> json option \<Rightarrow> go_error + Response" where
  "NewResultResponse i result = (case result of
       None \<Rightarrow> Inl (ErrText ''failed to marshal result'')
     | Some j \<Rightarrow> Inr \<lparr>res_JSONRPCVersion = ProtocolVersion, res_Result = Some j, res_Error = None,
                     res_ID = i\<rparr>)"

definition NewErrorResponse :: "RequestID option \<Rightarrow> int \<Rightarrow> string \<Rightarrow> json option \<Rightarrow> Response" where
  "NewErrorResponse i code message data =
     \<lparr>res_JSONRPCVersion = ProtocolVersion, res_Result = None,
      res_Error = Some \<lparr>err_Code = code, err_Message = message, err_Data = data\<rparr>, res_ID = i\<rparr>"

subsection \<open>Decoding\<close>

datatype unmarshal_error =
    InvalidJSON
  | InvalidVersion string
  | RequestWithResultOrError
  | ResponseWithBoth
  | ResponseWithNeither

definition error_zero :: Error where
  "error_zero = \<lparr>err_Code = 0, err_Message = [], err_Data = None\<rparr>"

definition dec_error :: "json \<Rightarrow> Error option" where
  "dec_error j = unmarshal_struct error_zero (\<lambda>kvs.
     Option.bind (dec_field as_int ''code'' 0 kvs) (\<lambda>c.
     Option.bind (dec_field as_string ''message'' [] kvs) (\<lambda>m.
     Option.bind (dec_field as_any ''data'' None kvs) (\<lambda>d.
     Some \<lparr>err_Code = c, err_Message = m, err_Data = d\<rparr>)))) (Doc j)"

definition any_zero :: AnyMessage where
  "any_zero = \<lparr>am_JSONRPCVersion = [], am_Method = [], am_Params = None, am_Result = None,
     am_Error = None, am_ID = None\<rparr>"

definition dec_any_fields :: "(string \<times> json) list \<Rightarrow> AnyMessage option" where
  "dec_any_fields kvs =
     Option.bind (dec_field as_string ''jsonrpc'' [] kvs) (\<lambda>v.
     Option.bind (dec_field as_string ''method'' [] kvs) (\<lambda>m.
     Option.bind (dec_field as_raw ''params'' None kvs) (\<lambda>p.
     Option.bind (dec_field as_raw ''result'' None kvs) (\<lambda>r.
     Option.bind (dec_field (as_ptr dec_error) ''error'' None kvs) (\<lambda>e.
     Option.bind (dec_field (as_ptr id_UnmarshalJSON) ''id'' None kvs) (\<lambda>i.
     Some \<lparr>am_JSONRPCVersion = v, am_Method = m, am_Params = p, am_Result = r,
           am_Error = e, am_ID = i\<rparr>))))))"

definition validate_message :: "AnyMessage \<Rightarrow> unmarshal_error + AnyMessage" where
  "validate_message m =
     (let hasMethod = am_Method m \<noteq> []; hasResult = am_Result m \<noteq> None;
          hasError = am_Error m \<noteq> None
      in if am_JSONRPCVersion m \<noteq> ProtocolVersion then Inl (InvalidVersion (am_JSONRPCVersion m))
         else if hasMethod then
           (if hasResult \<or> hasError then Inl RequestWithResultOrError else Inr m)
         else if hasResult \<and> hasError then Inl ResponseWithBoth
         else if \<not> hasResult \<and> \<not> hasError then Inl ResponseWithNeither
         else Inr m)"

definition UnmarshalJSON :: "wire \<Rightarrow> unmarshal_error + AnyMessage" where
  "UnmarshalJSON data = (case unmarshal_struct any_zero dec_any_fields data of
       None \<Rightarrow> Inl InvalidJSON
     | Some m \<Rightarrow> validate_message m)"

definition msg_Type :: "AnyMessage \<Rightarrow> string" where
  "msg_Type m = (if am_Method m \<noteq> [] then
       (if am_ID m = None then ''notification'' else ''request'')
     else ''response'')"

definition AsRequest :: "AnyMessage \<Rightarrow> Request option" where
  "AsRequest m = (if am_Method m = [] then None
     else Some \<lparr>req_JSONRPCVersion = am_JSONRPCVersion m, req_Method = am_Method m,
                req_Params = am_Params m, req_ID = am_ID m\<rparr>)"

definition AsResponse :: "AnyMessage \<Rightarrow> Response option" where
  "AsResponse m = (if am_Method m \<noteq> [] then None
     else Some \<lparr>res_JSONRPCVersion = am_JSONRPCVersion m, res_Result = am_Result m,
                res_Error = am_Error m, res_ID = am_ID m\<rparr>)"

subsection \<open>Encoding\<close>

definition enc_opt :: "string \<Rightarrow> json option \<Rightarrow> (string \<times> json) list" where
  "enc_opt n v = (case v of None \<Rightarrow> [] | Some j \<Rightarrow> [(n, j)])"

definition enc_error :: "Error \<Rightarrow> json" where
  "enc_error e = JObj ([(''code'', JInt (err_Code e)), (''message'', JStr (err_Message e))] @
     enc_opt ''data'' (err_Data e))"

definition enc_id :: "RequestID option \<Rightarrow> (string \<times> json) list option" where
  "enc_id i = (case i of None \<Rightarrow> Some []
     | Some v \<Rightarrow> map_option (\<lambda>j. [(''id'', j)]) (id_MarshalJSON v))"

definition marshal_request :: "Request \<Rightarrow> json option" where
  "marshal_request r = Option.bind (enc_id (req_ID r)) (\<lambda>i.
     Some (JObj ([(''jsonrpc'', JStr (req_JSONRPCVersion r)), (''method'', JStr (req_Method r))] @
       enc_opt ''params'' (req_Params r) @ i)))"

definition marshal_response :: "Response \<Rightarrow> json option" where
  "marshal_response r = Option.bind (enc_id (res_ID r)) (\<lambda>i.
     Some (JObj ((''jsonrpc'', JStr (res_JSONRPCVersion r)) #
       enc_opt ''result'' (res_Result r) @ enc_opt ''error'' (map_option enc_error (res_Error r)) @ i)))"

subsection \<open>Lemmas\<close>

text \<open>An identifier that survives the trip through float64.\<close>

definition id_exact :: "RequestID option \<Rightarrow> bool" where
  "id_exact i = (case i of None \<Rightarrow> True | Some IdNil \<Rightarrow> False | Some (IdInt n) \<Rightarrow> \<bar>n\<bar> \<le> 2 ^ 53 | _ \<Rightarrow> True)"

definition error_canonical :: "Error option \<Rightarrow> bool" where
  "error_canonical e = (case e of None \<Rightarrow> True | Some e \<Rightarrow> err_Data e \<noteq> Some JNull)"

lemma key_eq_names [simp]:
  "\<not> key_eq ''jsonrpc'' ''method''" "\<not> key_eq ''jsonrpc'' ''params''" "\<not> key_eq ''jsonrpc'' ''result''"
  "\<not> key_eq ''jsonrpc'' ''error''" "\<not> key_eq ''jsonrpc'' ''id''"
  "\<not> key_eq ''method'' ''jsonrpc''" "\<not> key_eq ''method'' ''params''" "\<not> key_eq ''method'' ''result''"
  "\<not> key_eq ''method'' ''error''" "\<not> key_eq ''method'' ''id''"
  "\<not> key_eq ''params'' ''jsonrpc''" "\<not> key_eq ''params'' ''method''" "\<not> key_eq ''params'' ''result''"
  "\<not> key_eq ''params'' ''error''" "\<not> key_eq ''params'' ''id''"
  "\<not> key_eq ''result'' ''jsonrpc''" "\<not> key_eq ''result'' ''method''" "\<not> key_eq ''result'' ''params''"
  "\<not> key_eq ''result'' ''error''" "\<not> key_eq ''result'' ''id''"
  "\<not> key_eq ''error'' ''jsonrpc''" "\<not> key_eq ''error'' ''method''" "\<not> key_eq ''error'' ''params''"
  "\<not> key_eq ''error'' ''result''" "\<not> key_eq ''error'' ''id''"
  "\<not> key_eq ''id'' ''jsonrpc''" "\<not> key_eq ''id'' ''method''" "\<not> key_eq ''id'' ''params''"
  "\<not> key_eq ''id'' ''result''" "\<not> key_eq ''id'' ''error''"
  "\<not> key_eq ''code'' ''message''" "\<not> key_eq ''code'' ''data''" "\<not> key_eq ''message'' ''code''"
  "\<not> key_eq ''message'' ''data''" "\<not> key_eq ''data'' ''code''" "\<not> key_eq ''data'' ''message''"
  by (simp_all add: key_eq_def lower_char_def)

lemma id_roundtrip:
  "id_exact (Some i) \<Longrightarrow> id_MarshalJSON i = Some j \<Longrightarrow> j \<noteq> JNull \<and> id_UnmarshalJSON j = Some i"
  by (cases i) (auto simp: id_exact_def id_MarshalJSON_def id_UnmarshalJSON_def f64_round_exact)

lemma id_exact_marshals: "id_exact (Some i) \<Longrightarrow> \<exists>j. id_MarshalJSON i = Some j"
  by (cases i) (auto simp: id_exact_def id_MarshalJSON_def)

lemma dec_enc_id:
  assumes "id_exact i"
  shows "\<exists>kvs. enc_id i = Some kvs \<and> dec_field (as_ptr id_UnmarshalJSON) ''id'' None kvs = Some i \<and>
    (\<forall>k \<in> set kvs. fst k = ''id'')"
proof (cases i)
  case None
  then show ?thesis by (simp add: enc_id_def)
next
  case (Some v)
  with assms obtain j where "id_MarshalJSON v = Some j"
    using id_exact_marshals by blast
  with Some assms show ?thesis
    using id_roundtrip [of v j] by (auto simp: enc_id_def as_ptr_def)
qed

lemma dec_field_skip:
  "(\<forall>k \<in> set kvs. \<not> key_eq (fst k) n) \<Longrightarrow> dec_field f n acc kvs = Some acc"
  by (induction kvs) auto

lemma dec_enc_error:
  "error_canonical (Some e) \<Longrightarrow> dec_error (enc_error e) = Some e"
  by (cases e; cases "err_Data e")
     (auto simp: dec_error_def enc_error_def unmarshal_struct_def enc_opt_def as_any_def
        error_canonical_def)

lemma enc_error_not_null [simp]: "enc_error e \<noteq> JNull"
  by (simp add: enc_error_def)

lemma validate_cases:
  assumes "validate_message m = Inr m'"
  shows "m' = m \<and> am_JSONRPCVersion m = ProtocolVersion \<and>
    (if am_Method m \<noteq> [] then am_Result m = None \<and> am_Error m = None
     else (am_Result m = None) \<noteq> (am_Error m = None))"
  using assms by (auto simp: validate_message_def Let_def split: if_splits)

lemma unmarshal_cases:
  assumes "UnmarshalJSON w = Inr m"
  shows "am_JSONRPCVersion m = ProtocolVersion \<and>
    (if am_Method m \<noteq> [] then am_Result m = None \<and> am_Error m = None
     else (am_Result m = None) \<noteq> (am_Error m = None))"
  using assms validate_cases by (fastforce simp: UnmarshalJSON_def split: option.splits)

lemma enc_opt_simps [simp]: "enc_opt n None = []" "enc_opt n (Some j) = [(n, j)]"
  by (simp_all add: enc_opt_def)

lemma as_raw_simp [simp]: "as_raw acc v = Some (Some v)"
  by (simp add: as_raw_def)

lemma marshalled_request_decodes:
  assumes "req_JSONRPCVersion r = ''2.0''" and "req_Method r \<noteq> []" and "id_exact (req_ID r)"
  shows "\<exists>j m. marshal_request r = Some j \<and> UnmarshalJSON (Doc j) = Inr m \<and> AsRequest m = Some r"
proof -
  obtain kvs where kvs: "enc_id (req_ID r) = Some kvs"
    and dec: "dec_field (as_ptr id_UnmarshalJSON) ''id'' None kvs = Some (req_ID r)"
    and keys: "\<forall>k \<in> set kvs. fst k = ''id''"
    using dec_enc_id [OF assms(3)] by blast
  let ?m = "\<lparr>am_JSONRPCVersion = ''2.0'', am_Method = req_Method r, am_Params = req_Params r,
    am_Result = None, am_Error = None, am_ID = req_ID r\<rparr>"
  let ?kvs = "[(''jsonrpc'', JStr ''2.0''), (''method'', JStr (req_Method r))] @ enc_opt ''params'' (req_Params r) @ kvs"
  have "dec_any_fields ?kvs = Some ?m"
    using dec keys by (cases "req_Params r") (simp_all add: dec_any_fields_def dec_field_skip)
  moreover have "validate_message ?m = Inr ?m"
    using assms(2) by (simp add: validate_message_def ProtocolVersion_def)
  ultimately have "UnmarshalJSON (Doc (JObj ?kvs)) = Inr ?m"
    by (simp add: UnmarshalJSON_def unmarshal_struct_def)
  moreover have "marshal_request r = Some (JObj ?kvs)"
    by (simp add: marshal_request_def kvs assms(1))
  moreover have "AsRequest ?m = Some r"
    using assms(1,2) by (cases r) (simp add: AsRequest_def)
  ultimately show ?thesis by blast
qed

lemma marshalled_response_decodes:
  assumes "res_JSONRPCVersion r = ''2.0''" and "(res_Result r = None) \<noteq> (res_Error r = None)"
    and "error_canonical (res_Error r)" and "id_exact (res_ID r)"
  shows "\<exists>j m. marshal_response r = Some j \<and> UnmarshalJSON (Doc j) = Inr m \<and> AsResponse m = Some r"
proof -
  obtain kvs where kvs: "enc_id (res_ID r) = Some kvs"
    and dec: "dec_field (as_ptr id_UnmarshalJSON) ''id'' None kvs = Some (res_ID r)"
    and keys: "\<forall>k \<in> set kvs. fst k = ''id''"
    using dec_enc_id [OF assms(4)] by blast
  let ?m = "\<lparr>am_JSONRPCVersion = ''2.0'', am_Method = [], am_Params = None,
    am_Result = res_Result r, am_Error = res_Error r, am_ID = res_ID r\<rparr>"
  let ?kvs = "(''jsonrpc'', JStr ''2.0'') # enc_opt ''result'' (res_Result r) @
    enc_opt ''error'' (map_option enc_error (res_Error r)) @ kvs"
  have "dec_any_fields ?kvs = Some ?m"
    using dec keys assms(2,3)
    by (cases "res_Result r"; cases "res_Error r")
       (simp_all add: dec_any_fields_def dec_field_skip as_ptr_def dec_enc_error)
  moreover have "validate_message ?m = Inr ?m"
    using assms(2) by (auto simp: validate_message_def ProtocolVersion_def)
  ultimately have "UnmarshalJSON (Doc (JObj ?kvs)) = Inr ?m"
    by (simp add: UnmarshalJSON_def unmarshal_struct_def)
  moreover have "marshal_response r = Some (JObj ?kvs)"
    by (simp add: marshal_response_def kvs assms(1))
  moreover have "AsResponse ?m = Some r"
    using assms(1) by (cases r) (simp add: AsResponse_def)
  ultimately show ?thesis by blast
qed

subsection \<open>Properties\<close>

text \<open>C35: a message that \<open>UnmarshalJSON\<close> accepts is a request or notification (a method, neither
  result nor error) or a response (no method, exactly one of result and error), never both; the
  views \<open>AsRequest\<close> and \<open>AsResponse\<close> and the tag \<open>Type\<close> agree on which.\<close>

theorem unmarshal_classifies:
  assumes "UnmarshalJSON w = Inr m"
  shows "(AsRequest m = None) \<noteq> (AsResponse m = None)
    \<and> (\<forall>r. AsRequest m = Some r \<longrightarrow> req_JSONRPCVersion r = ''2.0'' \<and> am_Result m = None \<and> am_Error m = None
          \<and> msg_Type m = (if req_ID r = None then ''notification'' else ''request''))
    \<and> (\<forall>r. AsResponse m = Some r \<longrightarrow> res_JSONRPCVersion r = ''2.0''
          \<and> (res_Result r = None) \<noteq> (res_Error r = None) \<and> msg_Type m = ''response'')"
  using unmarshal_cases [OF assms]
  by (auto simp: AsRequest_def AsResponse_def msg_Type_def ProtocolVersion_def split: if_splits)

theorem unmarshal_classifies_witness:
  "let w = Doc (JObj [(''jsonrpc'', JStr ''2.0''), (''method'', JStr ''ping''), (''id'', JInt 7)]);
       m = \<lparr>am_JSONRPCVersion = ''2.0'', am_Method = ''ping'', am_Params = None, am_Result = None,
            am_Error = None, am_ID = Some (IdInt 7)\<rparr>
   in UnmarshalJSON w = Inr m \<and> (AsRequest m = None) \<noteq> (AsResponse m = None)"
proof -
  define w where "w = Doc (JObj [(''jsonrpc'', JStr ''2.0''), (''method'', JStr ''ping''), (''id'', JInt 7)])"
  define m where "m = \<lparr>am_JSONRPCVersion = ''2.0'', am_Method = ''ping'', am_Params = None,
    am_Result = None, am_Error = None, am_ID = Some (IdInt 7)\<rparr>"
  have "UnmarshalJSON w = Inr m"
    by (simp add: w_def m_def UnmarshalJSON_def unmarshal_struct_def dec_any_fields_def
        validate_message_def ProtocolVersion_def as_ptr_def id_UnmarshalJSON_def f64_round_exact)
  with unmarshal_classifies [of w m] show ?thesis
    by (simp add: w_def m_def Let_def)
qed

text \<open>C36: encoding a request and decoding it gives the same request back, for every method, every
  parameter document and every identifier that is a string, a fraction or an integer of absolute
  value at most \<open>2^53\<close>.\<close>

theorem request_roundtrip:
  assumes "req_JSONRPCVersion r = ''2.0''" and "req_Method r \<noteq> []" and "id_exact (req_ID r)"
  shows "\<exists>j m. marshal_request r = Some j \<and> UnmarshalJSON (Doc j) = Inr m \<and> AsRequest m = Some r"
  using marshalled_request_decodes [OF assms] by blast

theorem request_roundtrip_witness:
  "let r = \<lparr>req_JSONRPCVersion = ''2.0'', req_Method = ''tools/call'',
       req_Params = Some (JObj [(''name'', JStr ''echo'')]), req_ID = Some (IdInt (2 ^ 53))\<rparr>
   in \<exists>j m. marshal_request r = Some j \<and> UnmarshalJSON (Doc j) = Inr m \<and> AsRequest m = Some r"
  unfolding Let_def by (rule request_roundtrip) (simp_all add: id_exact_def)

text \<open>Encoding a response that carries exactly one of result and error and decoding it gives
  the same response back, under the same condition on the identifier.\<close>

theorem response_roundtrip:
  assumes "res_JSONRPCVersion r = ''2.0''" and "(res_Result r = None) \<noteq> (res_Error r = None)"
    and "error_canonical (res_Error r)" and "id_exact (res_ID r)"
  shows "\<exists>j m. marshal_response r = Some j \<and> UnmarshalJSON (Doc j) = Inr m \<and> AsResponse m = Some r"
  using marshalled_response_decodes [OF assms] by blast

theorem response_roundtrip_witness:
  "let r = NewErrorResponse (Some (IdStr ''a'')) ErrorCodeInternalError ''cancelled'' None
   in \<exists>j m. marshal_response r = Some j \<and> UnmarshalJSON (Doc j) = Inr m \<and> AsResponse m = Some r"
  unfolding Let_def
  by (rule response_roundtrip)
     (simp_all add: NewErrorResponse_def ProtocolVersion_def error_canonical_def id_exact_def)

end
