(* ===== verification/McpTypes.thy ===== *)
theory McpTypes
  imports JsonRpc
begin

section \<open>MCP data types and method names (mcp/types.go, mcp/messages.go)\<close>

text \<open>
  The protocol's data types as records, the decoders of the requests the server receives and the
  encoders of the results it sends, following the struct tags: \<open>omitempty\<close> and \<open>omitzero\<close> fields
  are left out when they hold the zero value, an embedded struct contributes its fields in place.
  A \<open>*struct{}\<close> marker is \<open>unit option\<close>. The order of the members of an encoded Go map is the
  order of the association list; Go sorts them, and no decoder depends on it.
\<close>

subsection \<open>Constants\<close>

definition LoggingLevelDebug :: string where "LoggingLevelDebug = ''debug''"
definition LoggingLevelInfo :: string where "LoggingLevelInfo = ''info''"
definition LoggingLevelNotice :: string where "LoggingLevelNotice = ''notice''"
definition LoggingLevelWarning :: string where "LoggingLevelWarning = ''warning''"
definition LoggingLevelError :: string where "LoggingLevelError = ''error''"
definition LoggingLevelCritical :: string where "LoggingLevelCritical = ''critical''"
definition LoggingLevelAlert :: string where "LoggingLevelAlert = ''alert''"
definition LoggingLevelEmergency :: string where "LoggingLevelEmergency = ''emergency''"

lemmas logging_level_defs = LoggingLevelDebug_def LoggingLevelInfo_def LoggingLevelNotice_def
  LoggingLevelWarning_def LoggingLevelError_def LoggingLevelCritical_def LoggingLevelAlert_def
  LoggingLevelEmergency_def

definition IsValidLoggingLevel :: "string \<Rightarrow> bool" where
  "IsValidLoggingLevel level \<longleftrightarrow> level \<in> {LoggingLevelDebug, LoggingLevelInfo, LoggingLevelNotice,
     LoggingLevelWarning, LoggingLevelError, LoggingLevelCritical, LoggingLevelAlert, LoggingLevelEmergency}"

definition LatestProtocolVersion :: string where
  "LatestProtocolVersion = ''2025-06-18''"

definition IsSupportedProtocolVersion :: "string \<Rightarrow> bool" where
  "IsSupportedProtocolVersion v \<longleftrightarrow> v = LatestProtocolVersion"

definition InitializeMethod :: string where "InitializeMethod = ''initialize''"
definition InitializedNotificationMethod :: string where
  "InitializedNotificationMethod = ''notifications/initialized''"
definition ToolsListMethod :: string where "ToolsListMethod = ''tools/list''"
definition ToolsCallMethod :: string where "ToolsCallMethod = ''tools/call''"
definition ToolsListChangedNotificationMethod :: string where
  "ToolsListChangedNotificationMethod = ''notifications/tools/list_changed''"
definition ResourcesListMethod :: string where "ResourcesListMethod = ''resources/list''"
definition ResourcesReadMethod :: string where "ResourcesReadMethod = ''resources/read''"
definition ResourcesTemplatesListMethod :: string where "ResourcesTemplatesListMethod = ''resources/templates/list''"
definition ResourcesSubscribeMethod :: string where "ResourcesSubscribeMethod = ''resources/subscribe''"
definition ResourcesUnsubscribeMethod :: string where "ResourcesUnsubscribeMethod = ''resources/unsubscribe''"
definition ResourcesListChangedNotificationMethod :: string where
  "ResourcesListChangedNotificationMethod = ''notifications/resources/list_changed''"
definition ResourcesUpdatedNotificationMethod :: string where
  "ResourcesUpdatedNotificationMethod = ''notifications/resources/updated''"
definition PromptsListMethod :: string where "PromptsListMethod = ''prompts/list''"
definition PromptsGetMethod :: string where "PromptsGetMethod = ''prompts/get''"
definition PromptsListChangedNotificationMethod :: string where
  "PromptsListChangedNotificationMethod = ''notifications/prompts/list_changed''"
definition LoggingSetLevelMethod :: string where "LoggingSetLevelMethod = ''logging/setLevel''"
definition SamplingCreateMessageMethod :: string where "SamplingCreateMessageMethod = ''sampling/createMessage''"
definition CompletionCompleteMethod :: string where "CompletionCompleteMethod = ''completion/complete''"
definition RootsListMethod :: string where "RootsListMethod = ''roots/list''"
definition RootsListChangedNotificationMethod :: string where
  "RootsListChangedNotificationMethod = ''notifications/roots/list_changed''"
definition ElicitationCreateMethod :: string where "ElicitationCreateMethod = ''elicitation/create''"
definition CancelledNotificationMethod :: string where "CancelledNotificationMethod = ''notifications/cancelled''"
definition ProgressNotificationMethod :: string where "ProgressNotificationMethod = ''notifications/progress''"

lemmas method_defs = InitializeMethod_def InitializedNotificationMethod_def ToolsListMethod_def ToolsCallMethod_def
  ToolsListChangedNotificationMethod_def ResourcesListMethod_def ResourcesReadMethod_def
  ResourcesTemplatesListMethod_def ResourcesSubscribeMethod_def ResourcesUnsubscribeMethod_def
  ResourcesListChangedNotificationMethod_def ResourcesUpdatedNotificationMethod_def PromptsListMethod_def
  PromptsGetMethod_def PromptsListChangedNotificationMethod_def LoggingSetLevelMethod_def
  SamplingCreateMessageMethod_def CompletionCompleteMethod_def RootsListMethod_def
  RootsListChangedNotificationMethod_def ElicitationCreateMethod_def CancelledNotificationMethod_def
  ProgressNotificationMethod_def

subsection \<open>Encoding helpers\<close>

definition str_nz :: "string \<Rightarrow> string \<Rightarrow> (string \<times> json) list" where
  "str_nz n s = (if s = [] then [] else [(n, JStr s)])"

definition bool_nz :: "string \<Rightarrow> bool \<Rightarrow> (string \<times> json) list" where
  "bool_nz n b = (if b then [(n, JBool True)] else [])"

definition list_nz :: "string \<Rightarrow> json list \<Rightarrow> (string \<times> json) list" where
  "list_nz n js = (if js = [] then [] else [(n, JArr js)])"

definition obj_nz :: "string \<Rightarrow> (string \<times> json) list \<Rightarrow> (string \<times> json) list" where
  "obj_nz n kvs = (if kvs = [] then [] else [(n, JObj kvs)])"

type_synonym meta = "(string, json) gomap"

definition enc_meta :: "meta \<Rightarrow> (string \<times> json) list" where
  "enc_meta m = obj_nz ''_meta'' m"

subsection \<open>Content, tools, resources, prompts\<close>

record ResourceContents =
  rct_URI :: string
  rct_MimeType :: string
  rct_Text :: string
  rct_Blob :: string

definition enc_ResourceContents :: "ResourceContents \<Rightarrow> json" where
  "enc_ResourceContents r = JObj ((''uri'', JStr (rct_URI r)) # str_nz ''mimeType'' (rct_MimeType r) @
     str_nz ''text'' (rct_Text r) @ str_nz ''blob'' (rct_Blob r))"

record ContentBlock =
  cb_Type :: string
  cb_Text :: string
  cb_Data :: string
  cb_MimeType :: string
  cb_Resource :: "ResourceContents option"
  cb_URI :: string
  cb_Name :: string
  cb_Description :: string

definition text_block :: "string \<Rightarrow> ContentBlock" where
  "text_block s = \<lparr>cb_Type = ''text'', cb_Text = s, cb_Data = [], cb_MimeType = [], cb_Resource = None,
     cb_URI = [], cb_Name = [], cb_Description = []\<rparr>"

definition enc_ContentBlock :: "ContentBlock \<Rightarrow> json" where
  "enc_ContentBlock b = JObj ((''type'', JStr (cb_Type b)) # str_nz ''text'' (cb_Text b) @
     str_nz ''data'' (cb_Data b) @ str_nz ''mimeType'' (cb_MimeType b) @
     enc_opt ''resource'' (map_option enc_ResourceContents (cb_Resource b)) @
     str_nz ''uri'' (cb_URI b) @ str_nz ''name'' (cb_Name b) @ str_nz ''description'' (cb_Description b))"

datatype SchemaProperty = SchemaProperty
  (spr_Type: string) (spr_Description: string) (spr_Items: "SchemaProperty option")
  (spr_Properties: "(string \<times> SchemaProperty) list") (spr_Enum: "json list")

fun enc_SchemaProperty :: "SchemaProperty \<Rightarrow> json"
  and enc_schema_items :: "SchemaProperty option \<Rightarrow> (string \<times> json) list"
  and enc_schema_props :: "(string \<times> SchemaProperty) list \<Rightarrow> (string \<times> json) list" where
  "enc_SchemaProperty (SchemaProperty ty desc items props enum) =
     JObj (str_nz ''type'' ty @ str_nz ''description'' desc @ enc_schema_items items @
       obj_nz ''properties'' (enc_schema_props props) @ list_nz ''enum'' enum)"
| "enc_schema_items None = []"
| "enc_schema_items (Some p) = [(''items'', enc_SchemaProperty p)]"
| "enc_schema_props [] = []"
| "enc_schema_props ((k, p) # ps) = (k, enc_SchemaProperty p) # enc_schema_props ps"

record ToolInputSchema =
  tis_Type :: string
  tis_Properties :: "(string, SchemaProperty) gomap"
  tis_Required :: "string list"
  tis_AdditionalProperties :: bool

record ToolOutputSchema =
  tos_Type :: string
  tos_Properties :: "(string, SchemaProperty) gomap"
  tos_Required :: "string list"

record Tool =
  t_Name :: string
  t_Description :: string
  t_InputSchema :: ToolInputSchema
  t_OutputSchema :: "ToolOutputSchema option"
  t_Meta :: meta

definition enc_ToolInputSchema :: "ToolInputSchema \<Rightarrow> json" where
  "enc_ToolInputSchema s = JObj ((''type'', JStr (tis_Type s)) #
     obj_nz ''properties'' (enc_schema_props (tis_Properties s)) @ list_nz ''required'' (map JStr (tis_Required s)) @
     bool_nz ''additionalProperties'' (tis_AdditionalProperties s))"

definition enc_ToolOutputSchema :: "ToolOutputSchema \<Rightarrow> json" where
  "enc_ToolOutputSchema s = JObj ((''type'', JStr (tos_Type s)) #
     obj_nz ''properties'' (enc_schema_props (tos_Properties s)) @ list_nz ''required'' (map JStr (tos_Required s)))"

definition enc_Tool :: "Tool \<Rightarrow> json" where
  "enc_Tool t = JObj ((''name'', JStr (t_Name t)) # str_nz ''description'' (t_Description t) @
     (''inputSchema'', enc_ToolInputSchema (t_InputSchema t)) #
     enc_opt ''outputSchema'' (map_option enc_ToolOutputSchema (t_OutputSchema t)) @ enc_meta (t_Meta t))"

record McpResource =
  r_URI :: string
  r_Name :: string
  r_Description :: string
  r_MimeType :: string

definition enc_McpResource :: "McpResource \<Rightarrow> json" where
  "enc_McpResource r = JObj ([(''uri'', JStr (r_URI r)), (''name'', JStr (r_Name r))] @
     str_nz ''description'' (r_Description r) @ str_nz ''mimeType'' (r_MimeType r))"

record McpResourceTemplate =
  rt_URITemplate :: string
  rt_Name :: string
  rt_Description :: string
  rt_MimeType :: string

definition enc_McpResourceTemplate :: "McpResourceTemplate \<Rightarrow> json" where
  "enc_McpResourceTemplate r = JObj ([(''uriTemplate'', JStr (rt_URITemplate r)), (''name'', JStr (rt_Name r))] @
     str_nz ''description'' (rt_Description r) @ str_nz ''mimeType'' (rt_MimeType r))"

record PromptArgument =
  pa_Name :: string
  pa_Description :: string
  pa_Required :: bool

record Prompt =
  p_Name :: string
  p_Description :: string
  p_Arguments :: "PromptArgument list"

record PromptMessage =
  pm_Role :: string
  pm_Content :: "ContentBlock list"

definition enc_PromptArgument :: "PromptArgument \<Rightarrow> json" where
  "enc_PromptArgument a = JObj ((''name'', JStr (pa_Name a)) # str_nz ''description'' (pa_Description a) @
     bool_nz ''required'' (pa_Required a))"

definition enc_Prompt :: "Prompt \<Rightarrow> json" where
  "enc_Prompt p = JObj ((''name'', JStr (p_Name p)) # str_nz ''description'' (p_Description p) @
     list_nz ''arguments'' (map enc_PromptArgument (p_Arguments p)))"

definition enc_PromptMessage :: "PromptMessage \<Rightarrow> json" where
  "enc_PromptMessage m = JObj [(''role'', JStr (pm_Role m)), (''content'', JArr (map enc_ContentBlock (pm_Content m)))]"


subsection \<open>Requests\<close>

text \<open>Decoders answer \<open>None\<close> where \<open>json.Unmarshal\<close> returns an error.\<close>

definition dec_PaginatedRequest :: "wire \<Rightarrow> string option" where
  "dec_PaginatedRequest = unmarshal_struct [] (dec_field as_string ''cursor'' [])"

record CallToolRequestReceived =
  ctr_Name :: string
  ctr_Arguments :: raw

definition dec_CallToolRequestReceived :: "wire \<Rightarrow> CallToolRequestReceived option" where
  "dec_CallToolRequestReceived = unmarshal_struct \<lparr>ctr_Name = [], ctr_Arguments = None\<rparr> (\<lambda>kvs.
     Option.bind (dec_field as_string ''name'' [] kvs) (\<lambda>n.
     Option.bind (dec_field as_raw ''arguments'' None kvs) (\<lambda>a.
     Some \<lparr>ctr_Name = n, ctr_Arguments = a\<rparr>)))"

record GetPromptRequestReceived =
  gpr_Name :: string
  gpr_Arguments :: "(string, json) gomap"

fun as_raw_map :: "(string, json) gomap \<Rightarrow> json \<Rightarrow> (string, json) gomap option" where
  "as_raw_map acc (JObj kvs) = Some (foldl (\<lambda>m (k, v). mput k v m) acc kvs)"
| "as_raw_map acc JNull = Some []"
| "as_raw_map acc _ = None"

definition dec_GetPromptRequestReceived :: "wire \<Rightarrow> GetPromptRequestReceived option" where
  "dec_GetPromptRequestReceived = unmarshal_struct \<lparr>gpr_Name = [], gpr_Arguments = []\<rparr> (\<lambda>kvs.
     Option.bind (dec_field as_string ''name'' [] kvs) (\<lambda>n.
     Option.bind (dec_field as_raw_map ''arguments'' [] kvs) (\<lambda>a.
     Some \<lparr>gpr_Name = n, gpr_Arguments = a\<rparr>)))"

definition dec_ReadResourceRequest :: "wire \<Rightarrow> string option" where
  "dec_ReadResourceRequest = unmarshal_struct [] (dec_field as_string ''uri'' [])"

definition dec_SubscribeRequest :: "wire \<Rightarrow> string option" where
  "dec_SubscribeRequest = unmarshal_struct [] (dec_field as_string ''uri'' [])"

definition dec_UnsubscribeRequest :: "wire \<Rightarrow> string option" where
  "dec_UnsubscribeRequest = unmarshal_struct [] (dec_field as_string ''uri'' [])"

definition dec_SetLevelRequest :: "wire \<Rightarrow> string option" where
  "dec_SetLevelRequest = unmarshal_struct [] (dec_field as_string ''level'' [])"

record CancelledNotification =
  cn_RequestID :: "RequestID option"
  cn_Reason :: string

definition dec_CancelledNotification :: "wire \<Rightarrow> CancelledNotification option" where
  "dec_CancelledNotification = unmarshal_struct \<lparr>cn_RequestID = None, cn_Reason = []\<rparr> (\<lambda>kvs.
     Option.bind (dec_field (as_ptr id_UnmarshalJSON) ''requestId'' None kvs) (\<lambda>i.
     Option.bind (dec_field as_string ''reason'' [] kvs) (\<lambda>r.
     Some \<lparr>cn_RequestID = i, cn_Reason = r\<rparr>)))"

record ImplementationInfo =
  ii_Name :: string
  ii_Version :: string
  ii_Title :: string

record ClientCapabilities =
  cc_Roots :: "bool option"
  cc_Sampling :: "unit option"
  cc_Elicitation :: "unit option"

record InitializeRequest =
  ir_ProtocolVersion :: string
  ir_Capabilities :: ClientCapabilities
  ir_ClientInfo :: ImplementationInfo

definition ii_zero :: ImplementationInfo where
  "ii_zero = \<lparr>ii_Name = [], ii_Version = [], ii_Title = []\<rparr>"

definition cc_zero :: ClientCapabilities where
  "cc_zero = \<lparr>cc_Roots = None, cc_Sampling = None, cc_Elicitation = None\<rparr>"

definition dec_struct0 :: "json \<Rightarrow> unit option" where
  "dec_struct0 j = unmarshal_struct () (\<lambda>_. Some ()) (Doc j)"

definition dec_roots_cap :: "json \<Rightarrow> bool option" where
  "dec_roots_cap j = unmarshal_struct False (dec_field as_bool ''listChanged'' False) (Doc j)"

text \<open>A nested struct decodes into the value it has so far; \<open>null\<close> leaves it alone.\<close>

definition as_ClientCapabilities :: "ClientCapabilities \<Rightarrow> json \<Rightarrow> ClientCapabilities option" where
  "as_ClientCapabilities acc j = unmarshal_struct acc (\<lambda>kvs.
     Option.bind (dec_field (as_ptr dec_roots_cap) ''roots'' (cc_Roots acc) kvs) (\<lambda>r.
     Option.bind (dec_field (as_ptr dec_struct0) ''sampling'' (cc_Sampling acc) kvs) (\<lambda>s.
     Option.bind (dec_field (as_ptr dec_struct0) ''elicitation'' (cc_Elicitation acc) kvs) (\<lambda>e.
     Some \<lparr>cc_Roots = r, cc_Sampling = s, cc_Elicitation = e\<rparr>)))) (Doc j)"

definition as_ImplementationInfo :: "ImplementationInfo \<Rightarrow> json \<Rightarrow> ImplementationInfo option" where
  "as_ImplementationInfo acc j = unmarshal_struct acc (\<lambda>kvs.
     Option.bind (dec_field as_string ''name'' (ii_Name acc) kvs) (\<lambda>n.
     Option.bind (dec_field as_string ''version'' (ii_Version acc) kvs) (\<lambda>v.
     Option.bind (dec_field as_string ''title'' (ii_Title acc) kvs) (\<lambda>t.
     Some \<lparr>ii_Name = n, ii_Version = v, ii_Title = t\<rparr>)))) (Doc j)"

definition dec_InitializeRequest :: "wire \<Rightarrow> InitializeRequest option" where
  "dec_InitializeRequest = unmarshal_struct
     \<lparr>ir_ProtocolVersion = [], ir_Capabilities = cc_zero, ir_ClientInfo = ii_zero\<rparr> (\<lambda>kvs.
     Option.bind (dec_field as_string ''protocolVersion'' [] kvs) (\<lambda>v.
     Option.bind (dec_field as_ClientCapabilities ''capabilities'' cc_zero kvs) (\<lambda>c.
     Option.bind (dec_field as_ImplementationInfo ''clientInfo'' ii_zero kvs) (\<lambda>i.
     Some \<lparr>ir_ProtocolVersion = v, ir_Capabilities = c, ir_ClientInfo = i\<rparr>))))"

subsection \<open>Results\<close>

record ServerCapabilities =
  sc_Logging :: "unit option"
  sc_Prompts :: "bool option"               \<comment> \<open>listChanged\<close>
  sc_Resources :: "(bool \<times> bool) option"    \<comment> \<open>listChanged, subscribe\<close>
  sc_Tools :: "bool option"                 \<comment> \<open>listChanged\<close>
  sc_Completions :: "unit option"

record InitializeResult =
  irs_ProtocolVersion :: string
  irs_Capabilities :: ServerCapabilities
  irs_ServerInfo :: ImplementationInfo
  irs_Instructions :: string
  irs_Meta :: meta

definition enc_ServerCapabilities :: "ServerCapabilities \<Rightarrow> json" where
  "enc_ServerCapabilities c = JObj (
     enc_opt ''logging'' (map_option (\<lambda>_. JObj []) (sc_Logging c)) @
     enc_opt ''prompts'' (map_option (\<lambda>l. JObj [(''listChanged'', JBool l)]) (sc_Prompts c)) @
     enc_opt ''resources'' (map_option (\<lambda>(l, s). JObj [(''listChanged'', JBool l), (''subscribe'', JBool s)]) (sc_Resources c)) @
     enc_opt ''tools'' (map_option (\<lambda>l. JObj [(''listChanged'', JBool l)]) (sc_Tools c)) @
     enc_opt ''completions'' (map_option (\<lambda>_. JObj []) (sc_Completions c)))"

definition enc_ImplementationInfo :: "ImplementationInfo \<Rightarrow> json" where
  "enc_ImplementationInfo i = JObj ([(''name'', JStr (ii_Name i)), (''version'', JStr (ii_Version i))] @
     str_nz ''title'' (ii_Title i))"

definition enc_InitializeResult :: "InitializeResult \<Rightarrow> json" where
  "enc_InitializeResult r = JObj ([(''protocolVersion'', JStr (irs_ProtocolVersion r)),
     (''capabilities'', enc_ServerCapabilities (irs_Capabilities r)),
     (''serverInfo'', enc_ImplementationInfo (irs_ServerInfo r))] @
     str_nz ''instructions'' (irs_Instructions r) @ enc_meta (irs_Meta r))"

definition enc_ListToolsResult :: "Tool list \<Rightarrow> string \<Rightarrow> meta \<Rightarrow> json" where
  "enc_ListToolsResult ts next m = JObj ((''tools'', JArr (map enc_Tool ts)) # str_nz ''nextCursor'' next @ enc_meta m)"

record CallToolResult =
  ctres_Content :: "ContentBlock list"
  ctres_IsError :: bool
  ctres_StructuredContent :: "(string, json) gomap"
  ctres_Meta :: meta

definition enc_CallToolResult :: "CallToolResult \<Rightarrow> json" where
  "enc_CallToolResult r = JObj (list_nz ''content'' (map enc_ContentBlock (ctres_Content r)) @
     bool_nz ''isError'' (ctres_IsError r) @ obj_nz ''structuredContent'' (ctres_StructuredContent r) @
     enc_meta (ctres_Meta r))"

definition enc_ListResourcesResult :: "McpResource list \<Rightarrow> string \<Rightarrow> meta \<Rightarrow> json" where
  "enc_ListResourcesResult rs next m =
     JObj ((''resources'', JArr (map enc_McpResource rs)) # str_nz ''nextCursor'' next @ enc_meta m)"

definition enc_ListResourceTemplatesResult :: "McpResourceTemplate list \<Rightarrow> string \<Rightarrow> meta \<Rightarrow> json" where
  "enc_ListResourceTemplatesResult rs next m =
     JObj ((''resourceTemplates'', JArr (map enc_McpResourceTemplate rs)) # str_nz ''nextCursor'' next @ enc_meta m)"

definition enc_ReadResourceResult :: "ResourceContents list \<Rightarrow> meta \<Rightarrow> json" where
  "enc_ReadResourceResult cs m = JObj ((''contents'', JArr (map enc_ResourceContents cs)) # enc_meta m)"

definition enc_ListPromptsResult :: "Prompt list \<Rightarrow> string \<Rightarrow> meta \<Rightarrow> json" where
  "enc_ListPromptsResult ps next m =
     JObj ((''prompts'', JArr (map enc_Prompt ps)) # str_nz ''nextCursor'' next @ enc_meta m)"

record GetPromptResult =
  gpres_Description :: string
  gpres_Messages :: "PromptMessage list"
  gpres_Meta :: meta

definition enc_GetPromptResult :: "GetPromptResult \<Rightarrow> json" where
  "enc_GetPromptResult r = JObj (str_nz ''description'' (gpres_Description r) @
     (''messages'', JArr (map enc_PromptMessage (gpres_Messages r))) # enc_meta (gpres_Meta r))"

definition enc_EmptyResult :: "meta \<Rightarrow> json" where
  "enc_EmptyResult m = JObj (enc_meta m)"

definition enc_ResourceUpdatedNotification :: "string \<Rightarrow> json" where
  "enc_ResourceUpdatedNotification uri = JObj [(''uri'', JStr uri)]"

end
