(* ===== verification/Pagination.thy ===== *)
theory Pagination
  imports Prelude
begin

section \<open>Pagination (mcpservice/pagination.go and the list operations' cursors)\<close>

text \<open>
  A cursor is the decimal offset of the next item. Two styles of list operation exist: \<open>ListTools\<close>
  and \<open>ListPrompts\<close> start over on an out-of-range cursor (\<open>page_restart\<close>), the resource lists return
  an empty page (\<open>page_or_empty\<close>). Offsets are Go's 64-bit \<open>int\<close>: \<open>start + pageSize\<close> wraps, and a
  slice expression with bounds out of order panics (\<open>None\<close>). The locale \<open>pager\<close> is the contract the
  two styles share; inside it, following cursors from the first page visits every item once, in order.
\<close>

record 'a Page =
  pg_Items :: "'a list"
  pg_NextCursor :: "string option"

definition NewPage :: "'a list \<Rightarrow> 'a Page" where
  "NewPage items = \<lparr>pg_Items = items, pg_NextCursor = None\<rparr>"

definition WithNextCursor :: "string \<Rightarrow> 'a Page \<Rightarrow> 'a Page" where
  "WithNextCursor c p = p\<lparr>pg_NextCursor := Some c\<rparr>"

definition wrap64 :: "int \<Rightarrow> int" where
  "wrap64 n = (n + 2 ^ 63) mod 2 ^ 64 - 2 ^ 63"

definition go_slice :: "'a list \<Rightarrow> int \<Rightarrow> int \<Rightarrow> 'a list option" where
  "go_slice xs a b = (if 0 \<le> a \<and> a \<le> b \<and> b \<le> int (length xs)
     then Some (take (nat b - nat a) (drop (nat a) xs)) else None)"

definition parseCursor :: "string option \<Rightarrow> int" where
  "parseCursor cursor = (case cursor of None \<Rightarrow> 0 | Some c \<Rightarrow>
     if c = [] then 0
     else (case atoi c of None \<Rightarrow> 0 | Some n \<Rightarrow> if n < 0 then 0 else n))"

definition page_from :: "int \<Rightarrow> int \<Rightarrow> 'a list \<Rightarrow> 'a Page option" where
  "page_from start pageSize all =
     (let end0 = wrap64 (start + pageSize);
          end = (if end0 > int (length all) then int (length all) else end0)
      in map_option (\<lambda>items. if end < int (length all) then WithNextCursor (itoa_int end) (NewPage items)
                             else NewPage items) (go_slice all start end))"

definition page_restart :: "string option \<Rightarrow> int \<Rightarrow> 'a list \<Rightarrow> 'a Page option" where
  "page_restart cursor pageSize all =
     (let start0 = parseCursor cursor;
          start = (if start0 < 0 \<or> start0 > int (length all) then 0 else start0)
      in page_from start pageSize all)"

definition page_or_empty :: "string option \<Rightarrow> int \<Rightarrow> 'a list \<Rightarrow> 'a Page option" where
  "page_or_empty cursor pageSize all =
     (let start = parseCursor cursor in
      if start \<ge> int (length all) then Some (NewPage []) else page_from start pageSize all)"

text \<open>A client that follows cursors until there is none.\<close>

fun walk :: "(string option \<Rightarrow> 'a Page option) \<Rightarrow> nat \<Rightarrow> string option \<Rightarrow> 'a list option" where
  "walk page 0 c = None"
| "walk page (Suc n) c = Option.bind (page c) (\<lambda>p.
     case pg_NextCursor p of
       None \<Rightarrow> Some (pg_Items p)
     | Some c' \<Rightarrow> map_option (\<lambda>rest. pg_Items p @ rest) (walk page n (Some c')))"

lemma wrap64_id: "0 \<le> n \<Longrightarrow> n < 2 ^ 63 \<Longrightarrow> wrap64 n = n"
  by (simp add: wrap64_def)

lemma parseCursor_itoa: "int n < 2 ^ 63 \<Longrightarrow> parseCursor (Some (itoa n)) = int n"
  by (simp add: parseCursor_def atoi_itoa)

lemma parseCursor_nonneg: "0 \<le> parseCursor c"
  by (auto simp: parseCursor_def split: option.split)

lemma page_from_offset:
  assumes "0 < psize" and "n \<le> length all" and "int (length all) + int psize < 2 ^ 63"
  shows "page_from (int n) (int psize) all = Some \<lparr>pg_Items = take psize (drop n all),
     pg_NextCursor = (if n + psize < length all then Some (itoa (n + psize)) else None)\<rparr>"
proof -
  have w: "wrap64 (int n + int psize) = int (n + psize)"
    using assms by (simp add: wrap64_id)
  show ?thesis
  proof (cases "n + psize < length all")
    case True
    with w assms show ?thesis
      by (simp add: page_from_def go_slice_def WithNextCursor_def NewPage_def itoa_int_def Let_def nat_add_distrib)
  next
    case False
    with w assms show ?thesis
      by (auto simp: page_from_def go_slice_def NewPage_def Let_def)
  qed
qed

locale pager =
  fixes page :: "'s \<Rightarrow> string option \<Rightarrow> 'a Page option"
    and items :: "'s \<Rightarrow> 'a list"
    and psize :: "'s \<Rightarrow> nat"
    and ok :: "'s \<Rightarrow> bool"
  assumes psize_pos: "ok s \<Longrightarrow> 0 < psize s"
    and in_range: "ok s \<Longrightarrow> int (length (items s)) + int (psize s) < 2 ^ 63"
    and page_at: "ok s \<Longrightarrow> n \<le> length (items s) \<Longrightarrow> parseCursor c = int n \<Longrightarrow>
      page s c = Some \<lparr>pg_Items = take (psize s) (drop n (items s)),
        pg_NextCursor = (if n + psize s < length (items s) then Some (itoa (n + psize s)) else None)\<rparr>"
begin

lemma walk_from:
  assumes "ok s" and "n \<le> length (items s)" and "parseCursor c = int n" and "length (items s) - n < fuel"
  shows "walk (page s) fuel c = Some (drop n (items s))"
  using assms
proof (induction fuel arbitrary: n c)
  case (Suc fuel)
  note p = page_at [OF Suc.prems(1-3)]
  show ?case
  proof (cases "n + psize s < length (items s)")
    case True
    let ?n = "n + psize s"
    have "walk (page s) fuel (Some (itoa ?n)) = Some (drop ?n (items s))"
      using Suc.IH [of ?n "Some (itoa ?n)"] Suc.prems True psize_pos [of s] in_range [of s]
      by (simp add: parseCursor_itoa)
    then show ?thesis
      using p True take_drop_append [of n ?n "items s"] by simp
  next
    case False
    then show ?thesis using p by simp
  qed
qed simp

lemma walk_all: "ok s \<Longrightarrow> walk (page s) (Suc (length (items s))) None = Some (items s)"
  using walk_from [of s 0 None "Suc (length (items s))"] by (simp add: parseCursor_def del: walk.simps)

lemma page_bounded: "ok s \<Longrightarrow> n \<le> length (items s) \<Longrightarrow> parseCursor c = int n \<Longrightarrow>
  \<exists>p. page s c = Some p \<and> length (pg_Items p) \<le> psize s"
  by (simp add: page_at)

end

lemma page_restart_at:
  assumes "0 < psize" and "n \<le> length all" and "int (length all) + int psize < 2 ^ 63" and "parseCursor c = int n"
  shows "page_restart c (int psize) all = Some \<lparr>pg_Items = take psize (drop n all),
     pg_NextCursor = (if n + psize < length all then Some (itoa (n + psize)) else None)\<rparr>"
  using page_from_offset [OF assms(1-3)] assms(2,4) by (simp add: page_restart_def)

lemma page_or_empty_at:
  assumes "0 < psize" and "n \<le> length all" and "int (length all) + int psize < 2 ^ 63" and "parseCursor c = int n"
  shows "page_or_empty c (int psize) all = Some \<lparr>pg_Items = take psize (drop n all),
     pg_NextCursor = (if n + psize < length all then Some (itoa (n + psize)) else None)\<rparr>"
  using page_from_offset [OF assms(1-3)] assms(2,4) by (auto simp: page_or_empty_def NewPage_def)

end
