(* ===== verification/Notifier.thy ===== *)
theory Notifier
  imports Prelude
begin

section \<open>Change notification (mcpservice/change_notifier.go)\<close>

text \<open>
  A subscriber's channel has capacity 1, so it is a flag (a signal is waiting) and whether it has
  been closed; the channels a notifier has handed out live in \<open>cn_chans\<close> and are named by their
  position. A send on a closed channel panics: \<open>chan_send\<close> returns \<open>None\<close>. \<open>Close\<close> closes the
  channels after it has released the lock, so it is split into \<open>Close\<close> (the part under the lock,
  which returns the channels still to be closed) and \<open>close_chan\<close>. \<open>cn_step\<close> interleaves the
  pieces with \<open>Notify\<close>, \<open>Subscriber\<close> and receives.
\<close>

record chan =
  ch_full :: bool
  ch_closed :: bool

record ChangeNotifier =
  cn_subscribers :: "nat list"
  cn_closed :: bool
  cn_chans :: "chan list"

definition cn_zero :: ChangeNotifier where
  "cn_zero = \<lparr>cn_subscribers = [], cn_closed = False, cn_chans = []\<rparr>"

definition chan_send :: "nat \<Rightarrow> chan list \<Rightarrow> chan list option" where
  "chan_send i cs = (if ch_closed (cs ! i) then None else Some (cs[i := (cs ! i)\<lparr>ch_full := True\<rparr>]))"

fun send_all :: "nat list \<Rightarrow> chan list \<Rightarrow> chan list option" where
  "send_all [] cs = Some cs"
| "send_all (i # is) cs = Option.bind (chan_send i cs) (send_all is)"

definition Notify :: "ChangeNotifier \<Rightarrow> ChangeNotifier option" where
  "Notify cn = (if cn_closed cn then Some cn
     else map_option (\<lambda>cs. cn\<lparr>cn_chans := cs\<rparr>) (send_all (cn_subscribers cn) (cn_chans cn)))"

definition Close :: "ChangeNotifier \<Rightarrow> ChangeNotifier \<times> nat list" where
  "Close cn = (if cn_closed cn then (cn, [])
     else (cn\<lparr>cn_closed := True, cn_subscribers := []\<rparr>, cn_subscribers cn))"

definition close_chan :: "nat \<Rightarrow> ChangeNotifier \<Rightarrow> ChangeNotifier option" where
  "close_chan i cn = (if ch_closed (cn_chans cn ! i) then None
     else Some (cn\<lparr>cn_chans := (cn_chans cn)[i := (cn_chans cn ! i)\<lparr>ch_closed := True\<rparr>]\<rparr>))"

definition Subscriber :: "ChangeNotifier \<Rightarrow> ChangeNotifier \<times> nat" where
  "Subscriber cn = (let i = length (cn_chans cn) in
     if cn_closed cn then (cn\<lparr>cn_chans := cn_chans cn @ [\<lparr>ch_full = False, ch_closed = True\<rparr>]\<rparr>, i)
     else (cn\<lparr>cn_chans := cn_chans cn @ [\<lparr>ch_full = False, ch_closed = False\<rparr>],
              cn_subscribers := cn_subscribers cn @ [i]\<rparr>, i))"

text \<open>One turn of the goroutine that \<open>Register\<close> starts: \<open>None\<close> blocks, \<open>Some False\<close> ends it (the
  channel is closed and drained), \<open>Some True\<close> calls the callback.\<close>

definition chan_receive :: "nat \<Rightarrow> chan list \<Rightarrow> (chan list \<times> bool) option" where
  "chan_receive i cs = (if ch_full (cs ! i) then Some (cs[i := (cs ! i)\<lparr>ch_full := False\<rparr>], True)
     else if ch_closed (cs ! i) then Some (cs, False) else None)"

subsection \<open>Interleavings\<close>

datatype cn_state = Running ChangeNotifier "nat list" | Panicked

inductive cn_step :: "cn_state \<Rightarrow> cn_state \<Rightarrow> bool" where
  notify: "cn_step (Running cn q) (case Notify cn of None \<Rightarrow> Panicked | Some cn' \<Rightarrow> Running cn' q)"
| subscribe: "Subscriber cn = (cn', i) \<Longrightarrow> cn_step (Running cn q) (Running cn' q)"
| close: "Close cn = (cn', is) \<Longrightarrow> cn_step (Running cn q) (Running cn' (q @ is))"
| close_one: "cn_step (Running cn (i # q)) (case close_chan i cn of None \<Rightarrow> Panicked | Some cn' \<Rightarrow> Running cn' q)"
| receive: "chan_receive i (cn_chans cn) = Some (cs, b) \<Longrightarrow> cn_step (Running cn q) (Running (cn\<lparr>cn_chans := cs\<rparr>) q)"

inductive cn_reach :: "cn_state \<Rightarrow> bool" where
  init: "cn_reach (Running cn_zero [])"
| step: "cn_reach s \<Longrightarrow> cn_step s s' \<Longrightarrow> cn_reach s'"

text \<open>Registered channels and channels waiting to be closed are open and all different.\<close>

definition cn_inv :: "cn_state \<Rightarrow> bool" where
  "cn_inv s \<longleftrightarrow> (case s of Panicked \<Rightarrow> False | Running cn q \<Rightarrow>
     distinct (cn_subscribers cn @ q) \<and> (cn_closed cn \<longrightarrow> cn_subscribers cn = []) \<and>
     (\<forall>i \<in> set (cn_subscribers cn @ q). i < length (cn_chans cn) \<and> \<not> ch_closed (cn_chans cn ! i)))"

lemma send_all_spec:
  assumes "\<forall>i \<in> set is. i < length cs \<and> \<not> ch_closed (cs ! i)"
  shows "\<exists>cs'. send_all is cs = Some cs' \<and> length cs' = length cs \<and>
    (\<forall>i < length cs. cs' ! i = (if i \<in> set is then (cs ! i)\<lparr>ch_full := True\<rparr> else cs ! i))"
  using assms
proof (induction "is" arbitrary: cs)
  case (Cons a "is")
  let ?cs = "cs[a := (cs ! a)\<lparr>ch_full := True\<rparr>]"
  have "\<forall>i \<in> set is. i < length ?cs \<and> \<not> ch_closed (?cs ! i)"
    using Cons.prems by (auto simp: nth_upd)
  from Cons.IH [OF this] Cons.prems show ?case
    by (auto simp: chan_send_def nth_upd)
qed simp

lemma notify_spec:
  assumes "cn_inv (Running cn q)"
  shows "\<exists>cn'. Notify cn = Some cn' \<and> cn_inv (Running cn' q) \<and> cn_subscribers cn' = cn_subscribers cn \<and>
    (\<forall>i \<in> set (cn_subscribers cn). ch_full (cn_chans cn' ! i))"
proof (cases "cn_closed cn")
  case True
  with assms show ?thesis by (simp add: Notify_def cn_inv_def)
next
  case False
  obtain cs' where cs': "send_all (cn_subscribers cn) (cn_chans cn) = Some cs'" "length cs' = length (cn_chans cn)"
    "\<forall>i < length (cn_chans cn). cs' ! i = (if i \<in> set (cn_subscribers cn) then (cn_chans cn ! i)\<lparr>ch_full := True\<rparr>
      else cn_chans cn ! i)"
    using send_all_spec [of "cn_subscribers cn" "cn_chans cn"] assms by (auto simp: cn_inv_def)
  with False assms show ?thesis by (auto simp: Notify_def cn_inv_def)
qed

lemma cn_step_inv: "cn_step s s' \<Longrightarrow> cn_inv s \<Longrightarrow> cn_inv s'"
proof (induction rule: cn_step.induct)
  case (notify cn q)
  then show ?case using notify_spec [of cn q] by auto
next
  case (subscribe cn cn' i q)
  then show ?case
    by (auto simp: Subscriber_def Let_def cn_inv_def nth_append split: if_splits) (meson UnCI less_SucI)+
next
  case (close cn cn' "is" q)
  then show ?case by (auto simp: Close_def cn_inv_def split: if_splits)
next
  case (close_one cn i q)
  then show ?case by (auto simp: close_chan_def cn_inv_def nth_upd)
next
  case (receive i cn cs b q)
  then show ?case
    by (auto simp: chan_receive_def cn_inv_def nth_upd split: if_splits)
qed

lemma cn_reach_inv: "cn_reach s \<Longrightarrow> cn_inv s"
proof (induction rule: cn_reach.induct)
  case init
  then show ?case by (simp add: cn_inv_def cn_zero_def)
next
  case (step s s')
  then show ?case using cn_step_inv by blast
qed

text \<open>C39: no interleaving of \<open>Notify\<close>, \<open>Subscriber\<close>, \<open>Close\<close> and receives sends on a closed
  channel or closes a channel twice, and \<open>Notify\<close> leaves a signal in the channel of every registered
  subscriber, so a subscriber that receives after a change always learns of it.\<close>

theorem notifier_never_panics:
  assumes "cn_reach s"
  shows "s \<noteq> Panicked \<and> (\<forall>cn q. s = Running cn q \<longrightarrow>
    (\<exists>cn'. Notify cn = Some cn' \<and> (\<forall>i \<in> set (cn_subscribers cn). \<exists>cs. chan_receive i (cn_chans cn') = Some (cs, True))))"
proof -
  have inv: "cn_inv s" using cn_reach_inv [OF assms] .
  then have "s \<noteq> Panicked" by (auto simp: cn_inv_def)
  moreover have "\<exists>cn'. Notify cn = Some cn' \<and>
      (\<forall>i \<in> set (cn_subscribers cn). \<exists>cs. chan_receive i (cn_chans cn') = Some (cs, True))" if "s = Running cn q" for cn q
    using notify_spec [of cn q] inv that by (fastforce simp: chan_receive_def)
  ultimately show ?thesis by blast
qed

theorem notifier_never_panics_witness:
  "let cn = fst (Subscriber cn_zero) in cn_reach (Running cn []) \<and>
     (\<exists>cn'. Notify cn = Some cn' \<and> (\<exists>cs. chan_receive 0 (cn_chans cn') = Some (cs, True)))"
proof -
  obtain cn i where s: "Subscriber cn_zero = (cn, i)" by fastforce
  have r: "cn_reach (Running cn [])"
    using cn_reach.init cn_step.subscribe [OF s] cn_reach.step by blast
  have "0 \<in> set (cn_subscribers cn)"
    using s by (auto simp: Subscriber_def cn_zero_def)
  with r notifier_never_panics [OF r] s show ?thesis by (auto simp: Let_def)
qed

end
