(* ===== verification/Containers.thy ===== *)
theory Containers
  imports McpTypes Pagination Notifier
begin

section \<open>Static tool and prompt containers (mcpservice/static_tools.go, static_prompts.go, prompts.go)\<close>

text \<open>
  A container holds its descriptors in listing order and a map from names to handlers. Handlers are
  the application's code: a \<open>ToolHandler\<close> is a function of the context, the session identifier and the
  request. A mutation starts a goroutine that calls \<open>Notify\<close> on the embedded notifier; the goroutines
  that have not run yet are counted in \<open>tc_pending\<close> and \<open>notify_runs\<close> runs one. A nil handler is
  \<open>None\<close>. \<open>tc_step\<close> and \<open>pc_step\<close> are the sequences of operations a container can go through.
\<close>

type_synonym ToolHandler = "ctx \<Rightarrow> string \<Rightarrow> CallToolRequestReceived \<Rightarrow> go_error + CallToolResult"

record StaticTool =
  st_Descriptor :: Tool
  st_Handler :: "ToolHandler option"

record ToolsContainer =
  tc_tools :: "Tool list"
  tc_handlers :: "(string, ToolHandler) gomap"
  tc_notifier :: ChangeNotifier
  tc_pending :: nat
  tc_pageSize :: int

definition tools_Replace :: "StaticTool list \<Rightarrow> ToolsContainer \<Rightarrow> ToolsContainer" where
  "tools_Replace defs st = st\<lparr>
     tc_tools := map st_Descriptor defs,
     tc_handlers := foldl (\<lambda>m d. case st_Handler d of None \<Rightarrow> m | Some h \<Rightarrow> mput (t_Name (st_Descriptor d)) h m) [] defs,
     tc_pending := Suc (tc_pending st)\<rparr>"

definition NewToolsContainer :: "StaticTool list \<Rightarrow> ToolsContainer" where
  "NewToolsContainer defs = tools_Replace defs
     \<lparr>tc_tools = [], tc_handlers = [], tc_notifier = cn_zero, tc_pending = 0, tc_pageSize = 50\<rparr>"

definition tools_SetPageSize :: "int \<Rightarrow> ToolsContainer \<Rightarrow> ToolsContainer" where
  "tools_SetPageSize n st = (if n \<le> 0 then st else st\<lparr>tc_pageSize := n\<rparr>)"

definition tools_Snapshot :: "ToolsContainer \<Rightarrow> Tool list" where
  "tools_Snapshot st = tc_tools st"

definition tools_Add :: "StaticTool \<Rightarrow> ToolsContainer \<Rightarrow> ToolsContainer \<times> bool" where
  "tools_Add d st = (let name = t_Name (st_Descriptor d) in
     if mget (tc_handlers st) name \<noteq> None then (st, False)
     else if (\<exists>t \<in> set (tc_tools st). t_Name t = name) then (st, False)
     else (st\<lparr>tc_tools := tc_tools st @ [st_Descriptor d],
              tc_handlers := (case st_Handler d of None \<Rightarrow> tc_handlers st | Some h \<Rightarrow> mput name h (tc_handlers st)),
              tc_pending := Suc (tc_pending st)\<rparr>, True))"

definition tools_Remove :: "string \<Rightarrow> ToolsContainer \<Rightarrow> ToolsContainer \<times> bool" where
  "tools_Remove name st = (let removed = (\<exists>t \<in> set (tc_tools st). t_Name t = name) in
     if removed then (st\<lparr>tc_tools := filter (\<lambda>t. t_Name t \<noteq> name) (tc_tools st),
                         tc_handlers := mdel name (tc_handlers st), tc_pending := Suc (tc_pending st)\<rparr>, True)
     else (st, False))"

definition tools_Call :: "ctx \<Rightarrow> string \<Rightarrow> CallToolRequestReceived option \<Rightarrow> ToolsContainer \<Rightarrow> go_error + CallToolResult" where
  "tools_Call c sess req st = (case req of
       None \<Rightarrow> Inl (ErrText ''invalid tool request: missing name'')
     | Some r \<Rightarrow>
         if ctr_Name r = [] then Inl (ErrText ''invalid tool request: missing name'')
         else (case mget (tc_handlers st) (ctr_Name r) of
             None \<Rightarrow> Inl (ErrText (''tool not found: '' @ ctr_Name r))
           | Some h \<Rightarrow> h c sess r))"

definition ListTools :: "ToolsContainer \<Rightarrow> string option \<Rightarrow> Tool Page option" where
  "ListTools st cursor = page_restart cursor (tc_pageSize st) (tc_tools st)"

definition TextResult :: "string \<Rightarrow> CallToolResult" where
  "TextResult s = \<lparr>ctres_Content = [text_block s], ctres_IsError = False, ctres_StructuredContent = [], ctres_Meta = []\<rparr>"

definition Errorf :: "string \<Rightarrow> CallToolResult" where
  "Errorf msg = \<lparr>ctres_Content = [text_block msg], ctres_IsError = True, ctres_StructuredContent = [], ctres_Meta = []\<rparr>"

inductive tc_reach :: "ToolsContainer \<Rightarrow> bool" where
  new: "tc_reach (NewToolsContainer defs)"
| replace: "tc_reach st \<Longrightarrow> tc_reach (tools_Replace defs st)"
| add: "tc_reach st \<Longrightarrow> tc_reach (fst (tools_Add d st))"
| remove: "tc_reach st \<Longrightarrow> tc_reach (fst (tools_Remove name st))"
| page_size: "tc_reach st \<Longrightarrow> tc_reach (tools_SetPageSize n st)"
| subscriber: "tc_reach st \<Longrightarrow> Subscriber (tc_notifier st) = (cn, i) \<Longrightarrow> tc_reach (st\<lparr>tc_notifier := cn\<rparr>)"
| notify_runs: "tc_reach st \<Longrightarrow> tc_pending st = Suc n \<Longrightarrow> Notify (tc_notifier st) = Some cn \<Longrightarrow>
    tc_reach (st\<lparr>tc_notifier := cn, tc_pending := n\<rparr>)"

definition tool_names :: "ToolsContainer \<Rightarrow> string set" where
  "tool_names st = t_Name ` set (tc_tools st)"

definition tc_inv :: "ToolsContainer \<Rightarrow> bool" where
  "tc_inv st \<longleftrightarrow> set (mkeys (tc_handlers st)) \<subseteq> tool_names st \<and> 0 < tc_pageSize st"

lemma replace_handlers_keys:
  "mget (foldl (\<lambda>m d. case st_Handler d of None \<Rightarrow> m | Some h \<Rightarrow> mput (t_Name (st_Descriptor d)) h m) acc defs) k \<noteq> None
   \<Longrightarrow> mget acc k \<noteq> None \<or> k \<in> (\<lambda>d. t_Name (st_Descriptor d)) ` set defs"
proof (induction defs arbitrary: acc)
  case (Cons d defs)
  then show ?case
    by (cases "st_Handler d") (fastforce split: if_splits)+
qed simp

lemma tc_inv_Replace: "0 < tc_pageSize st \<Longrightarrow> tc_inv (tools_Replace defs st)"
  using replace_handlers_keys [of "[]" defs]
  by (fastforce simp: tc_inv_def tools_Replace_def tool_names_def mkeys_iff image_image)

lemma tc_inv_Add: "tc_inv st \<Longrightarrow> tc_inv (fst (tools_Add d st))"
  by (auto simp: tc_inv_def tools_Add_def Let_def tool_names_def mkeys_iff subset_iff split: option.splits if_splits)

lemma tc_inv_Remove: "tc_inv st \<Longrightarrow> tc_inv (fst (tools_Remove name st))"
  by (fastforce simp: tc_inv_def tools_Remove_def Let_def tool_names_def mkeys_iff subset_iff split: if_splits)

lemma tc_reach_inv: "tc_reach st \<Longrightarrow> tc_inv st"
proof (induction rule: tc_reach.induct)
  case (new defs)
  then show ?case by (simp add: NewToolsContainer_def tc_inv_Replace)
next
  case (replace st defs)
  then show ?case by (simp add: tc_inv_Replace tc_inv_def [of st])
next
  case (add st d)
  then show ?case by (simp add: tc_inv_Add)
next
  case (remove st name)
  then show ?case by (simp add: tc_inv_Remove)
next
  case (page_size st n)
  then show ?case by (simp add: tc_inv_def tools_SetPageSize_def tool_names_def)
qed (simp_all add: tc_inv_def tool_names_def)


interpretation tools: pager ListTools tc_tools "\<lambda>st. nat (tc_pageSize st)"
  "\<lambda>st. 0 < tc_pageSize st \<and> int (length (tc_tools st)) + tc_pageSize st < 2 ^ 63"
proof
  fix st :: ToolsContainer and n c
  assume "0 < tc_pageSize st \<and> int (length (tc_tools st)) + tc_pageSize st < 2 ^ 63"
    and "n \<le> length (tc_tools st)" and "parseCursor c = int n"
  then show "ListTools st c = Some \<lparr>pg_Items = take (nat (tc_pageSize st)) (drop n (tc_tools st)),
      pg_NextCursor = (if n + nat (tc_pageSize st) < length (tc_tools st)
        then Some (itoa (n + nat (tc_pageSize st))) else None)\<rparr>"
    using page_restart_at [of "nat (tc_pageSize st)" n "tc_tools st" c] by (simp add: ListTools_def)
qed auto

lemma tools_call_unlisted:
  assumes "tc_inv st" and "ctr_Name r \<notin> tool_names st"
  shows "\<exists>msg. tools_Call c s (Some r) st = Inl (ErrText msg)"
  using assms by (auto simp: tools_Call_def tc_inv_def mkeys_iff subset_iff split: option.splits)

lemma tools_add_fresh:
  assumes "tc_inv st" and "st_Handler d = Some h" and "t_Name (st_Descriptor d) = name" and "name \<notin> tool_names st"
  shows "tools_Add d st = (st\<lparr>tc_tools := tc_tools st @ [st_Descriptor d], tc_handlers := mput name h (tc_handlers st),
     tc_pending := Suc (tc_pending st)\<rparr>, True)"
proof -
  have "mget (tc_handlers st) name = None"
    using assms(1,4) by (auto simp: tc_inv_def mkeys_iff subset_iff)
  moreover have "\<not> (\<exists>t \<in> set (tc_tools st). t_Name t = name)"
    using assms(4) by (auto simp: tool_names_def)
  ultimately show ?thesis
    using assms(2,3) by (simp add: tools_Add_def Let_def)
qed

text \<open>C37: paging through \<open>ListTools\<close> from no cursor to the last page visits every tool of the
  container exactly once and in order, in at most one page per tool and one more.\<close>

theorem tools_walk_complete:
  assumes "tc_reach st" and "int (length (tc_tools st)) + tc_pageSize st < 2 ^ 63"
  shows "walk (ListTools st) (Suc (length (tc_tools st))) None = Some (tools_Snapshot st)"
  using tools.walk_all [of st] tc_reach_inv [OF assms(1)] assms(2)
  by (simp add: tc_inv_def tools_Snapshot_def del: walk.simps)

definition wit_tool :: "string \<Rightarrow> StaticTool" where
  "wit_tool n = \<lparr>st_Descriptor = \<lparr>t_Name = n, t_Description = [], t_InputSchema =
     \<lparr>tis_Type = ''object'', tis_Properties = [], tis_Required = [], tis_AdditionalProperties = False\<rparr>,
     t_OutputSchema = None, t_Meta = []\<rparr>, st_Handler = Some (\<lambda>c s r. Inr (TextResult n))\<rparr>"

definition wit_tools :: ToolsContainer where
  "wit_tools = tools_SetPageSize 2 (NewToolsContainer [wit_tool ''a'', wit_tool ''b'', wit_tool ''c''])"

lemma wit_tools_reach: "tc_reach wit_tools"
  unfolding wit_tools_def by (intro tc_reach.intros)

theorem tools_walk_complete_witness:
  "walk (ListTools wit_tools) 4 None = Some (map (st_Descriptor \<circ> wit_tool) [''a'', ''b'', ''c''])"
  using tools_walk_complete [OF wit_tools_reach]
  by (simp add: wit_tools_def NewToolsContainer_def tools_Replace_def tools_SetPageSize_def tools_Snapshot_def
      eval_nat_numeral del: walk.simps)

text \<open>A container, whatever operations it went through, dispatches soundly: a call of a name that
  is not listed is refused; adding a tool with a new name lists it and makes calls of it run its
  handler, leaving other names alone; adding a listed name changes nothing; after a removal the name
  is neither listed nor callable, and other names are as before.\<close>

theorem tools_dispatch:
  assumes "tc_reach st"
  shows "(\<forall>c s r. ctr_Name r \<notin> tool_names st \<longrightarrow> (\<exists>msg. tools_Call c s (Some r) st = Inl (ErrText msg)))
    \<and> (\<forall>d h c s r. st_Handler d = Some h \<and> t_Name (st_Descriptor d) \<notin> tool_names st \<and> ctr_Name r \<noteq> [] \<longrightarrow>
        snd (tools_Add d st) \<and> tool_names (fst (tools_Add d st)) = insert (t_Name (st_Descriptor d)) (tool_names st)
        \<and> tools_Call c s (Some r) (fst (tools_Add d st)) =
            (if ctr_Name r = t_Name (st_Descriptor d) then h c s r else tools_Call c s (Some r) st))
    \<and> (\<forall>d. t_Name (st_Descriptor d) \<in> tool_names st \<longrightarrow> tools_Add d st = (st, False))
    \<and> (\<forall>n c s r. tool_names (fst (tools_Remove n st)) = tool_names st - {n} \<and>
        (if ctr_Name r = n then \<exists>msg. tools_Call c s (Some r) (fst (tools_Remove n st)) = Inl (ErrText msg)
         else tools_Call c s (Some r) (fst (tools_Remove n st)) = tools_Call c s (Some r) st))"
proof (intro conjI allI impI)
  note inv = tc_reach_inv [OF assms]
  show "\<exists>msg. tools_Call c s (Some r) st = Inl (ErrText msg)" if "ctr_Name r \<notin> tool_names st" for c s r
    using tools_call_unlisted [OF inv that] .
  show "snd (tools_Add d st)"
    "tool_names (fst (tools_Add d st)) = insert (t_Name (st_Descriptor d)) (tool_names st)"
    "tools_Call c s (Some r) (fst (tools_Add d st)) =
       (if ctr_Name r = t_Name (st_Descriptor d) then h c s r else tools_Call c s (Some r) st)"
    if "st_Handler d = Some h \<and> t_Name (st_Descriptor d) \<notin> tool_names st \<and> ctr_Name r \<noteq> []" for d h c s r
    using tools_add_fresh [OF inv, of d h] that by (auto simp: tool_names_def tools_Call_def)
  show "tools_Add d st = (st, False)" if "t_Name (st_Descriptor d) \<in> tool_names st" for d
    using that by (auto simp: tools_Add_def Let_def tool_names_def)
  show rm: "tool_names (fst (tools_Remove n st)) = tool_names st - {n}" for n
    by (auto simp: tools_Remove_def Let_def tool_names_def)
  show "if ctr_Name r = n then \<exists>msg. tools_Call c s (Some r) (fst (tools_Remove n st)) = Inl (ErrText msg)
      else tools_Call c s (Some r) (fst (tools_Remove n st)) = tools_Call c s (Some r) st" for n c s r
    using tools_call_unlisted [OF tc_inv_Remove [OF inv], of r n c s] rm [of n]
    by (auto simp: tools_Remove_def tools_Call_def Let_def)
qed

theorem tools_dispatch_witness:
  "tools_Call None ''s'' (Some \<lparr>ctr_Name = ''d'', ctr_Arguments = None\<rparr>) (fst (tools_Add (wit_tool ''d'') wit_tools))
     = Inr (TextResult ''d'')"
proof -
  have "t_Name (st_Descriptor (wit_tool ''d'')) \<notin> tool_names wit_tools"
    by (simp add: wit_tools_def NewToolsContainer_def tools_Replace_def tools_SetPageSize_def tool_names_def wit_tool_def)
  then show ?thesis
    using tools_dispatch [OF wit_tools_reach] by (simp add: wit_tool_def)
qed

text \<open>\<open>Replace\<close> with two definitions of one name lists the tool twice and a definition without a
  handler does not displace an earlier one's: the earlier handler answers the calls.\<close>

theorem replace_keeps_duplicates:
  "tc_tools (NewToolsContainer [wit_tool ''a'', (wit_tool ''a'')\<lparr>st_Handler := None\<rparr>]) =
     [st_Descriptor (wit_tool ''a''), st_Descriptor (wit_tool ''a'')]
   \<and> tools_Call None s (Some \<lparr>ctr_Name = ''a'', ctr_Arguments = None\<rparr>)
       (NewToolsContainer [wit_tool ''a'', (wit_tool ''a'')\<lparr>st_Handler := None\<rparr>]) = Inr (TextResult ''a'')"
  by (simp add: NewToolsContainer_def tools_Replace_def tools_Call_def wit_tool_def)


subsection \<open>Prompts\<close>

type_synonym PromptHandler = "ctx \<Rightarrow> string \<Rightarrow> GetPromptRequestReceived \<Rightarrow> go_error + GetPromptResult"

record StaticPrompt =
  spt_Descriptor :: Prompt
  spt_Handler :: "PromptHandler option"

record PromptsContainer =
  pc_prompts :: "Prompt list"
  pc_handlers :: "(string, PromptHandler) gomap"
  pc_notifier :: ChangeNotifier
  pc_pending :: nat
  pc_pageSize :: int

definition prompts_Replace :: "StaticPrompt list \<Rightarrow> PromptsContainer \<Rightarrow> PromptsContainer" where
  "prompts_Replace defs sp = sp\<lparr>
     pc_prompts := map spt_Descriptor defs,
     pc_handlers := foldl (\<lambda>m d. case spt_Handler d of None \<Rightarrow> m | Some h \<Rightarrow> mput (p_Name (spt_Descriptor d)) h m) [] defs,
     pc_pending := Suc (pc_pending sp)\<rparr>"

definition NewPromptsContainer :: "StaticPrompt list \<Rightarrow> PromptsContainer" where
  "NewPromptsContainer defs = prompts_Replace defs
     \<lparr>pc_prompts = [], pc_handlers = [], pc_notifier = cn_zero, pc_pending = 0, pc_pageSize = 50\<rparr>"

definition prompts_SetPageSize :: "int \<Rightarrow> PromptsContainer \<Rightarrow> PromptsContainer" where
  "prompts_SetPageSize n sp = (if n > 0 then sp\<lparr>pc_pageSize := n\<rparr> else sp)"

definition prompts_Snapshot :: "PromptsContainer \<Rightarrow> Prompt list" where
  "prompts_Snapshot sp = pc_prompts sp"

definition prompts_Add :: "StaticPrompt \<Rightarrow> PromptsContainer \<Rightarrow> PromptsContainer \<times> bool" where
  "prompts_Add d sp = (let name = p_Name (spt_Descriptor d) in
     if name = [] then (sp, False)
     else if mget (pc_handlers sp) name \<noteq> None then (sp, False)
     else if (\<exists>p \<in> set (pc_prompts sp). p_Name p = name) then (sp, False)
     else (sp\<lparr>pc_prompts := pc_prompts sp @ [spt_Descriptor d],
              pc_handlers := (case spt_Handler d of None \<Rightarrow> pc_handlers sp | Some h \<Rightarrow> mput name h (pc_handlers sp)),
              pc_pending := Suc (pc_pending sp)\<rparr>, True))"

definition prompts_Remove :: "string \<Rightarrow> PromptsContainer \<Rightarrow> PromptsContainer \<times> bool" where
  "prompts_Remove name sp = (let removed = (\<exists>p \<in> set (pc_prompts sp). p_Name p = name);
       sp1 = sp\<lparr>pc_prompts := filter (\<lambda>p. p_Name p \<noteq> name) (pc_prompts sp)\<rparr> in
     if removed then (sp1\<lparr>pc_handlers := mdel name (pc_handlers sp), pc_pending := Suc (pc_pending sp)\<rparr>, True)
     else (sp1, False))"

definition prompts_Get :: "ctx \<Rightarrow> string \<Rightarrow> GetPromptRequestReceived option \<Rightarrow> PromptsContainer \<Rightarrow> go_error + GetPromptResult" where
  "prompts_Get c sess req sp = (case req of
       None \<Rightarrow> Inl (ErrText ''invalid prompt request: missing name'')
     | Some r \<Rightarrow>
         if gpr_Name r = [] then Inl (ErrText ''invalid prompt request: missing name'')
         else (case mget (pc_handlers sp) (gpr_Name r) of
             None \<Rightarrow> Inl (ErrText (''prompt not found: '' @ gpr_Name r))
           | Some h \<Rightarrow> h c sess r))"

definition ListPrompts :: "PromptsContainer \<Rightarrow> string option \<Rightarrow> Prompt Page option" where
  "ListPrompts sp cursor = page_restart cursor 50 (prompts_Snapshot sp)"

interpretation prompts: pager ListPrompts pc_prompts "\<lambda>_. 50" "\<lambda>sp. int (length (pc_prompts sp)) + 50 < 2 ^ 63"
proof
  fix sp :: PromptsContainer and n c
  assume "int (length (pc_prompts sp)) + 50 < 2 ^ 63" and "n \<le> length (pc_prompts sp)" and "parseCursor c = int n"
  then show "ListPrompts sp c = Some \<lparr>pg_Items = take 50 (drop n (pc_prompts sp)),
      pg_NextCursor = (if n + 50 < length (pc_prompts sp) then Some (itoa (n + 50)) else None)\<rparr>"
    using page_restart_at [of 50 n "pc_prompts sp" c] by (simp add: ListPrompts_def prompts_Snapshot_def)
qed auto

text \<open>Paging through \<open>ListPrompts\<close> visits every prompt exactly once and in order; the pages hold 50
  prompts whatever page size was set with \<open>SetPageSize\<close>.\<close>

theorem prompts_walk_complete:
  assumes "int (length (pc_prompts sp)) + 50 < 2 ^ 63"
  shows "walk (ListPrompts sp) (Suc (length (pc_prompts sp))) None = Some (prompts_Snapshot sp)
    \<and> ListPrompts (prompts_SetPageSize n sp) = ListPrompts sp"
  using prompts.walk_all [OF assms]
  by (auto simp: prompts_Snapshot_def fun_eq_iff ListPrompts_def prompts_SetPageSize_def simp del: walk.simps)

definition wit_prompt :: "string \<Rightarrow> StaticPrompt" where
  "wit_prompt n = \<lparr>spt_Descriptor = \<lparr>p_Name = n, p_Description = [], p_Arguments = []\<rparr>,
     spt_Handler = Some (\<lambda>c s r. Inr \<lparr>gpres_Description = n, gpres_Messages = [], gpres_Meta = []\<rparr>)\<rparr>"

theorem prompts_walk_complete_witness:
  "walk (ListPrompts (NewPromptsContainer [wit_prompt ''a'', wit_prompt ''b''])) 3 None =
     Some (map (spt_Descriptor \<circ> wit_prompt) [''a'', ''b''])"
  using prompts_walk_complete [of "NewPromptsContainer [wit_prompt ''a'', wit_prompt ''b'']"]
  by (simp add: NewPromptsContainer_def prompts_Replace_def prompts_Snapshot_def eval_nat_numeral del: walk.simps)

end
