(* ===== verification/Resources.thy ===== *)
theory Resources
  imports Containers
begin

section \<open>Static resource container (mcpservice/static_resources.go, resources.go)\<close>

text \<open>
  The container keeps resources in a slice and indexes them by URI. \<open>RemoveResource\<close> swaps the last
  resource into the hole and repairs the index; an out-of-range index panics, so the operations that
  index the slice are partial. Functional options are functions on the value they configure. Blobs are
  byte strings, encoded by \<open>base64\<close> (encoding/base64's standard alphabet with padding). \<open>ReadResource\<close> looks
  the resource up twice under separate locks, so \<open>ReadResource_at\<close> takes the container's state at each
  look-up. The goroutines that call \<open>Notify\<close> on the list notifier are counted in \<open>rc_pending\<close>; per-URI notifiers are
  signalled in place.
\<close>

record ContentVariant =
  cv_Text :: string
  cv_Blob :: string
  cv_MimeType :: string

record Resource =
  rs_URI :: string
  rs_Name :: string
  rs_Desc :: string
  rs_MimeType :: string
  rs_Variants :: "ContentVariant list"

record ResourceTemplate =
  rtp_URITemplate :: string
  rtp_Name :: string
  rtp_Desc :: string
  rtp_MimeType :: string

subsection \<open>Constructors and options\<close>

definition TextVariant :: "string \<Rightarrow> string list \<Rightarrow> ContentVariant" where
  "TextVariant text mime = \<lparr>cv_Text = text, cv_Blob = [], cv_MimeType = (case mime of [] \<Rightarrow> [] | m # _ \<Rightarrow> m)\<rparr>"

definition BlobVariant :: "string \<Rightarrow> string \<Rightarrow> ContentVariant" where
  "BlobVariant data mime = \<lparr>cv_Text = [], cv_Blob = data, cv_MimeType = mime\<rparr>"

type_synonym ResourceOption = "Resource \<Rightarrow> Resource"

definition TextResource :: "string \<Rightarrow> string \<Rightarrow> ResourceOption list \<Rightarrow> Resource" where
  "TextResource uri text opts = foldl (\<lambda>r opt. opt r)
     \<lparr>rs_URI = uri, rs_Name = [], rs_Desc = [], rs_MimeType = [], rs_Variants = [TextVariant text []]\<rparr> opts"

definition BlobResource :: "string \<Rightarrow> string \<Rightarrow> string \<Rightarrow> ResourceOption list \<Rightarrow> Resource" where
  "BlobResource uri blob mime opts = foldl (\<lambda>r opt. opt r)
     \<lparr>rs_URI = uri, rs_Name = [], rs_Desc = [], rs_MimeType = mime, rs_Variants = [BlobVariant blob mime]\<rparr> opts"

definition ResourceWithVariants :: "string \<Rightarrow> ContentVariant list \<Rightarrow> ResourceOption list \<Rightarrow> Resource" where
  "ResourceWithVariants uri variants opts = foldl (\<lambda>r opt. opt r)
     \<lparr>rs_URI = uri, rs_Name = [], rs_Desc = [], rs_MimeType = [], rs_Variants = variants\<rparr> opts"

definition NewTemplate :: "string \<Rightarrow> (ResourceTemplate \<Rightarrow> ResourceTemplate) list \<Rightarrow> ResourceTemplate" where
  "NewTemplate uriTemplate opts = foldl (\<lambda>t opt. opt t)
     \<lparr>rtp_URITemplate = uriTemplate, rtp_Name = [], rtp_Desc = [], rtp_MimeType = []\<rparr> opts"

definition WithName :: "string \<Rightarrow> ResourceOption" where
  "WithName name r = r\<lparr>rs_Name := name\<rparr>"

definition WithDescription :: "string \<Rightarrow> ResourceOption" where
  "WithDescription desc r = r\<lparr>rs_Desc := desc\<rparr>"

definition WithMimeType :: "string \<Rightarrow> ResourceOption" where
  "WithMimeType mime r = r\<lparr>rs_MimeType := mime\<rparr>"

definition WithVariants :: "ContentVariant list \<Rightarrow> ResourceOption" where
  "WithVariants vs r = (if vs = [] then r else r\<lparr>rs_Variants := rs_Variants r @ vs\<rparr>)"

definition WithTemplateName :: "string \<Rightarrow> ResourceTemplate \<Rightarrow> ResourceTemplate" where
  "WithTemplateName name t = t\<lparr>rtp_Name := name\<rparr>"

definition WithTemplateDescription :: "string \<Rightarrow> ResourceTemplate \<Rightarrow> ResourceTemplate" where
  "WithTemplateDescription desc t = t\<lparr>rtp_Desc := desc\<rparr>"

definition WithTemplateMimeType :: "string \<Rightarrow> ResourceTemplate \<Rightarrow> ResourceTemplate" where
  "WithTemplateMimeType mime t = t\<lparr>rtp_MimeType := mime\<rparr>"

definition WithPageSize :: "int \<Rightarrow> int \<Rightarrow> int" where
  "WithPageSize n pageSize = (if n > 0 then n else pageSize)"

subsection \<open>The container\<close>

record ResourcesContainer =
  rc_resources :: "Resource list"
  rc_templates :: "ResourceTemplate list"
  rc_uriSet :: "(string, nat) gomap"
  rc_notifier :: ChangeNotifier
  rc_pending :: nat
  rc_updatedNotifiers :: "(string, ChangeNotifier) gomap"
  rc_pageSize :: int

definition NewResourcesContainer :: "(int \<Rightarrow> int) list \<Rightarrow> ResourcesContainer" where
  "NewResourcesContainer opts = \<lparr>rc_resources = [], rc_templates = [], rc_uriSet = [], rc_notifier = cn_zero,
     rc_pending = 0, rc_updatedNotifiers = [], rc_pageSize = foldl (\<lambda>n opt. opt n) 50 opts\<rparr>"

definition rc_SetPageSize :: "int \<Rightarrow> ResourcesContainer \<Rightarrow> ResourcesContainer" where
  "rc_SetPageSize n rc = (if n > 0 then rc\<lparr>rc_pageSize := n\<rparr> else rc)"

definition HasResource :: "string \<Rightarrow> ResourcesContainer \<Rightarrow> bool" where
  "HasResource uri rc \<longleftrightarrow> mget (rc_uriSet rc) uri \<noteq> None"

definition SnapshotResources :: "ResourcesContainer \<Rightarrow> Resource list" where
  "SnapshotResources rc = rc_resources rc"

definition SnapshotTemplates :: "ResourcesContainer \<Rightarrow> ResourceTemplate list" where
  "SnapshotTemplates rc = rc_templates rc"

definition spawn_notify :: "ResourcesContainer \<Rightarrow> ResourcesContainer" where
  "spawn_notify rc = rc\<lparr>rc_pending := Suc (rc_pending rc)\<rparr>"

text \<open>The deep copy of \<open>normalizeResource\<close> does not change the value.\<close>

definition normalizeResource :: "Resource \<Rightarrow> Resource" where
  "normalizeResource r = r"

fun equalVariants :: "ContentVariant list \<Rightarrow> ContentVariant list \<Rightarrow> bool" where
  "equalVariants [] [] = True"
| "equalVariants (a # as) (b # bs) =
     (cv_Text a = cv_Text b \<and> cv_MimeType a = cv_MimeType b \<and> cv_Blob a = cv_Blob b \<and> equalVariants as bs)"
| "equalVariants _ _ = False"

text \<open>Reading: \<open>Some (Inl err)\<close> is an error, \<open>None\<close> an index out of range.\<close>

definition rc_Read :: "string \<Rightarrow> ResourcesContainer \<Rightarrow> ContentVariant list option option" where
  "rc_Read uri rc = (case mget (rc_uriSet rc) uri of
       None \<Rightarrow> Some None
     | Some idx \<Rightarrow> if idx < length (rc_resources rc) then Some (Some (rs_Variants (rc_resources rc ! idx))) else None)"

text \<open>\<open>markUpdated\<close>: \<open>None\<close> only if the notifier's \<open>Notify\<close> panicked.\<close>

definition markUpdated :: "string \<Rightarrow> ResourcesContainer \<Rightarrow> ResourcesContainer option" where
  "markUpdated uri rc = (case mget (rc_updatedNotifiers rc) uri of
       None \<Rightarrow> Some rc
     | Some nt \<Rightarrow> map_option (\<lambda>nt'. rc\<lparr>rc_updatedNotifiers := mput uri nt' (rc_updatedNotifiers rc)\<rparr>) (Notify nt))"

definition AddResource :: "Resource \<Rightarrow> ResourcesContainer \<Rightarrow> ResourcesContainer \<times> bool" where
  "AddResource r rc =
     (if rs_URI r = [] then (rc, False)
      else if mget (rc_uriSet rc) (rs_URI r) \<noteq> None then (rc, False)
      else (spawn_notify (rc\<lparr>rc_resources := rc_resources rc @ [normalizeResource r],
              rc_uriSet := mput (rs_URI r) (length (rc_resources rc)) (rc_uriSet rc)\<rparr>), True))"

definition UpsertResource :: "Resource \<Rightarrow> ResourcesContainer \<Rightarrow> (ResourcesContainer \<times> bool) option" where
  "UpsertResource r rc =
     (if rs_URI r = [] then Some (rc, False)
      else let nr = normalizeResource r in
        case mget (rc_uriSet rc) (rs_URI nr) of
          Some idx \<Rightarrow>
            if \<not> idx < length (rc_resources rc) then None
            else let prev = rc_resources rc ! idx;
                     metaChanged = (rs_Name prev \<noteq> rs_Name nr \<or> rs_Desc prev \<noteq> rs_Desc nr \<or> rs_MimeType prev \<noteq> rs_MimeType nr);
                     variantsChanged = (\<not> equalVariants (rs_Variants prev) (rs_Variants nr));
                     rc1 = rc\<lparr>rc_resources := (rc_resources rc)[idx := nr]\<rparr>;
                     rc2 = (if metaChanged then spawn_notify rc1 else rc1)
                 in map_option (\<lambda>rc3. (rc3, False)) (if variantsChanged then markUpdated (rs_URI nr) rc2 else Some rc2)
        | None \<Rightarrow>
            let rc1 = spawn_notify (rc\<lparr>rc_resources := rc_resources rc @ [nr],
                        rc_uriSet := mput (rs_URI nr) (length (rc_resources rc)) (rc_uriSet rc)\<rparr>)
            in map_option (\<lambda>rc2. (rc2, True)) (if rs_Variants nr \<noteq> [] then markUpdated (rs_URI nr) rc1 else Some rc1))"

definition RemoveResource :: "string \<Rightarrow> ResourcesContainer \<Rightarrow> (ResourcesContainer \<times> bool) option" where
  "RemoveResource uri rc = (case mget (rc_uriSet rc) uri of
       None \<Rightarrow> Some (rc, False)
     | Some idx \<Rightarrow>
         if rc_resources rc = [] \<or> \<not> idx < length (rc_resources rc) then None
         else let last = length (rc_resources rc) - 1;
                  res1 = (rc_resources rc)[idx := rc_resources rc ! last];
                  set1 = mput (rs_URI (res1 ! idx)) idx (rc_uriSet rc)
              in Some (spawn_notify (rc\<lparr>rc_resources := take last res1, rc_uriSet := mdel uri set1\<rparr>), True))"

fun index_uris :: "nat \<Rightarrow> Resource list \<Rightarrow> (string, nat) gomap \<Rightarrow> (string, nat) gomap" where
  "index_uris i [] m = m"
| "index_uris i (r # rs) m = index_uris (Suc i) rs (mput (rs_URI r) i m)"

fun mark_all :: "Resource list \<Rightarrow> ResourcesContainer \<Rightarrow> ResourcesContainer option" where
  "mark_all [] rc = Some rc"
| "mark_all (r # rs) rc = Option.bind (if rs_Variants r \<noteq> [] then markUpdated (rs_URI r) rc else Some rc) (mark_all rs)"

definition ReplaceResources :: "Resource list \<Rightarrow> ResourcesContainer \<Rightarrow> (ResourcesContainer \<times> string list) option" where
  "ReplaceResources resources rc =
     (let nr = map normalizeResource (filter (\<lambda>r. rs_URI r \<noteq> []) resources);
          uriSet = index_uris 0 nr [];
          removed = filter (\<lambda>uri. mget uriSet uri = None) (mkeys (rc_uriSet rc));
          rc1 = rc\<lparr>rc_resources := nr, rc_uriSet := uriSet,
                   rc_updatedNotifiers := foldl (\<lambda>m uri. mdel uri m) (rc_updatedNotifiers rc) removed\<rparr>
      in map_option (\<lambda>rc2. (rc2, removed)) (mark_all nr (spawn_notify rc1)))"

subsection \<open>Templates and event sources\<close>

definition AddTemplate :: "ResourceTemplate \<Rightarrow> ResourcesContainer \<Rightarrow> ResourcesContainer \<times> bool" where
  "AddTemplate t rc =
     (if rtp_URITemplate t = [] then (rc, False)
      else if (\<exists>e \<in> set (rc_templates rc). rtp_URITemplate e = rtp_URITemplate t) then (rc, False)
      else (spawn_notify (rc\<lparr>rc_templates := rc_templates rc @ [t]\<rparr>), True))"

definition RemoveTemplate :: "string \<Rightarrow> ResourcesContainer \<Rightarrow> ResourcesContainer \<times> bool" where
  "RemoveTemplate u rc =
     (if \<not> (\<exists>t \<in> set (rc_templates rc). rtp_URITemplate t = u) then (rc, False)
      else (spawn_notify (rc\<lparr>rc_templates := filter (\<lambda>t. rtp_URITemplate t \<noteq> u) (rc_templates rc)\<rparr>), True))"

definition ReplaceTemplates :: "ResourceTemplate list \<Rightarrow> ResourcesContainer \<Rightarrow> ResourcesContainer" where
  "ReplaceTemplates ts rc = spawn_notify (rc\<lparr>rc_templates := ts\<rparr>)"

definition ListChangedChan :: "ResourcesContainer \<Rightarrow> ResourcesContainer \<times> nat" where
  "ListChangedChan rc = (let (cn, i) = Subscriber (rc_notifier rc) in (rc\<lparr>rc_notifier := cn\<rparr>, i))"

definition UpdatedChan :: "string \<Rightarrow> ResourcesContainer \<Rightarrow> ResourcesContainer \<times> nat" where
  "UpdatedChan uri rc =
     (let nt = (case mget (rc_updatedNotifiers rc) uri of None \<Rightarrow> cn_zero | Some nt \<Rightarrow> nt);
          (nt', i) = Subscriber nt
      in (rc\<lparr>rc_updatedNotifiers := mput uri nt' (rc_updatedNotifiers rc)\<rparr>, i))"

subsection \<open>The resources capability\<close>

definition to_wire_resource :: "Resource \<Rightarrow> McpResource" where
  "to_wire_resource r = \<lparr>r_URI = rs_URI r, r_Name = rs_Name r, r_Description = rs_Desc r, r_MimeType = rs_MimeType r\<rparr>"

definition to_wire_template :: "ResourceTemplate \<Rightarrow> McpResourceTemplate" where
  "to_wire_template t = \<lparr>rt_URITemplate = rtp_URITemplate t, rt_Name = rtp_Name t, rt_Description = rtp_Desc t,
     rt_MimeType = rtp_MimeType t\<rparr>"

definition map_page :: "('a \<Rightarrow> 'b) \<Rightarrow> 'a Page \<Rightarrow> 'b Page" where
  "map_page f p = \<lparr>pg_Items = map f (pg_Items p), pg_NextCursor = pg_NextCursor p\<rparr>"

definition ListResources :: "ResourcesContainer \<Rightarrow> string option \<Rightarrow> McpResource Page option" where
  "ListResources rc cursor = map_option (map_page to_wire_resource) (page_or_empty cursor (rc_pageSize rc) (rc_resources rc))"

definition ListResourceTemplates :: "ResourcesContainer \<Rightarrow> string option \<Rightarrow> McpResourceTemplate Page option" where
  "ListResourceTemplates rc cursor =
     map_option (map_page to_wire_template) (page_or_empty cursor (rc_pageSize rc) (rc_templates rc))"

definition b64_char :: "nat \<Rightarrow> char" where
  "b64_char n = ''ABCDEFGHIJKLMNOPQRSTUVWXYZabcdefghijklmnopqrstuvwxyz0123456789+/'' ! n"

fun base64 :: "string \<Rightarrow> string" where
  "base64 [] = []"
| "base64 [a] = (let x = of_char a in [b64_char (x div 4), b64_char (x mod 4 * 16), CHR ''='', CHR ''=''])"
| "base64 [a, b] = (let x = of_char a; y = of_char b in
     [b64_char (x div 4), b64_char (x mod 4 * 16 + y div 16), b64_char (y mod 16 * 4), CHR ''=''])"
| "base64 (a # b # c # r) = (let x = of_char a; y = of_char b; z = of_char c in
     [b64_char (x div 4), b64_char (x mod 4 * 16 + y div 16), b64_char (y mod 16 * 4 + z div 64), b64_char (z mod 64)] @ base64 r)"

definition variantToWire :: "string \<Rightarrow> ContentVariant \<Rightarrow> string \<Rightarrow> ResourceContents" where
  "variantToWire uri v mimeDefault =
     (let mime = (if cv_MimeType v = [] then mimeDefault else cv_MimeType v) in
      if cv_Text v \<noteq> [] then \<lparr>rct_URI = uri, rct_MimeType = mime, rct_Text = cv_Text v, rct_Blob = []\<rparr>
      else if cv_Blob v \<noteq> [] then \<lparr>rct_URI = uri, rct_MimeType = mime, rct_Text = [], rct_Blob = base64 (cv_Blob v)\<rparr>
      else \<lparr>rct_URI = uri, rct_MimeType = mime, rct_Text = [], rct_Blob = []\<rparr>)"

definition ReadResource_at :: "string \<Rightarrow> ResourcesContainer \<Rightarrow> ResourcesContainer \<Rightarrow> (go_error + ResourceContents list) option" where
  "ReadResource_at uri rc rc' = Option.bind (rc_Read uri rc) (\<lambda>found. case found of
       None \<Rightarrow> Some (Inl (ErrText (''resource not found: '' @ uri)))
     | Some vs \<Rightarrow>
         (let idx = (case mget (rc_uriSet rc') uri of None \<Rightarrow> 0 | Some i \<Rightarrow> i) in
          if idx < length (rc_resources rc')
          then Some (Inr (map (\<lambda>v. variantToWire uri v (rs_MimeType (rc_resources rc' ! idx))) vs))
          else None))"

definition ReadResource :: "string \<Rightarrow> ResourcesContainer \<Rightarrow> (go_error + ResourceContents list) option" where
  "ReadResource uri rc = ReadResource_at uri rc rc"

subsection \<open>The index agrees with the slice\<close>

definition uri_index_ok :: "Resource list \<Rightarrow> (string, nat) gomap \<Rightarrow> bool" where
  "uri_index_ok res m \<longleftrightarrow> (\<forall>uri idx. mget m uri = Some idx \<longleftrightarrow> idx < length res \<and> rs_URI (res ! idx) = uri)"

definition rc_inv :: "ResourcesContainer \<Rightarrow> bool" where
  "rc_inv rc \<longleftrightarrow> uri_index_ok (rc_resources rc) (rc_uriSet rc) \<and> 0 < rc_pageSize rc \<and>
     (\<forall>uri nt. mget (rc_updatedNotifiers rc) uri = Some nt \<longrightarrow> cn_inv (Running nt []))"

lemma uri_index_distinct:
  assumes "uri_index_ok res m"
  shows "distinct (map rs_URI res)"
proof -
  have "i = j" if "i < length res" "j < length res" "rs_URI (res ! i) = rs_URI (res ! j)" for i j
  proof -
    have "mget m (rs_URI (res ! i)) = Some i" "mget m (rs_URI (res ! i)) = Some j"
      using assms that by (simp_all add: uri_index_ok_def)
    then show ?thesis by simp
  qed
  then show ?thesis by (auto simp: distinct_conv_nth)
qed

lemma uri_index_append:
  assumes ok: "uri_index_ok res m" and new: "mget m (rs_URI r) = None"
  shows "uri_index_ok (res @ [r]) (mput (rs_URI r) (length res) m)"
proof -
  have "rs_URI (res ! i) \<noteq> rs_URI r" if "i < length res" for i
    using ok new that unfolding uri_index_ok_def by (metis option.distinct(1))
  with ok show ?thesis
    by (auto simp: uri_index_ok_def nth_append less_Suc_eq)
qed

lemma uri_index_update:
  "uri_index_ok res m \<Longrightarrow> mget m (rs_URI r) = Some idx \<Longrightarrow> uri_index_ok (res[idx := r]) m"
  by (auto simp: uri_index_ok_def nth_upd)

lemma uri_index_remove:
  assumes ok: "uri_index_ok res m" and idx: "mget m uri = Some idx"
  defines "l \<equiv> length res - 1"
  shows "uri_index_ok (take l (res[idx := res ! l])) (mdel uri (mput (rs_URI (res[idx := res ! l] ! idx)) idx m))"
proof -
  have i: "idx < length res" "rs_URI (res ! idx) = uri"
    using ok idx by (auto simp: uri_index_ok_def)
  then have l: "l < length res" "idx \<le> l" by (auto simp: l_def)
  have inj: "\<And>a b. a < length res \<Longrightarrow> b < length res \<Longrightarrow> rs_URI (res ! a) = rs_URI (res ! b) \<Longrightarrow> a = b"
    using uri_index_distinct [OF ok] by (auto simp: distinct_conv_nth)
  have iff: "mget m u = Some k \<longleftrightarrow> k < length res \<and> rs_URI (res ! k) = u" for u k
    using ok by (simp add: uri_index_ok_def)
  have nth: "take l (res[idx := res ! l]) ! k = (if k = idx then res ! l else res ! k)" if "k < l" for k
    using that l by (simp add: nth_upd)
  have len: "length (take l (res[idx := res ! l])) = l" "length res = Suc l"
    using l by (auto simp: l_def)
  have new: "rs_URI (res[idx := res ! l] ! idx) = rs_URI (res ! l)"
    using i by simp
  show ?thesis
    unfolding uri_index_ok_def
  proof (intro allI)
    fix u k
    show "mget (mdel uri (mput (rs_URI (res[idx := res ! l] ! idx)) idx m)) u = Some k \<longleftrightarrow>
      k < length (take l (res[idx := res ! l])) \<and> rs_URI (take l (res[idx := res ! l]) ! k) = u"
      using inj [of k l] inj [of k idx] inj [of l idx] i l iff [of u k] nth [of k] len new
      by (auto simp: less_Suc_eq nth_upd)
  qed
qed

lemma index_uris_spec:
  assumes "distinct (map rs_URI rs)"
  shows "mget (index_uris n rs m) u = Some k \<longleftrightarrow>
    (\<exists>i < length rs. rs_URI (rs ! i) = u \<and> k = n + i) \<or> (u \<notin> rs_URI ` set rs \<and> mget m u = Some k)"
  using assms
proof (induction rs arbitrary: n m)
  case (Cons r rs)
  then have "mget (index_uris n (r # rs) m) u = Some k \<longleftrightarrow>
    (\<exists>i < length rs. rs_URI (rs ! i) = u \<and> k = Suc n + i) \<or>
    (u \<notin> rs_URI ` set rs \<and> mget (mput (rs_URI r) n m) u = Some k)"
    by simp
  also have "\<dots> \<longleftrightarrow> (\<exists>i < length (r # rs). rs_URI ((r # rs) ! i) = u \<and> k = n + i) \<or>
    (u \<notin> rs_URI ` set (r # rs) \<and> mget m u = Some k)"
    using Cons.prems by (auto simp: Ex_less_Suc2)
  finally show ?case .
qed simp

lemma uri_index_replace: "distinct (map rs_URI rs) \<Longrightarrow> uri_index_ok rs (index_uris 0 rs [])"
  by (auto simp: uri_index_ok_def index_uris_spec)


subsection \<open>Sequences of operations\<close>

text \<open>\<open>ReplaceResources\<close> is assumed to be given different URIs; see \<open>duplicate_uris_break_index\<close>.\<close>

inductive rc_reach :: "ResourcesContainer \<Rightarrow> bool" where
  new: "\<forall>opt \<in> set opts. \<exists>n. opt = WithPageSize n \<Longrightarrow> rc_reach (NewResourcesContainer opts)"
| page_size: "rc_reach rc \<Longrightarrow> rc_reach (rc_SetPageSize n rc)"
| add: "rc_reach rc \<Longrightarrow> rc_reach (fst (AddResource r rc))"
| upsert: "rc_reach rc \<Longrightarrow> UpsertResource r rc = Some (rc', b) \<Longrightarrow> rc_reach rc'"
| remove: "rc_reach rc \<Longrightarrow> RemoveResource uri rc = Some (rc', b) \<Longrightarrow> rc_reach rc'"
| replace: "rc_reach rc \<Longrightarrow> distinct (map rs_URI (filter (\<lambda>r. rs_URI r \<noteq> []) rs)) \<Longrightarrow>
    ReplaceResources rs rc = Some (rc', us) \<Longrightarrow> rc_reach rc'"
| add_template: "rc_reach rc \<Longrightarrow> rc_reach (fst (AddTemplate t rc))"
| remove_template: "rc_reach rc \<Longrightarrow> rc_reach (fst (RemoveTemplate u rc))"
| replace_templates: "rc_reach rc \<Longrightarrow> rc_reach (ReplaceTemplates ts rc)"
| list_chan: "rc_reach rc \<Longrightarrow> rc_reach (fst (ListChangedChan rc))"
| updated_chan: "rc_reach rc \<Longrightarrow> rc_reach (fst (UpdatedChan uri rc))"
| notify_runs: "rc_reach rc \<Longrightarrow> rc_pending rc = Suc n \<Longrightarrow> Notify (rc_notifier rc) = Some cn \<Longrightarrow>
    rc_reach (rc\<lparr>rc_notifier := cn, rc_pending := n\<rparr>)"

lemma markUpdated_inv:
  assumes "rc_inv rc"
  shows "\<exists>rc'. markUpdated uri rc = Some rc' \<and> rc_inv rc' \<and> rc_resources rc' = rc_resources rc \<and> rc_uriSet rc' = rc_uriSet rc"
proof (cases "mget (rc_updatedNotifiers rc) uri")
  case (Some nt)
  then have "cn_inv (Running nt [])"
    using assms by (simp add: rc_inv_def)
  with Some assms show ?thesis
    using notify_spec [of nt "[]"] by (auto simp: markUpdated_def rc_inv_def)
qed (use assms in \<open>simp add: markUpdated_def\<close>)

lemma spawn_inv [simp]: "rc_inv (spawn_notify rc) = rc_inv rc"
  by (simp add: spawn_notify_def rc_inv_def)

lemma spawn_fields [simp]: "rc_resources (spawn_notify rc) = rc_resources rc" "rc_uriSet (spawn_notify rc) = rc_uriSet rc"
  "rc_pageSize (spawn_notify rc) = rc_pageSize rc" "rc_updatedNotifiers (spawn_notify rc) = rc_updatedNotifiers rc"
  by (simp_all add: spawn_notify_def)

lemma mark_all_inv:
  "rc_inv rc \<Longrightarrow> \<exists>rc'. mark_all rs rc = Some rc' \<and> rc_inv rc' \<and> rc_resources rc' = rc_resources rc \<and> rc_uriSet rc' = rc_uriSet rc"
proof (induction rs arbitrary: rc)
  case (Cons r rs)
  obtain rc1 where m: "(if rs_Variants r \<noteq> [] then markUpdated (rs_URI r) rc else Some rc) = Some rc1" and i: "rc_inv rc1"
    "rc_resources rc1 = rc_resources rc" "rc_uriSet rc1 = rc_uriSet rc"
    using markUpdated_inv [OF Cons.prems, of "rs_URI r"] Cons.prems by (cases "rs_Variants r \<noteq> []") auto
  from Cons.IH [OF i(1)] i m show ?case
    by (auto simp del: not_Cons_self)
qed simp

lemma rc_inv_index: "rc_inv rc \<Longrightarrow> mget (rc_uriSet rc) uri = Some idx \<longleftrightarrow>
  idx < length (rc_resources rc) \<and> rs_URI (rc_resources rc ! idx) = uri"
  by (simp add: rc_inv_def uri_index_ok_def)

lemma AddResource_inv: "rc_inv rc \<Longrightarrow> rc_inv (fst (AddResource r rc))"
  using uri_index_append [of "rc_resources rc" "rc_uriSet rc" r]
  by (simp add: AddResource_def rc_inv_def normalizeResource_def spawn_notify_def)

lemma UpsertResource_inv:
  assumes "rc_inv rc"
  shows "\<exists>rc' b. UpsertResource r rc = Some (rc', b) \<and> rc_inv rc'"
proof (cases "rs_URI r = []")
  case True
  with assms show ?thesis by (intro exI [of _ rc] exI [of _ False]) (simp add: UpsertResource_def)
next
  case uri: False
  show ?thesis
  proof (cases "mget (rc_uriSet rc) (rs_URI r)")
    case None
    let ?rc = "spawn_notify (rc\<lparr>rc_resources := rc_resources rc @ [r],
      rc_uriSet := mput (rs_URI r) (length (rc_resources rc)) (rc_uriSet rc)\<rparr>)"
    have "rc_inv ?rc"
      using assms None uri_index_append [of "rc_resources rc" "rc_uriSet rc" r] by (simp add: rc_inv_def)
    with None uri show ?thesis
      using markUpdated_inv [of ?rc "rs_URI r"] by (auto simp: UpsertResource_def normalizeResource_def Let_def)
  next
    case (Some idx)
    let ?rc = "rc\<lparr>rc_resources := (rc_resources rc)[idx := r]\<rparr>"
    have i: "idx < length (rc_resources rc)"
      using assms Some by (simp add: rc_inv_index)
    have inv: "rc_inv ?rc"
      using assms Some uri_index_update [of "rc_resources rc" "rc_uriSet rc" r idx] by (simp add: rc_inv_def)
    then have "rc_inv (spawn_notify ?rc)" by simp
    with inv Some uri i show ?thesis
      using markUpdated_inv [of ?rc "rs_URI r"] markUpdated_inv [of "spawn_notify ?rc" "rs_URI r"]
      by (auto simp: UpsertResource_def normalizeResource_def Let_def)
  qed
qed

lemma RemoveResource_inv:
  assumes "rc_inv rc"
  shows "\<exists>rc' b. RemoveResource uri rc = Some (rc', b) \<and> rc_inv rc'"
proof (cases "mget (rc_uriSet rc) uri")
  case (Some idx)
  then have "idx < length (rc_resources rc)"
    using assms by (simp add: rc_inv_index)
  moreover have "uri_index_ok (rc_resources rc) (rc_uriSet rc)"
    using assms by (simp add: rc_inv_def)
  note uri_index_remove [OF this Some]
  ultimately show ?thesis
    using assms Some by (auto simp: RemoveResource_def Let_def rc_inv_def spawn_notify_def)
qed (use assms in \<open>auto simp: RemoveResource_def\<close>)

lemma foldl_mdel: "mget (foldl (\<lambda>m u. mdel u m) m us) k = (if k \<in> set us then None else mget m k)"
  by (induction us arbitrary: m) auto

lemma ReplaceResources_inv:
  assumes "rc_inv rc" and "distinct (map rs_URI (filter (\<lambda>r. rs_URI r \<noteq> []) rs))"
  shows "\<exists>rc' us. ReplaceResources rs rc = Some (rc', us) \<and> rc_inv rc'"
proof -
  let ?nr = "filter (\<lambda>r. rs_URI r \<noteq> []) rs"
  have "rc_inv (rc\<lparr>rc_resources := ?nr, rc_uriSet := index_uris 0 ?nr [], rc_updatedNotifiers :=
      foldl (\<lambda>m uri. mdel uri m) (rc_updatedNotifiers rc) us\<rparr>)" for us
    using assms uri_index_replace [OF assms(2)] by (auto simp: rc_inv_def foldl_mdel)
  then have inv: "rc_inv (spawn_notify (rc\<lparr>rc_resources := ?nr, rc_uriSet := index_uris 0 ?nr [], rc_updatedNotifiers :=
      foldl (\<lambda>m uri. mdel uri m) (rc_updatedNotifiers rc) us\<rparr>))" for us
    by simp
  define us where "us = filter (\<lambda>uri. mget (index_uris 0 ?nr []) uri = None) (mkeys (rc_uriSet rc))"
  obtain rc' where "mark_all ?nr (spawn_notify (rc\<lparr>rc_resources := ?nr, rc_uriSet := index_uris 0 ?nr [],
      rc_updatedNotifiers := foldl (\<lambda>m uri. mdel uri m) (rc_updatedNotifiers rc) us\<rparr>)) = Some rc'" "rc_inv rc'"
    using mark_all_inv [OF inv, of ?nr us] by blast
  then have "ReplaceResources rs rc = Some (rc', us)"
    unfolding ReplaceResources_def normalizeResource_def Let_def us_def by (simp add: map_idI)
  with \<open>rc_inv rc'\<close> show ?thesis by blast
qed

lemma Subscriber_inv: "cn_inv (Running nt []) \<Longrightarrow> cn_inv (Running (fst (Subscriber nt)) [])"
  using cn_step_inv [OF cn_step.subscribe [of nt "fst (Subscriber nt)" "snd (Subscriber nt)" "[]"]] by simp

lemma cn_zero_inv: "cn_inv (Running cn_zero [])"
  by (simp add: cn_inv_def cn_zero_def)

lemma UpdatedChan_inv:
  assumes "rc_inv rc"
  shows "rc_inv (fst (UpdatedChan uri rc))"
proof -
  let ?nt = "case mget (rc_updatedNotifiers rc) uri of None \<Rightarrow> cn_zero | Some nt \<Rightarrow> nt"
  have "cn_inv (Running ?nt [])"
    using assms cn_zero_inv by (auto simp: rc_inv_def split: option.split)
  from Subscriber_inv [OF this] assms show ?thesis
    by (auto simp: UpdatedChan_def Let_def rc_inv_def case_prod_beta)
qed

lemma page_size_opts: "\<forall>opt \<in> set opts. \<exists>n. opt = WithPageSize n \<Longrightarrow> 0 < (k :: int) \<Longrightarrow> 0 < foldl (\<lambda>n opt. opt n) k opts"
proof (induction opts arbitrary: k)
  case (Cons opt opts)
  then obtain n where "opt = WithPageSize n" by auto
  with Cons show ?case by (simp add: WithPageSize_def)
qed simp

lemma rc_reach_inv: "rc_reach rc \<Longrightarrow> rc_inv rc"
proof (induction rule: rc_reach.induct)
  case (new opts)
  then show ?case
    using page_size_opts [of opts 50] by (simp add: rc_inv_def NewResourcesContainer_def uri_index_ok_def)
next
  case (page_size rc n)
  then show ?case by (simp add: rc_SetPageSize_def rc_inv_def)
next
  case (add rc r)
  then show ?case by (simp add: AddResource_inv)
next
  case (upsert rc r rc' b)
  then show ?case using UpsertResource_inv [of rc r] by auto
next
  case (remove rc uri rc' b)
  then show ?case using RemoveResource_inv [of rc uri] by auto
next
  case (replace rc rs rc' us)
  then show ?case using ReplaceResources_inv [of rc rs] by auto
next
  case (updated_chan rc uri)
  then show ?case by (simp add: UpdatedChan_inv)
next
  case (add_template rc t)
  then show ?case by (simp add: AddTemplate_def rc_inv_def spawn_notify_def)
next
  case (remove_template rc u)
  then show ?case by (simp add: RemoveTemplate_def rc_inv_def spawn_notify_def)
next
  case (replace_templates rc ts)
  then show ?case by (simp add: ReplaceTemplates_def rc_inv_def spawn_notify_def)
next
  case (list_chan rc)
  then show ?case by (simp add: ListChangedChan_def Let_def case_prod_beta rc_inv_def)
next
  case (notify_runs rc n cn)
  then show ?case by (simp add: rc_inv_def)
qed


lemma page_or_empty_map:
  assumes "0 < k" and "int (length xs) + k < 2 ^ 63" and "n \<le> length xs" and "parseCursor c = int n"
  shows "map_option (map_page f) (page_or_empty c k xs) = Some \<lparr>pg_Items = take (nat k) (drop n (map f xs)),
    pg_NextCursor = (if n + nat k < length (map f xs) then Some (itoa (n + nat k)) else None)\<rparr>"
  using page_or_empty_at [of "nat k" n xs c] assms by (simp add: map_page_def take_map drop_map)

interpretation res: pager ListResources "\<lambda>rc. map to_wire_resource (rc_resources rc)" "\<lambda>rc. nat (rc_pageSize rc)"
  "\<lambda>rc. 0 < rc_pageSize rc \<and> int (length (rc_resources rc)) + rc_pageSize rc < 2 ^ 63"
  by unfold_locales (auto simp: ListResources_def page_or_empty_map [simplified])

interpretation tpl: pager ListResourceTemplates "\<lambda>rc. map to_wire_template (rc_templates rc)" "\<lambda>rc. nat (rc_pageSize rc)"
  "\<lambda>rc. 0 < rc_pageSize rc \<and> int (length (rc_templates rc)) + rc_pageSize rc < 2 ^ 63"
  by unfold_locales (auto simp: ListResourceTemplates_def page_or_empty_map [simplified])

lemma read_listed:
  assumes "rc_inv rc" and "r \<in> set (rc_resources rc)"
  shows "ReadResource (rs_URI r) rc = Some (Inr (map (\<lambda>v. variantToWire (rs_URI r) v (rs_MimeType r)) (rs_Variants r)))"
proof -
  obtain i where i: "i < length (rc_resources rc)" "rc_resources rc ! i = r"
    using assms(2) by (auto simp: in_set_conv_nth)
  then have "mget (rc_uriSet rc) (rs_URI r) = Some i"
    using rc_inv_index [OF assms(1)] by simp
  with i show ?thesis by (simp add: ReadResource_def ReadResource_at_def rc_Read_def)
qed

lemma index_None_iff: "rc_inv rc \<Longrightarrow> mget (rc_uriSet rc) uri = None \<longleftrightarrow> uri \<notin> rs_URI ` set (rc_resources rc)"
proof -
  assume "rc_inv rc"
  have "mget (rc_uriSet rc) uri = None \<longleftrightarrow> (\<forall>idx. mget (rc_uriSet rc) uri \<noteq> Some idx)"
    by auto
  also have "\<dots> \<longleftrightarrow> (\<forall>idx. \<not> (idx < length (rc_resources rc) \<and> rs_URI (rc_resources rc ! idx) = uri))"
    using rc_inv_index [OF \<open>rc_inv rc\<close>] by simp
  also have "\<dots> \<longleftrightarrow> uri \<notin> rs_URI ` set (rc_resources rc)"
    by (auto simp: set_conv_nth image_iff)
  finally show ?thesis .
qed

lemma swap_delete_set:
  assumes d: "distinct (map rs_URI res)" and i: "idx < length res" and uri: "rs_URI (res ! idx) = uri"
    and l: "length res = Suc l"
  shows "set (take l (res[idx := res ! l])) = {r \<in> set res. rs_URI r \<noteq> uri}"
proof -
  have inj: "a = b" if "a < length res" "b < length res" "rs_URI (res ! a) = rs_URI (res ! b)" for a b
    using d that by (auto simp: distinct_conv_nth)
  have nth: "take l (res[idx := res ! l]) ! k = (if k = idx then res ! l else res ! k)" if "k < l" for k
    using that l by (simp add: nth_upd)
  have len: "length (take l (res[idx := res ! l])) = l" using l by simp
  show ?thesis
  proof (intro set_eqI iffI)
    fix r
    assume "r \<in> set (take l (res[idx := res ! l]))"
    then obtain k where k: "k < l" "r = (if k = idx then res ! l else res ! k)"
      using len nth by (metis in_set_conv_nth)
    then have "r \<in> set res" using l by auto
    moreover have "rs_URI r \<noteq> uri"
      using inj [of l idx] inj [of k idx] k l i uri by (cases "k = idx") auto
    ultimately show "r \<in> {r \<in> set res. rs_URI r \<noteq> uri}" by simp
  next
    fix r
    assume r: "r \<in> {r \<in> set res. rs_URI r \<noteq> uri}"
    then obtain k where k: "k < length res" "res ! k = r" "k \<noteq> idx"
      using uri by (auto simp: in_set_conv_nth)
    have "\<exists>j < l. take l (res[idx := res ! l]) ! j = r"
    proof (cases "k = l")
      case True
      with k i l have "idx < l" by simp
      with nth [of idx] k True show ?thesis by auto
    next
      case False
      with k l have "k < l" by simp
      with nth [of k] k show ?thesis by auto
    qed
    then show "r \<in> set (take l (res[idx := res ! l]))"
      using len by (metis in_set_conv_nth)
  qed
qed

text \<open>C38: whatever operations a container went through, with different URIs given to
  \<open>ReplaceResources\<close>, its index agrees with its slice: no operation indexes out of range, every listed
  resource reads back its own variants with its own MIME type as the default, a URI that is not listed
  is reported as not found, and removing a URI removes exactly that resource.\<close>

theorem resources_index_sound:
  assumes "rc_reach rc"
  shows "(\<forall>r \<in> set (rc_resources rc). HasResource (rs_URI r) rc \<and> ReadResource (rs_URI r) rc =
          Some (Inr (map (\<lambda>v. variantToWire (rs_URI r) v (rs_MimeType r)) (rs_Variants r))))
    \<and> (\<forall>uri. uri \<notin> rs_URI ` set (rc_resources rc) \<longrightarrow>
          ReadResource uri rc = Some (Inl (ErrText (''resource not found: '' @ uri))))
    \<and> (\<forall>r. UpsertResource r rc \<noteq> None)
    \<and> (\<forall>uri. \<exists>rc' b. RemoveResource uri rc = Some (rc', b) \<and>
          set (rc_resources rc') = {r \<in> set (rc_resources rc). rs_URI r \<noteq> uri})"
proof (intro conjI ballI allI impI)
  note inv = rc_reach_inv [OF assms]
  show "HasResource (rs_URI r) rc" if "r \<in> set (rc_resources rc)" for r
    using index_None_iff [OF inv, of "rs_URI r"] that by (auto simp: HasResource_def)
  show "ReadResource (rs_URI r) rc = Some (Inr (map (\<lambda>v. variantToWire (rs_URI r) v (rs_MimeType r)) (rs_Variants r)))"
    if "r \<in> set (rc_resources rc)" for r
    using read_listed [OF inv that] .
  show "ReadResource uri rc = Some (Inl (ErrText (''resource not found: '' @ uri)))"
    if "uri \<notin> rs_URI ` set (rc_resources rc)" for uri
    using that index_None_iff [OF inv, of uri] by (simp add: ReadResource_def ReadResource_at_def rc_Read_def)
  show "UpsertResource r rc \<noteq> None" for r
    using UpsertResource_inv [OF inv, of r] by auto
  show "\<exists>rc' b. RemoveResource uri rc = Some (rc', b) \<and>
      set (rc_resources rc') = {r \<in> set (rc_resources rc). rs_URI r \<noteq> uri}" for uri
  proof (cases "mget (rc_uriSet rc) uri")
    case None
    then show ?thesis
      using index_None_iff [OF inv, of uri] by (auto simp: RemoveResource_def)
  next
    case (Some idx)
    let ?res = "rc_resources rc"
    have i: "idx < length ?res" "rs_URI (?res ! idx) = uri"
      using Some rc_inv_index [OF inv] by auto
    then obtain l where l: "length ?res = Suc l"
      by (cases "length ?res") auto
    have "distinct (map rs_URI ?res)"
      using uri_index_distinct inv by (auto simp: rc_inv_def)
    note swap_delete_set [OF this i l]
    moreover have "RemoveResource uri rc = Some (spawn_notify (rc\<lparr>rc_resources := take l (?res[idx := ?res ! l]),
        rc_uriSet := mdel uri (mput (rs_URI (?res[idx := ?res ! l] ! idx)) idx (rc_uriSet rc))\<rparr>), True)"
      using Some i l by (simp add: RemoveResource_def Let_def) auto
    ultimately show ?thesis by auto
  qed
qed


definition wit_rc :: ResourcesContainer where
  "wit_rc = fst (AddResource (TextResource ''b'' ''y'' []) (fst (AddResource (TextResource ''a'' ''x'' [WithMimeType ''text/plain''])
     (NewResourcesContainer [WithPageSize 1]))))"

lemma wit_rc_reach: "rc_reach wit_rc"
  unfolding wit_rc_def by (intro rc_reach.intros) auto

lemmas wit_rc_defs = wit_rc_def NewResourcesContainer_def AddResource_def TextResource_def TextVariant_def WithMimeType_def
  WithPageSize_def normalizeResource_def spawn_notify_def

theorem resources_index_sound_witness:
  "ReadResource ''a'' wit_rc = Some (Inr [\<lparr>rct_URI = ''a'', rct_MimeType = ''text/plain'', rct_Text = ''x'', rct_Blob = []\<rparr>])"
proof -
  let ?r = "TextResource ''a'' ''x'' [WithMimeType ''text/plain'']"
  have "?r \<in> set (rc_resources wit_rc)" by (simp add: wit_rc_defs)
  with resources_index_sound [OF wit_rc_reach] have "ReadResource (rs_URI ?r) wit_rc =
      Some (Inr (map (\<lambda>v. variantToWire (rs_URI ?r) v (rs_MimeType ?r)) (rs_Variants ?r)))" by blast
  then show ?thesis by (simp add: TextResource_def TextVariant_def WithMimeType_def variantToWire_def)
qed

text \<open>Paging through \<open>ListResources\<close> and \<open>ListResourceTemplates\<close> visits every resource and every
  template exactly once and in order.\<close>

theorem resources_walk_complete:
  assumes "rc_reach rc" and "int (length (rc_resources rc)) + rc_pageSize rc < 2 ^ 63"
    and "int (length (rc_templates rc)) + rc_pageSize rc < 2 ^ 63"
  shows "walk (ListResources rc) (Suc (length (rc_resources rc))) None = Some (map to_wire_resource (SnapshotResources rc))
    \<and> walk (ListResourceTemplates rc) (Suc (length (rc_templates rc))) None = Some (map to_wire_template (SnapshotTemplates rc))"
  using res.walk_all [of rc] tpl.walk_all [of rc] rc_reach_inv [OF assms(1)] assms(2,3)
  by (simp add: rc_inv_def SnapshotResources_def SnapshotTemplates_def del: walk.simps)

theorem resources_walk_complete_witness:
  "map_option (map r_URI) (walk (ListResources wit_rc) 3 None) = Some [''a'', ''b'']"
  using resources_walk_complete [OF wit_rc_reach]
  by (simp add: wit_rc_defs SnapshotResources_def to_wire_resource_def eval_nat_numeral del: walk.simps)

text \<open>\<open>ReplaceResources\<close> given one URI twice breaks the index: after a later \<open>RemoveResource\<close> of that
  URI reports success the container still lists the URI, but it can neither be read nor removed.\<close>

theorem duplicate_uris_break_index:
  "\<exists>rc1 us rc2. ReplaceResources [TextResource ''a'' ''x'' [], TextResource ''a'' ''y'' []] (NewResourcesContainer []) = Some (rc1, us)
    \<and> RemoveResource ''a'' rc1 = Some (rc2, True) \<and> map rs_URI (SnapshotResources rc2) = [''a'']
    \<and> ReadResource ''a'' rc2 = Some (Inl (ErrText ''resource not found: a'')) \<and> RemoveResource ''a'' rc2 = Some (rc2, False)"
  by (simp add: ReplaceResources_def RemoveResource_def ReadResource_def ReadResource_at_def rc_Read_def SnapshotResources_def
      markUpdated_def mkeys_def wit_rc_defs)

text \<open>\<open>ReadResource\<close> can index out of range: when the only resource is removed between its two
  look-ups, the second one reads element 0 of an empty slice.\<close>

theorem read_races_with_remove:
  "\<exists>rc rc'. rc_reach rc \<and> RemoveResource ''a'' rc = Some (rc', True) \<and> ReadResource_at ''a'' rc rc' = None"
proof -
  let ?rc = "fst (AddResource (TextResource ''a'' ''x'' []) (NewResourcesContainer []))"
  have "rc_reach ?rc" by (intro rc_reach.intros) auto
  moreover have "\<exists>rc'. RemoveResource ''a'' ?rc = Some (rc', True) \<and> ReadResource_at ''a'' ?rc rc' = None"
    by (simp add: RemoveResource_def ReadResource_at_def rc_Read_def wit_rc_defs)
  ultimately show ?thesis by blast
qed

end
