(* ===== verification/Sessions.thy ===== *)
theory Sessions
  imports JsonRpc
begin

section \<open>Session metadata and the session host contract (sessions)\<close>

text \<open>
  The data model of \<^verbatim>\<open>sessions/metadata.go\<close> and the interface of \<^verbatim>\<open>sessions/host.go\<close>. The
  interface is the record \<open>SessionHost\<close> of operations over a host state \<open>'h\<close>, which the engine's
  definitions take as an argument, and the locale \<open>session_host\<close>, which states what the engine
  relies on. Times and durations are nanoseconds (the zero \<open>time.Time\<close> is 0); \<open>time.Now()\<close> and
  \<open>uuid.NewString()\<close> are arguments of the operations that call them.
\<close>

type_synonym time = int
type_synonym duration = int

record CapabilitySet =
  cs_Roots :: bool
  cs_RootsListChanged :: bool
  cs_Sampling :: bool
  cs_Elicitation :: bool

record MetadataClientInfo =
  ci_Name :: string
  ci_Version :: string
  ci_InstanceID :: string

type_synonym SessionState = string

definition SessionStatePending :: SessionState where
  "SessionStatePending = ''pending''"

definition SessionStateOpen :: SessionState where
  "SessionStateOpen = ''open''"

record SessionMetadata =
  sm_MetaVersion :: int
  sm_SessionID :: string
  sm_UserID :: string
  sm_Issuer :: string
  sm_ClientProtocolVersion :: string
  sm_ServerProtocolVersion :: string
  sm_Client :: MetadataClientInfo
  sm_Capabilities :: CapabilitySet
  sm_State :: SessionState
  sm_CreatedAt :: time
  sm_UpdatedAt :: time
  sm_LastAccess :: time
  sm_TTL :: duration
  sm_MaxLifetime :: duration
  sm_OpenedAt :: time
  sm_Revoked :: bool

text \<open>
  A payload on the internal bus is either the JSON of an engine \<open>fanoutMessage\<close> or bytes that do
  not decode into one.
\<close>

record fanoutMessage =
  fm_SessionID :: string
  fm_UserID :: string
  fm_Msg :: wire

datatype event_bytes = Envelope fanoutMessage | BadEvent

subsection \<open>The host interface\<close>

text \<open>
  \<open>MutateSession\<close> hands its callback a pointer into the host, so the callback returns the changed
  metadata also when it fails. \<open>CreateSession\<close> takes the identifier to use when the metadata has
  none and writes the identifier back into the metadata it was given.
\<close>

record 'h SessionHost =
  PublishSession :: "ctx \<Rightarrow> string \<Rightarrow> wire \<Rightarrow> 'h \<Rightarrow> 'h \<times> (go_error + string)"
  PublishEvent :: "ctx \<Rightarrow> string \<Rightarrow> event_bytes \<Rightarrow> 'h \<Rightarrow> 'h \<times> go_error option"
  CreateSession :: "ctx \<Rightarrow> string \<Rightarrow> SessionMetadata \<Rightarrow> 'h \<Rightarrow> 'h \<times> (go_error + SessionMetadata)"
  GetSession :: "ctx \<Rightarrow> string \<Rightarrow> 'h \<Rightarrow> go_error + SessionMetadata"
  MutateSession :: "ctx \<Rightarrow> time \<Rightarrow> string \<Rightarrow> (SessionMetadata \<Rightarrow> SessionMetadata \<times> go_error option)
    \<Rightarrow> 'h \<Rightarrow> 'h \<times> go_error option"
  TouchSession :: "ctx \<Rightarrow> time \<Rightarrow> string \<Rightarrow> 'h \<Rightarrow> 'h \<times> go_error option"
  DeleteSession :: "ctx \<Rightarrow> string \<Rightarrow> 'h \<Rightarrow> 'h \<times> go_error option"
  PutSessionData :: "ctx \<Rightarrow> string \<Rightarrow> string \<Rightarrow> string \<Rightarrow> 'h \<Rightarrow> 'h \<times> go_error option"
  GetSessionData :: "ctx \<Rightarrow> string \<Rightarrow> string \<Rightarrow> 'h \<Rightarrow> go_error + string option"
  DeleteSessionData :: "ctx \<Rightarrow> string \<Rightarrow> string \<Rightarrow> 'h \<Rightarrow> 'h \<times> go_error option"

subsection \<open>What the engine relies on\<close>

text \<open>
  A host has an abstract view: the metadata of each session, its key-value data and the messages
  published to its stream. The laws say how each operation with a live context acts on the view;
  an operation on one session leaves the others alone, and publishing leaves the metadata alone.
\<close>

definition touch_meta :: "time \<Rightarrow> SessionMetadata \<Rightarrow> SessionMetadata" where
  "touch_meta now m = m\<lparr>sm_LastAccess := now, sm_UpdatedAt := now\<rparr>"

locale session_host =
  fixes ops :: "'h SessionHost"
    and invar :: "'h \<Rightarrow> bool"
    and metas :: "'h \<Rightarrow> string \<Rightarrow> SessionMetadata option"
    and data :: "'h \<Rightarrow> string \<Rightarrow> string \<Rightarrow> string option"
    and stream :: "'h \<Rightarrow> string \<Rightarrow> wire list"
  assumes get_live: "GetSession ops None sid h =
      (case metas h sid of None \<Rightarrow> Inl ErrSessionNotFound | Some m \<Rightarrow> Inr m)"
    and get_cancelled: "GetSession ops (Some e) sid h = Inl e"
    and create_fresh: "invar h \<Longrightarrow> sm_SessionID m \<noteq> [] \<Longrightarrow> metas h (sm_SessionID m) = None \<Longrightarrow>
      CreateSession ops None u m h = (h', rc) \<Longrightarrow>
      rc = Inr m \<and> metas h' = (metas h)(sm_SessionID m \<mapsto> m) \<and> data h' = data h \<and> stream h' = stream h"
    and create_taken: "invar h \<Longrightarrow> sm_SessionID m \<noteq> [] \<Longrightarrow> metas h (sm_SessionID m) \<noteq> None \<Longrightarrow>
      CreateSession ops None u m h = (h', rc) \<Longrightarrow> (\<exists>e. rc = Inl e) \<and> h' = h"
    and create_cancelled: "CreateSession ops (Some e) u m h = (h, Inl e)"
    and mutate_live: "invar h \<Longrightarrow> metas h sid = Some m \<Longrightarrow> fn m = (m', None) \<Longrightarrow>
      MutateSession ops None now sid fn h = (h', r) \<Longrightarrow>
      r = None \<and> metas h' = (metas h)(sid \<mapsto> m'\<lparr>sm_UpdatedAt := now\<rparr>)
      \<and> data h' = data h \<and> stream h' = stream h"
    and mutate_missing: "metas h sid = None \<Longrightarrow>
      MutateSession ops None now sid fn h = (h, Some ErrSessionNotFound)"
    and mutate_cancelled: "MutateSession ops (Some e) now sid fn h = (h, Some e)"
    and touch_live: "invar h \<Longrightarrow> metas h sid = Some m \<Longrightarrow> TouchSession ops None now sid h = (h', r) \<Longrightarrow>
      r = None \<and> metas h' = (metas h)(sid \<mapsto> touch_meta now m) \<and> data h' = data h \<and> stream h' = stream h"
    and touch_cancelled: "TouchSession ops (Some e) now sid h = (h, Some e)"
    and delete_live: "invar h \<Longrightarrow> DeleteSession ops None sid h = (h', r) \<Longrightarrow>
      r = None \<and> metas h' = (metas h)(sid := None) \<and> data h' = (data h)(sid := (\<lambda>_. None))
      \<and> stream h' = (stream h)(sid := [])"
    and delete_cancelled: "DeleteSession ops (Some e) sid h = (h, Some e)"
    and publish_live: "invar h \<Longrightarrow> PublishSession ops None sid w h = (h', rp) \<Longrightarrow>
      (\<exists>i. rp = Inr i) \<and> stream h' = (stream h)(sid := stream h sid @ [w]) \<and> metas h' = metas h
      \<and> data h' = data h"
    and publish_cancelled: "PublishSession ops (Some e) sid w h = (h, Inl e)"
    and event_live: "PublishEvent ops None t ev h = (h', r) \<Longrightarrow>
      r = None \<and> metas h' = metas h \<and> data h' = data h \<and> stream h' = stream h"
    and event_cancelled: "PublishEvent ops (Some e) t ev h = (h, Some e)"
    and put_live: "PutSessionData ops None sid k v h = (h', r) \<Longrightarrow>
      r = None \<and> data h' = (data h)(sid := (data h sid)(k \<mapsto> v)) \<and> metas h' = metas h \<and> stream h' = stream h"
    and get_data_live: "GetSessionData ops None sid k h = Inr (data h sid k)"
    and delete_data_live: "DeleteSessionData ops None sid k h = (h', r) \<Longrightarrow>
      r = None \<and> data h' = (data h)(sid := (data h sid)(k := None)) \<and> metas h' = metas h \<and> stream h' = stream h"
    and invar_create: "invar h \<Longrightarrow> invar (fst (CreateSession ops c u m h))"
    and invar_mutate: "invar h \<Longrightarrow> invar (fst (MutateSession ops c now sid fn h))"
    and invar_touch: "invar h \<Longrightarrow> invar (fst (TouchSession ops c now sid h))"
    and invar_delete: "invar h \<Longrightarrow> invar (fst (DeleteSession ops c sid h))"
    and invar_publish: "invar h \<Longrightarrow> invar (fst (PublishSession ops c sid w h))"
    and invar_event: "invar h \<Longrightarrow> invar (fst (PublishEvent ops c t ev h))"
    and invar_put: "invar h \<Longrightarrow> invar (fst (PutSessionData ops c sid k v h))"
    and invar_delete_data: "invar h \<Longrightarrow> invar (fst (DeleteSessionData ops c sid k h))"

end
