(* ===== verification/Server.thy ===== *)
theory Server
  imports Resources Sessions
begin

section \<open>Session handles and server capabilities (engine/session\_handle.go, mcpservice)\<close>

text \<open>
  \<open>SessionHandle\<close> is the engine's view of one session. The application plugs into the engine through
  the interfaces of \<^verbatim>\<open>mcpservice/capabilities.go\<close>: each is a record of functions here, and \<open>ServerCaps\<close>
  is the one the engine asks. A getter's \<open>(cap, ok, err)\<close> is \<open>Inl err\<close>, \<open>Inr None\<close> (not ok),
  \<open>Inr (Some None)\<close> (ok with a nil capability) or \<open>Inr (Some (Some cap))\<close>. The application's functions
  are arguments of the model; the effects a tool has on the server while it runs are separate steps.
\<close>

record SessionHandle =
  sh_sessionID :: string
  sh_userID :: string
  sh_clientProtocolVersion :: string
  sh_serverProtocolVersion :: string
  sh_state :: SessionState
  sh_logLevel :: string
  sh_samplingCap :: bool
  sh_rootsCap :: bool
  sh_elicitationCap :: bool

type_synonym SessionHandleOption = "SessionHandle \<Rightarrow> SessionHandle"

definition NewSessionHandle :: "SessionMetadata \<Rightarrow> SessionHandleOption list \<Rightarrow> SessionHandle" where
  "NewSessionHandle m opts = foldl (\<lambda>s opt. opt s)
     \<lparr>sh_sessionID = sm_SessionID m, sh_userID = sm_UserID m, sh_clientProtocolVersion = sm_ClientProtocolVersion m,
      sh_serverProtocolVersion = sm_ServerProtocolVersion m, sh_state = sm_State m, sh_logLevel = LoggingLevelInfo,
      sh_samplingCap = False, sh_rootsCap = False, sh_elicitationCap = False\<rparr> opts"

definition WithSamplingCapability :: SessionHandleOption where
  "WithSamplingCapability s = s\<lparr>sh_samplingCap := True\<rparr>"

definition WithRootsCapability :: SessionHandleOption where
  "WithRootsCapability s = s\<lparr>sh_rootsCap := True\<rparr>"

definition WithElicitationCapability :: SessionHandleOption where
  "WithElicitationCapability s = s\<lparr>sh_elicitationCap := True\<rparr>"

definition PutData :: "'h SessionHost \<Rightarrow> SessionHandle \<Rightarrow> ctx \<Rightarrow> string \<Rightarrow> string \<Rightarrow> 'h \<Rightarrow> 'h \<times> go_error option" where
  "PutData ops s c key v h = PutSessionData ops c (sh_sessionID s) key v h"

definition GetData :: "'h SessionHost \<Rightarrow> SessionHandle \<Rightarrow> ctx \<Rightarrow> string \<Rightarrow> 'h \<Rightarrow> go_error + string option" where
  "GetData ops s c key h = GetSessionData ops c (sh_sessionID s) key h"

definition DeleteData :: "'h SessionHost \<Rightarrow> SessionHandle \<Rightarrow> ctx \<Rightarrow> string \<Rightarrow> 'h \<Rightarrow> 'h \<times> go_error option" where
  "DeleteData ops s c key h = DeleteSessionData ops c (sh_sessionID s) key h"

subsection \<open>Capability interfaces\<close>

type_synonym 'c got = "go_error + 'c option option"

record ToolsCapability =
  tcap_ListTools :: "ctx \<Rightarrow> SessionHandle \<Rightarrow> string option \<Rightarrow> go_error + Tool Page"
  tcap_CallTool :: "ctx \<Rightarrow> SessionHandle \<Rightarrow> CallToolRequestReceived \<Rightarrow> go_error + CallToolResult option"
  tcap_ListChanged :: "ctx \<Rightarrow> SessionHandle \<Rightarrow> unit got"

record ResourceSubscriptionCapability =
  scap_Subscribe :: "ctx \<Rightarrow> SessionHandle \<Rightarrow> string \<Rightarrow> go_error + bool"  \<comment> \<open>\<open>Inr False\<close>: a nil cancel function\<close>

record ResourcesCapability =
  rcap_ListResources :: "ctx \<Rightarrow> SessionHandle \<Rightarrow> string option \<Rightarrow> go_error + McpResource Page"
  rcap_ListResourceTemplates :: "ctx \<Rightarrow> SessionHandle \<Rightarrow> string option \<Rightarrow> go_error + McpResourceTemplate Page"
  rcap_ReadResource :: "ctx \<Rightarrow> SessionHandle \<Rightarrow> string \<Rightarrow> go_error + ResourceContents list"
  rcap_Subscription :: "ctx \<Rightarrow> SessionHandle \<Rightarrow> ResourceSubscriptionCapability got"
  rcap_ListChanged :: "ctx \<Rightarrow> SessionHandle \<Rightarrow> unit got"
  rcap_isEventSource :: bool  \<comment> \<open>implements the engine's \<open>resourceEventSource\<close>\<close>

record PromptsCapability =
  pcap_ListPrompts :: "ctx \<Rightarrow> SessionHandle \<Rightarrow> string option \<Rightarrow> go_error + Prompt Page"
  pcap_GetPrompt :: "ctx \<Rightarrow> SessionHandle \<Rightarrow> GetPromptRequestReceived \<Rightarrow> go_error + GetPromptResult option"
  pcap_ListChanged :: "ctx \<Rightarrow> SessionHandle \<Rightarrow> unit got"

record LoggingCapability =
  lcap_SetLevel :: "ctx \<Rightarrow> SessionHandle \<Rightarrow> string \<Rightarrow> go_error option"

text \<open>The completion result is the application's, given by its document; the request is handed over as
  received.\<close>

record CompletionsCapability =
  ccap_Complete :: "ctx \<Rightarrow> SessionHandle \<Rightarrow> json \<Rightarrow> go_error + json"

record ServerCaps =
  srv_GetServerInfo :: "ctx \<Rightarrow> SessionHandle \<Rightarrow> go_error + ImplementationInfo"
  srv_GetPreferredProtocolVersion :: "ctx \<Rightarrow> string \<Rightarrow> go_error + string option"
  srv_GetInstructions :: "ctx \<Rightarrow> SessionHandle \<Rightarrow> go_error + string option"
  srv_GetResourcesCapability :: "ctx \<Rightarrow> SessionHandle \<Rightarrow> ResourcesCapability got"
  srv_GetToolsCapability :: "ctx \<Rightarrow> SessionHandle \<Rightarrow> ToolsCapability got"
  srv_GetPromptsCapability :: "ctx \<Rightarrow> SessionHandle \<Rightarrow> PromptsCapability got"
  srv_GetLoggingCapability :: "ctx \<Rightarrow> SessionHandle \<Rightarrow> LoggingCapability got"
  srv_GetCompletionsCapability :: "ctx \<Rightarrow> SessionHandle \<Rightarrow> CompletionsCapability got"

subsection \<open>The composed server (mcpservice/server.go, providers.go)\<close>

record server =
  s_infoProv :: "(ctx \<Rightarrow> SessionHandle \<Rightarrow> go_error + ImplementationInfo option) option"
  s_protocolProv :: "(ctx \<Rightarrow> string \<Rightarrow> go_error + string option) option"
  s_instructionsProv :: "(ctx \<Rightarrow> SessionHandle \<Rightarrow> go_error + string option) option"
  s_resourcesProv :: "(ctx \<Rightarrow> SessionHandle \<Rightarrow> ResourcesCapability got) option"
  s_toolsProv :: "(ctx \<Rightarrow> SessionHandle \<Rightarrow> ToolsCapability got) option"
  s_promptsProv :: "(ctx \<Rightarrow> SessionHandle \<Rightarrow> PromptsCapability got) option"
  s_loggingProv :: "(ctx \<Rightarrow> SessionHandle \<Rightarrow> LoggingCapability got) option"
  s_completionsProv :: "(ctx \<Rightarrow> SessionHandle \<Rightarrow> CompletionsCapability got) option"

type_synonym ServerOption = "server \<Rightarrow> server"

definition server_zero :: server where
  "server_zero = \<lparr>s_infoProv = None, s_protocolProv = None, s_instructionsProv = None, s_resourcesProv = None,
     s_toolsProv = None, s_promptsProv = None, s_loggingProv = None, s_completionsProv = None\<rparr>"

definition WithServerInfo :: "(ctx \<Rightarrow> SessionHandle \<Rightarrow> go_error + ImplementationInfo option) \<Rightarrow> ServerOption" where
  "WithServerInfo p s = s\<lparr>s_infoProv := Some p\<rparr>"

definition WithProtocolVersion :: "(ctx \<Rightarrow> string \<Rightarrow> go_error + string option) \<Rightarrow> ServerOption" where
  "WithProtocolVersion p s = s\<lparr>s_protocolProv := Some p\<rparr>"

definition WithInstructions :: "(ctx \<Rightarrow> SessionHandle \<Rightarrow> go_error + string option) \<Rightarrow> ServerOption" where
  "WithInstructions p s = s\<lparr>s_instructionsProv := Some p\<rparr>"

definition WithResourcesCapability :: "(ctx \<Rightarrow> SessionHandle \<Rightarrow> ResourcesCapability got) \<Rightarrow> ServerOption" where
  "WithResourcesCapability p s = s\<lparr>s_resourcesProv := Some p\<rparr>"

definition WithToolsCapability :: "(ctx \<Rightarrow> SessionHandle \<Rightarrow> ToolsCapability got) \<Rightarrow> ServerOption" where
  "WithToolsCapability p s = s\<lparr>s_toolsProv := Some p\<rparr>"

definition WithPromptsCapability :: "(ctx \<Rightarrow> SessionHandle \<Rightarrow> PromptsCapability got) \<Rightarrow> ServerOption" where
  "WithPromptsCapability p s = s\<lparr>s_promptsProv := Some p\<rparr>"

definition WithLoggingCapability :: "(ctx \<Rightarrow> SessionHandle \<Rightarrow> LoggingCapability got) \<Rightarrow> ServerOption" where
  "WithLoggingCapability p s = s\<lparr>s_loggingProv := Some p\<rparr>"

definition WithCompletionsCapability :: "(ctx \<Rightarrow> SessionHandle \<Rightarrow> CompletionsCapability got) \<Rightarrow> ServerOption" where
  "WithCompletionsCapability p s = s\<lparr>s_completionsProv := Some p\<rparr>"

definition provide :: "(ctx \<Rightarrow> 'a \<Rightarrow> go_error + 'c option) option \<Rightarrow> ctx \<Rightarrow> 'a \<Rightarrow> go_error + 'c option" where
  "provide prov c x = (case prov of None \<Rightarrow> Inr None | Some p \<Rightarrow> p c x)"

definition GetServerInfo :: "server \<Rightarrow> ctx \<Rightarrow> SessionHandle \<Rightarrow> go_error + ImplementationInfo" where
  "GetServerInfo s c sess = (case s_infoProv s of
       None \<Rightarrow> Inr ii_zero
     | Some p \<Rightarrow> (case p c sess of Inl e \<Rightarrow> Inl e | Inr None \<Rightarrow> Inr ii_zero | Inr (Some info) \<Rightarrow> Inr info))"

definition NewServer :: "ServerOption list \<Rightarrow> ServerCaps" where
  "NewServer opts = (let s = foldl (\<lambda>s opt. opt s) server_zero opts in
     \<lparr>srv_GetServerInfo = GetServerInfo s,
      srv_GetPreferredProtocolVersion = provide (s_protocolProv s),
      srv_GetInstructions = provide (s_instructionsProv s),
      srv_GetResourcesCapability = provide (s_resourcesProv s),
      srv_GetToolsCapability = provide (s_toolsProv s),
      srv_GetPromptsCapability = provide (s_promptsProv s),
      srv_GetLoggingCapability = provide (s_loggingProv s),
      srv_GetCompletionsCapability = provide (s_completionsProv s)\<rparr>)"

definition StaticServerInfo :: "string \<Rightarrow> string \<Rightarrow> (ImplementationInfo \<Rightarrow> ImplementationInfo) list \<Rightarrow>
    ctx \<Rightarrow> SessionHandle \<Rightarrow> go_error + ImplementationInfo option" where
  "StaticServerInfo name version opts = (\<lambda>c s. Inr (Some (foldl (\<lambda>i opt. opt i)
     \<lparr>ii_Name = name, ii_Version = version, ii_Title = []\<rparr> opts)))"

definition WithServerInfoTitle :: "string \<Rightarrow> ImplementationInfo \<Rightarrow> ImplementationInfo" where
  "WithServerInfoTitle title info = info\<lparr>ii_Title := title\<rparr>"

definition StaticProtocolVersion :: "string \<Rightarrow> ctx \<Rightarrow> string \<Rightarrow> go_error + string option" where
  "StaticProtocolVersion v = (\<lambda>c client.
     if v = [] then Inr None
     else if \<not> IsSupportedProtocolVersion v then Inl (ErrText (''unsupported protocol version '' @ v))
     else Inr (Some v))"

definition StaticInstructions :: "string \<Rightarrow> ctx \<Rightarrow> SessionHandle \<Rightarrow> go_error + string option" where
  "StaticInstructions t = (\<lambda>c s. Inr (if t \<noteq> [] then Some t else None))"

definition StaticCap :: "'c option \<Rightarrow> ctx \<Rightarrow> SessionHandle \<Rightarrow> 'c got" where
  "StaticCap cap = (\<lambda>c s. Inr (case cap of None \<Rightarrow> None | Some x \<Rightarrow> Some (Some x)))"

subsection \<open>Static containers as capabilities\<close>

definition lift_page :: "'a Page option \<Rightarrow> go_error + 'a Page" where
  "lift_page p = (case p of None \<Rightarrow> Inl (ErrText ''panic: slice bounds out of range'') | Some x \<Rightarrow> Inr x)"

definition tools_capability :: "ToolsContainer \<Rightarrow> ToolsCapability" where
  "tools_capability st = \<lparr>tcap_ListTools = (\<lambda>c s cursor. lift_page (ListTools st cursor)),
     tcap_CallTool = (\<lambda>c s r. case tools_Call c (sh_sessionID s) (Some r) st of Inl e \<Rightarrow> Inl e | Inr x \<Rightarrow> Inr (Some x)),
     tcap_ListChanged = (\<lambda>c s. Inr (Some (Some ())))\<rparr>"

definition ProvideTools :: "ToolsContainer \<Rightarrow> ctx \<Rightarrow> SessionHandle \<Rightarrow> ToolsCapability got" where
  "ProvideTools st = (\<lambda>c s. Inr (Some (Some (tools_capability st))))"

subsection \<open>Logging level (mcpservice/logging.go)\<close>

datatype slog_level = LevelDebug | LevelInfo | LevelWarn | LevelError

text \<open>\<open>lv\<close> is the process-wide level variable; \<open>None\<close> is a nil pointer.\<close>

definition slog_SetLevel :: "string \<Rightarrow> slog_level option \<Rightarrow> slog_level option \<times> go_error option" where
  "slog_SetLevel level lv = (case lv of
       None \<Rightarrow> (None, None)
     | Some l \<Rightarrow>
         if \<not> IsValidLoggingLevel level then (Some l, Some ErrInvalidLoggingLevel)
         else if level = LoggingLevelDebug then (Some LevelDebug, None)
         else if level = LoggingLevelInfo \<or> level = LoggingLevelNotice then (Some LevelInfo, None)
         else if level = LoggingLevelWarning then (Some LevelWarn, None)
         else if level = LoggingLevelError \<or> level = LoggingLevelCritical \<or> level = LoggingLevelAlert
              \<or> level = LoggingLevelEmergency then (Some LevelError, None)
         else (Some l, Some ErrInvalidLoggingLevel))"

end
