(* ===== verification/MemoryHost.thy ===== *)
theory MemoryHost
  imports Sessions
begin

section \<open>The in-memory session host (sessions/memoryhost)\<close>

text \<open>
  \<^verbatim>\<open>sessions/memoryhost/memory.go\<close>. Stream objects are shared by pointer: a subscriber keeps the
  stream it started on even after \<open>DeleteSession\<close> has dropped it from the host's map, so streams
  live in a store and \<open>h_streams\<close> maps a session to a reference. A waiter channel (capacity 1) is
  the flag whether its buffer is full. \<open>SubscribeSession\<close> is cut at the points where it releases
  the stream's mutex: \<open>subscribe_start\<close>, one turn of its loop (\<open>sub_iterate\<close>), the wait
  (\<open>sub_wake\<close>) and the two ways its handler can return (\<open>sub_ack\<close>, \<open>sub_fail\<close>); any number of
  subscribers interleave these pieces with the other operations. Mutexes make each piece atomic.
\<close>

subsection \<open>State\<close>

record message =
  msg_id :: string
  msg_data :: wire

record sessionStream =
  ss_messages :: "message list"
  ss_nextID :: nat
  ss_waiters :: "nat list"
  ss_closed :: bool
  ss_delivered :: "(string, bool) gomap"
  ss_inflight :: "(string, bool) gomap"

record eventStream =
  es_subs :: "(nat, event_bytes list) gomap"
  es_nextID :: nat

record Host =
  h_streams :: "(string, nat) gomap"
  h_store :: "sessionStream list"
  h_chans :: "bool list"
  h_metas :: "(string, SessionMetadata) gomap"
  h_kv :: "(string, (string, string) gomap) gomap"
  h_events :: "(string, eventStream) gomap"

definition mem_New :: Host where
  "mem_New = \<lparr>h_streams = [], h_store = [], h_chans = [], h_metas = [], h_kv = [], h_events = []\<rparr>"

definition new_stream :: sessionStream where
  "new_stream = \<lparr>ss_messages = [], ss_nextID = 0, ss_waiters = [], ss_closed = False,
     ss_delivered = [], ss_inflight = []\<rparr>"

definition mflag :: "('k, bool) gomap \<Rightarrow> 'k \<Rightarrow> bool" where
  "mflag m k \<longleftrightarrow> mget m k = Some True"

subsection \<open>Messaging\<close>

definition getOrCreateStream :: "string \<Rightarrow> Host \<Rightarrow> Host \<times> nat" where
  "getOrCreateStream sid h = (case mget (h_streams h) sid of
       Some r \<Rightarrow> (h, r)
     | None \<Rightarrow> (let r = length (h_store h) in
         (h\<lparr>h_store := h_store h @ [new_stream], h_streams := mput sid r (h_streams h)\<rparr>, r)))"

text \<open>A non-blocking send to each waiter: full afterwards, whether it was empty or full.\<close>

fun wake :: "nat list \<Rightarrow> bool list \<Rightarrow> bool list" where
  "wake [] chans = chans"
| "wake (w # ws) chans = wake ws (chans[w := True])"

definition mem_PublishSession :: "ctx \<Rightarrow> string \<Rightarrow> wire \<Rightarrow> Host \<Rightarrow> Host \<times> (go_error + string)" where
  "mem_PublishSession c sid data h = (case c of
       Some e \<Rightarrow> (h, Inl e)
     | None \<Rightarrow>
         (let (h1, r) = getOrCreateStream sid h;
              s = h_store h1 ! r;
              n = Suc (ss_nextID s);
              s' = s\<lparr>ss_nextID := n, ss_messages := ss_messages s @ [\<lparr>msg_id = itoa n, msg_data = data\<rparr>],
                     ss_waiters := []\<rparr>
          in (h1\<lparr>h_store := (h_store h1)[r := s'], h_chans := wake (ss_waiters s) (h_chans h1)\<rparr>,
              Inr (itoa n))))"

datatype sub_pc = Looping | Waiting nat | Handling message | Returned go_error

record subscriber =
  sub_ref :: nat
  sub_lastIdx :: int
  sub_pc :: sub_pc

fun find_id :: "string \<Rightarrow> nat \<Rightarrow> message list \<Rightarrow> nat option" where
  "find_id k i [] = None"
| "find_id k i (m # ms) = (if msg_id m = k then Some i else find_id k (Suc i) ms)"

definition subscribe_start :: "string \<Rightarrow> string \<Rightarrow> Host \<Rightarrow> Host \<times> subscriber" where
  "subscribe_start sid lastEventID h =
     (let (h1, r) = getOrCreateStream sid h;
          msgs = ss_messages (h_store h1 ! r);
          future = int (length msgs) - 1;
          lastIdx = (if lastEventID \<noteq> [] then
                       (case find_id lastEventID 0 msgs of Some i \<Rightarrow> int i | None \<Rightarrow> future)
                     else future)
      in (h1, \<lparr>sub_ref = r, sub_lastIdx = lastIdx, sub_pc = Looping\<rparr>))"

definition claimable :: "sessionStream \<Rightarrow> message \<Rightarrow> bool" where
  "claimable s m \<longleftrightarrow> \<not> (mflag (ss_delivered s) (msg_id m) \<or> mflag (ss_inflight s) (msg_id m))"

fun claim_scan :: "sessionStream \<Rightarrow> int \<Rightarrow> nat \<Rightarrow> message list \<Rightarrow> message option" where
  "claim_scan s lastIdx i [] = None"
| "claim_scan s lastIdx i (m # ms) =
     (if int i \<le> lastIdx then claim_scan s lastIdx (Suc i) ms
      else if \<not> claimable s m then claim_scan s lastIdx (Suc i) ms
      else Some m)"

definition sub_iterate :: "ctx \<Rightarrow> Host \<Rightarrow> subscriber \<Rightarrow> Host \<times> subscriber" where
  "sub_iterate c h sb =
     (let s = h_store h ! sub_ref sb in
      case c of
        Some e \<Rightarrow> (h, sb\<lparr>sub_pc := Returned e\<rparr>)
      | None \<Rightarrow>
          if ss_closed s then (h, sb\<lparr>sub_pc := Returned (ErrText ''session closed'')\<rparr>)
          else (case claim_scan s (sub_lastIdx sb) 0 (ss_messages s) of
              Some m \<Rightarrow>
                (h\<lparr>h_store := (h_store h)[sub_ref sb :=
                     s\<lparr>ss_inflight := mput (msg_id m) True (ss_inflight s)\<rparr>]\<rparr>,
                 sb\<lparr>sub_pc := Handling m\<rparr>)
            | None \<Rightarrow>
                (let w = length (h_chans h) in
                 (h\<lparr>h_chans := h_chans h @ [False],
                    h_store := (h_store h)[sub_ref sb := s\<lparr>ss_waiters := ss_waiters s @ [w]\<rparr>]\<rparr>,
                  sb\<lparr>sub_pc := Waiting w\<rparr>))))"

definition sub_wake :: "nat \<Rightarrow> Host \<Rightarrow> subscriber \<Rightarrow> Host \<times> subscriber" where
  "sub_wake w h sb = (h\<lparr>h_chans := (h_chans h)[w := False]\<rparr>, sb\<lparr>sub_pc := Looping\<rparr>)"

definition sub_fail :: "go_error \<Rightarrow> message \<Rightarrow> Host \<Rightarrow> subscriber \<Rightarrow> Host \<times> subscriber" where
  "sub_fail e m h sb =
     (let s = h_store h ! sub_ref sb in
      (h\<lparr>h_store := (h_store h)[sub_ref sb := s\<lparr>ss_inflight := mdel (msg_id m) (ss_inflight s)\<rparr>]\<rparr>,
       sb\<lparr>sub_pc := Returned e\<rparr>))"

definition sub_ack :: "message \<Rightarrow> Host \<Rightarrow> subscriber \<Rightarrow> Host \<times> subscriber" where
  "sub_ack m h sb =
     (let s = h_store h ! sub_ref sb in
      (h\<lparr>h_store := (h_store h)[sub_ref sb :=
           s\<lparr>ss_inflight := mdel (msg_id m) (ss_inflight s),
             ss_delivered := mput (msg_id m) True (ss_delivered s)\<rparr>]\<rparr>,
       sb\<lparr>sub_lastIdx := (case find_id (msg_id m) 0 (ss_messages s) of Some i \<Rightarrow> int i | None \<Rightarrow> sub_lastIdx sb),
          sub_pc := Looping\<rparr>))"

subsection \<open>Event fan-out\<close>

definition event_buffer :: nat where
  "event_buffer = 32"

definition getOrCreateEventStream :: "string \<Rightarrow> Host \<Rightarrow> Host \<times> eventStream" where
  "getOrCreateEventStream topic h = (case mget (h_events h) topic of
       Some es \<Rightarrow> (h, es)
     | None \<Rightarrow> (let es = \<lparr>es_subs = [], es_nextID = 0\<rparr> in
         (h\<lparr>h_events := mput topic es (h_events h)\<rparr>, es)))"

definition offer :: "event_bytes \<Rightarrow> event_bytes list \<Rightarrow> event_bytes list" where
  "offer p buf = (if length buf < event_buffer then buf @ [p] else buf)"

definition mem_PublishEvent :: "ctx \<Rightarrow> string \<Rightarrow> event_bytes \<Rightarrow> Host \<Rightarrow> Host \<times> go_error option" where
  "mem_PublishEvent c topic payload h = (case c of
       Some e \<Rightarrow> (h, Some e)
     | None \<Rightarrow>
         (let (h1, es) = getOrCreateEventStream topic h;
              es' = es\<lparr>es_subs := map (\<lambda>(i, buf). (i, offer payload buf)) (es_subs es)\<rparr>
          in (h1\<lparr>h_events := mput topic es' (h_events h1)\<rparr>, None)))"

definition mem_SubscribeEvents :: "string \<Rightarrow> Host \<Rightarrow> Host \<times> nat" where
  "mem_SubscribeEvents topic h =
     (let (h1, es) = getOrCreateEventStream topic h;
          i = Suc (es_nextID es);
          es' = es\<lparr>es_nextID := i, es_subs := mput i [] (es_subs es)\<rparr>
      in (h1\<lparr>h_events := mput topic es' (h_events h1)\<rparr>, i))"

text \<open>One turn of the subscription goroutine that finds an event: the handler's error ends the
  subscription.\<close>

definition event_receive :: "string \<Rightarrow> nat \<Rightarrow> (event_bytes \<Rightarrow> go_error option) \<Rightarrow> Host \<Rightarrow> Host \<times> event_bytes option" where
  "event_receive topic i handler h = (case mget (h_events h) topic of
       None \<Rightarrow> (h, None)
     | Some es \<Rightarrow> (case mget (es_subs es) i of
           None \<Rightarrow> (h, None)
         | Some [] \<Rightarrow> (h, None)
         | Some (p # ps) \<Rightarrow>
             (let subs' = (if handler p = None then mput i ps (es_subs es) else mdel i (es_subs es)) in
              (h\<lparr>h_events := mput topic (es\<lparr>es_subs := subs'\<rparr>) (h_events h)\<rparr>, Some p))))"

subsection \<open>Metadata lifecycle\<close>

definition mem_CreateSession :: "ctx \<Rightarrow> string \<Rightarrow> SessionMetadata \<Rightarrow> Host \<Rightarrow> Host \<times> (go_error + SessionMetadata)" where
  "mem_CreateSession c uuid meta h = (case c of
       Some e \<Rightarrow> (h, Inl e)
     | None \<Rightarrow>
         (let sid = (if sm_SessionID meta = [] then uuid else sm_SessionID meta) in
          if mget (h_metas h) sid \<noteq> None then (h, Inl (ErrText ''session exists''))
          else (let m = meta\<lparr>sm_SessionID := sid\<rparr> in
                (h\<lparr>h_metas := mput sid m (h_metas h)\<rparr>, Inr m))))"

definition mem_GetSession :: "ctx \<Rightarrow> string \<Rightarrow> Host \<Rightarrow> go_error + SessionMetadata" where
  "mem_GetSession c sid h = (case c of
       Some e \<Rightarrow> Inl e
     | None \<Rightarrow> (case mget (h_metas h) sid of None \<Rightarrow> Inl ErrSessionNotFound | Some m \<Rightarrow> Inr m))"

definition mem_MutateSession :: "ctx \<Rightarrow> time \<Rightarrow> string \<Rightarrow>
    (SessionMetadata \<Rightarrow> SessionMetadata \<times> go_error option) \<Rightarrow> Host \<Rightarrow> Host \<times> go_error option" where
  "mem_MutateSession c now sid fn h = (case c of
       Some e \<Rightarrow> (h, Some e)
     | None \<Rightarrow> (case mget (h_metas h) sid of
           None \<Rightarrow> (h, Some ErrSessionNotFound)
         | Some m \<Rightarrow> (case fn m of
               (m', Some e) \<Rightarrow> (h\<lparr>h_metas := mput sid m' (h_metas h)\<rparr>, Some e)
             | (m', None) \<Rightarrow> (h\<lparr>h_metas := mput sid (m'\<lparr>sm_UpdatedAt := now\<rparr>) (h_metas h)\<rparr>, None))))"

definition mem_TouchSession :: "ctx \<Rightarrow> time \<Rightarrow> string \<Rightarrow> Host \<Rightarrow> Host \<times> go_error option" where
  "mem_TouchSession c now sid h = (case c of
       Some e \<Rightarrow> (h, Some e)
     | None \<Rightarrow> (case mget (h_metas h) sid of
           None \<Rightarrow> (h, Some ErrSessionNotFound)
         | Some m \<Rightarrow> (h\<lparr>h_metas := mput sid (touch_meta now m) (h_metas h)\<rparr>, None)))"

definition mem_DeleteSession :: "ctx \<Rightarrow> string \<Rightarrow> Host \<Rightarrow> Host \<times> go_error option" where
  "mem_DeleteSession c sid h = (case c of
       Some e \<Rightarrow> (h, Some e)
     | None \<Rightarrow>
         (let h1 = h\<lparr>h_metas := mdel sid (h_metas h), h_kv := mdel sid (h_kv h),
                     h_streams := mdel sid (h_streams h)\<rparr>
          in case mget (h_streams h) sid of
               None \<Rightarrow> (h1, None)
             | Some r \<Rightarrow>
                 (let s = h_store h ! r in
                  (h1\<lparr>h_store := (h_store h)[r := s\<lparr>ss_closed := True, ss_waiters := []\<rparr>],
                      h_chans := wake (ss_waiters s) (h_chans h)\<rparr>, None))))"

subsection \<open>Key-value storage\<close>

definition kv_of :: "Host \<Rightarrow> string \<Rightarrow> (string, string) gomap" where
  "kv_of h sid = (case mget (h_kv h) sid of None \<Rightarrow> [] | Some m \<Rightarrow> m)"

definition mem_PutSessionData :: "ctx \<Rightarrow> string \<Rightarrow> string \<Rightarrow> string \<Rightarrow> Host \<Rightarrow> Host \<times> go_error option" where
  "mem_PutSessionData c sid key val h = (case c of
       Some e \<Rightarrow> (h, Some e)
     | None \<Rightarrow> (h\<lparr>h_kv := mput sid (mput key val (kv_of h sid)) (h_kv h)\<rparr>, None))"

definition mem_GetSessionData :: "ctx \<Rightarrow> string \<Rightarrow> string \<Rightarrow> Host \<Rightarrow> go_error + string option" where
  "mem_GetSessionData c sid key h = (case c of
       Some e \<Rightarrow> Inl e
     | None \<Rightarrow> Inr (case mget (h_kv h) sid of None \<Rightarrow> None | Some m \<Rightarrow> mget m key))"

definition mem_DeleteSessionData :: "ctx \<Rightarrow> string \<Rightarrow> string \<Rightarrow> Host \<Rightarrow> Host \<times> go_error option" where
  "mem_DeleteSessionData c sid key h = (case c of
       Some e \<Rightarrow> (h, Some e)
     | None \<Rightarrow> (case mget (h_kv h) sid of
           None \<Rightarrow> (h, None)
         | Some m \<Rightarrow>
             (let m' = mdel key m in
              (h\<lparr>h_kv := (if m' = [] then mdel sid (h_kv h) else mput sid m' (h_kv h))\<rparr>, None))))"

text \<open>The host as the engine sees it.\<close>

definition memory_host :: "Host SessionHost" where
  "memory_host = \<lparr>PublishSession = mem_PublishSession, PublishEvent = mem_PublishEvent,
     CreateSession = mem_CreateSession, GetSession = mem_GetSession, MutateSession = mem_MutateSession,
     TouchSession = mem_TouchSession, DeleteSession = mem_DeleteSession,
     PutSessionData = mem_PutSessionData, GetSessionData = mem_GetSessionData,
     DeleteSessionData = mem_DeleteSessionData\<rparr>"

subsection \<open>Well-formed hosts\<close>

text \<open>
  Message identifiers of a stream are the decimal numerals 1, 2, ... in order; sessions own
  different stream objects, all of them open; waiters are allocated channels.
\<close>

definition stream_ok :: "sessionStream \<Rightarrow> bool" where
  "stream_ok s \<longleftrightarrow> map msg_id (ss_messages s) = map itoa [1..<Suc (ss_nextID s)]"

definition mem_inv :: "Host \<Rightarrow> bool" where
  "mem_inv h \<longleftrightarrow> (\<forall>s \<in> set (h_store h). stream_ok s)
     \<and> (\<forall>sid r. mget (h_streams h) sid = Some r \<longrightarrow> r < length (h_store h) \<and> \<not> ss_closed (h_store h ! r))
     \<and> (\<forall>sid sid' r. mget (h_streams h) sid = Some r \<longrightarrow> mget (h_streams h) sid' = Some r \<longrightarrow> sid = sid')"

definition mem_stream :: "Host \<Rightarrow> string \<Rightarrow> wire list" where
  "mem_stream h sid = (case mget (h_streams h) sid of None \<Rightarrow> []
     | Some r \<Rightarrow> map msg_data (ss_messages (h_store h ! r)))"

definition mem_data :: "Host \<Rightarrow> string \<Rightarrow> string \<Rightarrow> string option" where
  "mem_data h sid key = mget (kv_of h sid) key"

lemma mem_inv_New: "mem_inv mem_New"
  by (simp add: mem_inv_def mem_New_def)

lemma stream_ok_new [simp]: "stream_ok new_stream"
  by (simp add: stream_ok_def new_stream_def)

lemma stream_ok_upd [simp]:
  "stream_ok (s\<lparr>ss_waiters := ws\<rparr>) = stream_ok s"
  "stream_ok (s\<lparr>ss_closed := b\<rparr>) = stream_ok s"
  "stream_ok (s\<lparr>ss_inflight := f\<rparr>) = stream_ok s"
  "stream_ok (s\<lparr>ss_delivered := f\<rparr>) = stream_ok s"
  "stream_ok (s\<lparr>ss_closed := b, ss_waiters := ws\<rparr>) = stream_ok s"
  "stream_ok (s\<lparr>ss_inflight := f, ss_delivered := d\<rparr>) = stream_ok s"
  by (simp_all add: stream_ok_def)

lemma length_wake [simp]: "length (wake ws chans) = length chans"
  by (induction ws arbitrary: chans) auto

lemma wake_nth: "w < length chans \<Longrightarrow> wake ws chans ! w \<longleftrightarrow> w \<in> set ws \<or> chans ! w"
proof (induction ws arbitrary: chans)
  case (Cons a ws)
  then show ?case
    by (cases "a = w") auto
qed simp

lemma mem_invD:
  assumes "mem_inv h" and "mget (h_streams h) sid = Some r"
  shows "r < length (h_store h)" and "\<not> ss_closed (h_store h ! r)" and "stream_ok (h_store h ! r)"
  using assms by (auto simp: mem_inv_def)

lemma getOrCreateStream_Some:
  "mget (h_streams h) sid = Some r \<Longrightarrow> getOrCreateStream sid h = (h, r)"
  by (simp add: getOrCreateStream_def)

lemma mem_inv_alloc:
  assumes "mem_inv h"
  shows "mem_inv (h\<lparr>h_store := h_store h @ [new_stream],
    h_streams := mput sid (length (h_store h)) (h_streams h)\<rparr>)"
proof -
  have "r < length (h_store h)" if "mget (h_streams h) s = Some r" for s r
    using assms that by (auto simp: mem_inv_def)
  with assms show ?thesis
    by (fastforce simp: mem_inv_def nth_append new_stream_def stream_ok_def)
qed

lemma mem_stream_alloc:
  assumes "mem_inv h" and "mget (h_streams h) sid = None"
  shows "mem_stream (h\<lparr>h_store := h_store h @ [new_stream],
    h_streams := mput sid (length (h_store h)) (h_streams h)\<rparr>) = mem_stream h"
  using assms
  by (auto simp: mem_stream_def fun_eq_iff nth_append new_stream_def dest: mem_invD(1) split: option.splits)

lemma getOrCreateStream_inv:
  assumes "mem_inv h" and "getOrCreateStream sid h = (h1, r)"
  shows "mem_inv h1 \<and> mget (h_streams h1) sid = Some r \<and> mem_stream h1 = mem_stream h \<and>
    h_metas h1 = h_metas h \<and> h_kv h1 = h_kv h \<and> h_chans h1 = h_chans h \<and> h_events h1 = h_events h"
proof (cases "mget (h_streams h) sid")
  case None
  with assms mem_inv_alloc [of h sid] mem_stream_alloc [of h sid] show ?thesis
    by (auto simp: getOrCreateStream_def Let_def)
next
  case (Some x)
  with assms show ?thesis
    by (auto simp: getOrCreateStream_def)
qed

lemma mem_inv_update:
  assumes "mem_inv h" and "mget (h_streams h) sid = Some r" and "stream_ok s'"
    and "ss_closed s' = ss_closed (h_store h ! r)"
  shows "mem_inv (h\<lparr>h_store := (h_store h)[r := s'], h_chans := ch\<rparr>)"
  using assms by (fastforce simp: mem_inv_def nth_list_update dest!: set_update_subset_insert [THEN subsetD])


lemma mem_inv_frame:
  "mem_inv h \<Longrightarrow> h_store h' = h_store h \<Longrightarrow> h_streams h' = h_streams h \<Longrightarrow> mem_inv h'"
  by (simp add: mem_inv_def)

lemma mem_stream_frame:
  "h_store h' = h_store h \<Longrightarrow> h_streams h' = h_streams h \<Longrightarrow> mem_stream h' = mem_stream h"
  by (simp add: mem_stream_def fun_eq_iff split: option.split)

lemma mem_data_frame: "h_kv h' = h_kv h \<Longrightarrow> mem_data h' = mem_data h"
  by (simp add: mem_data_def kv_of_def fun_eq_iff)

lemmas mem_frame = mem_inv_frame mem_stream_frame mem_data_frame

lemma stream_ok_publish:
  "stream_ok s \<Longrightarrow> stream_ok (s\<lparr>ss_nextID := Suc (ss_nextID s),
     ss_messages := ss_messages s @ [\<lparr>msg_id = itoa (Suc (ss_nextID s)), msg_data = d\<rparr>], ss_waiters := ws\<rparr>)"
  by (simp add: stream_ok_def)

lemma stream_ok_nextID:
  assumes "stream_ok s"
  shows "ss_nextID s = length (ss_messages s)"
proof -
  have "length (map msg_id (ss_messages s)) = length (map itoa [1..<Suc (ss_nextID s)])"
    using assms by (simp only: stream_ok_def)
  then show ?thesis
    by (simp del: upt_Suc)
qed

lemma stream_ok_nth:
  assumes "stream_ok s" and "i < length (ss_messages s)"
  shows "msg_id (ss_messages s ! i) = itoa (Suc i)"
proof -
  have "msg_id (ss_messages s ! i) = map msg_id (ss_messages s) ! i"
    using assms by simp
  also have "\<dots> = map itoa [1..<Suc (ss_nextID s)] ! i"
    using assms by (simp only: stream_ok_def)
  finally show ?thesis
    using assms stream_ok_nextID [of s] by (simp del: upt_Suc)
qed

lemma mem_inv_inj:
  assumes "mem_inv h" and "mget (h_streams h) sid = Some r" and "x \<noteq> sid"
  shows "mget (h_streams h) x \<noteq> Some r"
  using assms by (auto simp: mem_inv_def)

lemma mem_publish_live:
  assumes "mem_inv h" and "mem_PublishSession None sid w h = (h', rp)"
  shows "rp = Inr (itoa (Suc (length (mem_stream h sid))))"
    and "mem_stream h' = (mem_stream h)(sid := mem_stream h sid @ [w])"
    and "h_metas h' = h_metas h" and "h_kv h' = h_kv h" and "mem_inv h'"
proof -
  obtain h1 r where g: "getOrCreateStream sid h = (h1, r)"
    by fastforce
  note i = getOrCreateStream_inv [OF assms(1) g]
  then have inv1: "mem_inv h1" and r: "mget (h_streams h1) sid = Some r" and st: "mem_stream h1 = mem_stream h"
    by auto
  let ?s = "h_store h1 ! r"
  have ok: "stream_ok ?s" and len: "r < length (h_store h1)"
    using mem_invD [OF inv1 r] by auto
  have msgs: "mem_stream h sid = map msg_data (ss_messages ?s)"
    using r st [symmetric] by (simp add: mem_stream_def)
  note other = mem_inv_inj [OF inv1 r]
  from assms(2) g ok msgs show "rp = Inr (itoa (Suc (length (mem_stream h sid))))"
    by (auto simp: mem_PublishSession_def Let_def stream_ok_nextID)
  from assms(2) g i show "h_metas h' = h_metas h" "h_kv h' = h_kv h"
    by (auto simp: mem_PublishSession_def Let_def)
  from assms(2) g r len msgs other show "mem_stream h' = (mem_stream h)(sid := mem_stream h sid @ [w])"
    by (auto simp: mem_PublishSession_def Let_def st [symmetric] fun_eq_iff mem_stream_def
        nth_list_update split: option.splits)
  from assms(2) g show "mem_inv h'"
    using mem_inv_update [OF inv1 r stream_ok_publish [OF ok]]
    by (auto simp: mem_PublishSession_def Let_def)
qed

lemma mem_create_fresh:
  assumes "sm_SessionID m \<noteq> []" and "mget (h_metas h) (sm_SessionID m) = None"
  shows "mem_CreateSession None u m h = (h\<lparr>h_metas := mput (sm_SessionID m) m (h_metas h)\<rparr>, Inr m)"
  using assms by (simp add: mem_CreateSession_def Let_def)

lemma mem_event_frame:
  assumes "mem_PublishEvent c t ev h = (h', r)"
  shows "h_store h' = h_store h" and "h_streams h' = h_streams h" and "h_metas h' = h_metas h"
    and "h_kv h' = h_kv h"
  using assms by (auto simp: mem_PublishEvent_def getOrCreateEventStream_def Let_def split: option.splits)

lemma mem_inv_detach:
  assumes inv: "mem_inv h" and r: "mget (h_streams h) sid = Some r" and ok: "stream_ok s'"
  shows "mem_inv (h\<lparr>h_metas := me, h_kv := kv, h_streams := mdel sid (h_streams h),
    h_store := (h_store h)[r := s'], h_chans := ch\<rparr>)"
proof -
  have "\<not> ss_closed ((h_store h)[r := s'] ! y)" "y < length (h_store h)"
    if "mget (h_streams h) x = Some y" "x \<noteq> sid" for x y
    using mem_inv_inj [OF inv r that(2)] mem_invD [OF inv that(1)] that(1)
    by (metis nth_list_update_neq, blast)
  moreover have "stream_ok s" if "s \<in> set ((h_store h)[r := s'])" for s
    using inv ok set_update_subset_insert [of "h_store h" r s'] that by (auto simp: mem_inv_def)
  moreover have "x = x'" if "mget (h_streams h) x = Some y" "mget (h_streams h) x' = Some y" for x x' y
    using inv that by (auto simp: mem_inv_def)
  ultimately show ?thesis
    by (simp add: mem_inv_def split: if_splits)
qed

lemma mem_delete_live:
  assumes "mem_inv h" and "mem_DeleteSession None sid h = (h', r)"
  shows "r = None" and "h_metas h' = mdel sid (h_metas h)" and "h_kv h' = mdel sid (h_kv h)"
    and "mem_stream h' = (mem_stream h)(sid := [])" and "mem_inv h'"
proof -
  note other = mem_inv_inj [OF assms(1)]
  from assms(2) show "r = None" "h_metas h' = mdel sid (h_metas h)" "h_kv h' = mdel sid (h_kv h)"
    by (auto simp: mem_DeleteSession_def Let_def split: option.splits)
  from assms(2) other show "mem_stream h' = (mem_stream h)(sid := [])"
    by (auto simp: mem_DeleteSession_def Let_def mem_stream_def fun_eq_iff split: option.splits)
      (metis nth_list_update_neq)
  show "mem_inv h'"
  proof (cases "mget (h_streams h) sid")
    case None
    with assms show ?thesis
      by (auto simp: mem_DeleteSession_def Let_def mem_inv_def split: if_splits)
  next
    case (Some z)
    with assms mem_inv_detach [OF assms(1) Some] mem_invD [OF assms(1) Some] show ?thesis
      by (auto simp: mem_DeleteSession_def Let_def)
  qed
qed

lemma mem_data_kv: "mem_data (h\<lparr>h_kv := k\<rparr>) sid = (\<lambda>key. case mget k sid of None \<Rightarrow> None | Some m \<Rightarrow> mget m key)"
  by (auto simp: mem_data_def kv_of_def split: option.split)

lemma mem_data_delete:
  "h_kv h' = mdel sid (h_kv h) \<Longrightarrow> mem_data h' = (mem_data h)(sid := (\<lambda>_. None))"
  by (auto simp: mem_data_def kv_of_def fun_eq_iff split: option.split)

lemma mem_put_data: "mem_data (fst (mem_PutSessionData None sid k v h)) = (mem_data h)(sid := (mem_data h sid)(k \<mapsto> v))"
  by (auto simp: mem_PutSessionData_def mem_data_def kv_of_def fun_eq_iff split: option.split)

lemma mem_delete_data:
  "mem_data (fst (mem_DeleteSessionData None sid k h)) = (mem_data h)(sid := (mem_data h sid)(k := None))"
  by (auto simp: mem_DeleteSessionData_def Let_def mem_data_def kv_of_def fun_eq_iff mdel_empty_iff
      split: option.split)

lemma mem_kv_frame:
  shows "h_metas (fst (mem_PutSessionData c sid k v h)) = h_metas h"
    and "h_store (fst (mem_PutSessionData c sid k v h)) = h_store h"
    and "h_streams (fst (mem_PutSessionData c sid k v h)) = h_streams h"
    and "h_metas (fst (mem_DeleteSessionData c sid k h)) = h_metas h"
    and "h_store (fst (mem_DeleteSessionData c sid k h)) = h_store h"
    and "h_streams (fst (mem_DeleteSessionData c sid k h)) = h_streams h"
  by (auto simp: mem_PutSessionData_def mem_DeleteSessionData_def Let_def split: option.split)

lemma mem_meta_frame:
  shows "h_store (fst (mem_CreateSession c u m h)) = h_store h"
    and "h_streams (fst (mem_CreateSession c u m h)) = h_streams h"
    and "h_kv (fst (mem_CreateSession c u m h)) = h_kv h"
    and "h_store (fst (mem_MutateSession c now sid fn h)) = h_store h"
    and "h_streams (fst (mem_MutateSession c now sid fn h)) = h_streams h"
    and "h_kv (fst (mem_MutateSession c now sid fn h)) = h_kv h"
    and "h_store (fst (mem_TouchSession c now sid h)) = h_store h"
    and "h_streams (fst (mem_TouchSession c now sid h)) = h_streams h"
    and "h_kv (fst (mem_TouchSession c now sid h)) = h_kv h"
  by (auto simp: mem_CreateSession_def mem_MutateSession_def mem_TouchSession_def Let_def
      split: option.split prod.split)

lemma mem_inv_meta_ops:
  assumes "mem_inv h"
  shows "mem_inv (fst (mem_CreateSession c u m h))" and "mem_inv (fst (mem_MutateSession c now sid fn h))"
    and "mem_inv (fst (mem_TouchSession c now sid h))" and "mem_inv (fst (mem_PutSessionData c sid k v h))"
    and "mem_inv (fst (mem_DeleteSessionData c sid k h))"
  by (rule mem_inv_frame [OF assms], simp add: mem_meta_frame mem_kv_frame, simp add: mem_meta_frame mem_kv_frame)+

lemmas mem_op_defs = mem_CreateSession_def mem_GetSession_def mem_MutateSession_def mem_TouchSession_def
  mem_DeleteSession_def mem_PublishSession_def mem_PublishEvent_def mem_PutSessionData_def
  mem_GetSessionData_def mem_DeleteSessionData_def

text \<open>The in-memory host keeps the contract the engine relies on.\<close>

interpretation mem: session_host memory_host mem_inv "\<lambda>h. mget (h_metas h)" mem_data mem_stream
proof (unfold_locales, goal_cases)
  case (3 h m u h' rc)
  then show ?case
    by (auto simp: memory_host_def mem_create_fresh intro!: mem_frame)
next
  case (6 h sid m fn m' now h' r)
  then show ?case
    by (auto simp: memory_host_def mem_MutateSession_def intro!: mem_frame)
next
  case (9 h sid m now h' r)
  then show ?case
    by (auto simp: memory_host_def mem_TouchSession_def intro!: mem_frame)
next
  case (11 h sid h' r)
  then show ?case
    using mem_delete_live [of h sid h' r] mem_data_delete [of h' sid h]
    by (auto simp: memory_host_def)
next
  case (13 h sid w h' rp)
  then show ?case
    using mem_publish_live [of h sid w h' rp] by (auto simp: memory_host_def intro!: mem_data_frame)
next
  case (15 t ev h h' r)
  then show ?case
    using mem_event_frame [of None t ev h h' r]
    by (auto simp: memory_host_def mem_PublishEvent_def Let_def split: prod.splits intro!: mem_frame)
next
  case (17 sid k v h h' r)
  then show ?case
    using mem_put_data [of sid k v h] mem_kv_frame(1-3) [of None sid k v h]
    by (auto simp: memory_host_def mem_PutSessionData_def intro!: mem_stream_frame)
next
  case (18 sid k h)
  then show ?case
    by (auto simp: memory_host_def mem_GetSessionData_def mem_data_def kv_of_def split: option.split)
next
  case (19 sid k h h' r)
  then show ?case
    using mem_delete_data [of sid k h] mem_kv_frame(4-6) [of None sid k h]
    by (auto simp: memory_host_def mem_DeleteSessionData_def Let_def split: option.splits intro!: mem_stream_frame)
next
  case (23 h c sid)
  then show ?case
    using mem_delete_live(5) [of h sid]
    by (cases c) (auto simp: memory_host_def mem_DeleteSession_def [of "Some _"] fst_def split: prod.splits)
next
  case (24 h c sid w)
  then show ?case
    using mem_publish_live(5) [of h sid w]
    by (cases c) (auto simp: memory_host_def mem_PublishSession_def [of "Some _"] fst_def split: prod.splits)
next
  case (25 h c t ev)
  obtain h' r where p: "mem_PublishEvent c t ev h = (h', r)"
    by fastforce
  from 25 have "mem_inv h'"
    by (rule mem_inv_frame) (rule mem_event_frame [OF p])+
  with p show ?case
    by (simp add: memory_host_def)
next
  case 20
  then show ?case by (simp add: memory_host_def mem_inv_meta_ops)
next
  case 21
  then show ?case by (simp add: memory_host_def mem_inv_meta_ops)
next
  case 22
  then show ?case by (simp add: memory_host_def mem_inv_meta_ops)
next
  case 26
  then show ?case by (simp add: memory_host_def mem_inv_meta_ops)
next
  case 27
  then show ?case by (simp add: memory_host_def mem_inv_meta_ops)
qed (auto simp: memory_host_def mem_op_defs split: option.split)

end
