(* ===== verification/EngineCore.thy ===== *)
theory EngineCore
  imports Server MemoryHost
begin

section \<open>The engine: session lifecycle (internal/engine/engine.go)\<close>

text \<open>
  The engine's own state is the record \<open>Engine\<close>; the session host is a separate state \<open>'h\<close> with its
  operations \<open>ops\<close>, because several engines share one. What Go keeps as closures is data here: a tool
  call's cancel function is the index of its context in \<open>e_toolCtxs\<close> (whose entry is the cancellation
  cause), a rendez-vous channel is an index into \<open>e_chans\<close>, a subscription's cancel function names the
  forwarder goroutine or the provider it stops, and a registered list-changed callback is an entry of
  \<open>e_emitters\<close>. Logging is left out. This theory has the operations on sessions; requests are in
  EngineRequests, the fan-out consumer in EngineEvents.
\<close>

subsection \<open>State\<close>

datatype CancelSubscription = CancelForwarder nat | CancelProvider string string

datatype emitter = EmitResources | EmitTools | EmitPrompts

record forwarder =
  fw_session :: string
  fw_uri :: string
  fw_cancelled :: bool
  fw_returned :: bool

record rdv_chan =
  rdv_buffer :: "wire option"
  rdv_closed :: bool

record Engine =
  e_sessionTTL :: duration
  e_sessionMaxLifetime :: duration
  e_handshakeTTL :: duration
  e_toolCtxCancels :: "(string, nat) gomap"
  e_toolCtxs :: "go_error option list"
  e_rdvChans :: "(string, nat) gomap"
  e_rdvClosers :: "(string, nat) gomap"
  e_chans :: "rdv_chan list"
  e_wired :: "(string, bool) gomap"
  e_emitters :: "(string \<times> string \<times> emitter) list"
  e_subCancels :: "(string, (string, CancelSubscription option) gomap) gomap"
  e_forwarders :: "forwarder list"
  e_providerCancels :: "(string \<times> string) list"

definition second :: duration where "second = 1000000000"

definition defaultSessionTTL :: duration where "defaultSessionTTL = 3600 * second"
definition defaultSessionMaxLifetime :: duration where "defaultSessionMaxLifetime = 24 * 3600 * second"
definition sessionFanoutTopic :: string where "sessionFanoutTopic = ''session:events''"
definition internalSessionDeletedMethod :: string where "internalSessionDeletedMethod = ''internal/session/deleted''"

type_synonym EngineOption = "Engine \<Rightarrow> Engine"

definition NewEngine :: "EngineOption list \<Rightarrow> Engine" where
  "NewEngine opts = foldl (\<lambda>e opt. opt e)
     \<lparr>e_sessionTTL = defaultSessionTTL, e_sessionMaxLifetime = defaultSessionMaxLifetime, e_handshakeTTL = 30 * second,
      e_toolCtxCancels = [], e_toolCtxs = [], e_rdvChans = [], e_rdvClosers = [], e_chans = [], e_wired = [],
      e_emitters = [], e_subCancels = [], e_forwarders = [], e_providerCancels = []\<rparr> opts"

definition WithSessionTTL :: "duration \<Rightarrow> EngineOption" where
  "WithSessionTTL d m = m\<lparr>e_sessionTTL := d\<rparr>"

definition WithSessionMaxLifetime :: "duration \<Rightarrow> EngineOption" where
  "WithSessionMaxLifetime d m = m\<lparr>e_sessionMaxLifetime := d\<rparr>"

definition WithHandshakeTTL :: "duration \<Rightarrow> EngineOption" where
  "WithHandshakeTTL d m = (if d > 0 then m\<lparr>e_handshakeTTL := d\<rparr> else m)"

subsection \<open>Creating and initializing a session\<close>

definition createSession :: "'h SessionHost \<Rightarrow> Engine \<Rightarrow> ctx \<Rightarrow> string \<Rightarrow> time \<Rightarrow> string \<Rightarrow> string \<Rightarrow> string \<Rightarrow>
    CapabilitySet \<Rightarrow> MetadataClientInfo \<Rightarrow> 'h \<Rightarrow> 'h \<times> (go_error + SessionHandle)" where
  "createSession ops e c uuid now userID clientPV serverPV caps info h =
     (if userID = [] then (h, Inl ErrInvalidUserID)
      else let m = \<lparr>sm_MetaVersion = 1, sm_SessionID = uuid, sm_UserID = userID, sm_Issuer = [],
             sm_ClientProtocolVersion = clientPV, sm_ServerProtocolVersion = serverPV, sm_Client = info,
             sm_Capabilities = caps, sm_State = SessionStatePending, sm_CreatedAt = now, sm_UpdatedAt = now,
             sm_LastAccess = now, sm_TTL = e_handshakeTTL e, sm_MaxLifetime = e_sessionMaxLifetime e,
             sm_OpenedAt = 0, sm_Revoked = False\<rparr>
        in case CreateSession ops c uuid m h of
             (h', Inl err) \<Rightarrow> (h', Inl (Wrapped ''create session'' err))
           | (h', Inr m') \<Rightarrow> (h', Inr (NewSessionHandle m' [])))"

definition negotiate_version :: "ServerCaps \<Rightarrow> ctx \<Rightarrow> string \<Rightarrow> go_error + string" where
  "negotiate_version srv c client =
     (if IsSupportedProtocolVersion client then Inr client
      else case srv_GetPreferredProtocolVersion srv c client of
          Inl err \<Rightarrow> Inl (Wrapped ''get preferred protocol version'' err)
        | Inr None \<Rightarrow> Inr LatestProtocolVersion
        | Inr (Some v) \<Rightarrow>
            if v = [] then Inr LatestProtocolVersion
            else if \<not> IsSupportedProtocolVersion v
              then Inl (WrappedBy ErrInvalidProtocolVersion (''unsupported server protocol version '' @ quoted v))
            else Inr v)"

definition client_caps :: "ClientCapabilities \<Rightarrow> CapabilitySet" where
  "client_caps cc = \<lparr>cs_Roots = (cc_Roots cc \<noteq> None), cs_RootsListChanged = (cc_Roots cc = Some True),
     cs_Sampling = (cc_Sampling cc \<noteq> None), cs_Elicitation = (cc_Elicitation cc \<noteq> None)\<rparr>"

text \<open>\<open>hasCap && cap != nil\<close>\<close>

definition present :: "'c got \<Rightarrow> bool" where
  "present g = (case g of Inr (Some (Some _)) \<Rightarrow> True | _ \<Rightarrow> False)"

definition resources_entry :: "ServerCaps \<Rightarrow> ctx \<Rightarrow> SessionHandle \<Rightarrow> go_error + (bool \<times> bool) option" where
  "resources_entry srv c sess = (case srv_GetResourcesCapability srv c sess of
       Inl err \<Rightarrow> Inl (Wrapped ''get resources capability'' err)
     | Inr (Some (Some r)) \<Rightarrow>
         (case rcap_Subscription r c sess of
            Inl err \<Rightarrow> Inl (Wrapped ''get resources subscription capability'' err)
          | Inr sub \<Rightarrow>
              (case rcap_ListChanged r c sess of
                 Inl err \<Rightarrow> Inl (Wrapped ''get resources listChanged capability'' err)
               | Inr lc \<Rightarrow> Inr (Some (present (Inr lc :: unit got),
                   present (Inr sub :: ResourceSubscriptionCapability got) \<or> rcap_isEventSource r))))
     | Inr _ \<Rightarrow> Inr None)"

definition tools_entry :: "ServerCaps \<Rightarrow> ctx \<Rightarrow> SessionHandle \<Rightarrow> go_error + bool option" where
  "tools_entry srv c sess = (case srv_GetToolsCapability srv c sess of
       Inl err \<Rightarrow> Inl (Wrapped ''get tools capability'' err)
     | Inr (Some (Some t)) \<Rightarrow>
         (case tcap_ListChanged t c sess of
            Inl err \<Rightarrow> Inl (Wrapped ''get tools listChanged capability'' err)
          | Inr lc \<Rightarrow> Inr (Some (present (Inr lc :: unit got))))
     | Inr _ \<Rightarrow> Inr None)"

definition prompts_entry :: "ServerCaps \<Rightarrow> ctx \<Rightarrow> SessionHandle \<Rightarrow> go_error + bool option" where
  "prompts_entry srv c sess = (case srv_GetPromptsCapability srv c sess of
       Inl err \<Rightarrow> Inl (Wrapped ''get prompts capability'' err)
     | Inr (Some (Some p)) \<Rightarrow>
         (case pcap_ListChanged p c sess of
            Inl err \<Rightarrow> Inl (Wrapped ''get prompts listChanged capability'' err)
          | Inr lc \<Rightarrow> Inr (Some (present (Inr lc :: unit got))))
     | Inr _ \<Rightarrow> Inr None)"

definition bind_err :: "go_error + 'a \<Rightarrow> ('a \<Rightarrow> go_error + 'b) \<Rightarrow> go_error + 'b" where
  "bind_err r f = (case r of Inl e \<Rightarrow> Inl e | Inr x \<Rightarrow> f x)"

definition wrap_err :: "string \<Rightarrow> go_error + 'a \<Rightarrow> go_error + 'a" where
  "wrap_err msg r = (case r of Inl e \<Rightarrow> Inl (Wrapped msg e) | Inr x \<Rightarrow> Inr x)"

definition build_result :: "ServerCaps \<Rightarrow> ctx \<Rightarrow> SessionHandle \<Rightarrow> string \<Rightarrow> go_error + InitializeResult" where
  "build_result srv c sess version =
     bind_err (wrap_err ''get server info'' (srv_GetServerInfo srv c sess)) (\<lambda>info.
     bind_err (wrap_err ''get instructions'' (srv_GetInstructions srv c sess)) (\<lambda>instr.
     bind_err (resources_entry srv c sess) (\<lambda>res.
     bind_err (tools_entry srv c sess) (\<lambda>tools.
     bind_err (prompts_entry srv c sess) (\<lambda>prompts.
     bind_err (wrap_err ''get logging capability'' (srv_GetLoggingCapability srv c sess)) (\<lambda>logging.
     bind_err (wrap_err ''get completions capability'' (srv_GetCompletionsCapability srv c sess)) (\<lambda>compl.
     Inr \<lparr>irs_ProtocolVersion = version,
          irs_Capabilities = \<lparr>sc_Logging = map_option (\<lambda>_. ()) logging, sc_Prompts = prompts, sc_Resources = res,
             sc_Tools = tools, sc_Completions = map_option (\<lambda>_. ()) compl\<rparr>,
          irs_ServerInfo = info, irs_Instructions = (case instr of None \<Rightarrow> [] | Some t \<Rightarrow> t), irs_Meta = []\<rparr>)))))))"

definition InitializeSession :: "'h SessionHost \<Rightarrow> ServerCaps \<Rightarrow> Engine \<Rightarrow> ctx \<Rightarrow> string \<Rightarrow> time \<Rightarrow> string \<Rightarrow>
    InitializeRequest option \<Rightarrow> 'h \<Rightarrow> 'h \<times> (go_error + SessionHandle \<times> InitializeResult)" where
  "InitializeSession ops srv e c uuid now userID req h = (case req of
       None \<Rightarrow> (h, Inl (ErrText ''initialize request required''))
     | Some r \<Rightarrow>
         if ir_ProtocolVersion r = [] then
           (h, Inl (WrappedBy ErrInvalidProtocolVersion ''missing client protocol version''))
         else case negotiate_version srv c (ir_ProtocolVersion r) of
           Inl err \<Rightarrow> (h, Inl err)
         | Inr version \<Rightarrow>
             (case createSession ops e c uuid now userID (ir_ProtocolVersion r) version (client_caps (ir_Capabilities r))
                \<lparr>ci_Name = ii_Name (ir_ClientInfo r), ci_Version = ii_Version (ir_ClientInfo r), ci_InstanceID = []\<rparr> h of
                (h1, Inl err) \<Rightarrow> (h1, Inl err)
              | (h1, Inr sess) \<Rightarrow>
                  (case build_result srv c sess version of
                     Inl err \<Rightarrow> (fst (DeleteSession ops c (sh_sessionID sess) h1), Inl err)
                   | Inr res \<Rightarrow> (h1, Inr (sess, res)))))"

subsection \<open>Loading a session\<close>

definition registers :: "'c got \<Rightarrow> ('c \<Rightarrow> unit got) \<Rightarrow> bool" where
  "registers g lc = (case g of Inr (Some (Some cap)) \<Rightarrow> present (lc cap) | _ \<Rightarrow> False)"

definition registerListChangedEmitters :: "ServerCaps \<Rightarrow> SessionHandle \<Rightarrow> Engine \<Rightarrow> Engine" where
  "registerListChangedEmitters srv sess e =
     (let sid = sh_sessionID sess; uid = sh_userID sess in
      if mget (e_wired e) sid = Some True then e
      else e\<lparr>e_wired := mput sid True (e_wired e),
             e_emitters := e_emitters e
               @ (if registers (srv_GetResourcesCapability srv None sess) (\<lambda>r. rcap_ListChanged r None sess)
                  then [(sid, uid, EmitResources)] else [])
               @ (if registers (srv_GetToolsCapability srv None sess) (\<lambda>t. tcap_ListChanged t None sess)
                  then [(sid, uid, EmitTools)] else [])
               @ (if registers (srv_GetPromptsCapability srv None sess) (\<lambda>p. pcap_ListChanged p None sess)
                  then [(sid, uid, EmitPrompts)] else [])\<rparr>)"

definition wireListChangedEmitters :: "ServerCaps \<Rightarrow> SessionHandle \<Rightarrow> Engine \<Rightarrow> Engine" where
  "wireListChangedEmitters srv sess e =
     (if mget (e_wired e) (sh_sessionID sess) = Some True then e else registerListChangedEmitters srv sess e)"

definition LoadSession :: "'h SessionHost \<Rightarrow> ServerCaps \<Rightarrow> ctx \<Rightarrow> time \<Rightarrow> string \<Rightarrow> string \<Rightarrow> bool \<Rightarrow> Engine \<Rightarrow> 'h \<Rightarrow>
    Engine \<times> 'h \<times> (go_error + SessionHandle)" where
  "LoadSession ops srv c now sessID userID has_writer e h = (case GetSession ops c sessID h of
       Inl err \<Rightarrow> (e, h, Inl err)
     | Inr m \<Rightarrow>
         if sm_Revoked m \<or> sm_UserID m = [] \<or> sm_UserID m \<noteq> userID then (e, h, Inl ErrSessionNotFound)
         else let h1 = fst (TouchSession ops c now sessID h);
                  caps = sm_Capabilities m;
                  opts = (if has_writer then
                      (if cs_Sampling caps then [WithSamplingCapability] else [])
                    @ (if cs_Roots caps then [WithRootsCapability] else [])
                    @ (if cs_Elicitation caps then [WithElicitationCapability] else []) else []);
                  sess = NewSessionHandle m opts
              in (wireListChangedEmitters srv sess e, h1, Inr sess))"

subsection \<open>Notifications, responses, deletion, publishing\<close>

definition open_session :: "Engine \<Rightarrow> time \<Rightarrow> string \<Rightarrow> SessionMetadata \<Rightarrow> SessionMetadata \<times> go_error option" where
  "open_session e now userID m =
     (if sm_Revoked m \<or> sm_UserID m \<noteq> userID then (m, None)
      else if sm_State m = SessionStateOpen then (m, None)
      else (m\<lparr>sm_State := SessionStateOpen, sm_OpenedAt := (if sm_OpenedAt m = 0 then now else sm_OpenedAt m),
              sm_TTL := e_sessionTTL e, sm_UpdatedAt := now, sm_LastAccess := now\<rparr>, None))"

definition envelope :: "SessionHandle \<Rightarrow> json \<Rightarrow> event_bytes" where
  "envelope sess msg = Envelope \<lparr>fm_SessionID = sh_sessionID sess, fm_UserID = sh_userID sess, fm_Msg = Doc msg\<rparr>"

definition HandleNotification :: "'h SessionHost \<Rightarrow> Engine \<Rightarrow> ctx \<Rightarrow> time \<Rightarrow> SessionHandle \<Rightarrow> Request \<Rightarrow> 'h \<Rightarrow>
    'h \<times> go_error option" where
  "HandleNotification ops e c now sess note h =
     (if req_Method note = InitializedNotificationMethod then
        (fst (MutateSession ops c now (sh_sessionID sess) (open_session e now (sh_userID sess)) h), None)
      else case marshal_request note of
          None \<Rightarrow> (h, Some (ErrText ''failed to marshal notification''))
        | Some j \<Rightarrow> (case PublishEvent ops c sessionFanoutTopic (envelope sess j) h of
              (h', Some err) \<Rightarrow> (h', Some (Wrapped ''failed to publish notification'' err))
            | (h', None) \<Rightarrow> (h', None)))"

definition HandleClientResponse :: "'h SessionHost \<Rightarrow> ctx \<Rightarrow> SessionHandle \<Rightarrow> Response option \<Rightarrow> 'h \<Rightarrow> 'h \<times> go_error option" where
  "HandleClientResponse ops c sess res h = (case res of
       None \<Rightarrow> (h, Some (ErrText ''invalid response: missing id''))
     | Some r \<Rightarrow>
         if id_IsNil (res_ID r) then (h, Some (ErrText ''invalid response: missing id''))
         else case marshal_response r of
             None \<Rightarrow> (h, Some (ErrText ''marshal response''))
           | Some j \<Rightarrow> (case PublishEvent ops c sessionFanoutTopic (envelope sess j) h of
                 (h', Some err) \<Rightarrow> (h', Some (Wrapped ''publish fanout'' err))
               | (h', None) \<Rightarrow> (h', None)))"

definition run_cancel :: "CancelSubscription option \<Rightarrow> Engine \<Rightarrow> Engine" where
  "run_cancel cs e = (case cs of
       None \<Rightarrow> e
     | Some (CancelForwarder i) \<Rightarrow> e\<lparr>e_forwarders := (e_forwarders e)[i := (e_forwarders e ! i)\<lparr>fw_cancelled := True\<rparr>]\<rparr>
     | Some (CancelProvider sid uri) \<Rightarrow> e\<lparr>e_providerCancels := e_providerCancels e @ [(sid, uri)]\<rparr>)"

definition cancelAllSubscriptionsForSession :: "string \<Rightarrow> Engine \<Rightarrow> Engine" where
  "cancelAllSubscriptionsForSession sessID e = (case mget (e_subCancels e) sessID of
       None \<Rightarrow> e
     | Some m \<Rightarrow> if m = [] then e
         else let e1 = foldl (\<lambda>e (uri, cs). run_cancel cs e) e m
              in e1\<lparr>e_subCancels := mdel sessID (e_subCancels e)\<rparr>)"

definition eng_DeleteSession :: "'h SessionHost \<Rightarrow> ctx \<Rightarrow> SessionHandle \<Rightarrow> Engine \<Rightarrow> 'h \<Rightarrow> Engine \<times> 'h \<times> go_error option" where
  "eng_DeleteSession ops c sess e h =
     (let e1 = cancelAllSubscriptionsForSession (sh_sessionID sess) e;
          note = \<lparr>req_JSONRPCVersion = ProtocolVersion, req_Method = internalSessionDeletedMethod, req_Params = None, req_ID = None\<rparr>;
          j = (case marshal_request note of None \<Rightarrow> JNull | Some j \<Rightarrow> j)
      in case PublishEvent ops (without_cancel c) sessionFanoutTopic (envelope sess j) h of
           (h1, Some err) \<Rightarrow> (e1, h1, Some (Wrapped ''error publishing fanout'' err))
         | (h1, None) \<Rightarrow> (case DeleteSession ops c (sh_sessionID sess) h1 of
               (h2, Some err) \<Rightarrow> (e1, h2, Some (Wrapped ''error deleting session'' err))
             | (h2, None) \<Rightarrow> (e1, h2, None)))"

text \<open>The message is a \<open>jsonrpc.Message\<close>, whose dynamic type is not \<open>[]byte\<close>, so it is always marshalled;
  \<open>json.Marshal\<close> of a byte slice is the base64 string of the bytes. \<open>render\<close> gives the bytes of a message.\<close>

definition PublishToSession :: "'h SessionHost \<Rightarrow> (wire \<Rightarrow> string) \<Rightarrow> ctx \<Rightarrow> string \<Rightarrow> string \<Rightarrow> wire \<Rightarrow> 'h \<Rightarrow>
    'h \<times> (go_error + string)" where
  "PublishToSession ops render c sessID userID msg h = (case GetSession ops c sessID h of
       Inl err \<Rightarrow> (h, Inl ErrSessionNotFound)
     | Inr m \<Rightarrow>
         if sm_Revoked m \<or> sm_UserID m \<noteq> userID then (h, Inl ErrSessionNotFound)
         else case PublishSession ops c sessID (Doc (JStr (base64 (render msg)))) h of
             (h', Inl err) \<Rightarrow> (h', Inl (Wrapped ''publish session'' err))
           | (h', Inr i) \<Rightarrow> (h', Inr i))"


subsection \<open>Lemmas on any session host\<close>

lemma negotiate_supported: "negotiate_version srv c client = Inr v \<Longrightarrow> IsSupportedProtocolVersion v
    \<and> (IsSupportedProtocolVersion client \<longrightarrow> v = client)"
  by (auto simp: negotiate_version_def IsSupportedProtocolVersion_def split: if_splits sum.splits option.splits)

lemma build_result_version: "build_result srv c sess v = Inr r \<Longrightarrow> irs_ProtocolVersion r = v"
  by (auto simp: build_result_def bind_err_def split: sum.splits)

lemma NewSessionHandle_fields:
  "set opts \<subseteq> {WithSamplingCapability, WithRootsCapability, WithElicitationCapability} \<Longrightarrow>
   sh_sessionID (NewSessionHandle m opts) = sm_SessionID m \<and> sh_userID (NewSessionHandle m opts) = sm_UserID m \<and>
   sh_state (NewSessionHandle m opts) = sm_State m"
proof -
  have "sh_sessionID (foldl (\<lambda>s opt. opt s) s opts) = sh_sessionID s \<and> sh_userID (foldl (\<lambda>s opt. opt s) s opts) = sh_userID s \<and>
      sh_state (foldl (\<lambda>s opt. opt s) s opts) = sh_state s"
    if "set opts \<subseteq> {WithSamplingCapability, WithRootsCapability, WithElicitationCapability}" for s
    using that
    by (induction opts arbitrary: s)
       (auto simp: WithSamplingCapability_def WithRootsCapability_def WithElicitationCapability_def)
  then show "set opts \<subseteq> {WithSamplingCapability, WithRootsCapability, WithElicitationCapability} \<Longrightarrow> ?thesis"
    by (simp add: NewSessionHandle_def)
qed

definition new_meta :: "Engine \<Rightarrow> string \<Rightarrow> time \<Rightarrow> string \<Rightarrow> InitializeRequest \<Rightarrow> string \<Rightarrow> SessionMetadata" where
  "new_meta e uuid now userID r version = \<lparr>sm_MetaVersion = 1, sm_SessionID = uuid, sm_UserID = userID, sm_Issuer = [],
     sm_ClientProtocolVersion = ir_ProtocolVersion r, sm_ServerProtocolVersion = version,
     sm_Client = \<lparr>ci_Name = ii_Name (ir_ClientInfo r), ci_Version = ii_Version (ir_ClientInfo r), ci_InstanceID = []\<rparr>,
     sm_Capabilities = client_caps (ir_Capabilities r), sm_State = SessionStatePending, sm_CreatedAt = now,
     sm_UpdatedAt = now, sm_LastAccess = now, sm_TTL = e_handshakeTTL e, sm_MaxLifetime = e_sessionMaxLifetime e,
     sm_OpenedAt = 0, sm_Revoked = False\<rparr>"

context session_host
begin

lemma create_session_fresh:
  assumes "invar h" and "uuid \<noteq> []" and "metas h uuid = None" and "uid \<noteq> []"
    and "createSession ops e None uuid now uid (ir_ProtocolVersion r) v (client_caps (ir_Capabilities r))
       \<lparr>ci_Name = ii_Name (ir_ClientInfo r), ci_Version = ii_Version (ir_ClientInfo r), ci_InstanceID = []\<rparr> h = (h', res)"
  shows "res = Inr (NewSessionHandle (new_meta e uuid now uid r v) []) \<and> invar h' \<and>
    metas h' = (metas h)(uuid \<mapsto> new_meta e uuid now uid r v) \<and> data h' = data h \<and> stream h' = stream h"
proof -
  let ?m = "new_meta e uuid now uid r v"
  obtain h1 rc where cr: "CreateSession ops None uuid ?m h = (h1, rc)"
    by fastforce
  have "rc = Inr ?m \<and> metas h1 = (metas h)(uuid \<mapsto> ?m) \<and> data h1 = data h \<and> stream h1 = stream h"
    using create_fresh [OF assms(1) _ _ cr] assms(2,3) by (simp add: new_meta_def)
  moreover have "invar h1"
    using invar_create [OF assms(1), of None uuid ?m] cr by simp
  ultimately show ?thesis
    using assms(4,5) cr by (simp add: createSession_def new_meta_def)
qed

lemma initialize_ok:
  assumes inv: "invar h" and fresh: "uuid \<noteq> []" "metas h uuid = None"
    and init: "InitializeSession ops srv e None uuid now uid (Some r) h = (h', res)"
  shows "case res of
      Inl err \<Rightarrow> metas h' = metas h
    | Inr (sess, ir) \<Rightarrow> uid \<noteq> [] \<and> IsSupportedProtocolVersion (irs_ProtocolVersion ir)
        \<and> (IsSupportedProtocolVersion (ir_ProtocolVersion r) \<longrightarrow> irs_ProtocolVersion ir = ir_ProtocolVersion r)
        \<and> metas h' = (metas h)(uuid \<mapsto> new_meta e uuid now uid r (irs_ProtocolVersion ir))
        \<and> sh_sessionID sess = uuid \<and> sh_userID sess = uid \<and> data h' = data h \<and> stream h' = stream h"
proof (cases "ir_ProtocolVersion r = [] \<or> uid = [] \<or> (\<exists>err. negotiate_version srv None (ir_ProtocolVersion r) = Inl err)")
  case True
  with init show ?thesis
    by (auto simp: InitializeSession_def createSession_def split: sum.splits if_splits)
next
  case False
  then obtain v where v: "negotiate_version srv None (ir_ProtocolVersion r) = Inr v"
    by (cases "negotiate_version srv None (ir_ProtocolVersion r)") auto
  let ?info = "\<lparr>ci_Name = ii_Name (ir_ClientInfo r), ci_Version = ii_Version (ir_ClientInfo r), ci_InstanceID = []\<rparr>"
  let ?sess = "NewSessionHandle (new_meta e uuid now uid r v) []"
  obtain h1 cr where cr: "createSession ops e None uuid now uid (ir_ProtocolVersion r) v (client_caps (ir_Capabilities r)) ?info h = (h1, cr)"
    by fastforce
  have c: "cr = Inr ?sess" "invar h1" "metas h1 = (metas h)(uuid \<mapsto> new_meta e uuid now uid r v)" "data h1 = data h"
    "stream h1 = stream h"
    using create_session_fresh [OF inv fresh _ cr] False by auto
  have ids: "sh_sessionID ?sess = uuid" "sh_userID ?sess = uid"
    by (simp_all add: NewSessionHandle_def new_meta_def)
  show ?thesis
  proof (cases "build_result srv None ?sess v")
    case (Inl err)
    obtain h2 d where d: "DeleteSession ops None uuid h1 = (h2, d)"
      by fastforce
    have "metas h2 = metas h"
      using delete_live [OF c(2) d] c(3) fresh(2) by auto
    with init v cr c(1) Inl False ids d show ?thesis
      by (auto simp: InitializeSession_def)
  next
    case (Inr ir)
    with init v cr c False ids negotiate_supported [OF v] build_result_version [OF Inr] show ?thesis
      by (auto simp: InitializeSession_def)
  qed
qed

lemma load_session_iff:
  assumes inv: "invar h" and load: "LoadSession ops srv None now sid uid w e h = (e', h', res)"
  shows "(\<exists>m. metas h sid = Some m \<and> \<not> sm_Revoked m \<and> sm_UserID m = uid \<and> uid \<noteq> [] \<and>
      (\<exists>sess. res = Inr sess \<and> sh_sessionID sess = sm_SessionID m \<and> sh_userID sess = uid) \<and>
      metas h' = (metas h)(sid \<mapsto> touch_meta now m) \<and> data h' = data h \<and> stream h' = stream h \<and> invar h') \<or>
    (\<not> (\<exists>m. metas h sid = Some m \<and> \<not> sm_Revoked m \<and> sm_UserID m = uid \<and> uid \<noteq> []) \<and>
      res = Inl ErrSessionNotFound \<and> h' = h \<and> e' = e)"
proof (cases "metas h sid")
  case None
  with load show ?thesis by (simp add: LoadSession_def get_live)
next
  case (Some m)
  show ?thesis
  proof (cases "sm_Revoked m \<or> sm_UserID m = [] \<or> sm_UserID m \<noteq> uid")
    case True
    with Some load show ?thesis by (auto simp: LoadSession_def get_live)
  next
    case False
    obtain h1 t where t: "TouchSession ops None now sid h = (h1, t)"
      by fastforce
    have "invar h1" using invar_touch [OF inv, of None now sid] t by simp
    with touch_live [OF inv Some t] Some False load t show ?thesis
      by (auto simp: LoadSession_def get_live Let_def NewSessionHandle_fields)
  qed
qed

lemma initialized_opens:
  assumes inv: "invar h" and m: "metas h (sh_sessionID sess) = Some m" and meth: "req_Method note = InitializedNotificationMethod"
    and run: "HandleNotification ops e None now sess note h = (h', err)"
  shows "err = None \<and> metas h' = (metas h)(sh_sessionID sess \<mapsto>
      (fst (open_session e now (sh_userID sess) m))\<lparr>sm_UpdatedAt := now\<rparr>) \<and> data h' = data h \<and> stream h' = stream h"
proof -
  let ?f = "open_session e now (sh_userID sess)"
  obtain h1 r where mu: "MutateSession ops None now (sh_sessionID sess) ?f h = (h1, r)"
    by fastforce
  have f: "?f m = (fst (?f m), None)"
    by (simp add: open_session_def)
  from mutate_live [OF inv m f mu] run meth mu show ?thesis
    by (simp add: HandleNotification_def)
qed

lemma delete_session_gone:
  assumes inv: "invar h" and del: "eng_DeleteSession ops None sess e h = (e', h', err)"
  shows "err = None \<and> metas h' = (metas h)(sh_sessionID sess := None) \<and>
    data h' = (data h)(sh_sessionID sess := (\<lambda>_. None)) \<and> stream h' = (stream h)(sh_sessionID sess := []) \<and>
    e' = cancelAllSubscriptionsForSession (sh_sessionID sess) e \<and> invar h'"
proof -
  obtain ev where ev: "ev = envelope sess (case marshal_request \<lparr>req_JSONRPCVersion = ProtocolVersion,
      req_Method = internalSessionDeletedMethod, req_Params = None, req_ID = None\<rparr> of None \<Rightarrow> JNull | Some j \<Rightarrow> j)"
    by simp
  obtain h1 r1 where p: "PublishEvent ops None sessionFanoutTopic ev h = (h1, r1)"
    by fastforce
  obtain h2 r2 where d: "DeleteSession ops None (sh_sessionID sess) h1 = (h2, r2)"
    by fastforce
  have i1: "invar h1" using invar_event [OF inv, of None sessionFanoutTopic ev] p by simp
  have "invar h2" using invar_delete [OF i1, of None "sh_sessionID sess"] d by simp
  with event_live [OF p] delete_live [OF i1 d] del p d show ?thesis
    by (simp add: eng_DeleteSession_def Let_def ev without_cancel_def)
qed

end

lemma cancelAll_clears: "mget (e_subCancels (cancelAllSubscriptionsForSession sid e)) sid \<in> {None, Some []}"
  by (auto simp: cancelAllSubscriptionsForSession_def Let_def split: option.split)

subsection \<open>Properties\<close>


definition wit_init :: InitializeRequest where
  "wit_init = \<lparr>ir_ProtocolVersion = ''2025-06-18'', ir_Capabilities = cc_zero, ir_ClientInfo = ii_zero\<rparr>"

definition wit_run :: "Host \<times> (go_error + SessionHandle \<times> InitializeResult)" where
  "wit_run = InitializeSession memory_host (NewServer []) (NewEngine []) None ''s'' 7 ''u'' (Some wit_init) mem_New"

definition wit_meta :: SessionMetadata where
  "wit_meta = new_meta (NewEngine []) ''s'' 7 ''u'' wit_init ''2025-06-18''"

lemma wit_run_ok: "\<exists>ir. wit_run = (mem_New\<lparr>h_metas := [(''s'', wit_meta)]\<rparr>, Inr (NewSessionHandle wit_meta [], ir))"
  by (simp add: wit_run_def InitializeSession_def wit_init_def negotiate_version_def IsSupportedProtocolVersion_def
      LatestProtocolVersion_def createSession_def memory_host_def mem_CreateSession_def mem_New_def build_result_def bind_err_def
      wrap_err_def NewServer_def GetServerInfo_def server_zero_def provide_def resources_entry_def tools_entry_def
      prompts_entry_def wit_meta_def new_meta_def Let_def)




definition wit_host_meta :: Host where
  "wit_host_meta = mem_New\<lparr>h_metas := [(''s'', wit_meta)]\<rparr>"

lemma wit_host_meta_inv: "mem_inv wit_host_meta"
  using mem_inv_New by (rule mem_inv_frame) (simp_all add: wit_host_meta_def)

lemma wit_host_meta_get [simp]: "h_metas wit_host_meta = [(''s'', wit_meta)]"
  by (simp add: wit_host_meta_def)

lemma wit_meta_fields [simp]: "sm_UserID wit_meta = ''u''" "\<not> sm_Revoked wit_meta" "sm_SessionID wit_meta = ''s''"
  "sm_State wit_meta = SessionStatePending" "sm_OpenedAt wit_meta = 0"
  by (simp_all add: wit_meta_def new_meta_def)


text \<open>The client's \<open>notifications/initialized\<close> opens the session once: a pending session of the
  handle's user becomes open with the sliding TTL and an opening time, a session that is already open
  keeps its opening time and TTL, a revoked session or one of another user is not opened, and no other
  session is touched.\<close>

theorem initialized_opens_once:
  assumes "mem_inv h" and "mget (h_metas h) (sh_sessionID sess) = Some m" and "req_Method note = InitializedNotificationMethod"
    and "HandleNotification memory_host e None now sess note h = (h', err)"
  shows "err = None \<and> (\<exists>m'. mget (h_metas h') (sh_sessionID sess) = Some m' \<and>
      (if sm_Revoked m \<or> sm_UserID m \<noteq> sh_userID sess \<or> sm_State m = SessionStateOpen
       then m' = m\<lparr>sm_UpdatedAt := now\<rparr>
       else sm_State m' = SessionStateOpen \<and> sm_TTL m' = e_sessionTTL e \<and>
         sm_OpenedAt m' = (if sm_OpenedAt m = 0 then now else sm_OpenedAt m) \<and> sm_UserID m' = sm_UserID m)) \<and>
    (\<forall>x. x \<noteq> sh_sessionID sess \<longrightarrow> mget (h_metas h') x = mget (h_metas h) x)"
  using mem.initialized_opens [OF assms] by (auto simp: open_session_def)

theorem initialized_opens_once_witness:
  "let h' = fst (HandleNotification memory_host (NewEngine []) None 9 (NewSessionHandle wit_meta [])
       \<lparr>req_JSONRPCVersion = ''2.0'', req_Method = ''notifications/initialized'', req_Params = None, req_ID = None\<rparr> wit_host_meta)
   in \<exists>m'. mget (h_metas h') ''s'' = Some m' \<and> sm_State m' = SessionStateOpen \<and> sm_OpenedAt m' = 9"
proof -
  let ?n = "\<lparr>req_JSONRPCVersion = ''2.0'', req_Method = ''notifications/initialized'', req_Params = None, req_ID = None\<rparr>"
  obtain h' err where r: "HandleNotification memory_host (NewEngine []) None 9 (NewSessionHandle wit_meta []) ?n wit_host_meta = (h', err)"
    by fastforce
  have "sh_sessionID (NewSessionHandle wit_meta []) = ''s''" "sh_userID (NewSessionHandle wit_meta []) = ''u''"
    by (simp_all add: NewSessionHandle_def)
  with initialized_opens_once [OF wit_host_meta_inv _ _ r, of wit_meta] r show ?thesis
    by (auto simp: InitializedNotificationMethod_def SessionStatePending_def SessionStateOpen_def Let_def)
qed

text \<open>C21: after \<open>DeleteSession\<close> no user can load the session, its data and pending messages are gone, the
  engine keeps no subscription of it, and every other session is as before.\<close>

theorem delete_session_complete:
  assumes "mem_inv h" and "eng_DeleteSession memory_host None sess e h = (e', h', err)"
  shows "err = None
    \<and> (\<forall>srv now uid w ee. snd (snd (LoadSession memory_host srv None now (sh_sessionID sess) uid w ee h')) = Inl ErrSessionNotFound)
    \<and> mem_data h' (sh_sessionID sess) = (\<lambda>_. None) \<and> mem_stream h' (sh_sessionID sess) = []
    \<and> mget (e_subCancels e') (sh_sessionID sess) \<in> {None, Some []}
    \<and> (\<forall>x. x \<noteq> sh_sessionID sess \<longrightarrow> mget (h_metas h') x = mget (h_metas h) x \<and> mem_data h' x = mem_data h x
         \<and> mem_stream h' x = mem_stream h x)"
proof -
  note d = mem.delete_session_gone [OF assms]
  have "mget (h_metas h') (sh_sessionID sess) = None"
    using d by (simp add: fun_eq_iff)
  then have "snd (snd (LoadSession memory_host srv None now (sh_sessionID sess) uid w ee h')) = Inl ErrSessionNotFound" for srv now uid w ee
    by (simp add: LoadSession_def memory_host_def mem_GetSession_def)
  with d show ?thesis
    using cancelAll_clears [of "sh_sessionID sess" e] by (simp add: fun_eq_iff)
qed

theorem delete_session_complete_witness:
  "let h' = fst (snd (eng_DeleteSession memory_host None (NewSessionHandle wit_meta []) (NewEngine []) wit_host_meta))
   in snd (snd (LoadSession memory_host (NewServer []) None 9 ''s'' ''u'' True (NewEngine []) h')) = Inl ErrSessionNotFound"
proof -
  obtain e' h' err where r: "eng_DeleteSession memory_host None (NewSessionHandle wit_meta []) (NewEngine []) wit_host_meta = (e', h', err)"
    by (metis prod_cases3)
  have "sh_sessionID (NewSessionHandle wit_meta []) = ''s''"
    by (simp add: NewSessionHandle_def)
  with delete_session_complete [OF wit_host_meta_inv r] r show ?thesis
    by (simp add: Let_def)
qed

text \<open>\<open>PublishToSession\<close> never puts the message itself on the stream: what it appends, for the owner
  of a live session, is the base64 text of the message as a JSON string; for anyone else it refuses and
  changes nothing.\<close>

theorem publish_to_session_encodes:
  assumes "mem_inv h" and "mget (h_metas h) sid = Some m"
    and "PublishToSession memory_host render None sid uid msg h = (h', res)"
  shows "if sm_Revoked m \<or> sm_UserID m \<noteq> uid then h' = h \<and> res = Inl ErrSessionNotFound
    else mem_stream h' sid = mem_stream h sid @ [Doc (JStr (base64 (render msg)))] \<and>
      res = Inr (itoa (Suc (length (mem_stream h sid))))"
proof (cases "sm_Revoked m \<or> sm_UserID m \<noteq> uid")
  case True
  with assms show ?thesis by (auto simp: PublishToSession_def memory_host_def mem_GetSession_def)
next
  case False
  obtain h1 rp where p: "mem_PublishSession None sid (Doc (JStr (base64 (render msg)))) h = (h1, rp)"
    by fastforce
  from mem_publish_live [OF assms(1) p] False assms(2,3) p show ?thesis
    by (auto simp: PublishToSession_def memory_host_def mem_GetSession_def)
qed

theorem publish_to_session_encodes_witness:
  "mem_stream (fst (PublishToSession memory_host (\<lambda>_. ''hi'') None ''s'' ''u'' Garbage wit_host_meta)) ''s'' = [Doc (JStr ''aGk='')]"
proof -
  obtain h' res where r: "PublishToSession memory_host (\<lambda>_. ''hi'') None ''s'' ''u'' Garbage wit_host_meta = (h', res)"
    by fastforce
  have "base64 ''hi'' = ''aGk=''"
    by (simp add: b64_char_def of_char_def)
  moreover have "mem_stream wit_host_meta ''s'' = []"
    by (simp add: mem_stream_def wit_host_meta_def mem_New_def)
  ultimately show ?thesis
    using publish_to_session_encodes [OF wit_host_meta_inv _ r, of wit_meta] r by simp
qed

end
