(* ===== verification/EngineRequests.thy ===== *)
theory EngineRequests
  imports EngineCore
begin

section \<open>The engine: requests (internal/engine/engine.go, HandleRequest)\<close>

text \<open>
  One definition per handler, every early return included. A handler that does not touch the engine's
  state is a function from the request to the response. A tool call is three pieces, because the tool
  runs outside the engine's locks and other requests and events run meanwhile: \<open>toolCall_begin\<close> (checks
  and registers the cancel function), the tool itself, and \<open>toolCall_end\<close> (the deferred clean-up and the
  response); \<open>handleToolCall\<close> composes them for an undisturbed tool. Subscribing releases its lock twice
  and is split the same way. \<open>None\<close> of \<open>HandleRequest\<close> is a Go panic (an assignment into a nil map).
\<close>

definition resp_err :: "Request \<Rightarrow> int \<Rightarrow> string \<Rightarrow> go_error + Response" where
  "resp_err req code msg = Inr (NewErrorResponse (req_ID req) code msg None)"

definition resp_ok :: "Request \<Rightarrow> json \<Rightarrow> go_error + Response" where
  "resp_ok req j = NewResultResponse (req_ID req) (Some j)"

definition list_cursor :: "Request \<Rightarrow> string option" where
  "list_cursor req = (if req_Params req = None then Some [] else dec_PaginatedRequest (raw_wire (req_Params req)))"

definition opt_cursor :: "string \<Rightarrow> string option" where
  "opt_cursor s = (if s \<noteq> [] then Some s else None)"

definition next_cursor :: "'a Page \<Rightarrow> string" where
  "next_cursor p = (case pg_NextCursor p of None \<Rightarrow> [] | Some s \<Rightarrow> s)"

definition handleSetLoggingLevel :: "ServerCaps \<Rightarrow> ctx \<Rightarrow> SessionHandle \<Rightarrow> Request \<Rightarrow> go_error + Response" where
  "handleSetLoggingLevel srv c sess req = (case dec_SetLevelRequest (raw_wire (req_Params req)) of
       None \<Rightarrow> resp_err req ErrorCodeInvalidParams ''invalid params''
     | Some level \<Rightarrow> (case srv_GetLoggingCapability srv c sess of
           Inl _ \<Rightarrow> resp_err req ErrorCodeInternalError ''internal error''
         | Inr None \<Rightarrow> resp_err req ErrorCodeMethodNotFound ''logging level not supported''
         | Inr (Some None) \<Rightarrow> resp_err req ErrorCodeInternalError ''internal error''
         | Inr (Some (Some cap)) \<Rightarrow> (case lcap_SetLevel cap c sess level of
               Some err \<Rightarrow>
                 if errors_is err ErrInvalidLoggingLevel then resp_err req ErrorCodeInvalidParams ''invalid params''
                 else resp_err req ErrorCodeInternalError ''internal error''
             | None \<Rightarrow> resp_ok req (enc_EmptyResult []))))"

definition handleToolsList :: "ServerCaps \<Rightarrow> ctx \<Rightarrow> SessionHandle \<Rightarrow> Request \<Rightarrow> go_error + Response" where
  "handleToolsList srv c sess req = (case list_cursor req of
       None \<Rightarrow> resp_err req ErrorCodeInvalidParams ''invalid params''
     | Some cur \<Rightarrow> (case srv_GetToolsCapability srv c sess of
           Inl _ \<Rightarrow> resp_err req ErrorCodeInternalError ''internal error''
         | Inr (Some (Some cap)) \<Rightarrow> (case tcap_ListTools cap c sess (opt_cursor cur) of
               Inl _ \<Rightarrow> resp_err req ErrorCodeInternalError ''internal error''
             | Inr page \<Rightarrow> resp_ok req (enc_ListToolsResult (pg_Items page) (next_cursor page) []))
         | Inr _ \<Rightarrow> resp_err req ErrorCodeMethodNotFound ''tools capability not supported''))"

definition handleResourcesList :: "ServerCaps \<Rightarrow> ctx \<Rightarrow> SessionHandle \<Rightarrow> Request \<Rightarrow> go_error + Response" where
  "handleResourcesList srv c sess req = (case list_cursor req of
       None \<Rightarrow> resp_err req ErrorCodeInvalidParams ''invalid params''
     | Some cur \<Rightarrow> (case srv_GetResourcesCapability srv c sess of
           Inl _ \<Rightarrow> resp_err req ErrorCodeInternalError ''internal error''
         | Inr (Some (Some cap)) \<Rightarrow> (case rcap_ListResources cap c sess (opt_cursor cur) of
               Inl _ \<Rightarrow> resp_err req ErrorCodeInternalError ''internal error''
             | Inr page \<Rightarrow> resp_ok req (enc_ListResourcesResult (pg_Items page) (next_cursor page) []))
         | Inr _ \<Rightarrow> resp_err req ErrorCodeMethodNotFound ''resources capability not supported''))"

definition handleResourcesTemplatesList :: "ServerCaps \<Rightarrow> ctx \<Rightarrow> SessionHandle \<Rightarrow> Request \<Rightarrow> go_error + Response" where
  "handleResourcesTemplatesList srv c sess req = (case list_cursor req of
       None \<Rightarrow> resp_err req ErrorCodeInvalidParams ''invalid params''
     | Some cur \<Rightarrow> (case srv_GetResourcesCapability srv c sess of
           Inl _ \<Rightarrow> resp_err req ErrorCodeInternalError ''internal error''
         | Inr (Some (Some cap)) \<Rightarrow> (case rcap_ListResourceTemplates cap c sess (opt_cursor cur) of
               Inl _ \<Rightarrow> resp_err req ErrorCodeInternalError ''internal error''
             | Inr page \<Rightarrow> resp_ok req (enc_ListResourceTemplatesResult (pg_Items page) (next_cursor page) []))
         | Inr _ \<Rightarrow> resp_err req ErrorCodeMethodNotFound ''resources capability not supported''))"

definition handleResourcesRead :: "ServerCaps \<Rightarrow> ctx \<Rightarrow> SessionHandle \<Rightarrow> Request \<Rightarrow> go_error + Response" where
  "handleResourcesRead srv c sess req = (case dec_ReadResourceRequest (raw_wire (req_Params req)) of
       None \<Rightarrow> resp_err req ErrorCodeInvalidParams ''invalid params''
     | Some uri \<Rightarrow>
         if uri = [] then resp_err req ErrorCodeInvalidParams ''invalid params''
         else (case srv_GetResourcesCapability srv c sess of
             Inl _ \<Rightarrow> resp_err req ErrorCodeInternalError ''internal error''
           | Inr (Some (Some cap)) \<Rightarrow> (case rcap_ReadResource cap c sess uri of
                 Inl _ \<Rightarrow> resp_err req ErrorCodeInternalError ''internal error''
               | Inr contents \<Rightarrow> resp_ok req (enc_ReadResourceResult contents []))
           | Inr _ \<Rightarrow> resp_err req ErrorCodeMethodNotFound ''resources capability not supported''))"

definition handlePromptsList :: "ServerCaps \<Rightarrow> ctx \<Rightarrow> SessionHandle \<Rightarrow> Request \<Rightarrow> go_error + Response" where
  "handlePromptsList srv c sess req = (case list_cursor req of
       None \<Rightarrow> resp_err req ErrorCodeInvalidParams ''invalid params''
     | Some cur \<Rightarrow> (case srv_GetPromptsCapability srv c sess of
           Inl _ \<Rightarrow> resp_err req ErrorCodeInternalError ''internal error''
         | Inr (Some (Some cap)) \<Rightarrow> (case pcap_ListPrompts cap c sess (opt_cursor cur) of
               Inl _ \<Rightarrow> resp_err req ErrorCodeInternalError ''internal error''
             | Inr page \<Rightarrow> resp_ok req (enc_ListPromptsResult (pg_Items page) (next_cursor page) []))
         | Inr _ \<Rightarrow> resp_err req ErrorCodeMethodNotFound ''prompts capability not supported''))"

definition handlePromptsGet :: "ServerCaps \<Rightarrow> ctx \<Rightarrow> SessionHandle \<Rightarrow> Request \<Rightarrow> go_error + Response" where
  "handlePromptsGet srv c sess req = (case dec_GetPromptRequestReceived (raw_wire (req_Params req)) of
       None \<Rightarrow> resp_err req ErrorCodeInvalidParams ''invalid params''
     | Some params \<Rightarrow>
         if gpr_Name params = [] then resp_err req ErrorCodeInvalidParams ''invalid params''
         else (case srv_GetPromptsCapability srv c sess of
             Inl _ \<Rightarrow> resp_err req ErrorCodeInternalError ''internal error''
           | Inr (Some (Some cap)) \<Rightarrow> (case pcap_GetPrompt cap c sess params of
                 Inl _ \<Rightarrow> resp_err req ErrorCodeInternalError ''internal error''
               | Inr res \<Rightarrow> resp_ok req (case res of None \<Rightarrow> JNull | Some r \<Rightarrow> enc_GetPromptResult r))
           | Inr _ \<Rightarrow> resp_err req ErrorCodeMethodNotFound ''prompts capability not supported''))"

text \<open>\<open>CompleteRequest\<close> has two struct fields of strings; the document is checked to have that shape.\<close>

definition two_strings :: "string \<Rightarrow> string \<Rightarrow> unit \<Rightarrow> json \<Rightarrow> unit option" where
  "two_strings a b acc j = unmarshal_struct () (\<lambda>kvs.
     Option.bind (dec_field as_string a [] kvs) (\<lambda>_. Option.bind (dec_field as_string b [] kvs) (\<lambda>_. Some ()))) (Doc j)"

definition dec_CompleteRequest :: "wire \<Rightarrow> json option" where
  "dec_CompleteRequest w = (case w of Garbage \<Rightarrow> None
     | Doc j \<Rightarrow> map_option (\<lambda>_. j) (unmarshal_struct () (\<lambda>kvs.
         Option.bind (dec_field (two_strings ''type'' ''uri'') ''ref'' () kvs) (\<lambda>_.
         dec_field (two_strings ''name'' ''value'') ''argument'' () kvs)) w))"

definition handleCompletionsComplete :: "ServerCaps \<Rightarrow> ctx \<Rightarrow> SessionHandle \<Rightarrow> Request \<Rightarrow> go_error + Response" where
  "handleCompletionsComplete srv c sess req = (case dec_CompleteRequest (raw_wire (req_Params req)) of
       None \<Rightarrow> resp_err req ErrorCodeInvalidParams ''invalid params''
     | Some params \<Rightarrow> (case srv_GetCompletionsCapability srv c sess of
           Inl _ \<Rightarrow> resp_err req ErrorCodeInternalError ''internal error''
         | Inr (Some (Some cap)) \<Rightarrow> (case ccap_Complete cap c sess params of
               Inl _ \<Rightarrow> resp_err req ErrorCodeInternalError ''internal error''
             | Inr res \<Rightarrow> resp_ok req res)
         | Inr _ \<Rightarrow> resp_err req ErrorCodeMethodNotFound ''completions capability not supported''))"

subsection \<open>Tool calls\<close>

record tool_call =
  tk_reqID :: string
  tk_index :: nat
  tk_params :: CallToolRequestReceived
  tk_cap :: ToolsCapability

definition toolCall_begin :: "ServerCaps \<Rightarrow> ctx \<Rightarrow> SessionHandle \<Rightarrow> Request \<Rightarrow> Engine \<Rightarrow>
    Engine \<times> ((go_error + Response) + tool_call)" where
  "toolCall_begin srv c sess req e = (case dec_CallToolRequestReceived (raw_wire (req_Params req)) of
       None \<Rightarrow> (e, Inl (resp_err req ErrorCodeInvalidParams ''invalid params''))
     | Some params \<Rightarrow>
         if ctr_Name params = [] then (e, Inl (resp_err req ErrorCodeInvalidParams ''invalid params''))
         else (case srv_GetToolsCapability srv c sess of
             Inl _ \<Rightarrow> (e, Inl (resp_err req ErrorCodeInternalError ''internal error''))
           | Inr None \<Rightarrow> (e, Inl (resp_err req ErrorCodeMethodNotFound ''logging level not supported''))
           | Inr (Some None) \<Rightarrow> (e, Inl (resp_err req ErrorCodeInternalError ''internal error''))
           | Inr (Some (Some cap)) \<Rightarrow>
               (let reqID = id_String (req_ID req) in
                if reqID = [] then (e, Inl (resp_err req ErrorCodeInvalidRequest ''missing request ID''))
                else if mget (e_toolCtxCancels e) reqID \<noteq> None
                  then (e\<lparr>e_toolCtxs := e_toolCtxs e @ [Some CtxCanceled]\<rparr>,
                        Inl (resp_err req ErrorCodeInternalError ''internal error''))
                else let i = length (e_toolCtxs e) in
                  (e\<lparr>e_toolCtxs := e_toolCtxs e @ [None], e_toolCtxCancels := mput reqID i (e_toolCtxCancels e)\<rparr>,
                   Inr \<lparr>tk_reqID = reqID, tk_index = i, tk_params = params, tk_cap = cap\<rparr>))))"

text \<open>Cancelling a context keeps the first cause.\<close>

definition cancel_ctx :: "nat \<Rightarrow> go_error \<Rightarrow> Engine \<Rightarrow> Engine" where
  "cancel_ctx i cause e = (if e_toolCtxs e ! i = None then e\<lparr>e_toolCtxs := (e_toolCtxs e)[i := Some cause]\<rparr> else e)"

definition toolCall_end :: "Request \<Rightarrow> tool_call \<Rightarrow> go_error + CallToolResult option \<Rightarrow> Engine \<Rightarrow>
    Engine \<times> (go_error + Response)" where
  "toolCall_end req tk outcome e =
     (let e1 = cancel_ctx (tk_index tk) CtxCanceled (e\<lparr>e_toolCtxCancels := mdel (tk_reqID tk) (e_toolCtxCancels e)\<rparr>)
      in case outcome of
           Inl err \<Rightarrow>
             if errors_is err CtxCanceled \<or> errors_is err CtxDeadlineExceeded
             then (e1, resp_err req ErrorCodeInternalError ''cancelled'')
             else (e1, resp_err req ErrorCodeInternalError ''internal error'')
         | Inr res \<Rightarrow> (e1, resp_ok req (case res of None \<Rightarrow> JNull | Some r \<Rightarrow> enc_CallToolResult r)))"

text \<open>What \<open>Err()\<close> of the tool's context returns: the request's own context or the cancellation.\<close>

definition tool_ctx :: "ctx \<Rightarrow> tool_call \<Rightarrow> Engine \<Rightarrow> ctx" where
  "tool_ctx c tk e = (case c of Some err \<Rightarrow> Some err
     | None \<Rightarrow> if e_toolCtxs e ! tk_index tk = None then None else Some CtxCanceled)"

definition handleToolCall :: "ServerCaps \<Rightarrow> ctx \<Rightarrow> SessionHandle \<Rightarrow> Request \<Rightarrow> Engine \<Rightarrow> Engine \<times> (go_error + Response)" where
  "handleToolCall srv c sess req e = (case toolCall_begin srv c sess req e of
       (e1, Inl r) \<Rightarrow> (e1, r)
     | (e1, Inr tk) \<Rightarrow> toolCall_end req tk (tcap_CallTool (tk_cap tk) (tool_ctx c tk e1) sess (tk_params tk)) e1)"

subsection \<open>Subscriptions\<close>

datatype sub_source = EventSource | Provider ResourceSubscriptionCapability

definition subscribe_begin :: "ServerCaps \<Rightarrow> ctx \<Rightarrow> SessionHandle \<Rightarrow> Request \<Rightarrow> Engine \<Rightarrow>
    Engine \<times> ((go_error + Response) + string \<times> sub_source)" where
  "subscribe_begin srv c sess req e = (case dec_SubscribeRequest (raw_wire (req_Params req)) of
       None \<Rightarrow> (e, Inl (resp_err req ErrorCodeInvalidParams ''invalid params''))
     | Some uri \<Rightarrow>
         if uri = [] then (e, Inl (resp_err req ErrorCodeInvalidParams ''invalid params''))
         else (case srv_GetResourcesCapability srv c sess of
             Inl _ \<Rightarrow> (e, Inl (resp_err req ErrorCodeInternalError ''internal error''))
           | Inr (Some (Some cap)) \<Rightarrow>
               (case (if rcap_isEventSource cap then Inr EventSource
                      else (case rcap_Subscription cap c sess of
                          Inl _ \<Rightarrow> Inl (resp_err req ErrorCodeInternalError ''internal error'')
                        | Inr (Some (Some sc)) \<Rightarrow> Inr (Provider sc)
                        | Inr _ \<Rightarrow> Inl (resp_err req ErrorCodeMethodNotFound ''subscriptions not supported''))) of
                  Inl r \<Rightarrow> (e, Inl r)
                | Inr src \<Rightarrow>
                    (let sid = sh_sessionID sess;
                         m = (case mget (e_subCancels e) sid of None \<Rightarrow> [] | Some m \<Rightarrow> m);
                         e1 = (if mget (e_subCancels e) sid = None then e\<lparr>e_subCancels := mput sid [] (e_subCancels e)\<rparr> else e)
                     in if mget m uri \<noteq> None then (e1, Inl (resp_ok req (enc_EmptyResult [])))
                        else (e1, Inr (uri, src))))
           | Inr _ \<Rightarrow> (e, Inl (resp_err req ErrorCodeMethodNotFound ''resources capability not supported''))))"

definition subscribe_attach :: "ctx \<Rightarrow> SessionHandle \<Rightarrow> Request \<Rightarrow> string \<Rightarrow> sub_source \<Rightarrow> Engine \<Rightarrow>
    Engine \<times> ((go_error + Response) + CancelSubscription option)" where
  "subscribe_attach c sess req uri src e = (case src of
       EventSource \<Rightarrow>
         (e\<lparr>e_forwarders := e_forwarders e @ [\<lparr>fw_session = sh_sessionID sess, fw_uri = uri, fw_cancelled = False, fw_returned = False\<rparr>]\<rparr>,
          Inr (Some (CancelForwarder (length (e_forwarders e)))))
     | Provider sc \<Rightarrow> (case scap_Subscribe sc c sess uri of
           Inl _ \<Rightarrow> (e, Inl (resp_err req ErrorCodeInvalidParams ''invalid params''))
         | Inr nonnil \<Rightarrow> (e, Inr (if nonnil then Some (CancelProvider (sh_sessionID sess) uri) else None))))"

definition subscribe_store :: "SessionHandle \<Rightarrow> string \<Rightarrow> CancelSubscription option \<Rightarrow> Engine \<Rightarrow> Engine option" where
  "subscribe_store sess uri cs e = (case mget (e_subCancels e) (sh_sessionID sess) of
       None \<Rightarrow> None
     | Some m \<Rightarrow> Some (e\<lparr>e_subCancels := mput (sh_sessionID sess) (mput uri cs m) (e_subCancels e)\<rparr>))"

definition handleResourcesSubscribe :: "ServerCaps \<Rightarrow> ctx \<Rightarrow> SessionHandle \<Rightarrow> Request \<Rightarrow> Engine \<Rightarrow>
    (Engine \<times> (go_error + Response)) option" where
  "handleResourcesSubscribe srv c sess req e = (case subscribe_begin srv c sess req e of
       (e1, Inl r) \<Rightarrow> Some (e1, r)
     | (e1, Inr (uri, src)) \<Rightarrow> (case subscribe_attach c sess req uri src e1 of
           (e2, Inl r) \<Rightarrow> Some (e2, r)
         | (e2, Inr cs) \<Rightarrow> map_option (\<lambda>e3. (e3, resp_ok req (enc_EmptyResult []))) (subscribe_store sess uri cs e2)))"

text \<open>The \<open>emit\<close> closure, and the two branches of the forwarder goroutine's \<open>select\<close>: \<open>forward_return\<close>
  ends it once its context is cancelled, \<open>forward\<close> takes a signal. When both are ready Go picks either,
  so a cancelled forwarder that has not returned may still publish.\<close>

definition resource_updated_note :: "string \<Rightarrow> Request" where
  "resource_updated_note uri = \<lparr>req_JSONRPCVersion = ProtocolVersion, req_Method = ResourcesUpdatedNotificationMethod,
     req_Params = Some (enc_ResourceUpdatedNotification uri), req_ID = None\<rparr>"

definition emit_updated :: "'h SessionHost \<Rightarrow> string \<Rightarrow> string \<Rightarrow> 'h \<Rightarrow> 'h" where
  "emit_updated ops sid uri h = (case marshal_request (resource_updated_note uri) of
       None \<Rightarrow> h
     | Some j \<Rightarrow> fst (PublishSession ops None sid (Doc j) h))"

definition forward :: "'h SessionHost \<Rightarrow> nat \<Rightarrow> Engine \<Rightarrow> 'h \<Rightarrow> 'h" where
  "forward ops i e h = (let f = e_forwarders e ! i in
     if fw_returned f then h else emit_updated ops (fw_session f) (fw_uri f) h)"

definition forward_return :: "nat \<Rightarrow> Engine \<Rightarrow> Engine" where
  "forward_return i e = (let f = e_forwarders e ! i in
     if fw_cancelled f then e\<lparr>e_forwarders := (e_forwarders e)[i := f\<lparr>fw_returned := True\<rparr>]\<rparr> else e)"

definition handleResourcesUnsubscribe :: "'h SessionHost \<Rightarrow> ctx \<Rightarrow> SessionHandle \<Rightarrow> Request \<Rightarrow> 'h \<Rightarrow> 'h \<times> (go_error + Response)" where
  "handleResourcesUnsubscribe ops c sess req h = (case dec_UnsubscribeRequest (raw_wire (req_Params req)) of
       None \<Rightarrow> (h, resp_err req ErrorCodeInvalidParams ''invalid params'')
     | Some uri \<Rightarrow>
         if uri = [] then (h, resp_err req ErrorCodeInvalidParams ''invalid params'')
         else (let fanReq = \<lparr>req_JSONRPCVersion = ProtocolVersion, req_Method = ResourcesUnsubscribeMethod,
                  req_Params = Some (JObj [(''uri'', JStr uri)]), req_ID = None\<rparr>;
                   h1 = (case marshal_request fanReq of None \<Rightarrow> h
                         | Some j \<Rightarrow> fst (PublishEvent ops (without_cancel c) sessionFanoutTopic (envelope sess j) h))
               in (h1, resp_ok req (enc_EmptyResult []))))"

subsection \<open>Dispatch\<close>

definition HandleRequest :: "'h SessionHost \<Rightarrow> ServerCaps \<Rightarrow> ctx \<Rightarrow> SessionHandle \<Rightarrow> Request \<Rightarrow> Engine \<Rightarrow> 'h \<Rightarrow>
    (Engine \<times> 'h \<times> (go_error + Response)) option" where
  "HandleRequest ops srv c sess req e h =
     (let m = req_Method req in
      if m = ToolsListMethod then Some (e, h, handleToolsList srv c sess req)
      else if m = ResourcesListMethod then Some (e, h, handleResourcesList srv c sess req)
      else if m = ResourcesReadMethod then Some (e, h, handleResourcesRead srv c sess req)
      else if m = ResourcesTemplatesListMethod then Some (e, h, handleResourcesTemplatesList srv c sess req)
      else if m = ResourcesSubscribeMethod then map_option (\<lambda>(e', r). (e', h, r)) (handleResourcesSubscribe srv c sess req e)
      else if m = ResourcesUnsubscribeMethod then
        (let (h', r) = handleResourcesUnsubscribe ops c sess req h in Some (e, h', r))
      else if m = PromptsListMethod then Some (e, h, handlePromptsList srv c sess req)
      else if m = PromptsGetMethod then Some (e, h, handlePromptsGet srv c sess req)
      else if m = CompletionCompleteMethod then Some (e, h, handleCompletionsComplete srv c sess req)
      else if m = LoggingSetLevelMethod then Some (e, h, handleSetLoggingLevel srv c sess req)
      else if m = ToolsCallMethod then (let (e', r) = handleToolCall srv c sess req e in Some (e', h, r))
      else Some (e, h, resp_err req ErrorCodeInternalError ''not implemented''))"


subsection \<open>Every request is answered\<close>

definition answers :: "Request \<Rightarrow> go_error + Response \<Rightarrow> bool" where
  "answers req r \<longleftrightarrow> (\<exists>res. r = Inr res \<and> res_ID res = req_ID req \<and> res_JSONRPCVersion res = ''2.0'' \<and>
     (res_Result res = None) \<noteq> (res_Error res = None))"

lemma answers_simps [simp]: "answers req (resp_err req code msg)" "answers req (resp_ok req j)"
  by (simp_all add: answers_def resp_err_def resp_ok_def NewErrorResponse_def NewResultResponse_def ProtocolVersion_def)

lemma handlers_answer:
  shows "answers req (handleToolsList srv c sess req)" and "answers req (handleResourcesList srv c sess req)"
    and "answers req (handleResourcesRead srv c sess req)" and "answers req (handleResourcesTemplatesList srv c sess req)"
    and "answers req (handlePromptsList srv c sess req)" and "answers req (handlePromptsGet srv c sess req)"
    and "answers req (handleCompletionsComplete srv c sess req)" and "answers req (handleSetLoggingLevel srv c sess req)"
    and "answers req (snd (handleResourcesUnsubscribe ops c sess req h))"
  by (simp_all add: handleToolsList_def handleResourcesList_def handleResourcesRead_def handleResourcesTemplatesList_def
      handlePromptsList_def handlePromptsGet_def handleCompletionsComplete_def handleSetLoggingLevel_def
      handleResourcesUnsubscribe_def Let_def split: option.split sum.split)

lemma cancel_ctx_fields [simp]:
  "e_toolCtxCancels (cancel_ctx i x e) = e_toolCtxCancels e" "e_subCancels (cancel_ctx i x e) = e_subCancels e"
  "length (e_toolCtxs (cancel_ctx i x e)) = length (e_toolCtxs e)"
  by (simp_all add: cancel_ctx_def)

lemma toolCall_begin_cases:
  assumes "toolCall_begin srv c sess req e = (e1, out)"
  shows "(\<exists>r. out = Inl r \<and> answers req r \<and> e_toolCtxCancels e1 = e_toolCtxCancels e) \<or>
    (\<exists>tk. out = Inr tk \<and> tk_reqID tk = id_String (req_ID req) \<and> tk_reqID tk \<noteq> [] \<and> mget (e_toolCtxCancels e) (tk_reqID tk) = None \<and>
       tk_index tk = length (e_toolCtxs e) \<and> e1 = e\<lparr>e_toolCtxs := e_toolCtxs e @ [None],
         e_toolCtxCancels := mput (tk_reqID tk) (tk_index tk) (e_toolCtxCancels e)\<rparr>)"
  using assms
  by (auto simp: toolCall_begin_def Let_def split: option.splits sum.splits if_splits)

lemma toolCall_end_answers: "answers req (snd (toolCall_end req tk out e))"
  by (simp add: toolCall_end_def Let_def split: sum.split)

lemma toolCall_end_cancels: "e_toolCtxCancels (fst (toolCall_end req tk out e)) = mdel (tk_reqID tk) (e_toolCtxCancels e)"
  by (simp add: toolCall_end_def Let_def split: sum.split)

lemma handleToolCall_answers:
  "answers req (snd (handleToolCall srv c sess req e)) \<and> e_toolCtxCancels (fst (handleToolCall srv c sess req e)) = e_toolCtxCancels e"
proof -
  obtain e1 out where b: "toolCall_begin srv c sess req e = (e1, out)"
    by fastforce
  from toolCall_begin_cases [OF b] show ?thesis
    by (auto simp: handleToolCall_def b toolCall_end_answers toolCall_end_cancels mdel_mput_absent)
qed

lemma subscribe_begin_cases:
  assumes "subscribe_begin srv c sess req e = (e1, out)"
  shows "(case out of Inl r \<Rightarrow> answers req r | Inr (uri, src) \<Rightarrow> \<exists>m. mget (e_subCancels e1) (sh_sessionID sess) = Some m \<and> mget m uri = None)
    \<and> e_toolCtxCancels e1 = e_toolCtxCancels e \<and> e_forwarders e1 = e_forwarders e"
  using assms
  by (auto simp: subscribe_begin_def Let_def split: option.splits sum.splits if_splits)

lemma subscribe_attach_cases:
  assumes "subscribe_attach c sess req uri src e = (e1, out)"
  shows "(case out of Inl r \<Rightarrow> answers req r | Inr _ \<Rightarrow> True) \<and> e_subCancels e1 = e_subCancels e \<and> e_toolCtxCancels e1 = e_toolCtxCancels e"
  using assms by (auto simp: subscribe_attach_def split: sub_source.splits sum.splits)

lemma handleResourcesSubscribe_answers:
  "\<exists>e' r. handleResourcesSubscribe srv c sess req e = Some (e', r) \<and> answers req r \<and> e_toolCtxCancels e' = e_toolCtxCancels e"
proof -
  obtain e1 out where b: "subscribe_begin srv c sess req e = (e1, out)"
    by fastforce
  note bc = subscribe_begin_cases [OF b]
  show ?thesis
  proof (cases out)
    case (Inl r)
    with bc b show ?thesis by (simp add: handleResourcesSubscribe_def)
  next
    case (Inr us)
    obtain uri src where us: "us = (uri, src)" by fastforce
    obtain e2 out2 where a: "subscribe_attach c sess req uri src e1 = (e2, out2)"
      by fastforce
    with subscribe_attach_cases [OF a] bc Inr us b show ?thesis
      by (auto simp: handleResourcesSubscribe_def subscribe_store_def split: sum.split)
  qed
qed

lemma HandleRequest_answers:
  "\<exists>e' h' r. HandleRequest ops srv c sess req e h = Some (e', h', r) \<and> answers req r \<and> e_toolCtxCancels e' = e_toolCtxCancels e"
proof -
  obtain e' r where s: "handleResourcesSubscribe srv c sess req e = Some (e', r)" "answers req r" "e_toolCtxCancels e' = e_toolCtxCancels e"
    using handleResourcesSubscribe_answers by blast
  obtain h1 r1 where u: "handleResourcesUnsubscribe ops c sess req h = (h1, r1)"
    by fastforce
  obtain e2 r2 where t: "handleToolCall srv c sess req e = (e2, r2)"
    by fastforce
  have "answers req r1" "answers req r2" "e_toolCtxCancels e2 = e_toolCtxCancels e"
    using handlers_answer(9) [of req ops c sess h] handleToolCall_answers [of req srv c sess e] u t by simp_all
  with s u t show ?thesis
    by (simp add: HandleRequest_def Let_def handlers_answer(1-8))
qed



subsection \<open>Subscriptions\<close>

definition sub_req :: "string \<Rightarrow> Request" where
  "sub_req uri = \<lparr>req_JSONRPCVersion = ''2.0'', req_Method = ResourcesSubscribeMethod,
     req_Params = Some (JObj [(''uri'', JStr uri)]), req_ID = Some (IdInt 1)\<rparr>"

lemma dec_sub_req [simp]: "dec_SubscribeRequest (raw_wire (Some (JObj [(''uri'', JStr uri)]))) = Some uri"
  "dec_UnsubscribeRequest (raw_wire (Some (JObj [(''uri'', JStr uri)]))) = Some uri"
  by (simp_all add: dec_SubscribeRequest_def dec_UnsubscribeRequest_def raw_wire_def unmarshal_struct_def)

definition subscribed :: "Engine \<Rightarrow> string \<Rightarrow> string \<Rightarrow> CancelSubscription option option" where
  "subscribed e sid uri = (case mget (e_subCancels e) sid of None \<Rightarrow> None | Some m \<Rightarrow> mget m uri)"

text \<open>Subscribing to a URI of an event source is idempotent and starts exactly one forwarder: the
  first request of a session for a URI records a live forwarder for that session and URI and leaves the
  other subscriptions alone; when the session already has the URI, the request succeeds and changes
  nothing. A signal then appends exactly one update notification for the URI to that session's stream.\<close>

theorem subscribe_once:
  assumes "req_Params req = Some (JObj [(''uri'', JStr uri)])" and "uri \<noteq> []"
    and "srv_GetResourcesCapability srv c sess = Inr (Some (Some cap))" and "rcap_isEventSource cap"
    and "handleResourcesSubscribe srv c sess req e = Some (e', r)"
  shows "r = resp_ok req (enc_EmptyResult []) \<and>
    (if subscribed e (sh_sessionID sess) uri \<noteq> None then e' = e
     else \<exists>i. i = length (e_forwarders e) \<and> subscribed e' (sh_sessionID sess) uri = Some (Some (CancelForwarder i)) \<and>
       e_forwarders e' = e_forwarders e @ [\<lparr>fw_session = sh_sessionID sess, fw_uri = uri, fw_cancelled = False, fw_returned = False\<rparr>] \<and>
       (\<forall>sid u. (sid, u) \<noteq> (sh_sessionID sess, uri) \<longrightarrow> subscribed e' sid u = subscribed e sid u) \<and>
       forward ops i e' h = emit_updated ops (sh_sessionID sess) uri h)"
  using assms
  by (auto simp: handleResourcesSubscribe_def subscribe_begin_def subscribe_attach_def subscribe_store_def subscribed_def
      forward_def Let_def nth_append split: option.splits if_splits)

definition event_source :: ResourcesCapability where
  "event_source = \<lparr>rcap_ListResources = (\<lambda>c s cur. lift_page (ListResources (NewResourcesContainer []) cur)),
     rcap_ListResourceTemplates = (\<lambda>c s cur. lift_page (ListResourceTemplates (NewResourcesContainer []) cur)),
     rcap_ReadResource = (\<lambda>c s uri. Inl (ErrText ''resource not found'')), rcap_Subscription = (\<lambda>c s. Inr None),
     rcap_ListChanged = (\<lambda>c s. Inr (Some (Some ()))), rcap_isEventSource = True\<rparr>"

definition wit_srv :: ServerCaps where
  "wit_srv = NewServer [WithResourcesCapability (StaticCap (Some event_source))]"

lemma wit_srv_resources: "srv_GetResourcesCapability wit_srv c s = Inr (Some (Some event_source))" "rcap_isEventSource event_source"
  by (simp_all add: wit_srv_def NewServer_def WithResourcesCapability_def StaticCap_def provide_def server_zero_def Let_def event_source_def)

definition wit_sess :: SessionHandle where
  "wit_sess = NewSessionHandle wit_meta []"

lemma wit_sess_ids [simp]: "sh_sessionID wit_sess = ''s''" "sh_userID wit_sess = ''u''"
  by (simp_all add: wit_sess_def NewSessionHandle_def)

theorem subscribe_once_witness:
  "\<exists>e' r. handleResourcesSubscribe wit_srv None wit_sess (sub_req ''a'') (NewEngine []) = Some (e', r) \<and>
     subscribed e' ''s'' ''a'' = Some (Some (CancelForwarder 0))"
proof -
  obtain e' r where h: "handleResourcesSubscribe wit_srv None wit_sess (sub_req ''a'') (NewEngine []) = Some (e', r)"
    using handleResourcesSubscribe_answers by blast
  have "subscribed (NewEngine []) ''s'' ''a'' = None" "e_forwarders (NewEngine []) = []"
    by (simp_all add: NewEngine_def subscribed_def)
  with subscribe_once [OF _ _ wit_srv_resources h, of "''a''" memory_host mem_New] h show ?thesis
    by (simp add: sub_req_def)
qed

end
