(* ===== verification/EngineEvents.thy ===== *)
theory EngineEvents
  imports EngineRequests
begin

section \<open>The engine: fan-out events and rendez-vous (internal/engine/engine.go)\<close>

text \<open>
  The consumer of the inter-instance bus (\<open>handleSessionEvent\<close>), the rendez-vous through which a
  client's response finds the call that waits for it, cancellation of calls in flight, and the
  list-changed emitters. \<open>None\<close> is a Go panic: sending on a closed channel or closing one twice. The
  consumer looks a rendez-vous up under the lock and sends after releasing it, so the two are separate
  definitions (\<open>rdv_lookup\<close>, \<open>rdv_send\<close>) that \<open>event_response\<close> composes.
\<close>

subsection \<open>Rendez-vous\<close>

definition close_rdv :: "nat \<Rightarrow> Engine \<Rightarrow> Engine option" where
  "close_rdv i e = (let ch = e_chans e ! i in
     if rdv_closed ch then None else Some (e\<lparr>e_chans := (e_chans e)[i := ch\<lparr>rdv_closed := True\<rparr>]\<rparr>))"

definition createRendezVous :: "string \<Rightarrow> Engine \<Rightarrow> Engine \<times> nat" where
  "createRendezVous reqID e = (let i = length (e_chans e) in
     (e\<lparr>e_chans := e_chans e @ [\<lparr>rdv_buffer = None, rdv_closed = False\<rparr>],
        e_rdvChans := mput reqID i (e_rdvChans e), e_rdvClosers := mput reqID i (e_rdvClosers e)\<rparr>, i))"

text \<open>The close function \<open>createRendezVous\<close> returns.\<close>

definition closeRendezVous :: "string \<Rightarrow> Engine \<Rightarrow> Engine option" where
  "closeRendezVous reqID e = map_option (\<lambda>e1. e1\<lparr>e_rdvChans := mdel reqID (e_rdvChans e1)\<rparr>)
     (case mget (e_rdvClosers e) reqID of
        None \<Rightarrow> Some e
      | Some i \<Rightarrow> close_rdv i (e\<lparr>e_rdvClosers := mdel reqID (e_rdvClosers e)\<rparr>))"

definition rdv_lookup :: "string \<Rightarrow> Engine \<Rightarrow> nat option" where
  "rdv_lookup reqID e = mget (e_rdvChans e) reqID"

definition rdv_send :: "nat \<Rightarrow> wire \<Rightarrow> Engine \<Rightarrow> Engine option" where
  "rdv_send i msg e = (let ch = e_chans e ! i in
     if rdv_closed ch then None
     else if rdv_buffer ch = None then Some (e\<lparr>e_chans := (e_chans e)[i := ch\<lparr>rdv_buffer := Some msg\<rparr>]\<rparr>)
     else Some e)"

datatype received = Blocked | ChanClosed | Got wire

definition rdv_receive :: "nat \<Rightarrow> Engine \<Rightarrow> Engine \<times> received" where
  "rdv_receive i e = (let ch = e_chans e ! i in
     case rdv_buffer ch of
       Some msg \<Rightarrow> (e\<lparr>e_chans := (e_chans e)[i := ch\<lparr>rdv_buffer := None\<rparr>]\<rparr>, Got msg)
     | None \<Rightarrow> (e, if rdv_closed ch then ChanClosed else Blocked))"

subsection \<open>Cancelling a request in flight\<close>

definition cancelInFlightRequest :: "string \<Rightarrow> string \<Rightarrow> Engine \<Rightarrow> (Engine \<times> bool) option" where
  "cancelInFlightRequest reqID reason e =
     (if reqID = [] then Some (e, False)
      else let cancel = mget (e_toolCtxCancels e) reqID;
               e1 = (case cancel of None \<Rightarrow> e
                     | Some i \<Rightarrow> cancel_ctx i (ErrText (if reason = [] then ''cancelled'' else reason)) e)
           in map_option (\<lambda>e2. (e2, cancel \<noteq> None)) (closeRendezVous reqID e1))"

subsection \<open>The event consumer\<close>

definition event_unsubscribe :: "string \<Rightarrow> string \<Rightarrow> Engine \<Rightarrow> Engine" where
  "event_unsubscribe sid uri e = (case mget (e_subCancels e) sid of
       None \<Rightarrow> e
     | Some m \<Rightarrow> if m = [] then e
         else (case mget m uri of
             Some (Some cs) \<Rightarrow>
               (let m' = mdel uri m; e1 = run_cancel (Some cs) e in
                e1\<lparr>e_subCancels := (if m' = [] then mdel sid (e_subCancels e1) else mput sid m' (e_subCancels e1))\<rparr>)
           | _ \<Rightarrow> e))"

definition event_request :: "'h SessionHost \<Rightarrow> ctx \<Rightarrow> string \<Rightarrow> Request \<Rightarrow> Engine \<Rightarrow> 'h \<Rightarrow> (Engine \<times> 'h) option" where
  "event_request ops c sid req e h =
     (if req_Method req = internalSessionDeletedMethod then Some (cancelAllSubscriptionsForSession sid e, h)
      else if req_Method req = CancelledNotificationMethod then
        (case dec_CancelledNotification (raw_wire (req_Params req)) of
           None \<Rightarrow> Some (e, h)
         | Some p \<Rightarrow>
             if id_IsNil (cn_RequestID p) then Some (e, h)
             else map_option (\<lambda>(e', _). (e', h)) (cancelInFlightRequest (id_String (cn_RequestID p)) (cn_Reason p) e))
      else if req_Method req = ResourcesUnsubscribeMethod then
        (case dec_UnsubscribeRequest (raw_wire (req_Params req)) of
           None \<Rightarrow> Some (e, h)
         | Some uri \<Rightarrow> Some (event_unsubscribe sid uri e, h))
      else if req_Method req = ResourcesListChangedNotificationMethod then
        (case marshal_request req of
           None \<Rightarrow> Some (e, h)
         | Some j \<Rightarrow> Some (e, fst (PublishSession ops (without_cancel c) sid (Doc j) h)))
      else Some (e, h))"

definition event_response :: "wire \<Rightarrow> Response \<Rightarrow> Engine \<Rightarrow> Engine option" where
  "event_response msg res e = (let reqID = id_String (res_ID res) in
     if reqID = [] then Some e
     else (case rdv_lookup reqID e of None \<Rightarrow> Some e | Some i \<Rightarrow> rdv_send i msg e))"

definition handleSessionEvent :: "'h SessionHost \<Rightarrow> ServerCaps \<Rightarrow> ctx \<Rightarrow> time \<Rightarrow> event_bytes \<Rightarrow> Engine \<Rightarrow> 'h \<Rightarrow>
    (Engine \<times> 'h) option" where
  "handleSessionEvent ops srv c now ev e h = (case ev of
       BadEvent \<Rightarrow> Some (e, h)
     | Envelope f \<Rightarrow> (case LoadSession ops srv c now (fm_SessionID f) (fm_UserID f) False e h of
           (e1, h1, Inl _) \<Rightarrow> Some (e1, h1)
         | (e1, h1, Inr sess) \<Rightarrow> (case UnmarshalJSON (fm_Msg f) of
               Inl _ \<Rightarrow> Some (e1, h1)
             | Inr msg \<Rightarrow> (case AsRequest msg of
                   Some req \<Rightarrow> event_request ops c (fm_SessionID f) req e1 h1
                 | None \<Rightarrow> (case AsResponse msg of
                       Some res \<Rightarrow> map_option (\<lambda>e2. (e2, h1)) (event_response (fm_Msg f) res e1)
                     | None \<Rightarrow> Some (e1, h1))))))"

subsection \<open>List-changed emitters\<close>

definition list_changed_note :: "string \<Rightarrow> Request" where
  "list_changed_note meth = \<lparr>req_JSONRPCVersion = ProtocolVersion, req_Method = meth, req_Params = None, req_ID = None\<rparr>"

definition publishNote :: "'h SessionHost \<Rightarrow> string \<Rightarrow> string \<Rightarrow> 'h \<Rightarrow> 'h" where
  "publishNote ops sid meth h = (case marshal_request (list_changed_note meth) of
       None \<Rightarrow> h
     | Some j \<Rightarrow> fst (PublishSession ops None sid (Doc j) h))"

definition emit_resources_changed :: "'h SessionHost \<Rightarrow> string \<Rightarrow> string \<Rightarrow> 'h \<Rightarrow> 'h" where
  "emit_resources_changed ops sid uid h =
     (case marshal_request (list_changed_note ResourcesListChangedNotificationMethod) of
        None \<Rightarrow> h
      | Some j \<Rightarrow>
          (let h1 = fst (PublishSession ops None sid (Doc j) h)
           in fst (PublishEvent ops None sessionFanoutTopic
                (Envelope \<lparr>fm_SessionID = sid, fm_UserID = uid, fm_Msg = Doc j\<rparr>) h1)))"

definition run_emitter :: "'h SessionHost \<Rightarrow> string \<times> string \<times> emitter \<Rightarrow> 'h \<Rightarrow> 'h" where
  "run_emitter ops em h = (case em of (sid, uid, k) \<Rightarrow> (case k of
       EmitResources \<Rightarrow> emit_resources_changed ops sid uid h
     | EmitTools \<Rightarrow> publishNote ops sid ToolsListChangedNotificationMethod h
     | EmitPrompts \<Rightarrow> publishNote ops sid PromptsListChangedNotificationMethod h))"

subsection \<open>The rendez-vous invariant\<close>

text \<open>Every registered rendez-vous has its closer, and its channel is allocated, open and its own.\<close>

definition rdv_ok :: "Engine \<Rightarrow> bool" where
  "rdv_ok e \<longleftrightarrow> (\<forall>k. mget (e_rdvClosers e) k = mget (e_rdvChans e) k) \<and>
     (\<forall>k i. mget (e_rdvChans e) k = Some i \<longrightarrow> i < length (e_chans e) \<and> \<not> rdv_closed (e_chans e ! i)) \<and>
     (\<forall>k k' i. mget (e_rdvChans e) k = Some i \<longrightarrow> mget (e_rdvChans e) k' = Some i \<longrightarrow> k = k')"

lemma rdv_ok_frame:
  "rdv_ok e \<Longrightarrow> e_rdvChans e' = e_rdvChans e \<Longrightarrow> e_rdvClosers e' = e_rdvClosers e \<Longrightarrow> e_chans e' = e_chans e \<Longrightarrow> rdv_ok e'"
  by (simp add: rdv_ok_def)

lemma rdv_ok_New: "rdv_ok (NewEngine [])"
  by (simp add: rdv_ok_def NewEngine_def)

lemma rdv_ok_create:
  assumes "rdv_ok e" and "mget (e_rdvChans e) reqID = None"
  shows "rdv_ok (fst (createRendezVous reqID e))"
  using assms
  by (auto simp: rdv_ok_def createRendezVous_def Let_def nth_append less_Suc_eq split: if_splits)

lemma closeRendezVous_ok:
  assumes "rdv_ok e"
  shows "\<exists>e'. closeRendezVous reqID e = Some e' \<and> rdv_ok e' \<and> mget (e_rdvChans e') reqID = None \<and>
    e_toolCtxs e' = e_toolCtxs e \<and> e_toolCtxCancels e' = e_toolCtxCancels e \<and>
    (\<forall>k. k \<noteq> reqID \<longrightarrow> mget (e_rdvChans e') k = mget (e_rdvChans e) k)"
proof (cases "mget (e_rdvChans e) reqID")
  case None
  with assms show ?thesis
    by (auto simp: closeRendezVous_def rdv_ok_def)
next
  case (Some i)
  with assms have c: "mget (e_rdvClosers e) reqID = Some i" and i: "i < length (e_chans e)" "\<not> rdv_closed (e_chans e ! i)"
    and uniq: "\<And>k. mget (e_rdvChans e) k = Some i \<Longrightarrow> k = reqID"
    by (auto simp: rdv_ok_def)
  let ?e = "e\<lparr>e_rdvClosers := mdel reqID (e_rdvClosers e), e_chans := (e_chans e)[i := (e_chans e ! i)\<lparr>rdv_closed := True\<rparr>],
      e_rdvChans := mdel reqID (e_rdvChans e)\<rparr>"
  have run: "closeRendezVous reqID e = Some ?e"
    using c i by (simp add: closeRendezVous_def close_rdv_def Let_def)
  have "(e_chans e)[i := x] ! j = e_chans e ! j" if "k \<noteq> reqID" "mget (e_rdvChans e) k = Some j" for k j x
    using that uniq by (metis nth_list_update_neq)
  then have "rdv_ok ?e"
    using assms by (auto simp: rdv_ok_def split: if_splits)
  with run show ?thesis by simp
qed

lemma rdv_send_ok:
  assumes "rdv_ok e" and "mget (e_rdvChans e) reqID = Some i"
  shows "\<exists>e'. rdv_send i msg e = Some e' \<and> rdv_ok e' \<and> (rdv_buffer (e_chans e ! i) = None \<longrightarrow> rdv_buffer (e_chans e' ! i) = Some msg)"
proof -
  have i: "i < length (e_chans e)" "\<not> rdv_closed (e_chans e ! i)"
    using assms by (auto simp: rdv_ok_def)
  then have "rdv_ok (e\<lparr>e_chans := (e_chans e)[i := (e_chans e ! i)\<lparr>rdv_buffer := Some msg\<rparr>]\<rparr>)"
    using assms(1) by (auto simp: rdv_ok_def nth_upd)
  with i assms(1) show ?thesis
    by (simp add: rdv_send_def Let_def)
qed

lemma rdv_ok_receive: "rdv_ok e \<Longrightarrow> i < length (e_chans e) \<Longrightarrow> rdv_ok (fst (rdv_receive i e))"
  by (auto simp: rdv_receive_def rdv_ok_def nth_upd Let_def split: option.split)


subsection \<open>What an event does\<close>

text \<open>Loading the session only touches the wiring of the emitters.\<close>

lemma wire_frame: "\<exists>w em. wireListChangedEmitters srv sess e = e\<lparr>e_wired := w, e_emitters := em\<rparr>"
proof -
  have "e = e\<lparr>e_wired := e_wired e, e_emitters := e_emitters e\<rparr>"
    by simp
  then show ?thesis
    unfolding wireListChangedEmitters_def registerListChangedEmitters_def Let_def by metis
qed

lemma load_frame:
  "LoadSession ops srv c now sid uid w e h = (e', h', res) \<Longrightarrow> \<exists>wi em. e' = e\<lparr>e_wired := wi, e_emitters := em\<rparr>"
proof -
  assume l: "LoadSession ops srv c now sid uid w e h = (e', h', res)"
  have same: "e = e\<lparr>e_wired := e_wired e, e_emitters := e_emitters e\<rparr>" by simp
  from l have "e' = e \<or> (\<exists>sess. e' = wireListChangedEmitters srv sess e)"
    by (auto simp: LoadSession_def Let_def split: sum.splits if_splits)
  then show ?thesis using wire_frame same by metis
qed

lemma run_cancel_fields [simp]:
  "e_rdvChans (run_cancel cs e) = e_rdvChans e" "e_rdvClosers (run_cancel cs e) = e_rdvClosers e"
  "e_chans (run_cancel cs e) = e_chans e" "e_toolCtxs (run_cancel cs e) = e_toolCtxs e"
  "e_toolCtxCancels (run_cancel cs e) = e_toolCtxCancels e" "e_subCancels (run_cancel cs e) = e_subCancels e"
  by (simp_all add: run_cancel_def split: option.split CancelSubscription.split)

lemma run_cancels_fields:
  fixes m :: "(string \<times> CancelSubscription option) list"
  defines "run \<equiv> foldl (\<lambda>e (uri, cs). run_cancel cs e)"
  shows "e_rdvChans (run e m) = e_rdvChans e \<and> e_rdvClosers (run e m) = e_rdvClosers e \<and> e_chans (run e m) = e_chans e"
  unfolding run_def by (induction m arbitrary: e) (auto simp: split_beta)

lemma cancelAll_fields:
  "e_rdvChans (cancelAllSubscriptionsForSession sid e) = e_rdvChans e"
  "e_rdvClosers (cancelAllSubscriptionsForSession sid e) = e_rdvClosers e"
  "e_chans (cancelAllSubscriptionsForSession sid e) = e_chans e"
  by (simp_all add: cancelAllSubscriptionsForSession_def Let_def run_cancels_fields split: option.split)

lemma cancel_ctx_frame [simp]:
  "e_rdvChans (cancel_ctx i x e) = e_rdvChans e" "e_rdvClosers (cancel_ctx i x e) = e_rdvClosers e"
  "e_chans (cancel_ctx i x e) = e_chans e"
  by (simp_all add: cancel_ctx_def)

lemma event_unsubscribe_fields:
  "e_rdvChans (event_unsubscribe sid uri e) = e_rdvChans e" "e_rdvClosers (event_unsubscribe sid uri e) = e_rdvClosers e"
  "e_chans (event_unsubscribe sid uri e) = e_chans e"
  by (simp_all add: event_unsubscribe_def Let_def split: option.split)

lemma cancelInFlight_ok:
  assumes "rdv_ok e"
  shows "\<exists>e' b. cancelInFlightRequest reqID reason e = Some (e', b) \<and> rdv_ok e'"
proof (cases "reqID = []")
  case True
  then have "cancelInFlightRequest reqID reason e = Some (e, False)"
    by (simp add: cancelInFlightRequest_def)
  with assms show ?thesis by blast
next
  case False
  let ?e1 = "case mget (e_toolCtxCancels e) reqID of None \<Rightarrow> e
     | Some i \<Rightarrow> cancel_ctx i (ErrText (if reason = [] then ''cancelled'' else reason)) e"
  have "rdv_ok ?e1"
    using assms by (rule rdv_ok_frame) (simp_all split: option.split)
  then obtain e' where e': "closeRendezVous reqID ?e1 = Some e'" "rdv_ok e'"
    using closeRendezVous_ok by blast
  then have "cancelInFlightRequest reqID reason e = Some (e', mget (e_toolCtxCancels e) reqID \<noteq> None)"
    using False by (simp add: cancelInFlightRequest_def Let_def)
  with e'(2) show ?thesis by blast
qed

lemma event_request_ok:
  assumes "rdv_ok e"
  shows "\<exists>e' h'. event_request ops c sid req e h = Some (e', h') \<and> rdv_ok e'"
proof -
  have "rdv_ok (cancelAllSubscriptionsForSession sid e)" "rdv_ok (event_unsubscribe sid uri e)" for uri
    by (rule rdv_ok_frame [OF assms]; simp add: cancelAll_fields event_unsubscribe_fields)+
  moreover have "\<exists>e' h'. map_option (\<lambda>(e', _). (e', h)) (cancelInFlightRequest reqID reason e) = Some (e', h') \<and> rdv_ok e'"
    for reqID reason
    using cancelInFlight_ok [OF assms, of reqID reason] by auto
  ultimately show ?thesis
    using assms by (simp add: event_request_def split: option.split)
qed

lemma event_response_ok: "rdv_ok e \<Longrightarrow> \<exists>e'. event_response msg res e = Some e' \<and> rdv_ok e'"
  using rdv_send_ok by (fastforce simp: event_response_def rdv_lookup_def Let_def split: option.split)

lemma handleSessionEvent_ok:
  assumes "rdv_ok e"
  shows "\<exists>e' h'. handleSessionEvent ops srv c now ev e h = Some (e', h') \<and> rdv_ok e'"
proof (cases ev)
  case BadEvent
  with assms show ?thesis by (simp add: handleSessionEvent_def)
next
  case (Envelope f)
  obtain e1 h1 r where l: "LoadSession ops srv c now (fm_SessionID f) (fm_UserID f) False e h = (e1, h1, r)"
    by (metis prod_cases3)
  from load_frame [OF l] have ok: "rdv_ok e1"
    using assms by (auto intro: rdv_ok_frame)
  obtain e2 where er: "event_response (fm_Msg f) res e1 = Some (e2 res)" "rdv_ok (e2 res)" for res
    using event_response_ok [OF ok] by metis
  show ?thesis
    using l ok er event_request_ok [OF ok]
    by (auto simp: handleSessionEvent_def Envelope split: sum.split option.split)
qed

text \<open>An event of a live session with a request in it runs that request.\<close>

definition live :: "(string \<Rightarrow> SessionMetadata option) \<Rightarrow> string \<Rightarrow> string \<Rightarrow> bool" where
  "live metas sid uid \<longleftrightarrow> (\<exists>m. metas sid = Some m \<and> \<not> sm_Revoked m \<and> sm_UserID m = uid \<and> uid \<noteq> [])"

context session_host
begin

lemma load_live:
  assumes "invar h" and "live (metas h) sid uid"
  shows "\<exists>wi em h1 sess. LoadSession ops srv None now sid uid w e h = (e\<lparr>e_wired := wi, e_emitters := em\<rparr>, h1, Inr sess) \<and>
    invar h1 \<and> live (metas h1) sid uid \<and> data h1 = data h \<and> stream h1 = stream h"
proof -
  obtain e' h' res where l: "LoadSession ops srv None now sid uid w e h = (e', h', res)"
    by (metis prod_cases3)
  from load_session_iff [OF assms(1) l] load_frame [OF l] assms(2) l show ?thesis
    by (auto simp: live_def touch_meta_def)
qed

lemma event_runs_request:
  assumes "invar h" and "live (metas h) sid uid" and "UnmarshalJSON w = Inr msg" and "AsRequest msg = Some req"
  shows "\<exists>wi em h1. handleSessionEvent ops srv None now (Envelope \<lparr>fm_SessionID = sid, fm_UserID = uid, fm_Msg = w\<rparr>) e h =
      event_request ops None sid req (e\<lparr>e_wired := wi, e_emitters := em\<rparr>) h1 \<and>
    invar h1 \<and> live (metas h1) sid uid \<and> data h1 = data h \<and> stream h1 = stream h"
proof -
  obtain wi em h1 sess where "LoadSession ops srv None now sid uid False e h = (e\<lparr>e_wired := wi, e_emitters := em\<rparr>, h1, Inr sess)"
    and h1: "invar h1" "live (metas h1) sid uid" "data h1 = data h" "stream h1 = stream h"
    using load_live [OF assms(1,2)] by blast
  with assms(3,4) h1 show ?thesis
    by (intro exI [of _ wi] exI [of _ em] exI [of _ h1]) (simp add: handleSessionEvent_def)
qed

lemma event_runs_response:
  assumes "invar h" and "live (metas h) sid uid" and "UnmarshalJSON w = Inr msg" and "AsRequest msg = None" and "AsResponse msg = Some res"
  shows "\<exists>wi em h1. handleSessionEvent ops srv None now (Envelope \<lparr>fm_SessionID = sid, fm_UserID = uid, fm_Msg = w\<rparr>) e h =
      map_option (\<lambda>e2. (e2, h1)) (event_response w res (e\<lparr>e_wired := wi, e_emitters := em\<rparr>)) \<and>
    invar h1 \<and> live (metas h1) sid uid \<and> data h1 = data h \<and> stream h1 = stream h"
proof -
  obtain wi em h1 sess where "LoadSession ops srv None now sid uid False e h = (e\<lparr>e_wired := wi, e_emitters := em\<rparr>, h1, Inr sess)"
    and h1: "invar h1" "live (metas h1) sid uid" "data h1 = data h" "stream h1 = stream h"
    using load_live [OF assms(1,2)] by blast
  with assms(3-5) h1 show ?thesis
    by (intro exI [of _ wi] exI [of _ em] exI [of _ h1]) (simp add: handleSessionEvent_def)
qed

lemma event_dead_session:
  assumes "invar h" and "\<not> live (metas h) sid uid"
  shows "handleSessionEvent ops srv None now (Envelope \<lparr>fm_SessionID = sid, fm_UserID = uid, fm_Msg = w\<rparr>) e h = Some (e, h)"
proof -
  obtain e' h' res where l: "LoadSession ops srv None now sid uid False e h = (e', h', res)"
    by (metis prod_cases3)
  from load_session_iff [OF assms(1) l] assms(2) l show ?thesis
    by (auto simp: handleSessionEvent_def live_def)
qed

end


subsection \<open>Properties\<close>

text \<open>C17: while it handles one event at a time without interruption, the fan-out consumer never panics:
  from a state in which every registered rendez-vous is open, any event whatever (malformed, of an
  unknown session, a request, a response) is handled and leaves such a state.\<close>

theorem events_never_panic:
  assumes "rdv_ok e"
  shows "\<exists>e' h'. handleSessionEvent ops srv c now ev e h = Some (e', h') \<and> rdv_ok e'"
  using handleSessionEvent_ok [OF assms] .

theorem events_never_panic_witness:
  "\<exists>e' h'. handleSessionEvent memory_host (NewServer []) None 1 BadEvent (fst (createRendezVous ''r'' (NewEngine []))) mem_New = Some (e', h')
     \<and> rdv_ok e'"
  by (rule events_never_panic, rule rdv_ok_create [OF rdv_ok_New]) (simp add: NewEngine_def)


lemma cancelInFlight_cancels:
  assumes "rdv_ok e" and "mget (e_toolCtxCancels e) reqID = Some i" and "reqID \<noteq> []" and "i < length (e_toolCtxs e)"
  shows "\<exists>e'. cancelInFlightRequest reqID reason e = Some (e', True) \<and> e_toolCtxs e' ! i \<noteq> None \<and>
    (e_toolCtxs e ! i = None \<longrightarrow> e_toolCtxs e' ! i = Some (ErrText (if reason = [] then ''cancelled'' else reason))) \<and>
    (\<forall>j. j \<noteq> i \<longrightarrow> e_toolCtxs e' ! j = e_toolCtxs e ! j) \<and> e_toolCtxCancels e' = e_toolCtxCancels e \<and> rdv_ok e'"
proof -
  let ?x = "ErrText (if reason = [] then ''cancelled'' else reason)"
  have "rdv_ok (cancel_ctx i ?x e)"
    using assms(1) by (rule rdv_ok_frame) simp_all
  then obtain e' where e': "closeRendezVous reqID (cancel_ctx i ?x e) = Some e'" "rdv_ok e'"
    "e_toolCtxs e' = e_toolCtxs (cancel_ctx i ?x e)" "e_toolCtxCancels e' = e_toolCtxCancels (cancel_ctx i ?x e)"
    using closeRendezVous_ok by blast
  have "e_toolCtxs e' ! i \<noteq> None" "e_toolCtxs e ! i = None \<longrightarrow> e_toolCtxs e' ! i = Some ?x"
    "\<And>j. j \<noteq> i \<Longrightarrow> e_toolCtxs e' ! j = e_toolCtxs e ! j"
    using assms(4) by (auto simp: e'(3) cancel_ctx_def)
  with e' assms(2,3) show ?thesis
    by (auto simp: cancelInFlightRequest_def Let_def)
qed

definition cancel_note :: "RequestID \<Rightarrow> string \<Rightarrow> Request" where
  "cancel_note rid reason = \<lparr>req_JSONRPCVersion = ''2.0'', req_Method = CancelledNotificationMethod,
     req_Params = Some (JObj ((case id_MarshalJSON rid of None \<Rightarrow> [] | Some j \<Rightarrow> [(''requestId'', j)]) @ [(''reason'', JStr reason)])),
     req_ID = None\<rparr>"

lemma key_eq_cancel [simp]: "\<not> key_eq ''requestId'' ''reason''" "\<not> key_eq ''reason'' ''requestId''"
  by (simp_all add: key_eq_def lower_char_def)

lemma dec_cancel_note:
  assumes "id_exact (Some rid)" and "rid \<noteq> IdNil"
  shows "dec_CancelledNotification (raw_wire (req_Params (cancel_note rid reason))) = Some \<lparr>cn_RequestID = Some rid, cn_Reason = reason\<rparr>"
proof -
  obtain j where j: "id_MarshalJSON rid = Some j"
    using id_exact_marshals [OF assms(1)] by blast
  moreover have "id_UnmarshalJSON j = Some rid" "j \<noteq> JNull"
    using id_roundtrip j assms by (auto simp: id_MarshalJSON_def split: RequestID.splits)
  ultimately show ?thesis
    by (simp add: dec_CancelledNotification_def cancel_note_def raw_wire_def unmarshal_struct_def as_ptr_def)
qed

lemma note_decodes:
  assumes "req_JSONRPCVersion note = ''2.0''" and "req_Method note \<noteq> []" and "req_ID note = None"
  shows "\<exists>j m. marshal_request note = Some j \<and> UnmarshalJSON (Doc j) = Inr m \<and> AsRequest m = Some note"
  using assms by (intro marshalled_request_decodes) (simp_all add: id_exact_def)


lemma method_names_differ:
  "CancelledNotificationMethod \<noteq> internalSessionDeletedMethod" "ResourcesUnsubscribeMethod \<noteq> internalSessionDeletedMethod"
  "ResourcesUnsubscribeMethod \<noteq> CancelledNotificationMethod" "ResourcesListChangedNotificationMethod \<noteq> internalSessionDeletedMethod"
  "ResourcesListChangedNotificationMethod \<noteq> CancelledNotificationMethod"
  "ResourcesListChangedNotificationMethod \<noteq> ResourcesUnsubscribeMethod"
  by (simp_all add: method_defs internalSessionDeletedMethod_def)

lemma event_request_cancel:
  assumes "id_exact (Some rid)" and "rid \<noteq> IdNil"
  shows "event_request ops c sid (cancel_note rid reason) e h =
    map_option (\<lambda>(e', _). (e', h)) (cancelInFlightRequest (id_String (Some rid)) reason e)"
  using dec_cancel_note [OF assms, of reason]
  by (simp add: event_request_def cancel_note_def method_names_differ id_IsNil_def assms(2))

text \<open>C18: a client's \<open>notifications/cancelled\<close> reaches the tool call it names. While the call is in
  flight on an instance, that instance's handling of the fanned-out notification cancels the context the
  tool was given, with the client's reason as the cause; the contexts of all other calls are as before.
  When the tool then returns the context's error the client gets the error response "cancelled" and the
  call is no longer registered.\<close>

theorem cancellation_reaches_call:
  assumes "mem_inv h" and "live (mget (h_metas h)) (sh_sessionID sess) (sh_userID sess)" and "rdv_ok e"
    and "toolCall_begin srv None sess req e = (e1, Inr tk)" and "req_ID req = Some rid" and "id_exact (Some rid)"
    and "marshal_request (cancel_note rid reason) = Some j" and "reason \<noteq> []"
  shows "\<exists>e2 h2. handleSessionEvent memory_host srv None now (envelope sess j) e1 h = Some (e2, h2) \<and>
      tool_ctx None tk e2 = Some CtxCanceled \<and> e_toolCtxs e2 ! tk_index tk = Some (ErrText reason) \<and>
      (\<forall>i. i \<noteq> tk_index tk \<longrightarrow> e_toolCtxs e2 ! i = e_toolCtxs e1 ! i) \<and>
      snd (toolCall_end req tk (Inl CtxCanceled) e2) = resp_err req ErrorCodeInternalError ''cancelled'' \<and>
      mget (e_toolCtxCancels (fst (toolCall_end req tk (Inl CtxCanceled) e2))) (tk_reqID tk) = None"
proof -
  from toolCall_begin_cases [OF assms(4)] have tk: "tk_reqID tk = id_String (Some rid)" "tk_reqID tk \<noteq> []"
    and i: "tk_index tk = length (e_toolCtxs e)"
    and e1: "e1 = e\<lparr>e_toolCtxs := e_toolCtxs e @ [None], e_toolCtxCancels := mput (tk_reqID tk) (tk_index tk) (e_toolCtxCancels e)\<rparr>"
    by (auto simp: assms(5))
  obtain m where m: "UnmarshalJSON (Doc j) = Inr m" "AsRequest m = Some (cancel_note rid reason)"
    using note_decodes [of "cancel_note rid reason"] assms(7) by (auto simp: cancel_note_def method_defs)
  obtain wi em h1 where run: "handleSessionEvent memory_host srv None now (envelope sess j) e1 h =
      event_request memory_host None (sh_sessionID sess) (cancel_note rid reason) (e1\<lparr>e_wired := wi, e_emitters := em\<rparr>) h1"
    unfolding envelope_def using mem.event_runs_request [OF assms(1,2) m] by blast
  let ?e = "e1\<lparr>e_wired := wi, e_emitters := em\<rparr>"
  have "rdv_ok ?e"
    using assms(3) by (rule rdv_ok_frame) (simp_all add: e1)
  then obtain e2 where c: "cancelInFlightRequest (id_String (Some rid)) reason ?e = Some (e2, True)"
    and e2: "e_toolCtxs e2 ! tk_index tk = Some (ErrText reason)" "\<forall>j. j \<noteq> tk_index tk \<longrightarrow> e_toolCtxs e2 ! j = e_toolCtxs e1 ! j"
    using cancelInFlight_cancels [of ?e "id_String (Some rid)" "tk_index tk" reason] tk i assms(8) by (auto simp: e1)
  have "rid \<noteq> IdNil" using assms(6) by (auto simp: id_exact_def)
  with run c assms(6) have "handleSessionEvent memory_host srv None now (envelope sess j) e1 h = Some (e2, h1)"
    by (simp add: event_request_cancel)
  with e2 show ?thesis
    by (simp add: tool_ctx_def toolCall_end_def Let_def)
qed

text \<open>The concrete call of the witness: a server whose tools capability is always there.\<close>

definition any_tools :: ToolsCapability where
  "any_tools = \<lparr>tcap_ListTools = (\<lambda>c s cur. Inl CtxCanceled), tcap_CallTool = (\<lambda>c s r. Inl CtxCanceled),
     tcap_ListChanged = (\<lambda>c s. Inr None)\<rparr>"

definition tool_srv :: ServerCaps where
  "tool_srv = NewServer [WithToolsCapability (StaticCap (Some any_tools))]"

definition call_req :: Request where
  "call_req = \<lparr>req_JSONRPCVersion = ''2.0'', req_Method = ToolsCallMethod, req_Params = Some (JObj [(''name'', JStr ''t'')]),
     req_ID = Some (IdInt 7)\<rparr>"

lemma tool_srv_tools: "srv_GetToolsCapability tool_srv c s = Inr (Some (Some any_tools))"
  by (simp add: tool_srv_def NewServer_def WithToolsCapability_def StaticCap_def provide_def server_zero_def Let_def)

lemma itoa_7: "itoa_int 7 = ''7''"
  by code_simp

lemma call_begins:
  "\<exists>tk. toolCall_begin tool_srv None s call_req (NewEngine []) =
     ((NewEngine [])\<lparr>e_toolCtxs := [None], e_toolCtxCancels := [(''7'', 0)]\<rparr>, Inr tk) \<and> tk_index tk = 0 \<and> tk_reqID tk = ''7''"
proof -
  have "dec_CallToolRequestReceived (raw_wire (req_Params call_req)) = Some \<lparr>ctr_Name = ''t'', ctr_Arguments = None\<rparr>"
    by (simp add: dec_CallToolRequestReceived_def call_req_def raw_wire_def unmarshal_struct_def key_eq_def lower_char_def)
  moreover have "id_String (req_ID call_req) = ''7''"
    by (simp add: call_req_def id_String_def itoa_7)
  ultimately show ?thesis
    by (simp add: toolCall_begin_def tool_srv_tools Let_def NewEngine_def)
qed


theorem cancellation_reaches_call_witness:
  "\<exists>tk e1 j e2 h2. toolCall_begin tool_srv None wit_sess call_req (NewEngine []) = (e1, Inr tk) \<and>
     handleSessionEvent memory_host tool_srv None 9 (envelope wit_sess j) e1 wit_host_meta = Some (e2, h2) \<and>
     tool_ctx None tk e2 = Some CtxCanceled"
proof -
  obtain e1 tk where b: "toolCall_begin tool_srv None wit_sess call_req (NewEngine []) = (e1, Inr tk)"
    using call_begins by blast
  obtain j where j: "marshal_request (cancel_note (IdInt 7) ''stop'') = Some j"
    using note_decodes [of "cancel_note (IdInt 7) ''stop''"] by (auto simp: cancel_note_def method_defs)
  have l: "live (mget (h_metas wit_host_meta)) (sh_sessionID wit_sess) (sh_userID wit_sess)"
    and i: "req_ID call_req = Some (IdInt 7)" "id_exact (Some (IdInt 7))"
    by (simp_all add: live_def call_req_def id_exact_def)
  from cancellation_reaches_call [OF wit_host_meta_inv l rdv_ok_New b i j, of 9] b show ?thesis
    by blast
qed

text \<open>Calls in flight are keyed by the request identifier alone, so a cancellation crosses sessions: a
  notification of any live session, of any user, that names the identifier of a call in flight cancels
  that call, although the call belongs to another session.\<close>

theorem cancellation_crosses_sessions:
  assumes "mem_inv h" and "live (mget (h_metas h)) sid uid" and "sid \<noteq> ''s''"
    and "toolCall_begin tool_srv None wit_sess call_req (NewEngine []) = (e1, Inr tk)"
    and "marshal_request (cancel_note (IdInt 7) ''stop'') = Some j"
  shows "\<exists>e2 h2. handleSessionEvent memory_host tool_srv None now
      (Envelope \<lparr>fm_SessionID = sid, fm_UserID = uid, fm_Msg = Doc j\<rparr>) e1 h = Some (e2, h2) \<and>
      tool_ctx None tk e2 = Some CtxCanceled"
proof -
  obtain m where m: "UnmarshalJSON (Doc j) = Inr m" "AsRequest m = Some (cancel_note (IdInt 7) ''stop'')"
    using note_decodes [of "cancel_note (IdInt 7) ''stop''"] assms(5) by (auto simp: cancel_note_def method_defs)
  have e1: "e1 = (NewEngine [])\<lparr>e_toolCtxs := [None], e_toolCtxCancels := [(''7'', 0)]\<rparr>" "tk_index tk = 0"
    using call_begins [of wit_sess] assms(4) by auto
  obtain wi em h1 where run: "handleSessionEvent memory_host tool_srv None now
      (Envelope \<lparr>fm_SessionID = sid, fm_UserID = uid, fm_Msg = Doc j\<rparr>) e1 h =
      event_request memory_host None sid (cancel_note (IdInt 7) ''stop'') (e1\<lparr>e_wired := wi, e_emitters := em\<rparr>) h1"
    using mem.event_runs_request [OF assms(1,2) m] by blast
  let ?e = "e1\<lparr>e_wired := wi, e_emitters := em\<rparr>"
  have "rdv_ok ?e"
    using rdv_ok_New by (rule rdv_ok_frame) (simp_all add: e1)
  then obtain e2 where c: "cancelInFlightRequest ''7'' ''stop'' ?e = Some (e2, True)" "e_toolCtxs e2 ! 0 \<noteq> None"
    using cancelInFlight_cancels [of ?e "''7''" 0 "''stop''"] by (auto simp: e1)
  with run e1 show ?thesis
    by (simp add: event_request_cancel id_exact_def id_String_def itoa_7 tool_ctx_def)
qed

definition wit_host_two :: Host where
  "wit_host_two = wit_host_meta\<lparr>h_metas := [(''s'', wit_meta), (''z'', wit_meta\<lparr>sm_SessionID := ''z'', sm_UserID := ''eve''\<rparr>)]\<rparr>"

lemma wit_host_two_inv: "mem_inv wit_host_two"
  using wit_host_meta_inv by (rule mem_inv_frame) (simp_all add: wit_host_two_def)

theorem cancellation_crosses_sessions_witness:
  "\<exists>tk e1 j e2 h2. toolCall_begin tool_srv None wit_sess call_req (NewEngine []) = (e1, Inr tk) \<and>
     handleSessionEvent memory_host tool_srv None 9 (Envelope \<lparr>fm_SessionID = ''z'', fm_UserID = ''eve'', fm_Msg = Doc j\<rparr>) e1 wit_host_two
       = Some (e2, h2) \<and> tool_ctx None tk e2 = Some CtxCanceled"
proof -
  obtain e1 tk where b: "toolCall_begin tool_srv None wit_sess call_req (NewEngine []) = (e1, Inr tk)"
    using call_begins by blast
  obtain j where j: "marshal_request (cancel_note (IdInt 7) ''stop'') = Some j"
    using note_decodes [of "cancel_note (IdInt 7) ''stop''"] by (auto simp: cancel_note_def method_defs)
  have "live (mget (h_metas wit_host_two)) ''z'' ''eve''"
    by (simp add: live_def wit_host_two_def)
  from cancellation_crosses_sessions [OF wit_host_two_inv this _ b j, of 9] b show ?thesis
    by auto
qed


text \<open>The unsubscribe request a client sends is fanned out; this is what it looks like on the bus.\<close>

definition unsub_note :: "string \<Rightarrow> Request" where
  "unsub_note uri = \<lparr>req_JSONRPCVersion = ProtocolVersion, req_Method = ResourcesUnsubscribeMethod,
     req_Params = Some (JObj [(''uri'', JStr uri)]), req_ID = None\<rparr>"

lemma event_unsubscribe_forwarder:
  assumes "subscribed e sid uri = Some (Some (CancelForwarder i))" and "i < length (e_forwarders e)"
  shows "subscribed (event_unsubscribe sid uri e) sid uri = None \<and>
    fw_cancelled (e_forwarders (event_unsubscribe sid uri e) ! i) \<and>
    length (e_forwarders (event_unsubscribe sid uri e)) = length (e_forwarders e) \<and>
    (\<forall>j. j \<noteq> i \<longrightarrow> e_forwarders (event_unsubscribe sid uri e) ! j = e_forwarders e ! j) \<and>
    (\<forall>sid' uri'. (sid', uri') \<noteq> (sid, uri) \<longrightarrow> subscribed (event_unsubscribe sid uri e) sid' uri' = subscribed e sid' uri')"
proof -
  obtain m where m: "mget (e_subCancels e) sid = Some m" "mget m uri = Some (Some (CancelForwarder i))"
    using assms(1) by (auto simp: subscribed_def split: option.splits)
  then have ne: "m \<noteq> []" by auto
  have emp: "mget m u = None" if "mdel uri m = []" "u \<noteq> uri" for u
    using that by (simp add: mdel_empty_iff)
  have e': "event_unsubscribe sid uri e = (run_cancel (Some (CancelForwarder i)) e)
      \<lparr>e_subCancels := if mdel uri m = [] then mdel sid (e_subCancels e) else mput sid (mdel uri m) (e_subCancels e)\<rparr>"
    using m ne by (simp add: event_unsubscribe_def Let_def)
  show ?thesis
    unfolding e' using m emp assms(2)
    by (auto simp: subscribed_def run_cancel_def)
qed

text \<open>Unsubscribing ends the forwarding. The request of the client is answered with success and
  fanned out; the instance that holds the subscription, whichever it is, cancels the forwarder's
  context (once the forwarder has seen that, a signal for the URI publishes nothing), forgets the subscription, and keeps every other subscription and
  forwarder, of this session and of the others.\<close>

theorem unsubscribe_stops_forwarder:
  assumes "mem_inv h" and "live (mget (h_metas h)) (sh_sessionID sess) (sh_userID sess)" and "uri \<noteq> []"
    and "req_Params req = Some (JObj [(''uri'', JStr uri)])"
    and "subscribed e (sh_sessionID sess) uri = Some (Some (CancelForwarder i))" and "i < length (e_forwarders e)"
  shows "\<exists>j. handleResourcesUnsubscribe memory_host None sess req h =
      (fst (mem_PublishEvent None sessionFanoutTopic (envelope sess j) h), resp_ok req (enc_EmptyResult [])) \<and>
    (\<exists>e' h'. handleSessionEvent memory_host srv None now (envelope sess j) e h = Some (e', h') \<and>
      subscribed e' (sh_sessionID sess) uri = None \<and> fw_cancelled (e_forwarders e' ! i) \<and>
      (\<forall>hh. forward memory_host i (forward_return i e') hh = hh) \<and>
      (\<forall>k. k \<noteq> i \<longrightarrow> e_forwarders e' ! k = e_forwarders e ! k) \<and>
      (\<forall>s u. (s, u) \<noteq> (sh_sessionID sess, uri) \<longrightarrow> subscribed e' s u = subscribed e s u))"
proof -
  obtain j m where j: "marshal_request (unsub_note uri) = Some j" and m: "UnmarshalJSON (Doc j) = Inr m" "AsRequest m = Some (unsub_note uri)"
    using note_decodes [of "unsub_note uri"] by (auto simp: unsub_note_def method_defs ProtocolVersion_def)
  obtain wi em h1 where run: "handleSessionEvent memory_host srv None now (envelope sess j) e h =
      event_request memory_host None (sh_sessionID sess) (unsub_note uri) (e\<lparr>e_wired := wi, e_emitters := em\<rparr>) h1"
    unfolding envelope_def using mem.event_runs_request [OF assms(1,2) m] by blast
  let ?e = "e\<lparr>e_wired := wi, e_emitters := em\<rparr>"
  have ev: "handleSessionEvent memory_host srv None now (envelope sess j) e h = Some (event_unsubscribe (sh_sessionID sess) uri ?e, h1)"
    unfolding run by (simp add: event_request_def unsub_note_def method_names_differ)
  have eq: "subscribed ?e = subscribed e" "e_forwarders ?e = e_forwarders e"
    by (simp_all add: subscribed_def fun_eq_iff)
  have ans: "handleResourcesUnsubscribe memory_host None sess req h =
      (fst (mem_PublishEvent None sessionFanoutTopic (envelope sess j) h), resp_ok req (enc_EmptyResult []))"
    using assms(3,4) j by (simp add: handleResourcesUnsubscribe_def unsub_note_def without_cancel_def memory_host_def Let_def)
  from event_unsubscribe_forwarder [of ?e "sh_sessionID sess" uri i] ans ev assms(5,6) show ?thesis
    unfolding eq by (intro exI [of _ j]) (auto simp: forward_def forward_return_def Let_def)
qed


definition wit_subscribed :: Engine where
  "wit_subscribed = (NewEngine [])\<lparr>e_subCancels := [(''s'', [(''a'', Some (CancelForwarder 0))])],
     e_forwarders := [\<lparr>fw_session = ''s'', fw_uri = ''a'', fw_cancelled = False, fw_returned = False\<rparr>]\<rparr>"

theorem unsubscribe_stops_forwarder_witness:
  "\<exists>j e' h'. handleSessionEvent memory_host wit_srv None 9 (envelope wit_sess j) wit_subscribed wit_host_meta = Some (e', h') \<and>
     subscribed wit_subscribed ''s'' ''a'' \<noteq> None \<and> subscribed e' ''s'' ''a'' = None"
proof -
  have l: "live (mget (h_metas wit_host_meta)) (sh_sessionID wit_sess) (sh_userID wit_sess)" and a: "''a'' \<noteq> []"
    and p: "req_Params (sub_req ''a'') = Some (JObj [(''uri'', JStr ''a'')])"
    and s: "subscribed wit_subscribed (sh_sessionID wit_sess) ''a'' = Some (Some (CancelForwarder 0))"
    and n: "0 < length (e_forwarders wit_subscribed)"
    by (simp_all add: live_def sub_req_def subscribed_def wit_subscribed_def)
  from unsubscribe_stops_forwarder [OF wit_host_meta_inv l a p s n, of wit_srv 9] s show ?thesis
    by auto
qed

text \<open>The instances that consume one event, one after the other.\<close>

fun consume_all :: "'h SessionHost \<Rightarrow> time \<Rightarrow> event_bytes \<Rightarrow> (ServerCaps \<times> Engine) list \<Rightarrow> 'h \<Rightarrow> 'h option" where
  "consume_all ops now ev [] h = Some h"
| "consume_all ops now ev ((srv, e) # es) h =
     Option.bind (handleSessionEvent ops srv None now ev e h) (\<lambda>(e', h'). consume_all ops now ev es h')"

context session_host
begin

lemma list_changed_event_publishes:
  assumes inv: "invar h" and live: "live (metas h) sid uid"
    and j: "marshal_request (list_changed_note ResourcesListChangedNotificationMethod) = Some j"
  shows "\<exists>e' h'. handleSessionEvent ops srv None now (Envelope \<lparr>fm_SessionID = sid, fm_UserID = uid, fm_Msg = Doc j\<rparr>) e h = Some (e', h') \<and>
    invar h' \<and> live (metas h') sid uid \<and> stream h' = (stream h)(sid := stream h sid @ [Doc j])"
proof -
  let ?n = "list_changed_note ResourcesListChangedNotificationMethod"
  obtain m where m: "UnmarshalJSON (Doc j) = Inr m" "AsRequest m = Some ?n"
    using note_decodes [of ?n] j by (auto simp: list_changed_note_def method_defs ProtocolVersion_def)
  obtain wi em h1 where run: "handleSessionEvent ops srv None now (Envelope \<lparr>fm_SessionID = sid, fm_UserID = uid, fm_Msg = Doc j\<rparr>) e h =
      event_request ops None sid ?n (e\<lparr>e_wired := wi, e_emitters := em\<rparr>) h1"
    and h1: "invar h1" "live (metas h1) sid uid" "stream h1 = stream h"
    using event_runs_request [OF inv live m] by blast
  obtain h2 rp where p: "PublishSession ops None sid (Doc j) h1 = (h2, rp)"
    by fastforce
  have "invar h2" using invar_publish [OF h1(1), of None sid "Doc j"] p by simp
  with publish_live [OF h1(1) p] h1 show ?thesis
    unfolding run using j p by (simp add: event_request_def list_changed_note_def method_names_differ without_cancel_def)
qed

lemma consume_all_list_changed:
  assumes "invar h" and "live (metas h) sid uid"
    and "marshal_request (list_changed_note ResourcesListChangedNotificationMethod) = Some j"
  shows "\<exists>h'. consume_all ops now (Envelope \<lparr>fm_SessionID = sid, fm_UserID = uid, fm_Msg = Doc j\<rparr>) peers h = Some h' \<and>
    stream h' sid = stream h sid @ replicate (length peers) (Doc j)"
  using assms(1,2)
proof (induction peers arbitrary: h)
  case (Cons p peers)
  obtain srv e where p: "p = (srv, e)" by fastforce
  obtain e' h1 where r: "handleSessionEvent ops srv None now (Envelope \<lparr>fm_SessionID = sid, fm_UserID = uid, fm_Msg = Doc j\<rparr>) e h = Some (e', h1)"
    and h1: "invar h1" "live (metas h1) sid uid" "stream h1 = (stream h)(sid := stream h sid @ [Doc j])"
    using list_changed_event_publishes [OF Cons.prems assms(3)] by blast
  from Cons.IH [OF h1(1,2)] r h1(3) show ?case
    by (simp add: p)
qed simp

lemma emit_then_consume:
  assumes inv: "invar h" and live: "live (metas h) sid uid"
  shows "\<exists>j h'. marshal_request (list_changed_note ResourcesListChangedNotificationMethod) = Some j \<and>
    consume_all ops now (Envelope \<lparr>fm_SessionID = sid, fm_UserID = uid, fm_Msg = Doc j\<rparr>) peers
      (emit_resources_changed ops sid uid h) = Some h' \<and>
    stream h' sid = stream h sid @ replicate (Suc (length peers)) (Doc j)"
proof -
  let ?n = "list_changed_note ResourcesListChangedNotificationMethod"
  obtain j where j: "marshal_request ?n = Some j"
    using note_decodes [of ?n] by (auto simp: list_changed_note_def method_defs ProtocolVersion_def)
  let ?ev = "Envelope \<lparr>fm_SessionID = sid, fm_UserID = uid, fm_Msg = Doc j\<rparr>"
  obtain h1 rp where p: "PublishSession ops None sid (Doc j) h = (h1, rp)"
    by fastforce
  obtain h2 re where ev: "PublishEvent ops None sessionFanoutTopic ?ev h1 = (h2, re)"
    by fastforce
  have i1: "invar h1" using invar_publish [OF inv, of None sid "Doc j"] p by simp
  have i2: "invar h2" using invar_event [OF i1, of None sessionFanoutTopic ?ev] ev by simp
  have "live (metas h2) sid uid"
    using publish_live [OF inv p] event_live [OF ev] live by simp
  from consume_all_list_changed [OF i2 this j, of now peers] publish_live [OF inv p] event_live [OF ev] j p ev show ?thesis
    by (auto simp: emit_resources_changed_def Let_def)
qed

end

text \<open>One change of the resource list is announced to the client more than once. The instance where
  the change happens publishes the notification on the session's stream and fans it out; every instance
  that consumes the event, the origin included, publishes it again: with n consumers the stream gets
  n + 1 copies.\<close>

theorem list_changed_is_repeated:
  assumes "mem_inv h" and "live (mget (h_metas h)) sid uid"
  shows "\<exists>j h'. marshal_request (list_changed_note ResourcesListChangedNotificationMethod) = Some j \<and>
    consume_all memory_host now (Envelope \<lparr>fm_SessionID = sid, fm_UserID = uid, fm_Msg = Doc j\<rparr>) peers
      (run_emitter memory_host (sid, uid, EmitResources) h) = Some h' \<and>
    mem_stream h' sid = mem_stream h sid @ replicate (Suc (length peers)) (Doc j)"
  using mem.emit_then_consume [OF assms] by (simp add: run_emitter_def)

theorem list_changed_is_repeated_witness:
  "\<exists>j h'. consume_all memory_host 9 (Envelope \<lparr>fm_SessionID = ''s'', fm_UserID = ''u'', fm_Msg = Doc j\<rparr>) [(wit_srv, NewEngine [])]
      (run_emitter memory_host (''s'', ''u'', EmitResources) wit_host_meta) = Some h' \<and>
    mem_stream h' ''s'' = [Doc j, Doc j]"
proof -
  have "live (mget (h_metas wit_host_meta)) ''s'' ''u''" "mem_stream wit_host_meta ''s'' = []"
    by (simp_all add: live_def mem_stream_def wit_host_meta_def mem_New_def)
  with list_changed_is_repeated [OF wit_host_meta_inv, of "''s''" "''u''" 9 "[(wit_srv, NewEngine [])]"] show ?thesis
    by auto
qed

text \<open>The event by which \<open>DeleteSession\<close> tells the other instances to stop their forwarders has no
  effect once the session is deleted: an instance that consumes it after the deletion, whatever it holds,
  changes nothing, because it first loads the session; a forwarder it runs for the session goes on
  publishing, and its next signal brings a stream of the deleted session back into the host.\<close>

theorem deleted_event_has_no_effect:
  assumes "mem_inv h" and "eng_DeleteSession memory_host None sess e h = (e', h', None)"
    and "i < length (e_forwarders peer)" and "\<not> fw_returned (e_forwarders peer ! i)"
    and "fw_session (e_forwarders peer ! i) = sh_sessionID sess" and "fw_uri (e_forwarders peer ! i) = uri"
    and "marshal_request (resource_updated_note uri) = Some j"
  shows "handleSessionEvent memory_host srv None now (envelope sess msg) peer h' = Some (peer, h') \<and>
    mem_stream h' (sh_sessionID sess) = [] \<and> mem_stream (forward memory_host i peer h') (sh_sessionID sess) = [Doc j]"
proof -
  note d = mem.delete_session_gone [OF assms(1,2)]
  then have gone: "\<not> live (mget (h_metas h')) (sh_sessionID sess) (sh_userID sess)"
    by (simp add: live_def fun_eq_iff)
  have "handleSessionEvent memory_host srv None now (envelope sess msg) peer h' = Some (peer, h')"
    unfolding envelope_def using mem.event_dead_session [OF _ gone] d by blast
  moreover obtain h2 rp where p: "PublishSession memory_host None (sh_sessionID sess) (Doc j) h' = (h2, rp)"
    by fastforce
  ultimately show ?thesis
    using mem.publish_live [OF _ p] d assms(4-7) by (simp add: forward_def emit_updated_def Let_def)
qed

theorem deleted_event_has_no_effect_witness:
  "\<exists>j e' h'. eng_DeleteSession memory_host None wit_sess (NewEngine []) wit_host_meta = (e', h', None) \<and>
     mem_stream (forward memory_host 0 wit_subscribed h') ''s'' = [Doc j]"
proof -
  obtain e' h' err where r: "eng_DeleteSession memory_host None wit_sess (NewEngine []) wit_host_meta = (e', h', err)"
    by (metis prod_cases3)
  have "err = None" using mem.delete_session_gone [OF wit_host_meta_inv r] by blast
  moreover obtain j where "marshal_request (resource_updated_note ''a'') = Some j"
    using note_decodes [of "resource_updated_note ''a''"] by (auto simp: resource_updated_note_def method_defs ProtocolVersion_def)
  ultimately show ?thesis
    using deleted_event_has_no_effect [OF wit_host_meta_inv, of wit_sess "NewEngine []" e' h' 0 wit_subscribed "''a''" j] r
    by (auto simp: wit_subscribed_def)
qed

end
