(* ===== verification/ClientCalls.thy ===== *)
theory ClientCalls
  imports EngineEvents Resources
begin

section \<open>Calls to the client: roots, sampling, elicitation (internal/engine, internal/createmessage, sessions/sampling)\<close>

text \<open>
  Three capabilities of a session let a tool call the client: \<open>ListRoots\<close>, \<open>CreateMessage\<close> and
  \<open>Elicit\<close>. Each writes a request with a fresh identifier, registers a rendez-vous under it and waits;
  the response comes back through the fan-out (EngineEvents). A call is cut where it waits: the first
  piece ends with the request written, \<open>selectable\<close> lists what the \<open>select\<close> may take, and the last piece
  turns that into the result and runs the deferred close. The writer is a parameter: whether
  \<open>WriteMessage\<close> returned an error. Annotations of sampling content never reach the wire and are left
  out; a float64 is the JSON number it is written as, zero being \<open>JInt 0\<close>. A value decoded into an
  \<open>any\<close> is kept as its document.
\<close>

subsection \<open>Waiting for the response\<close>

datatype awaited = Received wire | RdvClosed | CtxDone go_error

definition selectable :: "ctx \<Rightarrow> nat \<Rightarrow> Engine \<Rightarrow> (Engine \<times> awaited) list" where
  "selectable c i e =
     (case rdv_receive i e of (e', Got msg) \<Rightarrow> [(e', Received msg)] | (e', ChanClosed) \<Rightarrow> [(e', RdvClosed)] | (_, Blocked) \<Rightarrow> [])
     @ (case c of None \<Rightarrow> [] | Some err \<Rightarrow> [(e, CtxDone err)])"

definition call_begin :: "string \<Rightarrow> Request \<Rightarrow> (wire \<Rightarrow> go_error option) \<Rightarrow> Engine \<Rightarrow> Engine option \<times> (go_error + nat)" where
  "call_begin reqID clientReq write e = (case marshal_request clientReq of
       None \<Rightarrow> (Some e, Inl ErrInternal)
     | Some j \<Rightarrow> (case createRendezVous reqID e of (e1, i) \<Rightarrow>
         (case write (Doc j) of
            Some _ \<Rightarrow> (closeRendezVous reqID e1, Inl ErrInternal)
          | None \<Rightarrow> (Some e1, Inr i))))"

text \<open>\<open>json.Unmarshal\<close> into a \<open>jsonrpc.Response\<close>; unlike \<open>AnyMessage\<close> it is not validated.\<close>

definition dec_Response :: "wire \<Rightarrow> Response option" where
  "dec_Response = unmarshal_struct \<lparr>res_JSONRPCVersion = [], res_Result = None, res_Error = None, res_ID = None\<rparr> (\<lambda>kvs.
     Option.bind (dec_field as_string ''jsonrpc'' [] kvs) (\<lambda>v.
     Option.bind (dec_field as_raw ''result'' None kvs) (\<lambda>r.
     Option.bind (dec_field (as_ptr dec_error) ''error'' None kvs) (\<lambda>e.
     Option.bind (dec_field (as_ptr id_UnmarshalJSON) ''id'' None kvs) (\<lambda>i.
     Some \<lparr>res_JSONRPCVersion = v, res_Result = r, res_Error = e, res_ID = i\<rparr>)))))"

definition response_result :: "(wire \<Rightarrow> 'a option) \<Rightarrow> awaited \<Rightarrow> go_error + 'a" where
  "response_result dec aw = (case aw of
       CtxDone err \<Rightarrow> Inl err
     | RdvClosed \<Rightarrow> Inl ErrCancelled
     | Received msg \<Rightarrow> (case dec_Response msg of
           None \<Rightarrow> Inl ErrInternal
         | Some resp \<Rightarrow>
             if res_Error resp \<noteq> None then Inl ErrInternal
             else (case dec (raw_wire (res_Result resp)) of None \<Rightarrow> Inl ErrInternal | Some res \<Rightarrow> Inr res)))"

definition client_request :: "string \<Rightarrow> string \<Rightarrow> raw \<Rightarrow> Request" where
  "client_request reqID meth params = \<lparr>req_JSONRPCVersion = ProtocolVersion, req_Method = meth, req_Params = params,
     req_ID = Some (NewRequestID (GoString reqID))\<rparr>"

subsection \<open>Decoding helpers\<close>

fun as_any_map :: "(string, json) gomap option \<Rightarrow> json \<Rightarrow> (string, json) gomap option option" where
  "as_any_map acc JNull = Some None"
| "as_any_map acc (JObj kvs) = Some (Some (foldl (\<lambda>m (k, v). mput k v m) (case acc of None \<Rightarrow> [] | Some m \<Rightarrow> m) kvs))"
| "as_any_map acc _ = None"

definition as_struct :: "('a \<Rightarrow> (string \<times> json) list \<Rightarrow> 'a option) \<Rightarrow> 'a \<Rightarrow> json \<Rightarrow> 'a option" where
  "as_struct f acc v = unmarshal_struct acc (f acc) (Doc v)"

subsection \<open>Roots (roots_capability.go)\<close>

record Root =
  root_URI :: string
  root_Name :: string

record ListRootsResult =
  lrr_Roots :: "Root list"
  lrr_Meta :: "(string, json) gomap option"

definition dec_Root :: "json \<Rightarrow> Root option" where
  "dec_Root j = unmarshal_struct \<lparr>root_URI = [], root_Name = []\<rparr> (\<lambda>kvs.
     Option.bind (dec_field as_string ''uri'' [] kvs) (\<lambda>u.
     Option.bind (dec_field as_string ''name'' [] kvs) (\<lambda>n.
     Some \<lparr>root_URI = u, root_Name = n\<rparr>))) (Doc j)"

definition dec_ListRootsResult :: "wire \<Rightarrow> ListRootsResult option" where
  "dec_ListRootsResult = unmarshal_struct \<lparr>lrr_Roots = [], lrr_Meta = None\<rparr> (\<lambda>kvs.
     Option.bind (dec_field (as_list dec_Root) ''roots'' [] kvs) (\<lambda>rs.
     Option.bind (dec_field as_any_map ''_meta'' None kvs) (\<lambda>m.
     Some \<lparr>lrr_Roots = rs, lrr_Meta = m\<rparr>)))"

definition ListRoots_begin :: "string \<Rightarrow> (wire \<Rightarrow> go_error option) \<Rightarrow> Engine \<Rightarrow> Engine option \<times> (go_error + nat)" where
  "ListRoots_begin reqID write e = call_begin reqID (client_request reqID RootsListMethod None) write e"

definition ListRoots_end :: "string \<Rightarrow> awaited \<Rightarrow> Engine \<Rightarrow> Engine option \<times> (go_error + ListRootsResult)" where
  "ListRoots_end reqID aw e = (closeRendezVous reqID e, response_result dec_ListRootsResult aw)"

definition RegisterRootsListChangedListener :: "ctx \<Rightarrow> bool \<times> go_error option" where
  "RegisterRootsListChangedListener c = (False, None)"

subsection \<open>Sampling messages (sessions/sampling/message.go)\<close>

definition RoleUser :: string where "RoleUser = ''user''"
definition RoleAssistant :: string where "RoleAssistant = ''assistant''"
definition RoleSystem :: string where "RoleSystem = ''system''"

text \<open>\<open>Image\<close> and \<open>Audio\<close> carry the bytes and the MIME type, \<open>Image\<close> also the alternative text; \<open>NoContent\<close> is
  a nil interface.\<close>

datatype Content = Text string | Image string string string | Audio string string | NoContent

record Message =
  sm_Role :: string
  sm_Content :: Content

definition blank_block :: "string \<Rightarrow> ContentBlock" where
  "blank_block t = \<lparr>cb_Type = t, cb_Text = [], cb_Data = [], cb_MimeType = [], cb_Resource = None,
     cb_URI = [], cb_Name = [], cb_Description = []\<rparr>"

definition AsContentBlock :: "Content \<Rightarrow> ContentBlock option" where
  "AsContentBlock ct = (case ct of
       Text t \<Rightarrow> Some ((blank_block ''text'')\<lparr>cb_Text := t\<rparr>)
     | Image d m _ \<Rightarrow> Some ((blank_block ''image'')\<lparr>cb_Data := base64 d, cb_MimeType := m\<rparr>)
     | Audio d m \<Rightarrow> Some ((blank_block ''audio'')\<lparr>cb_Data := base64 d, cb_MimeType := m\<rparr>)
     | NoContent \<Rightarrow> None)"

record ModelPreferences =
  mp_Hints :: "string list"
  mp_CostPriority :: json
  mp_SpeedPriority :: json
  mp_IntelligencePriority :: json

record options =
  o_history :: "Message list"
  o_modelPrefs :: "ModelPreferences option"
  o_temperature :: "json option"
  o_maxTokens :: "int option"
  o_stopSequences :: "string list"
  o_metadata :: "(string, json) gomap option"
  o_includeContext :: string

type_synonym Option = "options \<Rightarrow> options"

definition options_zero :: options where
  "options_zero = \<lparr>o_history = [], o_modelPrefs = None, o_temperature = None, o_maxTokens = None, o_stopSequences = [],
     o_metadata = None, o_includeContext = []\<rparr>"

definition WithHistory :: "Message list \<Rightarrow> Option" where "WithHistory msgs o' = o'\<lparr>o_history := msgs\<rparr>"
definition WithModelPreferences :: "ModelPreferences option \<Rightarrow> Option" where "WithModelPreferences p o' = o'\<lparr>o_modelPrefs := p\<rparr>"
definition WithTemperature :: "json \<Rightarrow> Option" where "WithTemperature t o' = o'\<lparr>o_temperature := Some t\<rparr>"
definition WithMaxTokens :: "int \<Rightarrow> Option" where "WithMaxTokens n o' = o'\<lparr>o_maxTokens := Some n\<rparr>"
definition WithStopSequences :: "string list \<Rightarrow> Option" where "WithStopSequences ss o' = o'\<lparr>o_stopSequences := ss\<rparr>"
definition WithMetadata :: "(string, json) gomap \<Rightarrow> Option" where "WithMetadata m o' = o'\<lparr>o_metadata := Some m\<rparr>"
definition WithIncludeContext :: "string \<Rightarrow> Option" where "WithIncludeContext k o' = o'\<lparr>o_includeContext := k\<rparr>"

record CreateSpec =
  cs_History :: "Message list"
  cs_ModelPrefs :: "ModelPreferences option"
  cs_Temperature :: "json option"
  cs_MaxTokens :: "int option"
  cs_StopSequences :: "string list"
  cs_Metadata :: "(string, json) gomap option"
  cs_IncludeContext :: string

definition Compile :: "Option list \<Rightarrow> CreateSpec" where
  "Compile opts = (let acc = foldl (\<lambda>a f. f a) options_zero opts in
     \<lparr>cs_History = o_history acc, cs_ModelPrefs = o_modelPrefs acc, cs_Temperature = o_temperature acc,
      cs_MaxTokens = o_maxTokens acc, cs_StopSequences = o_stopSequences acc, cs_Metadata = o_metadata acc,
      cs_IncludeContext = o_includeContext acc\<rparr>)"


subsection \<open>Building the sampling request (internal/createmessage/builder.go)\<close>

record Config =
  cfg_System :: string
  cfg_User :: Message
  cfg_History :: "Message list"
  cfg_ModelPrefs :: "ModelPreferences option"
  cfg_Temperature :: json
  cfg_MaxTokens :: int
  cfg_StopSequences :: "string list"
  cfg_Metadata :: "(string, json) gomap option"
  cfg_IncludeContext :: string

record SamplingMessage =
  smp_Role :: string
  smp_Content :: ContentBlock

record CreateMessageRequest =
  cmr_Messages :: "SamplingMessage list"
  cmr_ModelPreferences :: "ModelPreferences option"
  cmr_SystemPrompt :: string
  cmr_IncludeContext :: string
  cmr_Temperature :: json
  cmr_MaxTokens :: int
  cmr_StopSequences :: "string list"
  cmr_Metadata :: "(string, json) gomap option"

text \<open>A string between single quotes.\<close>

definition apos :: "string \<Rightarrow> string" where
  "apos s = CHR 0x27 # s @ [CHR 0x27]"

definition toWire :: "Message \<Rightarrow> go_error + SamplingMessage" where
  "toWire m = (case sm_Content m of
       Text t \<Rightarrow> Inr \<lparr>smp_Role = sm_Role m, smp_Content = (blank_block ''text'')\<lparr>cb_Text := t\<rparr>\<rparr>
     | Image d mime _ \<Rightarrow> Inr \<lparr>smp_Role = sm_Role m, smp_Content = (blank_block ''image'')\<lparr>cb_Data := base64 d, cb_MimeType := mime\<rparr>\<rparr>
     | Audio d mime \<Rightarrow> Inr \<lparr>smp_Role = sm_Role m, smp_Content = (blank_block ''audio'')\<lparr>cb_Data := base64 d, cb_MimeType := mime\<rparr>\<rparr>
     | NoContent \<Rightarrow> Inl (ErrText ''internal/sampling: unsupported content type''))"

fun wire_history :: "Message list \<Rightarrow> go_error + SamplingMessage list" where
  "wire_history [] = Inr []"
| "wire_history (m # ms) =
     (if sm_Role m = RoleSystem then wire_history ms
      else bind_err (toWire m) (\<lambda>w. bind_err (wire_history ms) (\<lambda>ws. Inr (w # ws))))"

definition BuildCreateMessageRequest :: "Config option \<Rightarrow> go_error + CreateMessageRequest" where
  "BuildCreateMessageRequest cfg = (case cfg of
       None \<Rightarrow> Inl (ErrText ''internal/sampling: nil config'')
     | Some c \<Rightarrow>
         if sm_Role (cfg_User c) \<noteq> RoleUser then Inl (ErrText (''internal/sampling: user message must have role '' @ apos ''user''))
         else if (\<exists>m \<in> set (cfg_History c). sm_Role m = RoleSystem) \<and> cfg_System c \<noteq> []
           then Inl (ErrText ''internal/sampling: duplicate system prompt'')
         else bind_err (wire_history (cfg_History c)) (\<lambda>hist.
              bind_err (toWire (cfg_User c)) (\<lambda>user.
              Inr \<lparr>cmr_Messages = hist @ [user], cmr_ModelPreferences = cfg_ModelPrefs c, cmr_SystemPrompt = cfg_System c,
                   cmr_IncludeContext = cfg_IncludeContext c, cmr_Temperature = cfg_Temperature c, cmr_MaxTokens = cfg_MaxTokens c,
                   cmr_StopSequences = cfg_StopSequences c, cmr_Metadata = cfg_Metadata c\<rparr>)))"

text \<open>The wire form of the request.\<close>

definition num_nz :: "string \<Rightarrow> json \<Rightarrow> (string \<times> json) list" where
  "num_nz n v = (if v = JInt 0 then [] else [(n, v)])"

definition enc_ModelPreferences :: "ModelPreferences \<Rightarrow> json" where
  "enc_ModelPreferences p = JObj (list_nz ''hints'' (map (\<lambda>h. JObj (str_nz ''name'' h)) (mp_Hints p)) @
     num_nz ''costPriority'' (mp_CostPriority p) @ num_nz ''speedPriority'' (mp_SpeedPriority p) @
     num_nz ''intelligencePriority'' (mp_IntelligencePriority p))"

definition enc_SamplingMessage :: "SamplingMessage \<Rightarrow> json" where
  "enc_SamplingMessage m = JObj [(''role'', JStr (smp_Role m)), (''content'', enc_ContentBlock (smp_Content m))]"

definition enc_CreateMessageRequest :: "CreateMessageRequest \<Rightarrow> json" where
  "enc_CreateMessageRequest r = JObj ((''messages'', JArr (map enc_SamplingMessage (cmr_Messages r))) #
     enc_opt ''modelPreferences'' (map_option enc_ModelPreferences (cmr_ModelPreferences r)) @
     str_nz ''systemPrompt'' (cmr_SystemPrompt r) @ str_nz ''includeContext'' (cmr_IncludeContext r) @
     num_nz ''temperature'' (cmr_Temperature r) @ num_nz ''maxTokens'' (JInt (cmr_MaxTokens r)) @
     list_nz ''stopSequences'' (map JStr (cmr_StopSequences r)) @
     (case cmr_Metadata r of None \<Rightarrow> [] | Some m \<Rightarrow> obj_nz ''metadata'' m))"

subsection \<open>Decoding base64 (encoding/base64, standard alphabet)\<close>

text \<open>\<open>DecodeString\<close> with its error dropped: the bytes of the quanta decoded before the first corrupt one.
  \<open>b64_dec\<close> carries the sextets of the quantum it is in; carriage returns and line feeds are skipped.\<close>

fun index_of :: "char \<Rightarrow> nat \<Rightarrow> string \<Rightarrow> nat option" where
  "index_of c i [] = None"
| "index_of c i (d # ds) = (if c = d then Some i else index_of c (Suc i) ds)"

definition b64_val :: "char \<Rightarrow> nat option" where
  "b64_val c = index_of c 0 ''ABCDEFGHIJKLMNOPQRSTUVWXYZabcdefghijklmnopqrstuvwxyz0123456789+/''"

definition is_newline :: "char \<Rightarrow> bool" where
  "is_newline c \<longleftrightarrow> c = char_of (10 :: nat) \<or> c = char_of (13 :: nat)"

definition sextet_bytes :: "nat list \<Rightarrow> string" where
  "sextet_bytes q = (case q of
       [a, b] \<Rightarrow> [char_of (a * 4 + b div 16)]
     | [a, b, c] \<Rightarrow> [char_of (a * 4 + b div 16), char_of (b mod 16 * 16 + c div 4)]
     | [a, b, c, d] \<Rightarrow> [char_of (a * 4 + b div 16), char_of (b mod 16 * 16 + c div 4), char_of (c mod 4 * 64 + d)]
     | _ \<Rightarrow> [])"

fun b64_dec :: "nat list \<Rightarrow> string \<Rightarrow> string" where
  "b64_dec q [] = []"
| "b64_dec q (c # cs) = (case b64_val c of
       Some v \<Rightarrow> if length q = 3 then sextet_bytes (q @ [v]) @ b64_dec [] cs else b64_dec (q @ [v]) cs
     | None \<Rightarrow>
         if is_newline c then b64_dec q cs
         else if c \<noteq> CHR ''='' then []
         else if length q = 2 then
           (case dropWhile is_newline cs of [] \<Rightarrow> [] | d # _ \<Rightarrow> if d = CHR ''='' then sextet_bytes q else [])
         else if length q = 3 then sextet_bytes q
         else [])"

definition DecodeString :: "string \<Rightarrow> string" where
  "DecodeString s = b64_dec [] s"


subsection \<open>Sampling (sampling_capability.go)\<close>

record CreateMessageResult =
  cmres_Role :: string
  cmres_Content :: ContentBlock
  cmres_Model :: string
  cmres_StopReason :: string
  cmres_Meta :: "(string, json) gomap option"

definition dec_ResourceContents :: "json \<Rightarrow> ResourceContents option" where
  "dec_ResourceContents j = unmarshal_struct \<lparr>rct_URI = [], rct_MimeType = [], rct_Text = [], rct_Blob = []\<rparr> (\<lambda>kvs.
     Option.bind (dec_field as_string ''uri'' [] kvs) (\<lambda>u.
     Option.bind (dec_field as_string ''mimeType'' [] kvs) (\<lambda>m.
     Option.bind (dec_field as_string ''text'' [] kvs) (\<lambda>t.
     Option.bind (dec_field as_string ''blob'' [] kvs) (\<lambda>b.
     Some \<lparr>rct_URI = u, rct_MimeType = m, rct_Text = t, rct_Blob = b\<rparr>))))) (Doc j)"

definition dec_ContentBlock :: "ContentBlock \<Rightarrow> json \<Rightarrow> ContentBlock option" where
  "dec_ContentBlock acc j = unmarshal_struct acc (\<lambda>kvs.
     Option.bind (dec_field as_string ''type'' (cb_Type acc) kvs) (\<lambda>ty.
     Option.bind (dec_field as_string ''text'' (cb_Text acc) kvs) (\<lambda>tx.
     Option.bind (dec_field as_string ''data'' (cb_Data acc) kvs) (\<lambda>d.
     Option.bind (dec_field as_string ''mimeType'' (cb_MimeType acc) kvs) (\<lambda>m.
     Option.bind (dec_field (as_ptr dec_ResourceContents) ''resource'' (cb_Resource acc) kvs) (\<lambda>r.
     Option.bind (dec_field as_string ''uri'' (cb_URI acc) kvs) (\<lambda>u.
     Option.bind (dec_field as_string ''name'' (cb_Name acc) kvs) (\<lambda>n.
     Option.bind (dec_field as_string ''description'' (cb_Description acc) kvs) (\<lambda>de.
     Some \<lparr>cb_Type = ty, cb_Text = tx, cb_Data = d, cb_MimeType = m, cb_Resource = r, cb_URI = u, cb_Name = n,
           cb_Description = de\<rparr>))))))))) (Doc j)"

definition dec_CreateMessageResult :: "wire \<Rightarrow> CreateMessageResult option" where
  "dec_CreateMessageResult = unmarshal_struct
     \<lparr>cmres_Role = [], cmres_Content = blank_block [], cmres_Model = [], cmres_StopReason = [], cmres_Meta = None\<rparr> (\<lambda>kvs.
     Option.bind (dec_field as_string ''role'' [] kvs) (\<lambda>r.
     Option.bind (dec_field dec_ContentBlock ''content'' (blank_block []) kvs) (\<lambda>ct.
     Option.bind (dec_field as_string ''model'' [] kvs) (\<lambda>mo.
     Option.bind (dec_field as_string ''stopReason'' [] kvs) (\<lambda>st.
     Option.bind (dec_field as_any_map ''_meta'' None kvs) (\<lambda>me.
     Some \<lparr>cmres_Role = r, cmres_Content = ct, cmres_Model = mo, cmres_StopReason = st, cmres_Meta = me\<rparr>))))))"

definition content_of_block :: "ContentBlock \<Rightarrow> Content" where
  "content_of_block b =
     (if cb_Type b = ''text'' then Text (cb_Text b)
      else if cb_Type b = ''image'' then Image (DecodeString (cb_Data b)) (cb_MimeType b) []
      else if cb_Type b = ''audio'' then Audio (DecodeString (cb_Data b)) (cb_MimeType b)
      else Text [])"

definition MapResult :: "CreateMessageResult option \<Rightarrow> Message \<times> (string, json) gomap option" where
  "MapResult res = (case res of
       None \<Rightarrow> (\<lparr>sm_Role = [], sm_Content = NoContent\<rparr>, None)
     | Some r \<Rightarrow> (\<lparr>sm_Role = cmres_Role r, sm_Content = content_of_block (cmres_Content r)\<rparr>, cmres_Meta r))"

record SampleResult =
  spr_Message :: Message
  spr_Model :: string
  spr_StopReason :: string
  spr_Meta :: "(string, json) gomap option"

definition spec_config :: "string \<Rightarrow> Message \<Rightarrow> CreateSpec \<Rightarrow> Config" where
  "spec_config system user spec = \<lparr>cfg_System = system, cfg_User = user, cfg_History = cs_History spec,
     cfg_ModelPrefs = cs_ModelPrefs spec,
     cfg_Temperature = (case cs_Temperature spec of None \<Rightarrow> JInt 0 | Some t \<Rightarrow> t),
     cfg_MaxTokens = (case cs_MaxTokens spec of None \<Rightarrow> 0 | Some n \<Rightarrow> n),
     cfg_StopSequences = cs_StopSequences spec, cfg_Metadata = cs_Metadata spec, cfg_IncludeContext = cs_IncludeContext spec\<rparr>"

definition CreateMessage_begin :: "string \<Rightarrow> string \<Rightarrow> Message \<Rightarrow> Option list \<Rightarrow> (wire \<Rightarrow> go_error option) \<Rightarrow> Engine \<Rightarrow>
    Engine option \<times> (go_error + nat)" where
  "CreateMessage_begin reqID system user opts write e =
     (case BuildCreateMessageRequest (Some (spec_config system user (Compile opts))) of
        Inl err \<Rightarrow> (Some e, Inl err)
      | Inr req \<Rightarrow>
          if sm_Role user \<noteq> RoleUser then (Some e, Inl (ErrText (''sampling: user message role must be '' @ apos ''user'')))
          else call_begin reqID (client_request reqID SamplingCreateMessageMethod (Some (enc_CreateMessageRequest req))) write e)"

definition sample_of :: "CreateMessageResult \<Rightarrow> SampleResult" where
  "sample_of r = \<lparr>spr_Message = \<lparr>sm_Role = cmres_Role r, sm_Content = content_of_block (cmres_Content r)\<rparr>,
     spr_Model = cmres_Model r, spr_StopReason = cmres_StopReason r, spr_Meta = cmres_Meta r\<rparr>"

definition CreateMessage_end :: "string \<Rightarrow> awaited \<Rightarrow> Engine \<Rightarrow> Engine option \<times> (go_error + SampleResult)" where
  "CreateMessage_end reqID aw e = (closeRendezVous reqID e,
     map_sum id sample_of (response_result dec_CreateMessageResult aw))"

subsection \<open>Elicitation (elicitation_capability.go, sessions/types.go)\<close>

text \<open>
  What the engine uses of a schema decoder: the schema's JSON and \<open>Decode\<close>. The subject is a decoder, a
  pointer to a struct (with what \<open>BindStruct\<close> makes of it, a recovered panic included) or neither. The
  schema is decoded into the protocol's own struct and sent in that form.
\<close>

definition ElicitActionAccept :: string where "ElicitActionAccept = ''accept''"
definition ElicitActionDecline :: string where "ElicitActionDecline = ''decline''"
definition ElicitActionCancel :: string where "ElicitActionCancel = ''cancel''"

record SchemaDecoder =
  sd_Schema :: "go_error + (go_error + wire)"  \<comment> \<open>\<open>Schema()\<close>, then \<open>MarshalJSON()\<close>\<close>
  sd_Decode :: "(string, json) gomap option \<Rightarrow> go_error option"

datatype elicit_subject = SubjDecoder SchemaDecoder | SubjStruct "go_error + SchemaDecoder" | SubjInvalid

definition ErrInvalidElicitSubject :: go_error where
  "ErrInvalidElicitSubject = ErrText ''sessions: invalid elicitation subject; must be SchemaDecoder or *struct''"

record ElicitConfig =
  ec_Strict :: bool
  ec_RawDst :: bool  \<comment> \<open>whether a destination for the raw content was given\<close>

definition WithStrictKeys :: "ElicitConfig \<Rightarrow> ElicitConfig" where "WithStrictKeys o' = o'\<lparr>ec_Strict := True\<rparr>"
definition WithRawCapture :: "bool \<Rightarrow> ElicitConfig \<Rightarrow> ElicitConfig" where "WithRawCapture dst o' = o'\<lparr>ec_RawDst := dst\<rparr>"

record PrimitiveSchemaDefinition =
  psd_Type :: string
  psd_Description :: string
  psd_Minimum :: json
  psd_Maximum :: json
  psd_Enum :: "json list"

record ElicitationSchema =
  es_Type :: string
  es_Properties :: "(string, PrimitiveSchemaDefinition) gomap option"
  es_Required :: "string list"

fun as_float :: "json \<Rightarrow> json \<Rightarrow> json option" where
  "as_float acc (JInt n) = Some (JInt (f64_round n))"
| "as_float acc (JFlt t) = Some (JFlt t)"
| "as_float acc JNull = Some acc"
| "as_float acc _ = None"

definition dec_Primitive :: "json \<Rightarrow> PrimitiveSchemaDefinition option" where
  "dec_Primitive j = unmarshal_struct \<lparr>psd_Type = [], psd_Description = [], psd_Minimum = JInt 0, psd_Maximum = JInt 0, psd_Enum = []\<rparr> (\<lambda>kvs.
     Option.bind (dec_field as_string ''type'' [] kvs) (\<lambda>t.
     Option.bind (dec_field as_string ''description'' [] kvs) (\<lambda>d.
     Option.bind (dec_field as_float ''minimum'' (JInt 0) kvs) (\<lambda>mi.
     Option.bind (dec_field as_float ''maximum'' (JInt 0) kvs) (\<lambda>ma.
     Option.bind (dec_field (as_list Some) ''enum'' [] kvs) (\<lambda>en.
     Some \<lparr>psd_Type = t, psd_Description = d, psd_Minimum = mi, psd_Maximum = ma, psd_Enum = en\<rparr>)))))) (Doc j)"

fun dec_props :: "(string, PrimitiveSchemaDefinition) gomap \<Rightarrow> (string \<times> json) list \<Rightarrow> (string, PrimitiveSchemaDefinition) gomap option" where
  "dec_props acc [] = Some acc"
| "dec_props acc ((k, v) # r) = Option.bind (dec_Primitive v) (\<lambda>p. dec_props (mput k p acc) r)"

fun as_props :: "(string, PrimitiveSchemaDefinition) gomap option \<Rightarrow> json \<Rightarrow> (string, PrimitiveSchemaDefinition) gomap option option" where
  "as_props acc JNull = Some None"
| "as_props acc (JObj kvs) = map_option Some (dec_props (case acc of None \<Rightarrow> [] | Some m \<Rightarrow> m) kvs)"
| "as_props acc _ = None"

definition dec_ElicitationSchema :: "wire \<Rightarrow> ElicitationSchema option" where
  "dec_ElicitationSchema = unmarshal_struct \<lparr>es_Type = [], es_Properties = None, es_Required = []\<rparr> (\<lambda>kvs.
     Option.bind (dec_field as_string ''type'' [] kvs) (\<lambda>t.
     Option.bind (dec_field as_props ''properties'' None kvs) (\<lambda>p.
     Option.bind (dec_field (as_list (as_string [])) ''required'' [] kvs) (\<lambda>r.
     Some \<lparr>es_Type = t, es_Properties = p, es_Required = r\<rparr>))))"

definition enc_Primitive :: "PrimitiveSchemaDefinition \<Rightarrow> json" where
  "enc_Primitive p = JObj ((''type'', JStr (psd_Type p)) # str_nz ''description'' (psd_Description p) @
     num_nz ''minimum'' (psd_Minimum p) @ num_nz ''maximum'' (psd_Maximum p) @ list_nz ''enum'' (psd_Enum p))"

definition enc_ElicitationSchema :: "ElicitationSchema \<Rightarrow> json" where
  "enc_ElicitationSchema s = JObj ((''type'', JStr (es_Type s)) #
     (''properties'', (case es_Properties s of None \<Rightarrow> JNull | Some m \<Rightarrow> JObj (map (\<lambda>(k, p). (k, enc_Primitive p)) m))) #
     list_nz ''required'' (map JStr (es_Required s)))"

record ElicitResult =
  er_Action :: string
  er_Content :: "(string, json) gomap option"
  er_Meta :: "(string, json) gomap option"

definition dec_ElicitResult :: "wire \<Rightarrow> ElicitResult option" where
  "dec_ElicitResult = unmarshal_struct \<lparr>er_Action = [], er_Content = None, er_Meta = None\<rparr> (\<lambda>kvs.
     Option.bind (dec_field as_string ''action'' [] kvs) (\<lambda>a.
     Option.bind (dec_field as_any_map ''content'' None kvs) (\<lambda>ct.
     Option.bind (dec_field as_any_map ''_meta'' None kvs) (\<lambda>m.
     Some \<lparr>er_Action = a, er_Content = ct, er_Meta = m\<rparr>))))"

definition subject_decoder :: "elicit_subject \<Rightarrow> go_error + SchemaDecoder" where
  "subject_decoder subj = (case subj of
       SubjDecoder d \<Rightarrow> Inr d
     | SubjStruct b \<Rightarrow> b
     | SubjInvalid \<Rightarrow> Inl ErrInvalidElicitSubject)"

definition Elicit_begin :: "string \<Rightarrow> string \<Rightarrow> elicit_subject \<Rightarrow> (wire \<Rightarrow> go_error option) \<Rightarrow> Engine \<Rightarrow>
    Engine option \<times> (go_error + SchemaDecoder \<times> nat)" where
  "Elicit_begin reqID text subj write e = (case subject_decoder subj of
       Inl err \<Rightarrow> (Some e, Inl err)
     | Inr d \<Rightarrow> (case sd_Schema d of
           Inl _ \<Rightarrow> (Some e, Inl ErrInternal)
         | Inr (Inl _) \<Rightarrow> (Some e, Inl ErrInternal)
         | Inr (Inr w) \<Rightarrow> (case dec_ElicitationSchema w of
               None \<Rightarrow> (Some e, Inl ErrInternal)
             | Some sch \<Rightarrow>
                 (let params = JObj [(''message'', JStr text), (''requestedSchema'', enc_ElicitationSchema sch)] in
                  case call_begin reqID (client_request reqID ElicitationCreateMethod (Some params)) write e of
                    (e', Inl err) \<Rightarrow> (e', Inl err)
                  | (e', Inr i) \<Rightarrow> (e', Inr (d, i))))))"

definition elicit_action :: "string \<Rightarrow> string" where
  "elicit_action a = (if a = ElicitActionAccept then ElicitActionAccept
     else if a = ElicitActionDecline then ElicitActionDecline else ElicitActionCancel)"

text \<open>The result: the action, the error, and the content captured into the caller's map (\<open>None\<close>: untouched).\<close>

definition Elicit_end :: "string \<Rightarrow> SchemaDecoder \<Rightarrow> ElicitConfig \<Rightarrow> awaited \<Rightarrow> Engine \<Rightarrow>
    Engine option \<times> string \<times> go_error option \<times> (string, json) gomap option" where
  "Elicit_end reqID d cfg aw e = (closeRendezVous reqID e,
     (case response_result dec_ElicitResult aw of
        Inl err \<Rightarrow> (ElicitActionCancel, Some err, None)
      | Inr er \<Rightarrow>
          (let action = elicit_action (er_Action er);
               raw = (if ec_RawDst cfg then Some (case er_Content er of None \<Rightarrow> [] | Some m \<Rightarrow> m) else None)
           in if action = ElicitActionAccept \<and> sd_Decode d (er_Content er) \<noteq> None
              then (ElicitActionCancel, Some ErrInternal, raw)
              else (action, None, raw))))"


subsection \<open>Base64 round trip\<close>

lemma b64_val_char: "n < 64 \<Longrightarrow> b64_val (b64_char n) = Some n"
proof -
  have "list_all (\<lambda>n. b64_val (b64_char n) = Some n) [0..<64]"
    by code_simp
  then show "n < 64 \<Longrightarrow> b64_val (b64_char n) = Some n"
    by (simp add: list_all_iff)
qed

lemma b64_val_pad [simp]: "b64_val (CHR ''='') = None" "\<not> is_newline (CHR ''='')"
  by code_simp+

lemma b64_dec_char: "n < 64 \<Longrightarrow> b64_dec q (b64_char n # cs) =
    (if length q = 3 then sextet_bytes (q @ [n]) @ b64_dec [] cs else b64_dec (q @ [n]) cs)"
  by (simp add: b64_val_char)

lemma byte_lt: "(of_char c :: nat) < 256"
  by (metis of_char_mod_256 mod_less_divisor zero_less_numeral)

lemma sextets:
  fixes x y z :: nat
  assumes "x < 256" "y < 256" "z < 256"
  shows "x div 4 < 64" "x mod 4 * 16 < 64" "x mod 4 * 16 + y div 16 < 64" "y mod 16 * 4 < 64" "y mod 16 * 4 + z div 64 < 64" "z mod 64 < 64"
    and "x div 4 * 4 + (x mod 4 * 16) div 16 = x"
    and "x div 4 * 4 + (x mod 4 * 16 + y div 16) div 16 = x"
    and "(x mod 4 * 16 + y div 16) mod 16 * 16 + (y mod 16 * 4) div 4 = y"
    and "(x mod 4 * 16 + y div 16) mod 16 * 16 + (y mod 16 * 4 + z div 64) div 4 = y"
    and "(y mod 16 * 4 + z div 64) mod 4 * 64 + z mod 64 = z"
proof -
  show "x div 4 < 64" "x mod 4 * 16 < 64" "x mod 4 * 16 + y div 16 < 64" "y mod 16 * 4 < 64" "y mod 16 * 4 + z div 64 < 64" "z mod 64 < 64"
    using assms by linarith+
  have y: "y div 16 < 16" and z: "z div 64 < 4"
    using assms by linarith+
  from y have "(x mod 4 * 16 + y div 16) div 16 = x mod 4" "(x mod 4 * 16 + y div 16) mod 16 = y div 16"
    by simp_all
  moreover from z have "(y mod 16 * 4 + z div 64) div 4 = y mod 16" "(y mod 16 * 4 + z div 64) mod 4 = z div 64"
    by simp_all
  ultimately show "x div 4 * 4 + (x mod 4 * 16) div 16 = x" "x div 4 * 4 + (x mod 4 * 16 + y div 16) div 16 = x"
    "(x mod 4 * 16 + y div 16) mod 16 * 16 + (y mod 16 * 4) div 4 = y"
    "(x mod 4 * 16 + y div 16) mod 16 * 16 + (y mod 16 * 4 + z div 64) div 4 = y"
    "(y mod 16 * 4 + z div 64) mod 4 * 64 + z mod 64 = z"
    by (simp_all add: div_mult_mod_eq)
qed

lemma base64_roundtrip: "DecodeString (base64 s) = s"
  unfolding DecodeString_def
proof (induction s rule: base64.induct)
  case 1
  then show ?case by simp
next
  case (2 a)
  note b = sextets [OF byte_lt [of a] byte_lt [of a] byte_lt [of a]]
  show ?case
    using b(1,2,7) by (simp add: b64_dec_char sextet_bytes_def Let_def del: b64_dec.simps) (simp add: sextet_bytes_def)
next
  case (3 a b)
  note b = sextets [OF byte_lt [of a] byte_lt [of b] byte_lt [of b]]
  show ?case
    using b(1,3,4,8,9) by (simp add: b64_dec_char sextet_bytes_def Let_def del: b64_dec.simps) (simp add: sextet_bytes_def)
next
  case (4 a b c r)
  note b = sextets [OF byte_lt [of a] byte_lt [of b] byte_lt [of c]]
  show ?case
    using b(1,3,5,6,8,10,11) 4 by (simp add: b64_dec_char sextet_bytes_def Let_def del: b64_dec.simps)
qed


lemma key_eq_content [simp]:
  "\<not> key_eq ''role'' ''content''" "\<not> key_eq ''role'' ''model''" "\<not> key_eq ''role'' ''stopReason''" "\<not> key_eq ''role'' ''_meta''"
  "\<not> key_eq ''content'' ''role''" "\<not> key_eq ''content'' ''model''" "\<not> key_eq ''content'' ''stopReason''" "\<not> key_eq ''content'' ''_meta''"
  "\<not> key_eq ''model'' ''role''" "\<not> key_eq ''model'' ''content''" "\<not> key_eq ''model'' ''stopReason''" "\<not> key_eq ''model'' ''_meta''"
  by (simp_all add: key_eq_def lower_char_def)

lemma key_eq_block [simp]:
  "\<not> key_eq ''type'' ''text''" "\<not> key_eq ''type'' ''data''" "\<not> key_eq ''type'' ''mimeType''" "\<not> key_eq ''type'' ''resource''"
  "\<not> key_eq ''type'' ''uri''" "\<not> key_eq ''type'' ''name''" "\<not> key_eq ''type'' ''description''"
  "\<not> key_eq ''text'' ''type''" "\<not> key_eq ''text'' ''data''" "\<not> key_eq ''text'' ''mimeType''" "\<not> key_eq ''text'' ''resource''"
  "\<not> key_eq ''text'' ''uri''" "\<not> key_eq ''text'' ''name''" "\<not> key_eq ''text'' ''description''"
  "\<not> key_eq ''data'' ''type''" "\<not> key_eq ''data'' ''text''" "\<not> key_eq ''data'' ''mimeType''" "\<not> key_eq ''data'' ''resource''"
  "\<not> key_eq ''data'' ''uri''" "\<not> key_eq ''data'' ''name''" "\<not> key_eq ''data'' ''description''"
  "\<not> key_eq ''mimeType'' ''type''" "\<not> key_eq ''mimeType'' ''text''" "\<not> key_eq ''mimeType'' ''data''" "\<not> key_eq ''mimeType'' ''resource''"
  "\<not> key_eq ''mimeType'' ''uri''" "\<not> key_eq ''mimeType'' ''name''" "\<not> key_eq ''mimeType'' ''description''"
  by (simp_all add: key_eq_def lower_char_def)

lemma block_roundtrip:
  assumes "cb_Resource b = None" "cb_URI b = []" "cb_Name b = []" "cb_Description b = []"
  shows "dec_ContentBlock (blank_block []) (enc_ContentBlock b) = Some b"
  using assms
  by (cases b) (simp add: dec_ContentBlock_def enc_ContentBlock_def blank_block_def unmarshal_struct_def str_nz_def)

text \<open>What a tool sends in a sampling message comes back unchanged from a client that echoes it: the
  wire form of a text, image or audio message, decoded as a sampling result, maps to the same role and
  content, every byte of binary data included; only an image's alternative text is lost.\<close>

theorem sampling_content_roundtrip:
  assumes "toWire m = Inr w" and "case sm_Content m of Image _ _ alt \<Rightarrow> alt = [] | _ \<Rightarrow> True"
  shows "\<exists>r. dec_CreateMessageResult (Doc (JObj [(''role'', JStr (smp_Role w)), (''content'', enc_ContentBlock (smp_Content w)),
      (''model'', JStr mo)])) = Some r \<and> MapResult (Some r) = (m, None) \<and> cmres_Model r = mo"
proof -
  let ?r = "\<lparr>cmres_Role = smp_Role w, cmres_Content = smp_Content w, cmres_Model = mo, cmres_StopReason = [], cmres_Meta = None\<rparr>"
  have "dec_ContentBlock (blank_block []) (enc_ContentBlock (smp_Content w)) = Some (smp_Content w)"
    using assms(1) by (intro block_roundtrip) (auto simp: toWire_def blank_block_def split: Content.splits)
  then have "dec_CreateMessageResult (Doc (JObj [(''role'', JStr (smp_Role w)), (''content'', enc_ContentBlock (smp_Content w)),
      (''model'', JStr mo)])) = Some ?r"
    by (simp add: dec_CreateMessageResult_def unmarshal_struct_def)
  moreover have "MapResult (Some ?r) = (m, None)"
    using assms by (cases m)
      (auto simp: MapResult_def toWire_def content_of_block_def blank_block_def base64_roundtrip split: Content.splits)
  ultimately show ?thesis by simp
qed

theorem sampling_content_roundtrip_witness:
  "\<exists>w r. toWire \<lparr>sm_Role = ''user'', sm_Content = Audio ''hi!'' ''audio/wav''\<rparr> = Inr w \<and>
     dec_CreateMessageResult (Doc (JObj [(''role'', JStr (smp_Role w)), (''content'', enc_ContentBlock (smp_Content w)),
       (''model'', JStr ''m'')])) = Some r \<and> sm_Content (fst (MapResult (Some r))) = Audio ''hi!'' ''audio/wav''"
proof -
  let ?m = "\<lparr>sm_Role = ''user'', sm_Content = Audio ''hi!'' ''audio/wav''\<rparr>"
  obtain w where w: "toWire ?m = Inr w" by (simp add: toWire_def)
  from sampling_content_roundtrip [OF w, of "''m''"] w show ?thesis
    by force
qed

lemma response_result_Inr:
  "response_result dec aw = Inr x \<longleftrightarrow> (\<exists>msg resp. aw = Received msg \<and> dec_Response msg = Some resp \<and> res_Error resp = None \<and>
     dec (raw_wire (res_Result resp)) = Some x)"
  by (auto simp: response_result_def split: awaited.splits option.splits)

lemma elicit_actions: "ElicitActionAccept \<noteq> ElicitActionCancel" "ElicitActionCancel \<noteq> ElicitActionAccept"
  by (simp_all add: ElicitActionAccept_def ElicitActionCancel_def)

lemma elicit_action_cases:
  "elicit_action a \<in> {ElicitActionAccept, ElicitActionDecline, ElicitActionCancel} \<and>
   (elicit_action a = ElicitActionAccept \<longrightarrow> a = ''accept'')"
  by (simp add: elicit_action_def ElicitActionAccept_def ElicitActionDecline_def ElicitActionCancel_def)

text \<open>C20: \<open>Elicit\<close> reports acceptance only when the client accepted and the content passed the decoder; an
  error of any kind comes with the action cancel, and an action the protocol does not know counts as
  cancel. Once it returns, whatever the outcome, its rendez-vous is gone.\<close>

theorem elicit_accepts_only_decoded:
  assumes "rdv_ok e" and "Elicit_end reqID d cfg aw e = (eo, action, err, raw)"
  shows "(\<exists>e'. eo = Some e' \<and> rdv_ok e' \<and> rdv_lookup reqID e' = None) \<and>
    action \<in> {ElicitActionAccept, ElicitActionDecline, ElicitActionCancel} \<and>
    (err \<noteq> None \<longrightarrow> action = ElicitActionCancel) \<and>
    (action = ElicitActionAccept \<longrightarrow> err = None \<and> (\<exists>msg resp er. aw = Received msg \<and> dec_Response msg = Some resp \<and>
       res_Error resp = None \<and> dec_ElicitResult (raw_wire (res_Result resp)) = Some er \<and> er_Action er = ''accept'' \<and>
       sd_Decode d (er_Content er) = None))"
proof -
  obtain e' where c: "closeRendezVous reqID e = Some e'" "rdv_ok e'" "mget (e_rdvChans e') reqID = None"
    using closeRendezVous_ok [OF assms(1)] by blast
  have "eo = closeRendezVous reqID e"
    using assms(2) unfolding Elicit_end_def by blast
  with c have eo: "\<exists>e'. eo = Some e' \<and> rdv_ok e' \<and> rdv_lookup reqID e' = None"
    unfolding rdv_lookup_def by metis
  show ?thesis
  proof (cases "response_result dec_ElicitResult aw")
    case (Inl x)
    with assms(2) eo show ?thesis
      by (auto simp: Elicit_end_def elicit_actions)
  next
    case (Inr er)
    then obtain msg resp where r: "aw = Received msg" "dec_Response msg = Some resp" "res_Error resp = None"
      "dec_ElicitResult (raw_wire (res_Result resp)) = Some er"
      by (auto simp: response_result_Inr)
    with assms(2) Inr eo elicit_action_cases [of "er_Action er"] show ?thesis
      by (auto simp: Elicit_end_def Let_def elicit_actions split: if_splits)
  qed
qed


definition accept_msg :: wire where
  "accept_msg = Doc (JObj [(''jsonrpc'', JStr ''2.0''), (''result'', JObj [(''action'', JStr ''accept'')]), (''id'', JStr ''q'')])"

definition any_decoder :: SchemaDecoder where
  "any_decoder = \<lparr>sd_Schema = Inr (Inr (Doc (JObj [(''type'', JStr ''object'')]))), sd_Decode = (\<lambda>_. None)\<rparr>"

theorem elicit_accepts_only_decoded_witness:
  "\<exists>eo raw. Elicit_end ''q'' any_decoder \<lparr>ec_Strict = False, ec_RawDst = True\<rparr> (Received accept_msg) (fst (createRendezVous ''q'' (NewEngine []))) =
     (eo, ''accept'', None, raw) \<and> (\<exists>e'. eo = Some e' \<and> rdv_lookup ''q'' e' = None)"
proof -
  let ?e = "fst (createRendezVous ''q'' (NewEngine []))"
  let ?cfg = "\<lparr>ec_Strict = False, ec_RawDst = True\<rparr>"
  obtain eo raw where r: "Elicit_end ''q'' any_decoder ?cfg (Received accept_msg) ?e = (eo, ''accept'', None, raw)"
    by (simp add: Elicit_end_def accept_msg_def any_decoder_def response_result_def dec_Response_def dec_ElicitResult_def
        unmarshal_struct_def raw_wire_def as_ptr_def id_UnmarshalJSON_def elicit_action_def ElicitActionAccept_def Let_def
        key_eq_def lower_char_def)
  have "rdv_ok ?e"
    by (rule rdv_ok_create [OF rdv_ok_New]) (simp add: NewEngine_def)
  from elicit_accepts_only_decoded [OF this r] r show ?thesis
    by blast
qed

subsection \<open>A call to the client, end to end\<close>

lemma dec_Response_marshalled:
  assumes "res_JSONRPCVersion r = ''2.0''" and "res_Result r = Some j" and "res_Error r = None" and "id_exact (res_ID r)"
  shows "\<exists>d. marshal_response r = Some d \<and> dec_Response (Doc d) = Some r"
proof -
  obtain kvs where kvs: "enc_id (res_ID r) = Some kvs"
    and dec: "dec_field (as_ptr id_UnmarshalJSON) ''id'' None kvs = Some (res_ID r)"
    and keys: "\<forall>k \<in> set kvs. fst k = ''id''"
    using dec_enc_id [OF assms(4)] by blast
  then show ?thesis
    using assms by (cases r) (simp add: marshal_response_def dec_Response_def unmarshal_struct_def dec_field_skip)
qed

lemma mget_map_snd: "mget (map (\<lambda>(i, b). (i, f b)) m) k = map_option f (mget m k)"
  by (induction m) auto

lemma mem_event_reaches:
  assumes "mget (h_events h) t = Some es" and "mget (es_subs es) k = Some buf" and "length buf < event_buffer"
    and "mem_PublishEvent None t ev h = (h', r)"
  shows "\<exists>es'. mget (h_events h') t = Some es' \<and> mget (es_subs es') k = Some (buf @ [ev])"
  using assms by (auto simp: mem_PublishEvent_def getOrCreateEventStream_def mget_map_snd offer_def)



definition wit_host_events :: Host where
  "wit_host_events = wit_host_meta\<lparr>h_events := [(sessionFanoutTopic, \<lparr>es_subs = [(1, [])], es_nextID = 1\<rparr>)]\<rparr>"

lemma wit_host_events_inv: "mem_inv wit_host_events"
  using wit_host_meta_inv by (rule mem_inv_frame) (simp_all add: wit_host_events_def)

definition wit_waiting_call :: Engine where
  "wit_waiting_call = fst (createRendezVous ''q'' (NewEngine []))"


text \<open>The schema a tool asks with is not the schema the client sees: what the engine sends keeps of a
  property only its type, description, enumeration and non-zero bounds. Length limits, formats, titles,
  defaults and a bound of zero, which the schema builder writes and its decoder enforces, are dropped.\<close>

theorem elicit_schema_loses_constraints:
  "map_option enc_ElicitationSchema (dec_ElicitationSchema (Doc (JObj [(''type'', JStr ''object''), (''properties'', JObj
      [(''n'', JObj [(''type'', JStr ''string''), (''minLength'', JInt 3), (''format'', JStr ''email'')]),
       (''a'', JObj [(''type'', JStr ''number''), (''minimum'', JInt 0), (''maximum'', JInt 9)])])]))) =
   Some (JObj [(''type'', JStr ''object''), (''properties'', JObj
      [(''n'', JObj [(''type'', JStr ''string'')]), (''a'', JObj [(''type'', JStr ''number''), (''maximum'', JInt 9)])])])"
  by (simp add: dec_ElicitationSchema_def dec_Primitive_def unmarshal_struct_def key_eq_def lower_char_def f64_round_exact
      enc_ElicitationSchema_def enc_Primitive_def str_nz_def num_nz_def list_nz_def)

end
