(* ===== verification/GoStrings.thy ===== *)
theory GoStrings
  imports Prelude
begin

section \<open>The string functions of the standard library\<close>

text \<open>
  The functions of Go's \<open>strings\<close> package the sources use. A Go string is its list of bytes. White
  space is the ASCII white space; the multi-byte spaces of Unicode, which \<open>TrimSpace\<close> and \<open>Fields\<close>
  know too, are not treated.
\<close>

definition is_space :: "char \<Rightarrow> bool" where
  "is_space c \<longleftrightarrow> c = CHR '' '' \<or> (9 \<le> (of_char c :: nat) \<and> (of_char c :: nat) \<le> 13)"

definition TrimSpace :: "string \<Rightarrow> string" where
  "TrimSpace s = rev (dropWhile is_space (rev (dropWhile is_space s)))"

fun fields_from :: "string \<Rightarrow> string \<Rightarrow> string list" where
  "fields_from cur [] = (if cur = [] then [] else [cur])"
| "fields_from cur (c # cs) =
     (if is_space c then (if cur = [] then fields_from [] cs else cur # fields_from [] cs)
      else fields_from (cur @ [c]) cs)"

definition Fields :: "string \<Rightarrow> string list" where
  "Fields s = fields_from [] s"

fun HasPrefix :: "string \<Rightarrow> string \<Rightarrow> bool" where
  "HasPrefix s [] \<longleftrightarrow> True"
| "HasPrefix [] (p # ps) \<longleftrightarrow> False"
| "HasPrefix (c # cs) (p # ps) \<longleftrightarrow> c = p \<and> HasPrefix cs ps"

definition HasSuffix :: "string \<Rightarrow> string \<Rightarrow> bool" where
  "HasSuffix s p \<longleftrightarrow> HasPrefix (rev s) (rev p)"

definition TrimPrefix :: "string \<Rightarrow> string \<Rightarrow> string" where
  "TrimPrefix s p = (if HasPrefix s p then drop (length p) s else s)"

definition TrimSuffix :: "string \<Rightarrow> string \<Rightarrow> string" where
  "TrimSuffix s p = (if HasSuffix s p then take (length s - length p) s else s)"

fun Join :: "string list \<Rightarrow> string \<Rightarrow> string" where
  "Join [] sep = []"
| "Join [x] sep = x"
| "Join (x # y # xs) sep = x @ sep @ Join (y # xs) sep"

text \<open>\<open>strings.Split\<close> with a one-character separator.\<close>

fun split_from :: "char \<Rightarrow> string \<Rightarrow> string \<Rightarrow> string list" where
  "split_from sep cur [] = [cur]"
| "split_from sep cur (c # cs) = (if c = sep then cur # split_from sep [] cs else split_from sep (cur @ [c]) cs)"

definition Split :: "string \<Rightarrow> char \<Rightarrow> string list" where
  "Split s sep = split_from sep [] s"

subsection \<open>Laws\<close>

lemma HasPrefix_iff: "HasPrefix s p \<longleftrightarrow> (\<exists>r. s = p @ r)"
  by (induction s p rule: HasPrefix.induct) auto

lemma HasPrefix_append [simp]: "HasPrefix (p @ r) p"
  by (auto simp: HasPrefix_iff)

lemma HasSuffix_iff: "HasSuffix s p \<longleftrightarrow> (\<exists>r. s = r @ p)"
  by (auto simp: HasSuffix_def HasPrefix_iff rev_eq_append_conv intro: exI [of _ "rev _"])

lemma TrimPrefix_append [simp]: "TrimPrefix (p @ r) p = r"
  by (simp add: TrimPrefix_def)

lemma TrimSpace_Nil [simp]: "TrimSpace [] = []"
  by (simp add: TrimSpace_def)

lemma TrimSpace_Nil_iff: "TrimSpace s = [] \<longleftrightarrow> (\<forall>c \<in> set s. is_space c)"
proof (cases "dropWhile is_space s")
  case Nil
  then have "\<forall>c \<in> set s. is_space c"
    by (simp only: dropWhile_eq_Nil_conv)
  with Nil show ?thesis
    by (simp only: TrimSpace_def) simp
next
  case (Cons c cs)
  then have "\<not> is_space c" and "c \<in> set s"
    using hd_dropWhile [of is_space s] set_dropWhileD [of c is_space s] by simp_all
  with Cons show ?thesis
    by (auto simp: TrimSpace_def dropWhile_eq_Nil_conv)
qed

lemma TrimSpace_plain: "\<forall>c \<in> set s. \<not> is_space c \<Longrightarrow> TrimSpace s = s"
proof -
  have d: "\<forall>c \<in> set s. \<not> is_space c \<Longrightarrow> dropWhile is_space s = s" for s
    by (cases s) auto
  show "\<forall>c \<in> set s. \<not> is_space c \<Longrightarrow> TrimSpace s = s"
    by (simp add: TrimSpace_def d)
qed

lemma fields_from_plain:
  "\<forall>c \<in> set s. \<not> is_space c \<Longrightarrow> fields_from cur (s @ r) = fields_from (cur @ s) r"
  by (induction s arbitrary: cur) auto

lemma split_from_plain:
  "sep \<notin> set s \<Longrightarrow> split_from sep cur (s @ r) = split_from sep (cur @ s) r"
  by (induction s arbitrary: cur) auto

lemma Fields_Join:
  "\<forall>x \<in> set xs. x \<noteq> [] \<and> (\<forall>c \<in> set x. \<not> is_space c) \<Longrightarrow> Fields (Join xs '' '') = xs"
proof (induction xs rule: induct_list012)
  case (2 x)
  then show ?case
    using fields_from_plain [of x "[]" "[]"] by (simp add: Fields_def)
next
  case (3 x y zs)
  then have "fields_from [] (x @ '' '' @ Join (y # zs) '' '') = x # fields_from [] (Join (y # zs) '' '')"
    using fields_from_plain [of x "[]"] by (simp add: is_space_def)
  with 3 show ?case
    by (simp add: Fields_def)
qed (simp add: Fields_def)

lemma Join_Cons: "xs \<noteq> [] \<Longrightarrow> Join (x # xs) sep = x @ sep @ Join xs sep"
  by (cases xs) auto

lemma Split_Join: "xs \<noteq> [] \<Longrightarrow> \<forall>x \<in> set xs. sep \<notin> set x \<Longrightarrow> Split (Join xs [sep]) sep = xs"
proof (induction xs rule: induct_list012)
  case (2 x)
  then show ?case
    using split_from_plain [of sep x "[]" "[]"] by (simp add: Split_def)
next
  case (3 x y zs)
  then show ?case
    using split_from_plain [of sep x "[]" "[sep] @ Join (y # zs) [sep]"] by (simp add: Split_def)
qed simp

end
