(* ===== verification/HttpWire.thy ===== *)
theory HttpWire
  imports Json GoStrings
begin

section \<open>What the HTTP transport writes (streaminghttp/handler.go)\<close>

text \<open>
  The bytes of the transport: JSON text as \<open>encoding/json\<close> prints it, the \<open>WWW-Authenticate\<close> challenge,
  the frames of a server-sent event stream, and the \<open>http.ResponseWriter\<close> they go to. A response writer
  has the headers set so far, the status once it is written, the bytes of the body, whether it can flush,
  and \<open>rw_room\<close>: how many more \<open>Write\<close> calls succeed (\<open>None\<close>: all of them).
\<close>

subsection \<open>JSON text\<close>

text \<open>\<open>json.Marshal\<close> escapes the quote, the backslash, control characters and, against embedding in HTML,
  three more; other bytes are copied. Strings are valid UTF-8 without the two Unicode line separators.\<close>

definition hex_digit :: "nat \<Rightarrow> char" where
  "hex_digit d = (if d < 10 then char_of (48 + d) else char_of (87 + d))"

definition json_escape :: "char \<Rightarrow> string" where
  "json_escape c =
     (let n = of_char c :: nat in
      if c = CHR 0x22 then [CHR 0x5C, CHR 0x22]
      else if c = CHR 0x5C then [CHR 0x5C, CHR 0x5C]
      else if n = 8 then [CHR 0x5C, CHR ''b'']
      else if n = 12 then [CHR 0x5C, CHR ''f'']
      else if n = 10 then [CHR 0x5C, CHR ''n'']
      else if n = 13 then [CHR 0x5C, CHR ''r'']
      else if n = 9 then [CHR 0x5C, CHR ''t'']
      else if n < 32 \<or> c \<in> {CHR ''<'', CHR ''>'', CHR ''&''}
        then [CHR 0x5C, CHR ''u'', CHR ''0'', CHR ''0'', hex_digit (n div 16), hex_digit (n mod 16)]
      else [c])"

definition json_string :: "string \<Rightarrow> string" where
  "json_string s = [CHR 0x22] @ concat (map json_escape s) @ [CHR 0x22]"

fun json_text :: "json \<Rightarrow> string" where
  "json_text JNull = ''null''"
| "json_text (JBool b) = (if b then ''true'' else ''false'')"
| "json_text (JInt n) = itoa_int n"
| "json_text (JFlt s) = s"
| "json_text (JStr s) = json_string s"
| "json_text (JArr js) = ''['' @ Join (map json_text js) '','' @ '']''"
| "json_text (JObj kvs) = ''{'' @ Join (map (\<lambda>(k, v). json_string k @ '':'' @ json_text v) kvs) '','' @ ''}''"

subsection \<open>Bearer challenges\<close>

definition esc :: "string \<Rightarrow> string" where
  "esc v = concat (map (\<lambda>c. if c = CHR 0x5C then [CHR 0x5C, CHR 0x5C] else if c = CHR 0x22 then [CHR 0x5C, CHR 0x22] else [c]) v)"

definition piece :: "string \<Rightarrow> string \<Rightarrow> string" where
  "piece k v = k @ [CHR ''='', CHR 0x22] @ esc v @ [CHR 0x22]"

text \<open>The parameters of a challenge, in the order they are written.\<close>

definition challenge_params :: "string \<Rightarrow> string \<Rightarrow> (string, string) gomap \<Rightarrow> (string \<times> string) list" where
  "challenge_params realm resourceMetadata params =
     (if realm \<noteq> [] then [(''realm'', realm)] else [])
   @ (if resourceMetadata \<noteq> [] then [(''resource_metadata'', resourceMetadata)] else [])
   @ (case mget params ''error'' of None \<Rightarrow> [] | Some v \<Rightarrow> [(''error'', v)])
   @ (case mget params ''error_description'' of None \<Rightarrow> [] | Some v \<Rightarrow> [(''error_description'', v)])
   @ (case mget params ''scope'' of None \<Rightarrow> [] | Some v \<Rightarrow> [(''scope'', v)])
   @ filter (\<lambda>(k, v). \<not> (k = ''error'' \<or> k = ''error_description'' \<or> k = ''scope'')) params"

definition buildBearerChallenge :: "string \<Rightarrow> string \<Rightarrow> (string, string) gomap \<Rightarrow> string" where
  "buildBearerChallenge realm resourceMetadata params =
     (let pieces = map (\<lambda>(k, v). piece k v) (challenge_params realm resourceMetadata params)
      in if length pieces = 0 then ''Bearer'' else ''Bearer '' @ Join pieces '', '')"

subsection \<open>The response writer\<close>

record ResponseWriter =
  rw_flusher :: bool
  rw_header :: "(string, string) gomap"
  rw_status :: "int option"
  rw_body :: string
  rw_room :: "nat option"

definition set_header :: "string \<Rightarrow> string \<Rightarrow> ResponseWriter \<Rightarrow> ResponseWriter" where
  "set_header k v w = w\<lparr>rw_header := mput k v (rw_header w)\<rparr>"

definition get_header :: "(string, string) gomap \<Rightarrow> string \<Rightarrow> string" where
  "get_header hs k = (case mget hs k of None \<Rightarrow> [] | Some v \<Rightarrow> v)"

text \<open>The first status counts; a write without one sends 200.\<close>

definition WriteHeader :: "int \<Rightarrow> ResponseWriter \<Rightarrow> ResponseWriter" where
  "WriteHeader code w = (case rw_status w of None \<Rightarrow> w\<lparr>rw_status := Some code\<rparr> | Some _ \<Rightarrow> w)"

definition rw_Write :: "string \<Rightarrow> ResponseWriter \<Rightarrow> ResponseWriter \<times> bool" where
  "rw_Write bs w = (let w1 = WriteHeader 200 w in
     case rw_room w1 of
       None \<Rightarrow> (w1\<lparr>rw_body := rw_body w1 @ bs\<rparr>, True)
     | Some 0 \<Rightarrow> (w1, False)
     | Some (Suc n) \<Rightarrow> (w1\<lparr>rw_body := rw_body w1 @ bs, rw_room := Some n\<rparr>, True))"

definition jsonMediaType :: string where "jsonMediaType = ''application/json''"
definition eventStreamMediaType :: string where "eventStreamMediaType = ''text/event-stream''"

definition LF :: char where "LF = CHR 0x0A"

definition writeJSONError :: "int \<Rightarrow> string \<Rightarrow> ResponseWriter \<Rightarrow> ResponseWriter" where
  "writeJSONError status msg w =
     (let ct = get_header (rw_header w) ''Content-Type'';
          w1 = (if ct = [] \<or> ct = jsonMediaType then set_header ''Content-Type'' jsonMediaType w else w)
      in fst (rw_Write (json_text (JObj [(''error'', JObj [(''code'', JInt status), (''message'', JStr msg)])]) @ [LF])
           (WriteHeader status w1)))"

text \<open>\<open>lockedSSEWriter.WriteMessageID\<close>: the context is that of the request, checked before and after the lock.\<close>

definition WriteMessageID :: "ctx \<Rightarrow> string \<Rightarrow> string \<Rightarrow> ResponseWriter \<Rightarrow> ResponseWriter \<times> go_error option" where
  "WriteMessageID c msgID data w = (case c of
       Some err \<Rightarrow> (w, Some err)
     | None \<Rightarrow>
         (let (w1, ok1) = (if msgID \<noteq> [] then rw_Write (''id: '' @ msgID @ [LF]) w else (w, True)) in
          if \<not> ok1 then (w1, Some (ErrText ''failed to write SSE event ID''))
          else let (w2, ok2) = rw_Write ''data: '' w1 in
          if \<not> ok2 then (w2, Some (ErrText ''failed to write SSE data prefix''))
          else let (w3, ok3) = rw_Write data w2 in
          if \<not> ok3 then (w3, Some (ErrText ''failed to write SSE payload''))
          else let (w4, ok4) = rw_Write [LF, LF] w3 in
          if \<not> ok4 then (w4, Some (ErrText ''failed to write SSE frame terminator''))
          else (w4, None)))"

subsection \<open>Writing\<close>

definition sse_frame :: "string \<Rightarrow> string \<Rightarrow> string" where
  "sse_frame i d = (if i = [] then [] else ''id: '' @ i @ [LF]) @ ''data: '' @ d @ [LF, LF]"

lemma WriteMessageID_live:
  "rw_room w = None \<Longrightarrow> WriteMessageID None i d w = ((WriteHeader 200 w)\<lparr>rw_body := rw_body w @ sse_frame i d\<rparr>, None)"
  by (auto simp: WriteMessageID_def rw_Write_def WriteHeader_def sse_frame_def Let_def split: option.splits)

lemma WriteMessageID_dead: "WriteMessageID (Some err) i d w = (w, Some err)"
  by (simp add: WriteMessageID_def)

text \<open>What is written is always a prefix of the frame, the whole of it exactly when there is no error.\<close>

lemma WriteMessageID_prefix:
  assumes "WriteMessageID c i d w = (w', err)"
  shows "\<exists>p q. sse_frame i d = p @ q \<and> rw_body w' = rw_body w @ p \<and> (err = None \<longrightarrow> q = [])"
  using assms
  by (auto simp: WriteMessageID_def rw_Write_def WriteHeader_def sse_frame_def Let_def
      split: option.splits nat.splits if_splits prod.splits)

subsection \<open>JSON text has no line breaks\<close>

definition eol :: "char \<Rightarrow> bool" where
  "eol c \<longleftrightarrow> c = LF \<or> c = CHR 0x0D"

abbreviation one_line :: "string \<Rightarrow> bool" where
  "one_line s \<equiv> (\<forall>c \<in> set s. \<not> eol c)"

fun numbers_ok :: "json \<Rightarrow> bool" where
  "numbers_ok (JFlt s) \<longleftrightarrow> one_line s"
| "numbers_ok (JArr js) \<longleftrightarrow> (\<forall>j \<in> set js. numbers_ok j)"
| "numbers_ok (JObj kvs) \<longleftrightarrow> (\<forall>kv \<in> set kvs. numbers_ok (snd kv))"
| "numbers_ok _ \<longleftrightarrow> True"

lemma eol_code: "eol c \<longleftrightarrow> (of_char c :: nat) = 10 \<or> (of_char c :: nat) = 13"
proof -
  have "c = CHR 0x0A \<longleftrightarrow> (of_char c :: nat) = of_char (CHR 0x0A)" "c = CHR 0x0D \<longleftrightarrow> (of_char c :: nat) = of_char (CHR 0x0D)"
    by (simp_all only: of_char_eq_iff)
  then show ?thesis by (simp add: eol_def LF_def)
qed

lemma hex_digit_not_eol: "d < 16 \<Longrightarrow> \<not> eol (hex_digit d)"
  by (auto simp: hex_digit_def eol_code)

lemma json_escape_one_line: "one_line (json_escape c)"
proof -
  have "(of_char c :: nat) div 16 < 16" "(of_char c :: nat) mod 16 < 16"
    using nat_of_char_less_256 [of c] by (simp_all add: div_less_iff_less_mult)
  then have "\<not> eol (hex_digit (of_char c div 16))" "\<not> eol (hex_digit (of_char c mod 16))"
    by (simp_all add: hex_digit_not_eol)
  moreover have "\<not> eol (CHR 0x5C)" "\<not> eol (CHR 0x22)" "\<not> eol (CHR ''0'')" "\<not> eol (CHR ''u'')" "\<not> eol (CHR ''b'')"
    "\<not> eol (CHR ''f'')" "\<not> eol (CHR ''n'')" "\<not> eol (CHR ''r'')" "\<not> eol (CHR ''t'')"
    by (simp_all add: eol_code)
  ultimately show ?thesis
    by (simp add: json_escape_def Let_def) (simp add: eol_code)
qed

lemma json_string_one_line: "one_line (json_string s)"
  using json_escape_one_line by (auto simp: json_string_def eol_code)

lemma Join_one_line: "\<forall>x \<in> set xs. one_line x \<Longrightarrow> one_line sep \<Longrightarrow> one_line (Join xs sep)"
  by (induction xs sep rule: Join.induct) auto

lemma itoa_one_line: "one_line (itoa_int n)"
proof -
  have "one_line (itoa k)" for k
    using itoa_digits [of k] by (auto simp: is_digit_def eol_code)
  then show ?thesis by (auto simp: itoa_int_def eol_code)
qed

lemma json_text_one_line: "numbers_ok j \<Longrightarrow> one_line (json_text j)"
proof (induction j)
  case (JArr js)
  then have "one_line (Join (map json_text js) '','')"
    by (intro Join_one_line) (auto simp: eol_code)
  then show ?case by (auto simp: eol_code)
next
  case (JObj kvs)
  then have "one_line (Join (map (\<lambda>(k, v). json_string k @ '':'' @ json_text v) kvs) '','')"
    using json_string_one_line by (intro Join_one_line) (fastforce simp: eol_code)+
  then show ?case by (auto simp: eol_code)
qed (auto simp: eol_code itoa_one_line json_string_one_line [unfolded eol_code] itoa_one_line [unfolded eol_code])

subsection \<open>The client's reading of an event stream\<close>

text \<open>The event stream format of the HTML standard, for the fields \<open>id\<close> and \<open>data\<close>: a stream is lines (an
  unfinished last line is dropped), a blank line dispatches the data gathered, the identifier stays until
  the next one. The pair of a carriage return and a line feed, which is one line end, is not treated.\<close>

fun split_lines :: "string \<Rightarrow> string \<Rightarrow> string list" where
  "split_lines cur [] = []"
| "split_lines cur (c # cs) = (if eol c then cur # split_lines [] cs else split_lines (cur @ [c]) cs)"

definition field_name :: "string \<Rightarrow> string" where
  "field_name l = takeWhile (\<lambda>c. c \<noteq> CHR '':'') l"

definition field_value :: "string \<Rightarrow> string" where
  "field_value l = (case dropWhile (\<lambda>c. c \<noteq> CHR '':'') l of [] \<Rightarrow> []
     | _ # v \<Rightarrow> if HasPrefix v '' '' then drop 1 v else v)"

fun sse_events :: "string \<Rightarrow> string option \<Rightarrow> string list \<Rightarrow> (string \<times> string) list" where
  "sse_events lid data [] = []"
| "sse_events lid data (l # ls) =
     (if l = [] then (case data of None \<Rightarrow> sse_events lid None ls | Some d \<Rightarrow> (lid, d) # sse_events lid None ls)
      else if field_name l = ''data'' then
        sse_events lid (Some (case data of None \<Rightarrow> field_value l | Some d \<Rightarrow> d @ [LF] @ field_value l)) ls
      else if field_name l = ''id'' then sse_events (field_value l) data ls
      else sse_events lid data ls)"

definition sse_parse :: "string \<Rightarrow> (string \<times> string) list" where
  "sse_parse s = sse_events [] None (split_lines [] s)"

text \<open>The events of a list of messages: a message without an identifier has the last one before it.\<close>

fun stamp :: "string \<Rightarrow> (string \<times> string) list \<Rightarrow> (string \<times> string) list" where
  "stamp lid [] = []"
| "stamp lid ((i, d) # ms) = (let l = (if i = [] then lid else i) in (l, d) # stamp l ms)"

text \<open>Writing messages one after another, until one fails.\<close>

fun write_all :: "ctx \<Rightarrow> (string \<times> string) list \<Rightarrow> ResponseWriter \<Rightarrow> ResponseWriter \<times> go_error option" where
  "write_all c [] w = (w, None)"
| "write_all c ((i, d) # ms) w = (case WriteMessageID c i d w of
       (w1, Some err) \<Rightarrow> (w1, Some err)
     | (w1, None) \<Rightarrow> write_all c ms w1)"

lemma split_lines_line: "one_line l \<Longrightarrow> eol e \<Longrightarrow> split_lines cur (l @ e # r) = (cur @ l) # split_lines [] r"
  by (induction l arbitrary: cur) auto

lemma split_lines_prefix: "set (split_lines cur p) \<subseteq> set (split_lines cur (p @ q))"
  by (induction p arbitrary: cur) auto

lemma eol_LF [simp]: "eol LF"
  by (simp add: eol_def)

lemma frame_lines:
  assumes "one_line i" and "one_line d"
  shows "split_lines [] (sse_frame i d @ r) =
    (if i = [] then [] else [''id: '' @ i]) @ [''data: '' @ d, []] @ split_lines [] r"
proof -
  have l: "one_line (''data: '' @ d)" "one_line (''id: '' @ i)"
    using assms by (auto simp: eol_code)
  show ?thesis
    using split_lines_line [OF l(1), of LF "[]" "[LF] @ r"]
      split_lines_line [OF l(2), of LF "[]" "''data: '' @ d @ [LF, LF] @ r"]
    by (auto simp: sse_frame_def)
qed

lemma sse_events_frame:
  assumes "one_line i" and "one_line d"
  shows "sse_events lid None (split_lines [] (sse_frame i d @ r)) =
    (let l = (if i = [] then lid else i) in (l, d) # sse_events l None (split_lines [] r))"
  by (simp add: frame_lines [OF assms] Let_def field_name_def field_value_def)

lemma sse_events_no_blank: "[] \<notin> set ls \<Longrightarrow> sse_events lid data ls = []"
  by (induction ls arbitrary: lid data) (auto split: option.splits)

lemma sse_events_partial:
  assumes "one_line i" and "one_line d" and "sse_frame i d = p @ q" and "q \<noteq> []"
  shows "sse_events lid None (split_lines [] p) = []"
proof -
  define f where "f = (if i = [] then [] else ''id: '' @ i @ [LF]) @ ''data: '' @ d @ [LF]"
  have "p @ q = f @ [LF]"
    by (simp add: f_def sse_frame_def assms(3) [symmetric])
  then have "p @ butlast q = f"
    using assms(4) by (metis butlast_append butlast_snoc)
  then have "set (split_lines [] p) \<subseteq> set (split_lines [] f)"
    using split_lines_prefix by metis
  moreover have "one_line (''data: '' @ d)" "one_line (''id: '' @ i)"
    using assms(1,2) by (auto simp: eol_code)
  then have "split_lines [] f = (if i = [] then [] else [''id: '' @ i]) @ [''data: '' @ d]"
    using split_lines_line [of "''data: '' @ d" LF "[]" "[]"]
      split_lines_line [of "''id: '' @ i" LF "[]" "''data: '' @ d @ [LF]"] by (simp add: f_def)
  ultimately show ?thesis
    by (intro sse_events_no_blank) (auto split: if_splits)
qed

lemma sse_written:
  assumes "\<forall>(i, d) \<in> set ms. one_line i \<and> one_line d" and "rw_body w = []" and "write_all c ms w = (w', err)"
  shows "\<exists>k \<le> length ms. sse_parse (rw_body w') = take k (stamp [] ms) \<and> (err = None \<longrightarrow> k = length ms)"
proof -
  have "\<exists>k s. k \<le> length ms \<and> rw_body w' = rw_body w @ s \<and> (err = None \<longrightarrow> k = length ms) \<and>
      (\<forall>lid. sse_events lid None (split_lines [] s) = take k (stamp lid ms))"
    using assms(1,3)
  proof (induction ms arbitrary: w)
    case (Cons m ms)
    obtain i d where m: "m = (i, d)" by fastforce
    obtain w1 e1 where wr: "WriteMessageID c i d w = (w1, e1)" by fastforce
    obtain p q where pq: "sse_frame i d = p @ q" "rw_body w1 = rw_body w @ p" "e1 = None \<longrightarrow> q = []"
      using WriteMessageID_prefix [OF wr] by (elim exE conjE)
    have one: "one_line i" "one_line d" using Cons.prems(1) m by auto
    show ?case
    proof (cases e1)
      case None
      then have "write_all c ms w1 = (w', err)" using Cons.prems(2) m wr by simp
      then obtain k s where "k \<le> length ms" "rw_body w' = rw_body w1 @ s" "err = None \<longrightarrow> k = length ms"
          and ev: "\<forall>lid. sse_events lid None (split_lines [] s) = take k (stamp lid ms)"
        using Cons.IH [of w1] Cons.prems(1) by auto
      with pq None m show ?thesis
        using sse_events_frame [OF one, of _ s] by (intro exI [of _ "Suc k"] exI [of _ "p @ s"]) (simp add: Let_def)
    next
      case (Some e)
      then have w': "w' = w1" "err = Some e" using Cons.prems(2) m wr by simp_all
      show ?thesis
      proof (cases "q = []")
        case True
        then show ?thesis
          using pq w' m sse_events_frame [OF one, of _ "[]"]
          by (intro exI [of _ 1] exI [of _ p]) (simp add: Let_def)
      next
        case False
        then show ?thesis
          using pq w' sse_events_partial [OF one pq(1)] by (intro exI [of _ 0] exI [of _ p]) simp
      qed
    qed
  qed simp
  then show ?thesis
    using assms(2) by (auto simp: sse_parse_def)
qed

text \<open>A client that reads the event stream gets the messages that were written, in order, with their
  identifiers and bytes unchanged, and nothing else: all of them when no write fails, and otherwise, also
  when the connection breaks in the middle of a frame, a prefix of them.\<close>

theorem sse_roundtrip:
  assumes "\<forall>(i, d) \<in> set ms. one_line i \<and> one_line d" and "rw_body w = []" and "write_all c ms w = (w', err)"
  shows "\<exists>k \<le> length ms. sse_parse (rw_body w') = take k (stamp [] ms) \<and> (err = None \<longrightarrow> k = length ms)"
  using sse_written [OF assms] .

definition new_writer :: ResponseWriter where
  "new_writer = \<lparr>rw_flusher = True, rw_header = [], rw_status = None, rw_body = [], rw_room = None\<rparr>"

theorem sse_roundtrip_witness:
  "\<exists>k \<le> 2. sse_parse (rw_body (fst (write_all None [(''7'', ''{}''), ([], ''[1]'')] (new_writer\<lparr>rw_room := Some 5\<rparr>)))) =
     take k [(''7'', ''{}''), (''7'', ''[1]'')]"
  using sse_roundtrip [of "[(''7'', ''{}''), ([], ''[1]'')]" "new_writer\<lparr>rw_room := Some 5\<rparr>" None
      "fst (write_all None [(''7'', ''{}''), ([], ''[1]'')] (new_writer\<lparr>rw_room := Some 5\<rparr>))"
      "snd (write_all None [(''7'', ''{}''), ([], ''[1]'')] (new_writer\<lparr>rw_room := Some 5\<rparr>))"]
  by (simp add: new_writer_def eol_code Let_def del: write_all.simps) (metis One_nat_def numeral_2_eq_2)

subsection \<open>The client's reading of a challenge\<close>

text \<open>Authentication parameters with quoted values, as RFC 9110 has them: \<open>unquote\<close> reads up to the closing
  quote, and the fuel of \<open>parse_params\<close>, the length of the text, is enough because each step consumes some.\<close>

fun unquote :: "string \<Rightarrow> string \<Rightarrow> (string \<times> string) option" where
  "unquote acc [] = None"
| "unquote acc (c # cs) =
     (if c = CHR 0x22 then Some (acc, cs)
      else if c = CHR 0x5C then (case cs of [] \<Rightarrow> None | d # ds \<Rightarrow> unquote (acc @ [d]) ds)
      else unquote (acc @ [c]) cs)"

fun parse_params :: "nat \<Rightarrow> string \<Rightarrow> (string \<times> string) list option" where
  "parse_params 0 s = None"
| "parse_params (Suc n) s =
     (let k = takeWhile (\<lambda>c. c \<noteq> CHR ''='') s; r = dropWhile (\<lambda>c. c \<noteq> CHR ''='') s in
      if \<not> HasPrefix r [CHR ''='', CHR 0x22] then None
      else case unquote [] (drop 2 r) of
        None \<Rightarrow> None
      | Some (v, t) \<Rightarrow>
          if t = [] then Some [(k, v)]
          else if HasPrefix t '', '' then map_option (Cons (k, v)) (parse_params n (drop 2 t))
          else None)"

definition parse_challenge :: "string \<Rightarrow> (string \<times> string) list option" where
  "parse_challenge s = (if s = ''Bearer'' then Some []
     else if HasPrefix s ''Bearer '' then parse_params (length s) (drop 7 s) else None)"

lemma unquote_esc: "unquote acc (esc v @ CHR 0x22 # r) = Some (acc @ v, r)"
  by (induction v arbitrary: acc) (auto simp: esc_def)

lemma piece_split:
  assumes "CHR ''='' \<notin> set k"
  shows "takeWhile (\<lambda>c. c \<noteq> CHR ''='') (piece k v @ r) = k"
    and "dropWhile (\<lambda>c. c \<noteq> CHR ''='') (piece k v @ r) = [CHR ''='', CHR 0x22] @ esc v @ CHR 0x22 # r"
proof -
  have k: "c \<noteq> CHR ''=''" if "c \<in> set k" for c
    using assms that by metis
  show "takeWhile (\<lambda>c. c \<noteq> CHR ''='') (piece k v @ r) = k"
    using k by (simp add: piece_def takeWhile_append2)
  show "dropWhile (\<lambda>c. c \<noteq> CHR ''='') (piece k v @ r) = [CHR ''='', CHR 0x22] @ esc v @ CHR 0x22 # r"
    using k by (simp add: piece_def dropWhile_append2)
qed

lemma parse_params_pieces:
  assumes "kvs \<noteq> []" and "\<forall>kv \<in> set kvs. CHR ''='' \<notin> set (fst kv)" and "length kvs \<le> n"
  shows "parse_params n (Join (map (\<lambda>(k, v). piece k v) kvs) '', '') = Some kvs"
  using assms
proof (induction kvs arbitrary: n)
  case (Cons kv kvs)
  obtain k v where kv: "kv = (k, v)" by fastforce
  obtain m where n: "n = Suc m" using Cons.prems(3) by (cases n) auto
  have k: "CHR ''='' \<notin> set k" using Cons.prems(2) kv by simp
  show ?case
  proof (cases "kvs = []")
    case True
    then show ?thesis
      using piece_split [OF k, of v "[]"] unquote_esc [of "[]" v "[]"] by (simp add: kv n Let_def)
  next
    case False
    let ?r = "Join (map (\<lambda>(k, v). piece k v) kvs) '', ''"
    have "parse_params m ?r = Some kvs"
      using Cons False n by simp
    moreover have "Join (map (\<lambda>(k, v). piece k v) (kv # kvs)) '', '' = piece k v @ '', '' @ ?r"
      using False kv by (simp add: Join_Cons)
    ultimately show ?thesis
      using piece_split [OF k, of v "'', '' @ ?r"] unquote_esc [of "[]" v "'', '' @ ?r"] by (simp add: n kv Let_def)
  qed
qed simp

text \<open>The challenge header can be read back: whatever characters the realm, the metadata URL, the error
  texts and the scopes contain, a client that parses the header finds exactly the parameters the code meant
  to send, in the order it wrote them; no value can end its quotes early and add a parameter.\<close>

theorem challenge_roundtrip:
  assumes "\<forall>kv \<in> set params. CHR ''='' \<notin> set (fst kv)"
  shows "parse_challenge (buildBearerChallenge realm rm params) = Some (challenge_params realm rm params)"
proof (cases "challenge_params realm rm params = []")
  case True
  then show ?thesis
    by (simp add: buildBearerChallenge_def parse_challenge_def)
next
  case False
  let ?ps = "challenge_params realm rm params"
  let ?s = "Join (map (\<lambda>(k, v). piece k v) ?ps) '', ''"
  have "\<forall>kv \<in> set ?ps. CHR ''='' \<notin> set (fst kv)"
    using assms by (auto simp: challenge_params_def split: option.splits if_splits)
  moreover have "length (Join (map (\<lambda>(k, v). piece k v) kvs) '', '') \<ge> length kvs" for kvs :: "(string \<times> string) list"
    by (induction kvs rule: induct_list012) (auto simp: piece_def)
  from this [of ?ps] have "length ?ps \<le> length (''Bearer '' @ ?s)"
    by (simp only: length_append)
  ultimately have "parse_params (length (''Bearer '' @ ?s)) ?s = Some ?ps"
    using False by (intro parse_params_pieces)
  with False show ?thesis
    by (simp add: buildBearerChallenge_def parse_challenge_def Let_def)
qed

theorem challenge_roundtrip_witness:
  "parse_challenge (buildBearerChallenge ''mcp'' [] [(''error'', ''invalid_token''), (''error_description'', [CHR 0x22, CHR '','', CHR 0x5C])]) =
     Some [(''realm'', ''mcp''), (''error'', ''invalid_token''), (''error_description'', [CHR 0x22, CHR '','', CHR 0x5C])]"
  using challenge_roundtrip [of "[(''error'', ''invalid_token''), (''error_description'', [CHR 0x22, CHR '','', CHR 0x5C])]" "''mcp''" "[]"]
  by (simp add: challenge_params_def)

end
