(* ===== verification/Auth.thy ===== *)
theory Auth
  imports Json GoStrings Sessions "HOL-Library.Char_ord" "HOL-Library.List_Lexorder" "HOL-Library.Multiset"
begin

section \<open>Access tokens (auth, internal/jwtauth)\<close>

text \<open>
  The configuration of the resource server (\<open>SecurityConfig\<close>, \<open>Config\<close>, the options), the two
  authenticators of internal/jwtauth and the adapter of auth that classifies their errors. Parsing and
  verifying a JSON Web Token, fetching keys and OIDC discovery are the packages golang-jwt, keyfunc
  and go-oidc: they are the fields of \<open>jwt_lib\<close>, and the conversion of a float64 to an int64, which Go
  leaves to the implementation out of range, is a field too. Slices are lists, so that the copies the
  code makes to avoid sharing are the identity.
\<close>

subsection \<open>Security configuration (auth/security.go)\<close>

record OIDCExtra =
  ox_AuthorizationEndpoint :: string
  ox_TokenEndpoint :: string
  ox_ScopesSupported :: "string list"
  ox_RegistrationEndpoint :: string
  ox_ResponseTypesSupported :: "string list"
  ox_GrantTypesSupported :: "string list"
  ox_ResponseModesSupported :: "string list"
  ox_CodeChallengeMethodsSupported :: "string list"
  ox_TokenEndpointAuthMethodsSupported :: "string list"
  ox_TokenEndpointAuthSigningAlgValuesSupported :: "string list"
  ox_ServiceDocumentation :: string
  ox_OpPolicyURI :: string
  ox_OpTosURI :: string

record SecurityConfig =
  sec_Issuer :: string
  sec_Audiences :: "string list"
  sec_AllowedAlgs :: "string list"
  sec_JWKSURL :: string
  sec_HintScopes :: "string list"
  sec_Leeway :: duration
  sec_EnforceExp :: bool
  sec_EnforceNbf :: bool
  sec_Advertise :: bool
  sec_OIDC :: "OIDCExtra option"

definition sixty_seconds :: duration where "sixty_seconds = 60000000000"
definition five_minutes :: duration where "five_minutes = 300000000000"

definition Normalize :: "SecurityConfig \<Rightarrow> SecurityConfig" where
  "Normalize c =
     (let c1 = (if sec_AllowedAlgs c = [] then c\<lparr>sec_AllowedAlgs := [''RS256'']\<rparr> else c);
          c2 = (if sec_Leeway c1 = 0 then c1\<lparr>sec_Leeway := sixty_seconds\<rparr> else c1)
      in if \<not> sec_Advertise c2 then c2\<lparr>sec_Advertise := True\<rparr> else c2)"

definition Validate :: "SecurityConfig \<Rightarrow> go_error option" where
  "Validate c =
     (if sec_Issuer c = [] then Some (ErrText ''security: issuer required'')
      else if sec_Audiences c = [] then Some (ErrText ''security: at least one audience required'')
      else if [] \<in> set (sec_Audiences c) then Some (ErrText ''security: empty audience entry'')
      else None)"

definition EqualCore :: "SecurityConfig \<Rightarrow> SecurityConfig \<Rightarrow> bool" where
  "EqualCore c d =
     (if sec_Issuer c \<noteq> sec_Issuer d then False
      else if length (sec_Audiences c) \<noteq> length (sec_Audiences d) then False
      else let ac = sort (sec_Audiences c); bc = sort (sec_Audiences d)
           in list_all (\<lambda>i. ac ! i = bc ! i) [0..<length ac])"

subsection \<open>The token configuration and its options (auth/access\_token.go)\<close>

record jwt_Config =
  cfg_Issuer :: string
  cfg_ExpectedAudiences :: "string list"
  cfg_RequiredScopes :: "string list"
  cfg_ScopeModeAny :: bool
  cfg_AllowedAlgs :: "string list"
  cfg_Leeway :: duration
  cfg_HintScopes :: "string list"
  cfg_AdvertisedScopesTransform :: "(string list \<Rightarrow> string list) option"

definition DefaultConfig :: jwt_Config where
  "DefaultConfig = \<lparr>cfg_Issuer = [], cfg_ExpectedAudiences = [], cfg_RequiredScopes = [], cfg_ScopeModeAny = False,
     cfg_AllowedAlgs = [''RS256''], cfg_Leeway = sixty_seconds, cfg_HintScopes = [], cfg_AdvertisedScopesTransform = None\<rparr>"

type_synonym AccessTokenAuthOption = "jwt_Config \<Rightarrow> jwt_Config"

definition WithRequiredScopes :: "string list \<Rightarrow> AccessTokenAuthOption" where
  "WithRequiredScopes scopes c = c\<lparr>cfg_RequiredScopes := scopes, cfg_ScopeModeAny := False\<rparr>"

definition WithAnyRequiredScope :: "string list \<Rightarrow> AccessTokenAuthOption" where
  "WithAnyRequiredScope scopes c = c\<lparr>cfg_RequiredScopes := scopes, cfg_ScopeModeAny := True\<rparr>"

definition WithAllowedAlgs :: "string list \<Rightarrow> AccessTokenAuthOption" where
  "WithAllowedAlgs algs c = c\<lparr>cfg_AllowedAlgs := algs\<rparr>"

definition WithLeeway :: "duration \<Rightarrow> AccessTokenAuthOption" where
  "WithLeeway d c = c\<lparr>cfg_Leeway := d\<rparr>"

definition WithExtraAudience :: "string \<Rightarrow> AccessTokenAuthOption" where
  "WithExtraAudience aud c =
     (if aud = [] then c
      else if aud \<in> set (cfg_ExpectedAudiences c) then c
      else c\<lparr>cfg_ExpectedAudiences := cfg_ExpectedAudiences c @ [aud]\<rparr>)"

definition WithScopeHint :: "string list \<Rightarrow> AccessTokenAuthOption" where
  "WithScopeHint scopes c = c\<lparr>cfg_HintScopes := filter (\<lambda>s. s \<noteq> []) (map TrimSpace scopes)\<rparr>"

definition StaticScopes :: "string list \<Rightarrow> string list \<Rightarrow> string list" where
  "StaticScopes scopes discovered = scopes"

definition FilterScopes :: "(string \<Rightarrow> bool) \<Rightarrow> string list \<Rightarrow> string list" where
  "FilterScopes keep discovered = filter keep discovered"

definition WithAdvertisedScopes :: "(string list \<Rightarrow> string list) \<Rightarrow> AccessTokenAuthOption" where
  "WithAdvertisedScopes transform c = c\<lparr>cfg_AdvertisedScopesTransform := Some transform\<rparr>"

subsection \<open>Authenticators (internal/jwtauth)\<close>

record jwt_token =
  jt_Alg :: string
  jt_Header :: "(string, json) gomap"
  jt_Claims :: "(string, json) gomap option"

record ParserOptions =
  po_ValidMethods :: "string list"
  po_ExpirationRequired :: bool
  po_Issuer :: string
  po_Leeway :: duration
  po_Audience :: "string option"

type_synonym Keyfunc = "jwt_token \<Rightarrow> go_error + string"

record jwt_lib =
  jl_Parse :: "time \<Rightarrow> ParserOptions \<Rightarrow> Keyfunc \<Rightarrow> string \<Rightarrow> go_error + jwt_token"
  jl_NewKeyfunc :: "string \<Rightarrow> go_error + Keyfunc"
  jl_NewProvider :: "string \<Rightarrow> go_error + wire"
  jl_int64 :: "json \<Rightarrow> int"

record userInfo =
  ui_sub :: string
  ui_claims :: "(string, json) gomap"

record discoveryAuthenticator =
  da_cfg :: jwt_Config
  da_issuer :: string
  da_keyfunc :: Keyfunc
  da_iss :: string
  da_extra :: OIDCExtra

record discovery_meta =
  dm_Issuer :: string
  dm_JwksURI :: string
  dm_Extra :: OIDCExtra

abbreviation as_strings :: "string list \<Rightarrow> json \<Rightarrow> string list option" where
  "as_strings \<equiv> as_list (as_string [])"

definition oidc_zero :: OIDCExtra where
  "oidc_zero = \<lparr>ox_AuthorizationEndpoint = [], ox_TokenEndpoint = [], ox_ScopesSupported = [], ox_RegistrationEndpoint = [],
     ox_ResponseTypesSupported = [], ox_GrantTypesSupported = [], ox_ResponseModesSupported = [],
     ox_CodeChallengeMethodsSupported = [], ox_TokenEndpointAuthMethodsSupported = [],
     ox_TokenEndpointAuthSigningAlgValuesSupported = [], ox_ServiceDocumentation = [], ox_OpPolicyURI = [], ox_OpTosURI = []\<rparr>"

definition dec_meta :: "wire \<Rightarrow> discovery_meta option" where
  "dec_meta w = unmarshal_struct \<lparr>dm_Issuer = [], dm_JwksURI = [], dm_Extra = oidc_zero\<rparr> (\<lambda>kvs.
     Option.bind (dec_field as_string ''issuer'' [] kvs) (\<lambda>iss.
     Option.bind (dec_field as_string ''jwks_uri'' [] kvs) (\<lambda>jwks.
     Option.bind (dec_field as_string ''authorization_endpoint'' [] kvs) (\<lambda>ae.
     Option.bind (dec_field as_string ''token_endpoint'' [] kvs) (\<lambda>te.
     Option.bind (dec_field as_string ''registration_endpoint'' [] kvs) (\<lambda>re.
     Option.bind (dec_field as_strings ''response_types_supported'' [] kvs) (\<lambda>rt.
     Option.bind (dec_field as_strings ''scopes_supported'' [] kvs) (\<lambda>sc.
     Option.bind (dec_field as_strings ''grant_types_supported'' [] kvs) (\<lambda>gt.
     Option.bind (dec_field as_strings ''response_modes_supported'' [] kvs) (\<lambda>rm.
     Option.bind (dec_field as_strings ''code_challenge_methods_supported'' [] kvs) (\<lambda>cc.
     Option.bind (dec_field as_strings ''token_endpoint_auth_methods_supported'' [] kvs) (\<lambda>ta.
     Option.bind (dec_field as_strings ''token_endpoint_auth_signing_alg_values_supported'' [] kvs) (\<lambda>tg.
     Option.bind (dec_field as_string ''service_documentation'' [] kvs) (\<lambda>sd.
     Option.bind (dec_field as_string ''op_policy_uri'' [] kvs) (\<lambda>pu.
     Option.bind (dec_field as_string ''op_tos_uri'' [] kvs) (\<lambda>tu.
     Some \<lparr>dm_Issuer = iss, dm_JwksURI = jwks,
       dm_Extra = \<lparr>ox_AuthorizationEndpoint = ae, ox_TokenEndpoint = te, ox_ScopesSupported = sc, ox_RegistrationEndpoint = re,
         ox_ResponseTypesSupported = rt, ox_GrantTypesSupported = gt, ox_ResponseModesSupported = rm,
         ox_CodeChallengeMethodsSupported = cc, ox_TokenEndpointAuthMethodsSupported = ta,
         ox_TokenEndpointAuthSigningAlgValuesSupported = tg, ox_ServiceDocumentation = sd, ox_OpPolicyURI = pu,
         ox_OpTosURI = tu\<rparr>\<rparr>))))))))))))))) ) w"

definition missing_fields :: "discovery_meta \<Rightarrow> string list" where
  "missing_fields m =
     (if dm_JwksURI m = [] then [''jwks_uri''] else [])
   @ (if ox_AuthorizationEndpoint (dm_Extra m) = [] then [''authorization_endpoint''] else [])
   @ (if ox_TokenEndpoint (dm_Extra m) = [] then [''token_endpoint''] else [])
   @ (if ox_ResponseTypesSupported (dm_Extra m) = [] then [''response_types_supported''] else [])"

text \<open>The key function both authenticators build around that of the key set.\<close>

definition enforce_alg :: "string list \<Rightarrow> Keyfunc \<Rightarrow> Keyfunc" where
  "enforce_alg algs kf t = (if jt_Alg t \<in> set algs then kf t else Inl (ErrText (''disallowed alg: '' @ jt_Alg t)))"

definition jwt_NewFromDiscovery :: "jwt_lib \<Rightarrow> jwt_Config \<Rightarrow> go_error + discoveryAuthenticator" where
  "jwt_NewFromDiscovery lib cfg =
     (if cfg_Issuer cfg = [] then Inl (ErrText ''issuer is required'')
      else case jl_NewProvider lib (cfg_Issuer cfg) of
        Inl err \<Rightarrow> Inl (Wrapped ''oidc discovery failed'' err)
      | Inr doc \<Rightarrow> (case dec_meta doc of
            None \<Rightarrow> Inl (ErrText ''invalid discovery metadata'')
          | Some meta \<Rightarrow>
              if missing_fields meta \<noteq> []
              then Inl (ErrText (''discovery incomplete: missing '' @ Join (missing_fields meta) '', ''))
              else (case jl_NewKeyfunc lib (dm_JwksURI meta) of
                  Inl err \<Rightarrow> Inl (Wrapped ''jwks init failed'' err)
                | Inr kf \<Rightarrow> Inr \<lparr>da_cfg = cfg, da_issuer = cfg_Issuer cfg, da_keyfunc = enforce_alg (cfg_AllowedAlgs cfg) kf,
                    da_iss = dm_Issuer meta, da_extra = dm_Extra meta\<rparr>)))"

definition audContains :: "json option \<Rightarrow> string \<Rightarrow> bool" where
  "audContains aud want = (case aud of
       Some (JStr v) \<Rightarrow> v = want
     | Some (JArr js) \<Rightarrow> list_ex (\<lambda>j. case j of JStr s \<Rightarrow> s = want | _ \<Rightarrow> False) js
     | _ \<Rightarrow> False)"

definition audIntersects :: "json option \<Rightarrow> string list \<Rightarrow> bool" where
  "audIntersects aud wants = (case aud of
       Some (JStr v) \<Rightarrow> v \<in> set wants
     | Some (JArr js) \<Rightarrow> list_ex (\<lambda>j. case j of JStr s \<Rightarrow> s \<in> set wants | _ \<Rightarrow> False) js
     | _ \<Rightarrow> False)"

text \<open>\<open>claims[k].(string)\<close>, the empty string when it is not one.\<close>

definition claim_string :: "(string, json) gomap \<Rightarrow> string \<Rightarrow> string" where
  "claim_string claims k = (case mget claims k of Some (JStr s) \<Rightarrow> s | _ \<Rightarrow> [])"

definition scopes_ok :: "jwt_Config \<Rightarrow> string \<Rightarrow> bool" where
  "scopes_ok cfg scopeStr =
     (let have = Fields scopeStr in
      if cfg_RequiredScopes cfg = [] then True
      else if cfg_ScopeModeAny cfg then list_ex (\<lambda>want. want \<in> set have) (cfg_RequiredScopes cfg)
      else list_all (\<lambda>want. want \<in> set have) (cfg_RequiredScopes cfg))"

definition iat_in_future :: "jwt_lib \<Rightarrow> time \<Rightarrow> duration \<Rightarrow> json option \<Rightarrow> bool" where
  "iat_in_future lib now leeway iat = (case iat of
       Some (JInt n) \<Rightarrow> jl_int64 lib (JInt n) * 1000000000 > now + leeway + five_minutes
     | Some (JFlt s) \<Rightarrow> jl_int64 lib (JFlt s) * 1000000000 > now + leeway + five_minutes
     | _ \<Rightarrow> False)"

definition disc_CheckAuthentication :: "jwt_lib \<Rightarrow> time \<Rightarrow> discoveryAuthenticator \<Rightarrow> string \<Rightarrow> go_error + userInfo" where
  "disc_CheckAuthentication lib now a tok =
     (let cfg = da_cfg a;
          opts = \<lparr>po_ValidMethods = cfg_AllowedAlgs cfg, po_ExpirationRequired = True, po_Issuer = da_iss a,
             po_Leeway = cfg_Leeway cfg,
             po_Audience = (if length (cfg_ExpectedAudiences cfg) = 1 then Some (cfg_ExpectedAudiences cfg ! 0) else None)\<rparr>
      in if tok = [] then Inl (ErrText ''empty token'')
         else case jl_Parse lib now opts (da_keyfunc a) tok of
           Inl err \<Rightarrow> Inl (WrappedBy JwtErrUnauthorized (''token parse/verify failed: '' @ error_text err))
         | Inr parsed \<Rightarrow>
             if claim_string (jt_Header parsed) ''typ'' \<notin> {''at+jwt'', ''application/at+jwt''}
             then Inl (WrappedBy JwtErrUnauthorized ''invalid typ; want at+jwt'')
             else case jt_Claims parsed of
               None \<Rightarrow> Inl (ErrText ''invalid claims type'')
             | Some claims \<Rightarrow>
                 if claim_string claims ''iss'' = [] \<or> claim_string claims ''iss'' \<noteq> da_iss a
                 then Inl (WrappedBy JwtErrUnauthorized ''issuer mismatch'')
                 else if (if length (cfg_ExpectedAudiences cfg) = 1
                          then \<not> audContains (mget claims ''aud'') (cfg_ExpectedAudiences cfg ! 0)
                          else \<not> audIntersects (mget claims ''aud'') (cfg_ExpectedAudiences cfg))
                 then Inl (WrappedBy JwtErrUnauthorized ''audience mismatch'')
                 else if iat_in_future lib now (cfg_Leeway cfg) (mget claims ''iat'')
                 then Inl (WrappedBy JwtErrUnauthorized ''iat too far in future'')
                 else if \<not> scopes_ok cfg (claim_string claims ''scope'') then Inl JwtErrInsufficientScope
                 else if claim_string claims ''sub'' = [] then Inl (WrappedBy JwtErrUnauthorized ''missing sub'')
                 else Inr \<lparr>ui_sub = claim_string claims ''sub'', ui_claims = claims\<rparr>)"

subsection \<open>The static authenticator (internal/jwtauth/static.go)\<close>

record StaticConfig =
  stc_Issuer :: string
  stc_ExpectedAudiences :: "string list"
  stc_AllowedAlgs :: "string list"
  stc_Leeway :: duration

record staticAuthenticator =
  sa_cfg :: StaticConfig
  sa_keyfunc :: Keyfunc

definition NewStatic :: "jwt_lib \<Rightarrow> StaticConfig \<Rightarrow> string \<Rightarrow> go_error + staticAuthenticator" where
  "NewStatic lib cfg jwksURI =
     (if stc_Issuer cfg = [] then Inl (ErrText ''issuer is required'')
      else if stc_ExpectedAudiences cfg = [] then Inl (ErrText ''at least one expected audience required'')
      else if jwksURI = [] then Inl (ErrText ''jwks uri required'')
      else let c1 = (if stc_AllowedAlgs cfg = [] then cfg\<lparr>stc_AllowedAlgs := [''RS256'']\<rparr> else cfg);
               c2 = (if stc_Leeway c1 = 0 then c1\<lparr>stc_Leeway := sixty_seconds\<rparr> else c1)
           in case jl_NewKeyfunc lib jwksURI of
                Inl err \<Rightarrow> Inl (Wrapped ''jwks init failed'' err)
              | Inr kf \<Rightarrow> Inr \<lparr>sa_cfg = c2, sa_keyfunc = enforce_alg (stc_AllowedAlgs c2) kf\<rparr>)"

definition static_CheckAuthentication :: "jwt_lib \<Rightarrow> time \<Rightarrow> staticAuthenticator \<Rightarrow> string \<Rightarrow> go_error + userInfo" where
  "static_CheckAuthentication lib now a tok =
     (let cfg = sa_cfg a;
          opts = \<lparr>po_ValidMethods = stc_AllowedAlgs cfg, po_ExpirationRequired = True, po_Issuer = stc_Issuer cfg,
             po_Leeway = stc_Leeway cfg, po_Audience = None\<rparr>
      in if tok = [] then Inl (ErrText ''empty token'')
         else case jl_Parse lib now opts (sa_keyfunc a) tok of
           Inl err \<Rightarrow> Inl (WrappedBy JwtErrUnauthorized (''token parse/verify failed: '' @ error_text err))
         | Inr parsed \<Rightarrow> (case jt_Claims parsed of
               None \<Rightarrow> Inl (ErrText ''invalid claims type'')
             | Some claims \<Rightarrow>
                 if \<not> audIntersects (mget claims ''aud'') (stc_ExpectedAudiences cfg)
                 then Inl (WrappedBy JwtErrUnauthorized ''audience mismatch'')
                 else if claim_string claims ''sub'' = [] then Inl (WrappedBy JwtErrUnauthorized ''missing sub'')
                 else Inr \<lparr>ui_sub = claim_string claims ''sub'', ui_claims = claims\<rparr>))"

subsection \<open>The public authenticators (auth/access\_token.go)\<close>

definition buildSecurityConfig :: "jwt_Config \<Rightarrow> OIDCExtra option \<Rightarrow> SecurityConfig" where
  "buildSecurityConfig cfg internal =
     Normalize \<lparr>sec_Issuer = cfg_Issuer cfg, sec_Audiences = cfg_ExpectedAudiences cfg, sec_AllowedAlgs = cfg_AllowedAlgs cfg,
       sec_JWKSURL = [], sec_HintScopes = cfg_HintScopes cfg, sec_Leeway = cfg_Leeway cfg, sec_EnforceExp = True,
       sec_EnforceNbf = True, sec_Advertise = True,
       sec_OIDC = map_option (\<lambda>dm. dm\<lparr>ox_ScopesSupported := (case cfg_AdvertisedScopesTransform cfg of
           None \<Rightarrow> ox_ScopesSupported dm | Some transform \<Rightarrow> transform (ox_ScopesSupported dm))\<rparr>) internal\<rparr>"

datatype jwt_Authenticator = Discovery discoveryAuthenticator | Static staticAuthenticator

record adapter =
  ad_a :: jwt_Authenticator
  ad_sec :: SecurityConfig

definition jwt_CheckAuthentication :: "jwt_lib \<Rightarrow> time \<Rightarrow> jwt_Authenticator \<Rightarrow> string \<Rightarrow> go_error + userInfo" where
  "jwt_CheckAuthentication lib now a tok = (case a of
       Discovery d \<Rightarrow> disc_CheckAuthentication lib now d tok
     | Static s \<Rightarrow> static_CheckAuthentication lib now s tok)"

definition adapter_CheckAuthentication :: "jwt_lib \<Rightarrow> time \<Rightarrow> adapter \<Rightarrow> string \<Rightarrow> go_error + userInfo" where
  "adapter_CheckAuthentication lib now ad tok = (case jwt_CheckAuthentication lib now (ad_a ad) tok of
       Inl err \<Rightarrow> if errors_is err JwtErrInsufficientScope then Inl (Joined ErrInsufficientScope err)
                  else Inl (Joined ErrUnauthorized err)
     | Inr ui \<Rightarrow> Inr ui)"

definition auth_NewFromDiscovery :: "jwt_lib \<Rightarrow> string \<Rightarrow> string \<Rightarrow> AccessTokenAuthOption list \<Rightarrow> go_error + adapter" where
  "auth_NewFromDiscovery lib issuer audience opts =
     (let cfg = foldl (\<lambda>c opt. opt c) (DefaultConfig\<lparr>cfg_Issuer := issuer, cfg_ExpectedAudiences := [audience]\<rparr>) opts
      in if cfg_ExpectedAudiences cfg = [] \<or> cfg_ExpectedAudiences cfg ! 0 = [] then Inl (ErrText ''audience is required'')
         else case jwt_NewFromDiscovery lib cfg of
           Inl err \<Rightarrow> Inl err
         | Inr internal \<Rightarrow> Inr \<lparr>ad_a = Discovery internal, ad_sec = buildSecurityConfig cfg (Some (da_extra internal))\<rparr>)"

definition NewManualJWTAuthenticator :: "jwt_lib \<Rightarrow> SecurityConfig \<Rightarrow> go_error + adapter" where
  "NewManualJWTAuthenticator lib c =
     (let cc = Normalize c in
      case Validate cc of
        Some err \<Rightarrow> Inl err
      | None \<Rightarrow>
          if sec_JWKSURL cc = [] then Inl (ErrText ''security: JWKSURL required for manual JWT authenticator'')
          else case NewStatic lib \<lparr>stc_Issuer = sec_Issuer cc, stc_ExpectedAudiences = sec_Audiences cc,
                 stc_AllowedAlgs = sec_AllowedAlgs cc, stc_Leeway = sec_Leeway cc\<rparr> (sec_JWKSURL cc) of
            Inl err \<Rightarrow> Inl err
          | Inr a \<Rightarrow> Inr \<lparr>ad_a = Static a, ad_sec = cc\<rparr>)"


subsection \<open>Audiences\<close>

text \<open>The audiences a claim names: a string or the strings of an array.\<close>

fun aud_strings :: "json \<Rightarrow> string list" where
  "aud_strings (JStr s) = [s]"
| "aud_strings (JArr js) = concat (map (\<lambda>j. case j of JStr s \<Rightarrow> [s] | _ \<Rightarrow> []) js)"
| "aud_strings _ = []"

lemma audIntersects_iff:
  "audIntersects aud wants \<longleftrightarrow> (\<exists>j. aud = Some j \<and> set (aud_strings j) \<inter> set wants \<noteq> {})"
  by (auto simp: audIntersects_def list_ex_iff split: option.splits json.splits)
     (fastforce split: json.splits)+

lemma audContains_single: "audContains aud want = audIntersects aud [want]"
proof -
  have "(case j of JStr s \<Rightarrow> s = want | _ \<Rightarrow> False) = (case j of JStr s \<Rightarrow> s \<in> set [want] | _ \<Rightarrow> False)" for j
    by (cases j) auto
  then show ?thesis
    by (simp add: audContains_def audIntersects_def split: option.split json.split)
qed

text \<open>The two ways the discovery authenticator checks the audience are one.\<close>

lemma audience_check:
  "(if length wants = 1 then \<not> audContains aud (wants ! 0) else \<not> audIntersects aud wants) \<longleftrightarrow> \<not> audIntersects aud wants"
  by (cases wants) (auto simp: audContains_single)

lemma audContains_only: "length wants = Suc 0 \<Longrightarrow> audContains aud (wants ! 0) = audIntersects aud wants"
  by (cases wants) (auto simp: audContains_single)

lemma scopes_ok_iff:
  "scopes_ok cfg s \<longleftrightarrow> cfg_RequiredScopes cfg = [] \<or>
     (if cfg_ScopeModeAny cfg then set (cfg_RequiredScopes cfg) \<inter> set (Fields s) \<noteq> {}
      else set (cfg_RequiredScopes cfg) \<subseteq> set (Fields s))"
  by (auto simp: scopes_ok_def list_ex_iff list_all_iff)

subsection \<open>Equal configurations\<close>

text \<open>\<open>EqualCore\<close> holds exactly when the issuers are equal and the audiences are the same up to
  order, repetitions counted: comparing the sorted copies position by position is comparing multisets.\<close>

theorem EqualCore_iff:
  "EqualCore c d \<longleftrightarrow> sec_Issuer c = sec_Issuer d \<and> mset (sec_Audiences c) = mset (sec_Audiences d)"
proof -
  let ?ac = "sort (sec_Audiences c)" and ?bc = "sort (sec_Audiences d)"
  have "?ac = ?bc \<longleftrightarrow> mset (sec_Audiences c) = mset (sec_Audiences d)"
    by (metis mset_sort properties_for_sort sorted_sort)
  moreover have "?ac = ?bc \<longleftrightarrow> length ?ac = length ?bc \<and> (\<forall>i < length ?ac. ?ac ! i = ?bc ! i)"
    by (rule list_eq_iff_nth_eq)
  ultimately show ?thesis
    by (auto simp: EqualCore_def list_all_iff)
qed

subsection \<open>What an accepted token has\<close>

text \<open>What golang-jwt documents of a successful \<open>Parse\<close>: the key function gave a key for the token, and
  when expiration is required the token has an expiry that has not passed, but for the leeway.\<close>

definition parse_verifies :: "jwt_lib \<Rightarrow> bool" where
  "parse_verifies lib \<longleftrightarrow> (\<forall>now opts kf tok t. jl_Parse lib now opts kf tok = Inr t \<longrightarrow> (\<exists>k. kf t = Inr k) \<and>
     (po_ExpirationRequired opts \<longrightarrow> (\<forall>c. jt_Claims t = Some c \<longrightarrow> mget c ''exp'' \<noteq> None \<and>
        (\<forall>e. mget c ''exp'' = Some (JInt e) \<longrightarrow> now < e * 1000000000 + po_Leeway opts))))"

lemma disc_accepts:
  assumes "disc_CheckAuthentication lib now a tok = Inr u"
  obtains opts t where "jl_Parse lib now opts (da_keyfunc a) tok = Inr t" and "po_ExpirationRequired opts"
    and "po_Leeway opts = cfg_Leeway (da_cfg a)" and "jt_Claims t = Some (ui_claims u)"
    and "claim_string (jt_Header t) ''typ'' \<in> {''at+jwt'', ''application/at+jwt''}"
    and "claim_string (ui_claims u) ''iss'' = da_iss a" and "da_iss a \<noteq> []"
    and "audIntersects (mget (ui_claims u) ''aud'') (cfg_ExpectedAudiences (da_cfg a))"
    and "scopes_ok (da_cfg a) (claim_string (ui_claims u) ''scope'')"
    and "ui_sub u = claim_string (ui_claims u) ''sub''" and "ui_sub u \<noteq> []"
  using assms
  by (auto simp: disc_CheckAuthentication_def audContains_only Let_def split: if_splits sum.splits option.splits)

lemma enforce_alg_Inr: "enforce_alg algs kf t = Inr k \<longleftrightarrow> jt_Alg t \<in> set algs \<and> kf t = Inr k"
  by (simp add: enforce_alg_def)

lemma jwt_NewFromDiscovery_Inr:
  assumes "jwt_NewFromDiscovery lib cfg = Inr a"
  obtains doc meta kf where "jl_NewProvider lib (cfg_Issuer cfg) = Inr doc" and "dec_meta doc = Some meta"
    and "jl_NewKeyfunc lib (dm_JwksURI meta) = Inr kf" and "dm_JwksURI meta \<noteq> []"
    and "a = \<lparr>da_cfg = cfg, da_issuer = cfg_Issuer cfg, da_keyfunc = enforce_alg (cfg_AllowedAlgs cfg) kf,
           da_iss = dm_Issuer meta, da_extra = dm_Extra meta\<rparr>"
  using assms
  by (auto simp: jwt_NewFromDiscovery_def missing_fields_def split: if_splits sum.splits option.splits)

definition token_config :: "string \<Rightarrow> string \<Rightarrow> AccessTokenAuthOption list \<Rightarrow> jwt_Config" where
  "token_config issuer audience opts =
     foldl (\<lambda>c opt. opt c) (DefaultConfig\<lparr>cfg_Issuer := issuer, cfg_ExpectedAudiences := [audience]\<rparr>) opts"

definition granted :: "jwt_Config \<Rightarrow> string set \<Rightarrow> bool" where
  "granted cfg have \<longleftrightarrow> cfg_RequiredScopes cfg = [] \<or>
     (if cfg_ScopeModeAny cfg then set (cfg_RequiredScopes cfg) \<inter> have \<noteq> {} else set (cfg_RequiredScopes cfg) \<subseteq> have)"


text \<open>A library that knows one token, verified when the key function gives a key.\<close>

definition wit_claims :: "(string, json) gomap" where
  "wit_claims = [(''iss'', JStr ''https://as''), (''aud'', JArr [JStr ''https://mcp'']), (''exp'', JInt 100),
     (''scope'', JStr ''mcp:read mcp:write''), (''sub'', JStr ''alice'')]"

definition wit_lib :: "string \<Rightarrow> jwt_lib" where
  "wit_lib typ = \<lparr>jl_Parse = \<lambda>now opts kf tok.
       (let t = \<lparr>jt_Alg = ''RS256'', jt_Header = [(''typ'', JStr typ)], jt_Claims = Some wit_claims\<rparr>
        in case kf t of Inl err \<Rightarrow> Inl err
           | Inr k \<Rightarrow> if now < 100 * 1000000000 + po_Leeway opts then Inr t else Inl (ErrText ''token is expired'')),
     jl_NewKeyfunc = \<lambda>uri. Inr (\<lambda>t. Inr ''key''),
     jl_NewProvider = \<lambda>iss. Inr (Doc (JObj [(''issuer'', JStr iss), (''jwks_uri'', JStr ''https://as/jwks''),
       (''authorization_endpoint'', JStr ''https://as/authorize''), (''token_endpoint'', JStr ''https://as/token''),
       (''response_types_supported'', JArr [JStr ''code''])])),
     jl_int64 = \<lambda>j. 0\<rparr>"

lemma wit_lib_verifies: "parse_verifies (wit_lib typ)"
  by (auto simp: parse_verifies_def wit_lib_def wit_claims_def Let_def split: sum.splits if_splits)

text \<open>Comparing two keys one character at a time, for evaluation.\<close>

lemma key_eq_rec:
  "key_eq [] [] = True" "key_eq (a # k) [] = False" "key_eq [] (b # n) = False"
  "key_eq (a # k) (b # n) = (if lower_char a = lower_char b then key_eq k n else False)"
  by (simp_all add: key_eq_def)

lemma key_eq_same: "key_eq k k"
  by (simp add: key_eq_def)

definition wit_discovery :: discovery_meta where
  "wit_discovery = \<lparr>dm_Issuer = ''https://as'', dm_JwksURI = ''https://as/jwks'',
     dm_Extra = oidc_zero\<lparr>ox_AuthorizationEndpoint := ''https://as/authorize'', ox_TokenEndpoint := ''https://as/token'',
       ox_ResponseTypesSupported := [''code'']\<rparr>\<rparr>"

lemma dec_wit_discovery:
  "dec_meta (Doc (JObj [(''issuer'', JStr ''https://as''), (''jwks_uri'', JStr ''https://as/jwks''),
       (''authorization_endpoint'', JStr ''https://as/authorize''), (''token_endpoint'', JStr ''https://as/token''),
       (''response_types_supported'', JArr [JStr ''code''])])) = Some wit_discovery"
  by (simp add: dec_meta_def unmarshal_struct_def wit_discovery_def oidc_zero_def key_eq_same key_eq_rec lower_char_def)

definition wit_disc :: "string \<Rightarrow> go_error + adapter" where
  "wit_disc typ = auth_NewFromDiscovery (wit_lib typ) ''https://as'' ''https://mcp'' [WithRequiredScopes [''mcp:read'']]"

text \<open>Construct an authenticator and check a token with it.\<close>

definition check_with :: "jwt_lib \<Rightarrow> time \<Rightarrow> go_error + adapter \<Rightarrow> string \<Rightarrow> go_error + userInfo" where
  "check_with lib now made tok = (case made of Inl err \<Rightarrow> Inl err | Inr ad \<Rightarrow> adapter_CheckAuthentication lib now ad tok)"

lemma check_with_Inr: "check_with lib now made tok = Inr u \<Longrightarrow> \<exists>ad. made = Inr ad \<and> adapter_CheckAuthentication lib now ad tok = Inr u"
  by (simp add: check_with_def split: sum.splits)

lemmas auth_eval = check_with_def NewManualJWTAuthenticator_def Normalize_def Validate_def NewStatic_def wit_lib_def
  adapter_CheckAuthentication_def jwt_CheckAuthentication_def static_CheckAuthentication_def enforce_alg_def
  audIntersects_def audContains_def claim_string_def sixty_seconds_def auth_NewFromDiscovery_def DefaultConfig_def
  WithRequiredScopes_def jwt_NewFromDiscovery_def wit_discovery_def missing_fields_def disc_CheckAuthentication_def
  iat_in_future_def scopes_ok_def Fields_def is_space_def wit_claims_def Let_def

lemma wit_disc_outcome:
  "check_with (wit_lib ''at+jwt'') 7 (wit_disc ''at+jwt'') ''t'' = Inr \<lparr>ui_sub = ''alice'', ui_claims = wit_claims\<rparr>"
  by (simp add: wit_disc_def auth_eval dec_wit_discovery)


subsection \<open>Rejections\<close>

text \<open>Every rejection of the adapter is an \<open>ErrUnauthorized\<close> or an \<open>ErrInsufficientScope\<close>, never both.\<close>

lemma jwt_errors:
  assumes "jwt_CheckAuthentication lib now a tok = Inl err"
  shows "err = JwtErrInsufficientScope \<or> (\<exists>s. err = ErrText s) \<or> (\<exists>s. err = WrappedBy JwtErrUnauthorized s)"
  using assms
  by (auto simp: jwt_CheckAuthentication_def disc_CheckAuthentication_def static_CheckAuthentication_def Let_def
      split: jwt_Authenticator.splits if_splits sum.splits option.splits)

lemma adapter_errors:
  assumes "adapter_CheckAuthentication lib now ad tok = Inl err"
  shows "errors_is err ErrUnauthorized \<noteq> errors_is err ErrInsufficientScope"
  using assms jwt_errors [of lib now "ad_a ad" tok]
  by (fastforce simp: adapter_CheckAuthentication_def split: sum.splits if_splits)

text \<open>The static authenticator does not look at the type of the token: one that is no access token (here
  an ID token, of type \<open>JWT\<close>) for the right issuer, audience and key is accepted, which the authenticator
  found by discovery rejects.\<close>

theorem static_accepts_other_types:
  "check_with (wit_lib ''JWT'') 7 (NewManualJWTAuthenticator (wit_lib ''JWT'') \<lparr>sec_Issuer = ''https://as'',
      sec_Audiences = [''https://mcp''], sec_AllowedAlgs = [], sec_JWKSURL = ''https://as/jwks'', sec_HintScopes = [],
      sec_Leeway = 0, sec_EnforceExp = True, sec_EnforceNbf = True, sec_Advertise = False, sec_OIDC = None\<rparr>) ''t'' =
    Inr \<lparr>ui_sub = ''alice'', ui_claims = wit_claims\<rparr> \<and>
   check_with (wit_lib ''JWT'') 7 (wit_disc ''JWT'') ''t'' =
    Inl (Joined ErrUnauthorized (WrappedBy JwtErrUnauthorized ''invalid typ; want at+jwt''))"
  by (simp add: wit_disc_def auth_eval dec_wit_discovery)

end
