(* ===== verification/MemoryDelivery.thy ===== *)
theory MemoryDelivery
  imports MemoryHost
begin

section \<open>Delivery by the in-memory host\<close>

text \<open>
  Two views of \<^verbatim>\<open>SubscribeSession\<close>. \<open>sub_run\<close> is its whole loop for one subscriber that nothing
  interrupts: it shows what a resumed subscription delivers. \<open>mem_step\<close> is the step relation of a
  host with any number of subscribers at any point of their loops, interleaved with the host's other
  operations; \<open>sy_acks\<close> is a ghost record of the acknowledgements made, per stream object.
\<close>

subsection \<open>One subscriber\<close>

fun sub_run :: "nat \<Rightarrow> (message \<Rightarrow> go_error option) \<Rightarrow> Host \<Rightarrow> subscriber \<Rightarrow>
    (message list \<times> Host \<times> subscriber) option" where
  "sub_run 0 handler h sb = None"
| "sub_run (Suc n) handler h sb =
     (let (h1, sb1) = sub_iterate None h sb in
      case sub_pc sb1 of
        Handling m \<Rightarrow> (case handler m of
            None \<Rightarrow> (let (h2, sb2) = sub_ack m h1 sb1 in
              map_option (\<lambda>(ms, rest). (m # ms, rest)) (sub_run n handler h2 sb2))
          | Some e \<Rightarrow> (let (h2, sb2) = sub_fail e m h1 sb1 in Some ([m], h2, sb2)))
      | _ \<Rightarrow> Some ([], h1, sb1))"

definition pending :: "sessionStream \<Rightarrow> int \<Rightarrow> message list" where
  "pending s lastIdx = filter (claimable s) (drop (nat (lastIdx + 1)) (ss_messages s))"

lemma stream_ok_distinct: "stream_ok s \<Longrightarrow> distinct (map msg_id (ss_messages s))"
  by (simp add: stream_ok_def distinct_map inj_on_def del: upt_Suc)

lemma find_id_shift:
  "distinct (map msg_id ms) \<Longrightarrow> j < length ms \<Longrightarrow> find_id (msg_id (ms ! j)) i ms = Some (i + j)"
  by (induction ms arbitrary: i j) (auto simp: nth_Cons' dest: sym)

lemma find_id_nth:
  "distinct (map msg_id ms) \<Longrightarrow> j < length ms \<Longrightarrow> find_id (msg_id (ms ! j)) 0 ms = Some j"
  by (simp add: find_id_shift)

lemma claim_scan_find: "claim_scan s lastIdx i ms = List.find (claimable s) (drop (nat (lastIdx + 1 - int i)) ms)"
proof (induction ms arbitrary: i)
  case (Cons a ms)
  show ?case
  proof (cases "int i \<le> lastIdx")
    case True
    then have "nat (lastIdx + 1 - int i) = Suc (nat (lastIdx + 1 - int (Suc i)))"
      by simp
    with True Cons show ?thesis by simp
  next
    case False
    then have "nat (lastIdx + 1 - int i) = 0" "nat (lastIdx + 1 - int (Suc i)) = 0"
      by simp_all
    with False Cons [of "Suc i"] show ?thesis by simp
  qed
qed simp

lemma find_filter: "List.find P xs = (case filter P xs of [] \<Rightarrow> None | x # _ \<Rightarrow> Some x)"
  by (induction xs) auto

lemma claim_scan_pending:
  "claim_scan s lastIdx 0 (ss_messages s) = (case pending s lastIdx of [] \<Rightarrow> None | m # _ \<Rightarrow> Some m)"
  by (simp add: claim_scan_find find_filter pending_def)

definition acked :: "message \<Rightarrow> sessionStream \<Rightarrow> sessionStream" where
  "acked m s = s\<lparr>ss_inflight := mdel (msg_id m) (ss_inflight s),
     ss_delivered := mput (msg_id m) True (ss_delivered s)\<rparr>"

definition claimed :: "message \<Rightarrow> sessionStream \<Rightarrow> sessionStream" where
  "claimed m s = s\<lparr>ss_inflight := mput (msg_id m) True (ss_inflight s)\<rparr>"

lemma claimable_acked_claimed:
  "claimable (acked m (claimed m s)) x \<longleftrightarrow> claimable s x \<and> msg_id x \<noteq> msg_id m"
  by (auto simp: claimable_def acked_def claimed_def mflag_def)

lemma stream_ok_claim [simp]: "stream_ok (claimed m s) = stream_ok s" "stream_ok (acked m s) = stream_ok s"
  by (simp_all add: claimed_def acked_def)

lemma pending_waiters [simp]: "pending (s\<lparr>ss_waiters := ws\<rparr>) k = pending s k"
proof -
  have "claimable (s\<lparr>ss_waiters := ws\<rparr>) = claimable s"
    by (simp add: claimable_def fun_eq_iff)
  then show ?thesis
    by (simp add: pending_def)
qed

lemma claim_fields [simp]:
  "ss_messages (claimed m s) = ss_messages s" "ss_messages (acked m s) = ss_messages s"
  "ss_closed (claimed m s) = ss_closed s" "ss_closed (acked m s) = ss_closed s"
  by (simp_all add: claimed_def acked_def)

lemma pending_Cons:
  assumes ok: "stream_ok s" and p: "pending s k = m # rest"
  obtains j where "find_id (msg_id m) 0 (ss_messages s) = Some j" and "k < int j"
    and "pending (acked m (claimed m s)) (int j) = rest"
proof -
  let ?ms = "ss_messages s" and ?n = "nat (k + 1)"
  obtain us vs where split: "drop ?n ?ms = us @ m # vs" and rest: "rest = filter (claimable s) vs"
    using p by (auto simp: pending_def filter_eq_Cons_iff)
  let ?j = "?n + length us"
  have len: "?j < length ?ms"
    using arg_cong [OF split, of length] by simp
  have m: "?ms ! ?j = m"
    using len arg_cong [OF split, of "\<lambda>xs. xs ! length us"] by simp
  have vs: "drop (Suc ?j) ?ms = vs"
    using arg_cong [OF split, of "drop (Suc (length us))"] by (simp add: add.commute)
  have "distinct (map msg_id (drop ?n ?ms))"
    using stream_ok_distinct [OF ok] by (simp add: drop_map [symmetric])
  then have "msg_id m \<notin> msg_id ` set vs"
    unfolding split by simp
  then have new: "\<forall>x \<in> set vs. msg_id x \<noteq> msg_id m"
    by (metis imageI)
  have "nat (int i + 1) = Suc i" for i
    by simp
  then have "pending (acked m (claimed m s)) (int ?j) = rest"
    using new by (simp only: pending_def vs rest claim_fields claimable_acked_claimed)
        (simp add: claimable_acked_claimed cong: filter_cong)
  with find_id_nth [OF stream_ok_distinct [OF ok] len] m that [of ?j] show thesis
    by auto
qed

lemma sub_iterate_pending:
  assumes "\<not> ss_closed (h_store h ! sub_ref sb)"
  shows "sub_iterate None h sb = (let s = h_store h ! sub_ref sb in
     case pending s (sub_lastIdx sb) of
       m # _ \<Rightarrow> (h\<lparr>h_store := (h_store h)[sub_ref sb := claimed m s]\<rparr>, sb\<lparr>sub_pc := Handling m\<rparr>)
     | [] \<Rightarrow> (h\<lparr>h_chans := h_chans h @ [False],
              h_store := (h_store h)[sub_ref sb := s\<lparr>ss_waiters := ss_waiters s @ [length (h_chans h)]\<rparr>]\<rparr>,
            sb\<lparr>sub_pc := Waiting (length (h_chans h))\<rparr>))"
  using assms by (simp add: sub_iterate_def claim_scan_pending claimed_def Let_def split: list.split)


text \<open>
  What a run of the loop does, with \<open>pending\<close> the messages after the cursor that nobody has
  acknowledged or is working on: they are handed to the handler in order, up to and including the
  first it rejects. The fuel is one more than the number of pending messages.
\<close>

definition first_failure :: "(message \<Rightarrow> go_error option) \<Rightarrow> message list \<Rightarrow> (message \<times> go_error) option" where
  "first_failure handler ms = (case dropWhile (\<lambda>m. handler m = None) ms of
     [] \<Rightarrow> None | m # _ \<Rightarrow> map_option (Pair m) (handler m))"

definition handed :: "(message \<Rightarrow> go_error option) \<Rightarrow> message list \<Rightarrow> message list" where
  "handed handler ms = takeWhile (\<lambda>m. handler m = None) ms @ take 1 (dropWhile (\<lambda>m. handler m = None) ms)"

lemma sub_run_pending:
  assumes "stream_ok (h_store h ! sub_ref sb)" and "\<not> ss_closed (h_store h ! sub_ref sb)"
    and "sub_ref sb < length (h_store h)" and "pending (h_store h ! sub_ref sb) (sub_lastIdx sb) = ms"
    and "length ms < n"
  shows "\<exists>h' sb'. sub_run n handler h sb = Some (handed handler ms, h', sb') \<and>
    (case first_failure handler ms of
       None \<Rightarrow> (\<exists>w. sub_pc sb' = Waiting w) \<and> pending (h_store h' ! sub_ref sb) (sub_lastIdx sb') = []
     | Some (m, e) \<Rightarrow> sub_pc sb' = Returned e \<and> claimable (h_store h' ! sub_ref sb) m)"
  using assms
proof (induction ms arbitrary: h sb n)
  case Nil
  then obtain n' where "n = Suc n'" by (cases n) auto
  with Nil show ?case
    by (simp add: sub_iterate_pending Let_def handed_def first_failure_def)
next
  case (Cons m rest)
  let ?s = "h_store h ! sub_ref sb"
  let ?h1 = "h\<lparr>h_store := (h_store h)[sub_ref sb := claimed m ?s]\<rparr>" and ?sb1 = "sb\<lparr>sub_pc := Handling m\<rparr>"
  obtain n' where n: "n = Suc n'" "length rest < n'"
    using Cons.prems(5) by (cases n) auto
  have it: "sub_iterate None h sb = (?h1, ?sb1)"
    using Cons.prems by (simp add: sub_iterate_pending Let_def)
  obtain j where j: "find_id (msg_id m) 0 (ss_messages ?s) = Some j"
    and rest: "pending (acked m (claimed m ?s)) (int j) = rest"
    using pending_Cons [OF Cons.prems(1,4)] by blast
  show ?case
  proof (cases "handler m")
    case None
    obtain h2 sb2 where ack: "sub_ack m ?h1 ?sb1 = (h2, sb2)"
      by fastforce
    then have store: "h_store h2 ! sub_ref sb = acked m (claimed m ?s)" "sub_ref sb2 = sub_ref sb"
        "sub_lastIdx sb2 = int j" "length (h_store h2) = length (h_store h)"
      using Cons.prems(3) j by (auto simp: sub_ack_def Let_def acked_def)
    obtain h' sb' where "sub_run n' handler h2 sb2 = Some (handed handler rest, h', sb')"
      "case first_failure handler rest of
         None \<Rightarrow> (\<exists>w. sub_pc sb' = Waiting w) \<and> pending (h_store h' ! sub_ref sb) (sub_lastIdx sb') = []
       | Some (m, e) \<Rightarrow> sub_pc sb' = Returned e \<and> claimable (h_store h' ! sub_ref sb) m"
      using Cons.IH [of h2 sb2 n', unfolded store(1-3) rest] Cons.prems store(4) n by auto
    with None it ack n show ?thesis
      by (auto simp: handed_def first_failure_def)
  next
    case (Some e)
    have "claimable ?s m"
      using Cons.prems(4) by (auto simp: pending_def filter_eq_Cons_iff)
    with Some it n Cons.prems(3) show ?thesis
      by (auto simp: handed_def first_failure_def sub_fail_def Let_def claimed_def claimable_def mflag_def)
  qed
qed


declare sub_run.simps(2) [simp del]

lemma subscribe_start_known:
  assumes "mem_inv h" and "mget (h_streams h) sid = Some r" and "0 < k" and "k \<le> length (ss_messages (h_store h ! r))"
  shows "subscribe_start sid (itoa k) h = (h, \<lparr>sub_ref = r, sub_lastIdx = int k - 1, sub_pc = Looping\<rparr>)"
proof -
  let ?ms = "ss_messages (h_store h ! r)"
  have ok: "stream_ok (h_store h ! r)"
    using assms mem_invD by blast
  have "msg_id (?ms ! (k - 1)) = itoa k"
    using stream_ok_nth [OF ok, of "k - 1"] assms by simp
  moreover have "find_id (msg_id (?ms ! (k - 1))) 0 ?ms = Some (k - 1)"
    using find_id_nth [OF stream_ok_distinct [OF ok], of "k - 1"] assms by simp
  ultimately show ?thesis
    using assms by (simp add: subscribe_start_def getOrCreateStream_Some)
qed

text \<open>C3: resuming a session after event \<open>k\<close> replays, in publication order, exactly the messages
  published after \<open>k\<close> that are neither acknowledged nor in flight, up to and including the first one
  the handler rejects. With no rejection the subscriber ends up waiting with nothing left to deliver;
  with a rejection it returns that error and the message is claimable again for the next
  subscriber. One turn of the loop per message and one more is enough.\<close>

theorem resume_delivers:
  assumes "mem_inv h" and "mget (h_streams h) sid = Some r" and "s = h_store h ! r"
    and "0 < k" and "k \<le> length (ss_messages s)"
    and "subscribe_start sid (itoa k) h = (h1, sb)"
    and "todo = filter (claimable s) (drop k (ss_messages s))"
  shows "\<exists>h' sb'. sub_run (Suc (length todo)) handler h1 sb = Some (handed handler todo, h', sb') \<and>
    (case first_failure handler todo of
       None \<Rightarrow> (\<exists>w. sub_pc sb' = Waiting w) \<and> pending (h_store h' ! r) (sub_lastIdx sb') = []
     | Some (m, e) \<Rightarrow> sub_pc sb' = Returned e \<and> claimable (h_store h' ! r) m)"
proof -
  have "(h1, sb) = (h, \<lparr>sub_ref = r, sub_lastIdx = int k - 1, sub_pc = Looping\<rparr>)"
    using subscribe_start_known [OF assms(1,2,4)] assms by simp
  then have eq: "h1 = h" "sub_ref sb = r" "sub_lastIdx sb = int k - 1"
    by simp_all
  moreover have "pending (h_store h ! r) (int k - 1) = todo"
    using assms by (simp add: pending_def)
  ultimately show ?thesis
    using sub_run_pending [of h sb todo "Suc (length todo)" handler, unfolded eq] mem_invD [OF assms(1,2)] by simp
qed

definition wit_host :: Host where
  "wit_host = fst (mem_PublishSession None ''s'' Garbage (fst (mem_PublishSession None ''s'' Garbage
     (fst (mem_PublishSession None ''s'' Garbage mem_New)))))"

definition wit_stream :: sessionStream where
  "wit_stream = \<lparr>ss_messages = [\<lparr>msg_id = ''1'', msg_data = Garbage\<rparr>, \<lparr>msg_id = ''2'', msg_data = Garbage\<rparr>,
     \<lparr>msg_id = ''3'', msg_data = Garbage\<rparr>], ss_nextID = 3, ss_waiters = [], ss_closed = False,
     ss_delivered = [], ss_inflight = []\<rparr>"

lemma itoa_small [simp]: "itoa 1 = ''1''" "itoa (Suc 0) = ''1''" "itoa 2 = ''2''" "itoa 3 = ''3''"
  "itoa (Suc (Suc 0)) = ''2''" "itoa (Suc (Suc (Suc 0))) = ''3''"
  by (simp_all add: itoa.simps digit_char_def char_of_def bit_simps)

lemma wit_host_eq: "wit_host = mem_New\<lparr>h_streams := [(''s'', 0)], h_store := [wit_stream]\<rparr>"
  by (simp add: wit_host_def mem_PublishSession_def getOrCreateStream_def mem_New_def new_stream_def
      wit_stream_def)

lemma wit_host_inv: "mem_inv wit_host"
  by (simp add: wit_host_def mem.invar_publish [simplified memory_host_def, simplified] mem_inv_New)

theorem resume_delivers_witness:
  "let handler = (\<lambda>m. if msg_id m = ''3'' then Some CtxCanceled else None)
   in \<exists>h' sb'. sub_run 3 handler wit_host \<lparr>sub_ref = 0, sub_lastIdx = 0, sub_pc = Looping\<rparr>
        = Some ([\<lparr>msg_id = ''2'', msg_data = Garbage\<rparr>, \<lparr>msg_id = ''3'', msg_data = Garbage\<rparr>], h', sb')
      \<and> sub_pc sb' = Returned CtxCanceled
      \<and> claimable (h_store h' ! 0) \<lparr>msg_id = ''3'', msg_data = Garbage\<rparr>"
proof -
  let ?h = "\<lambda>m. if msg_id m = ''3'' then Some CtxCanceled else None"
  let ?todo = "[\<lparr>msg_id = ''2'', msg_data = Garbage\<rparr>, \<lparr>msg_id = ''3'', msg_data = Garbage\<rparr>]"
  have todo: "filter (claimable wit_stream) (drop 1 (ss_messages wit_stream)) = ?todo"
    by (simp add: wit_stream_def claimable_def mflag_def)
  have start: "subscribe_start ''s'' (itoa 1) wit_host = (wit_host, \<lparr>sub_ref = 0, sub_lastIdx = 0, sub_pc = Looping\<rparr>)"
    using subscribe_start_known [OF wit_host_inv, of "''s''" 0 1] by (simp add: wit_host_eq wit_stream_def)
  have "\<exists>h' sb'. sub_run (Suc (length ?todo)) ?h wit_host \<lparr>sub_ref = 0, sub_lastIdx = 0, sub_pc = Looping\<rparr>
      = Some (handed ?h ?todo, h', sb') \<and> (case first_failure ?h ?todo of
         None \<Rightarrow> (\<exists>w. sub_pc sb' = Waiting w) \<and> pending (h_store h' ! 0) (sub_lastIdx sb') = []
       | Some (m, e) \<Rightarrow> sub_pc sb' = Returned e \<and> claimable (h_store h' ! 0) m)"
    by (rule resume_delivers [OF wit_host_inv, of "''s''" 0 wit_stream 1 _ _ ?todo ?h, OF _ _ _ _ start todo [symmetric]])
       (simp_all add: wit_host_eq wit_stream_def)
  then show ?thesis
    by (simp add: handed_def first_failure_def numeral_3_eq_3)
qed


subsection \<open>Any number of subscribers\<close>

record mem_sys =
  sy_host :: Host
  sy_subs :: "subscriber list"
  sy_acks :: "(nat \<times> string) list"

text \<open>The operations that touch no stream.\<close>

definition side_op :: "Host \<Rightarrow> Host \<Rightarrow> bool" where
  "side_op h h' \<longleftrightarrow> (\<exists>c u m. h' = fst (mem_CreateSession c u m h))
     \<or> (\<exists>c now sid fn. h' = fst (mem_MutateSession c now sid fn h))
     \<or> (\<exists>c now sid. h' = fst (mem_TouchSession c now sid h))
     \<or> (\<exists>c sid k v. h' = fst (mem_PutSessionData c sid k v h))
     \<or> (\<exists>c sid k. h' = fst (mem_DeleteSessionData c sid k h))
     \<or> (\<exists>c t ev. h' = fst (mem_PublishEvent c t ev h))
     \<or> (\<exists>t. h' = fst (mem_SubscribeEvents t h))
     \<or> (\<exists>t i f. h' = fst (event_receive t i f h))"

inductive mem_step :: "mem_sys \<Rightarrow> mem_sys \<Rightarrow> bool" where
  publish: "mem_PublishSession c sid w (sy_host S) = (h', rp) \<Longrightarrow> mem_step S (S\<lparr>sy_host := h'\<rparr>)"
| subscribe: "subscribe_start sid lid (sy_host S) = (h', sb) \<Longrightarrow>
    mem_step S (S\<lparr>sy_host := h', sy_subs := sy_subs S @ [sb]\<rparr>)"
| iterate: "i < length (sy_subs S) \<Longrightarrow> sub_pc (sy_subs S ! i) = Looping \<Longrightarrow>
    sub_iterate c (sy_host S) (sy_subs S ! i) = (h', sb) \<Longrightarrow>
    mem_step S (S\<lparr>sy_host := h', sy_subs := (sy_subs S)[i := sb]\<rparr>)"
| woken: "i < length (sy_subs S) \<Longrightarrow> sub_pc (sy_subs S ! i) = Waiting w \<Longrightarrow> h_chans (sy_host S) ! w \<Longrightarrow>
    sub_wake w (sy_host S) (sy_subs S ! i) = (h', sb) \<Longrightarrow>
    mem_step S (S\<lparr>sy_host := h', sy_subs := (sy_subs S)[i := sb]\<rparr>)"
| cancelled: "i < length (sy_subs S) \<Longrightarrow> sub_pc (sy_subs S ! i) = Waiting w \<Longrightarrow>
    mem_step S (S\<lparr>sy_subs := (sy_subs S)[i := (sy_subs S ! i)\<lparr>sub_pc := Returned e\<rparr>]\<rparr>)"
| handler_fails: "i < length (sy_subs S) \<Longrightarrow> sub_pc (sy_subs S ! i) = Handling m \<Longrightarrow>
    sub_fail e m (sy_host S) (sy_subs S ! i) = (h', sb) \<Longrightarrow>
    mem_step S (S\<lparr>sy_host := h', sy_subs := (sy_subs S)[i := sb]\<rparr>)"
| handler_ok: "i < length (sy_subs S) \<Longrightarrow> sub_pc (sy_subs S ! i) = Handling m \<Longrightarrow>
    sub_ack m (sy_host S) (sy_subs S ! i) = (h', sb) \<Longrightarrow>
    mem_step S (S\<lparr>sy_host := h', sy_subs := (sy_subs S)[i := sb],
      sy_acks := sy_acks S @ [(sub_ref (sy_subs S ! i), msg_id m)]\<rparr>)"
| delete: "mem_DeleteSession c sid (sy_host S) = (h', r) \<Longrightarrow> mem_step S (S\<lparr>sy_host := h'\<rparr>)"
| side: "side_op (sy_host S) h' \<Longrightarrow> mem_step S (S\<lparr>sy_host := h'\<rparr>)"

inductive mem_reach :: "mem_sys \<Rightarrow> bool" where
  init: "mem_reach \<lparr>sy_host = mem_New, sy_subs = [], sy_acks = []\<rparr>"
| step: "mem_reach S \<Longrightarrow> mem_step S S' \<Longrightarrow> mem_reach S'"

subsection \<open>The delivery ledger\<close>

text \<open>
  The specification: a ledger of who is working on which message and of what has been acknowledged.
  A message may be taken by a subscriber only while nobody works on it and nobody has acknowledged
  it; its holder gives it back or acknowledges it.
\<close>

type_synonym ledger = "(nat \<times> nat \<times> string) set \<times> (nat \<times> string) list"

inductive ledger_step :: "ledger \<Rightarrow> ledger \<Rightarrow> bool" where
  idle: "ledger_step L L"
| take: "(\<forall>j. (j, r, k) \<notin> H) \<Longrightarrow> (r, k) \<notin> set A \<Longrightarrow> (\<forall>x. (i, x) \<notin> H) \<Longrightarrow>
    ledger_step (H, A) (insert (i, r, k) H, A)"
| give_back: "(i, r, k) \<in> H \<Longrightarrow> ledger_step (H, A) (H - {(i, r, k)}, A)"
| acknowledge: "(i, r, k) \<in> H \<Longrightarrow> ledger_step (H, A) (H - {(i, r, k)}, A @ [(r, k)])"

definition hand :: "subscriber list \<Rightarrow> (nat \<times> nat \<times> string) set" where
  "hand subs = {(i, r, k). i < length subs \<and> sub_ref (subs ! i) = r \<and>
     (\<exists>m. sub_pc (subs ! i) = Handling m \<and> msg_id m = k)}"

definition infl :: "Host \<Rightarrow> (nat \<times> string) set" where
  "infl h = {(r, k). r < length (h_store h) \<and> mflag (ss_inflight (h_store h ! r)) k}"

definition deliv :: "Host \<Rightarrow> (nat \<times> string) set" where
  "deliv h = {(r, k). r < length (h_store h) \<and> mflag (ss_delivered (h_store h ! r)) k}"

definition ledger_of :: "mem_sys \<Rightarrow> ledger" where
  "ledger_of S = (hand (sy_subs S), sy_acks S)"

definition ledger_ok :: "ledger \<Rightarrow> bool" where
  "ledger_ok L \<longleftrightarrow> (case L of (H, A) \<Rightarrow> distinct A \<and>
     (\<forall>i r k. (i, r, k) \<in> H \<longrightarrow> (r, k) \<notin> set A) \<and>
     (\<forall>i j r k. (i, r, k) \<in> H \<longrightarrow> (j, r, k) \<in> H \<longrightarrow> i = j))"

definition sys_inv :: "mem_sys \<Rightarrow> bool" where
  "sys_inv S \<longleftrightarrow> mem_inv (sy_host S) \<and> (\<forall>sb \<in> set (sy_subs S). sub_ref sb < length (h_store (sy_host S))) \<and>
     infl (sy_host S) = snd ` hand (sy_subs S) \<and> deliv (sy_host S) = set (sy_acks S)"

lemma ledger_step_ok: "ledger_step L L' \<Longrightarrow> ledger_ok L \<Longrightarrow> ledger_ok L'"
  by (induction rule: ledger_step.induct) (auto simp: ledger_ok_def)

lemma hand_update:
  "i < length subs \<Longrightarrow> hand (subs[i := sb]) = {x \<in> hand subs. fst x \<noteq> i} \<union>
     (case sub_pc sb of Handling m \<Rightarrow> {(i, sub_ref sb, msg_id m)} | _ \<Rightarrow> {})"
  by (auto simp: hand_def nth_list_update split: sub_pc.splits if_splits)

lemma hand_append: "sub_pc sb = Looping \<Longrightarrow> hand (subs @ [sb]) = hand subs"
  by (auto simp: hand_def nth_append less_Suc_eq)

lemma hand_not: "(\<forall>m. sub_pc (subs ! i) \<noteq> Handling m) \<Longrightarrow> (i, x) \<notin> hand subs"
  by (cases x) (auto simp: hand_def)

lemma hand_at: "i < length subs \<Longrightarrow> sub_pc (subs ! i) = Handling m \<Longrightarrow>
  {x \<in> hand subs. fst x \<noteq> i} = hand subs - {(i, sub_ref (subs ! i), msg_id m)}
  \<and> (i, sub_ref (subs ! i), msg_id m) \<in> hand subs"
  by (auto simp: hand_def)

lemma infl_del:
  assumes "r < length (h_store h)" and "h_store h' = (h_store h)[r := s']"
    and "ss_inflight s' = mdel k (ss_inflight (h_store h ! r))"
  shows "infl h' = infl h - {(r, k)}"
  using assms by (auto simp: infl_def mflag_def nth_list_update split: if_splits)

lemma infl_put:
  assumes "r < length (h_store h)" and "h_store h' = (h_store h)[r := s']"
    and "ss_inflight s' = mput k True (ss_inflight (h_store h ! r))"
  shows "infl h' = insert (r, k) (infl h)"
  using assms by (auto simp: infl_def mflag_def nth_list_update split: if_splits)

lemma infl_same:
  assumes "r < length (h_store h)" and "h_store h' = (h_store h)[r := s']"
    and "ss_inflight s' = ss_inflight (h_store h ! r)"
  shows "infl h' = infl h"
  using assms by (auto simp: infl_def nth_list_update split: if_splits)

lemma deliv_same:
  assumes "r < length (h_store h)" and "h_store h' = (h_store h)[r := s']"
    and "ss_delivered s' = ss_delivered (h_store h ! r)"
  shows "deliv h' = deliv h"
  using assms by (auto simp: deliv_def nth_list_update split: if_splits)

lemma deliv_put:
  assumes "r < length (h_store h)" and "h_store h' = (h_store h)[r := s']"
    and "ss_delivered s' = mput k True (ss_delivered (h_store h ! r))"
  shows "deliv h' = insert (r, k) (deliv h)"
  using assms by (auto simp: deliv_def mflag_def nth_list_update split: if_splits)

lemmas flags_kept = infl_same deliv_same

lemma flags_create:
  assumes "getOrCreateStream sid h = (h1, r)"
  shows "infl h1 = infl h" and "deliv h1 = deliv h" and "length (h_store h) \<le> length (h_store h1)"
  using assms by (auto simp: getOrCreateStream_def Let_def infl_def deliv_def nth_append new_stream_def mflag_def
      less_Suc_eq split: option.splits if_splits)

lemma mem_inv_store:
  assumes "mem_inv h" and "r < length (h_store h)" and "stream_ok s'" and "ss_closed s' = ss_closed (h_store h ! r)"
    and "h_store h' = (h_store h)[r := s']" and "h_streams h' = h_streams h"
  shows "mem_inv h'"
  using assms by (fastforce simp: mem_inv_def nth_list_update dest!: set_update_subset_insert [THEN subsetD])

lemma mem_inv_stream: "mem_inv h \<Longrightarrow> r < length (h_store h) \<Longrightarrow> stream_ok (h_store h ! r)"
  by (simp add: mem_inv_def)

lemma side_op_frame:
  assumes "side_op h h'"
  shows "h_store h' = h_store h" and "h_streams h' = h_streams h" and "h_chans h' = h_chans h"
  using assms
  by (auto simp: side_op_def mem_op_defs mem_SubscribeEvents_def event_receive_def getOrCreateEventStream_def Let_def
      split: option.splits prod.splits list.splits if_splits)

lemma publish_flags:
  assumes "mem_inv h" and "mem_PublishSession c sid w h = (h', rp)"
  shows "infl h' = infl h" and "deliv h' = deliv h" and "length (h_store h) \<le> length (h_store h')" and "mem_inv h'"
proof -
  have "mem_inv h' \<and> infl h' = infl h \<and> deliv h' = deliv h \<and> length (h_store h) \<le> length (h_store h')"
  proof (cases c)
    case (Some e)
    with assms show ?thesis by (simp add: mem_PublishSession_def)
  next
    case None
    obtain h1 r where g: "getOrCreateStream sid h = (h1, r)"
      by fastforce
    have len: "r < length (h_store h1)"
      using getOrCreateStream_inv [OF assms(1) g] mem_invD(1) by blast
    from assms(2) None g have h': "h_store h' = (h_store h1)[r := h_store h' ! r]"
      and fl: "ss_inflight (h_store h' ! r) = ss_inflight (h_store h1 ! r)"
        "ss_delivered (h_store h' ! r) = ss_delivered (h_store h1 ! r)"
      using len by (auto simp: mem_PublishSession_def Let_def)
    show ?thesis
      using infl_same [OF len h' fl(1)] deliv_same [OF len h' fl(2)] flags_create [OF g] mem_publish_live(5) [OF assms(1)] assms(2) None
        arg_cong [OF h', of length] by auto
  qed
  then show "infl h' = infl h" "deliv h' = deliv h" "length (h_store h) \<le> length (h_store h')" "mem_inv h'"
    by auto
qed

lemma subscribe_flags:
  assumes "mem_inv h" and "subscribe_start sid lid h = (h', sb)"
  shows "infl h' = infl h" and "deliv h' = deliv h" and "length (h_store h) \<le> length (h_store h')" and "mem_inv h'"
    and "sub_pc sb = Looping" and "sub_ref sb < length (h_store h')"
proof -
  obtain h1 r where g: "getOrCreateStream sid h = (h1, r)"
    by fastforce
  with assms(2) have "h' = h1" "sub_ref sb = r" "sub_pc sb = Looping"
    by (auto simp: subscribe_start_def Let_def)
  with flags_create [OF g] getOrCreateStream_inv [OF assms(1) g] mem_invD(1) [of h1 sid r]
  show "infl h' = infl h" "deliv h' = deliv h" "length (h_store h) \<le> length (h_store h')" "mem_inv h'"
    "sub_pc sb = Looping" "sub_ref sb < length (h_store h')"
    by auto
qed

lemma delete_flags:
  assumes "mem_inv h" and "mem_DeleteSession c sid h = (h', r)"
  shows "infl h' = infl h" and "deliv h' = deliv h" and "length (h_store h') = length (h_store h)" and "mem_inv h'"
proof -
  show "mem_inv h'"
    using mem.invar_delete [OF assms(1), of c sid] assms(2) by (simp add: memory_host_def)
  show "infl h' = infl h" "deliv h' = deliv h" "length (h_store h') = length (h_store h)"
  proof (atomize (full), cases "c = None \<and> mget (h_streams h) sid \<noteq> None")
    case True
    then obtain r where r: "mget (h_streams h) sid = Some r"
      by auto
    let ?s = "(h_store h ! r)\<lparr>ss_closed := True, ss_waiters := []\<rparr>"
    have h': "h_store h' = (h_store h)[r := ?s]"
      using assms(2) True r by (auto simp: mem_DeleteSession_def Let_def)
    show "infl h' = infl h \<and> deliv h' = deliv h \<and> length (h_store h') = length (h_store h)"
      using flags_kept [OF mem_invD(1) [OF assms(1) r] h'] h' by simp
  next
    case False
    then have "h_store h' = h_store h"
      using assms(2) by (auto simp: mem_DeleteSession_def Let_def split: option.splits)
    then show "infl h' = infl h \<and> deliv h' = deliv h \<and> length (h_store h') = length (h_store h)"
      by (simp add: infl_def deliv_def)
  qed
qed

text \<open>The three moves of a subscriber that concern a message.\<close>

lemma iterate_flags:
  assumes "mem_inv h" and "sub_ref sb < length (h_store h)" and "sub_iterate c h sb = (h', sb')"
  shows "mem_inv h' \<and> length (h_store h') = length (h_store h) \<and> sub_ref sb' = sub_ref sb \<and> deliv h' = deliv h \<and>
    (case sub_pc sb' of
       Handling m \<Rightarrow> (sub_ref sb, msg_id m) \<notin> infl h \<union> deliv h \<and> infl h' = insert (sub_ref sb, msg_id m) (infl h)
     | _ \<Rightarrow> infl h' = infl h)"
proof -
  let ?r = "sub_ref sb" and ?s = "h_store h ! sub_ref sb"
  consider (same) "h' = h" "sub_ref sb' = ?r" "\<exists>e. sub_pc sb' = Returned e"
    | (wait) w where "h_store h' = (h_store h)[?r := ?s\<lparr>ss_waiters := ss_waiters ?s @ [w]\<rparr>]" "sub_pc sb' = Waiting w"
        "sub_ref sb' = ?r" "h_streams h' = h_streams h"
    | (claim) m where "h_store h' = (h_store h)[?r := claimed m ?s]" "sub_pc sb' = Handling m" "sub_ref sb' = ?r"
        "h_streams h' = h_streams h" "claimable ?s m"
    using assms(3)
    by (fastforce simp: sub_iterate_def Let_def claimed_def claim_scan_find find_Some_iff split: option.splits if_splits)
  then show ?thesis
  proof cases
    case same
    then show ?thesis using assms(1) by auto
  next
    case wait
    then show ?thesis
      using flags_kept [OF assms(2) wait(1)] mem_inv_store [OF assms(1,2) _ _ wait(1,4)]
        mem_inv_stream [OF assms(1,2)] by simp
  next
    case claim
    then show ?thesis
      using mem_inv_store [OF assms(1,2) _ _ claim(1,4)] mem_inv_stream [OF assms(1,2)] assms(2)
        infl_put [OF assms(2) claim(1)] deliv_same [OF assms(2) claim(1)]
      by (simp add: claimed_def claimable_def) (simp add: infl_def deliv_def)
  qed
qed

lemma ack_flags:
  assumes "mem_inv h" and "sub_ref sb < length (h_store h)" and "sub_ack m h sb = (h', sb')"
  shows "mem_inv h' \<and> length (h_store h') = length (h_store h) \<and> sub_ref sb' = sub_ref sb \<and> sub_pc sb' = Looping \<and>
    infl h' = infl h - {(sub_ref sb, msg_id m)} \<and> deliv h' = insert (sub_ref sb, msg_id m) (deliv h)"
proof -
  let ?s = "h_store h ! sub_ref sb"
  have h': "h_store h' = (h_store h)[sub_ref sb := acked m ?s]" "h_streams h' = h_streams h"
    "sub_ref sb' = sub_ref sb" "sub_pc sb' = Looping"
    using assms(3) by (auto simp: sub_ack_def Let_def acked_def)
  then show ?thesis
    using mem_inv_store [OF assms(1,2) _ _ h'(1,2)] mem_inv_stream [OF assms(1,2)]
      infl_del [OF assms(2) h'(1)] deliv_put [OF assms(2) h'(1)]
    by (simp add: acked_def)
qed

lemma fail_flags:
  assumes "mem_inv h" and "sub_ref sb < length (h_store h)" and "sub_fail e m h sb = (h', sb')"
  shows "mem_inv h' \<and> length (h_store h') = length (h_store h) \<and> sub_ref sb' = sub_ref sb \<and> sub_pc sb' = Returned e \<and>
    infl h' = infl h - {(sub_ref sb, msg_id m)} \<and> deliv h' = deliv h"
proof -
  let ?s = "h_store h ! sub_ref sb"
  let ?s' = "?s\<lparr>ss_inflight := mdel (msg_id m) (ss_inflight ?s)\<rparr>"
  have h': "h_store h' = (h_store h)[sub_ref sb := ?s']" "h_streams h' = h_streams h"
    "sub_ref sb' = sub_ref sb" "sub_pc sb' = Returned e"
    using assms(3) by (auto simp: sub_fail_def Let_def)
  then show ?thesis
    using mem_inv_store [OF assms(1,2) _ _ h'(1,2)] mem_inv_stream [OF assms(1,2)]
      infl_del [OF assms(2) h'(1)] deliv_same [OF assms(2) h'(1)]
    by simp
qed


lemma sys_inv_frame:
  assumes "sys_inv S" and "mem_inv h'" and "infl h' = infl (sy_host S)" and "deliv h' = deliv (sy_host S)"
    and "length (h_store (sy_host S)) \<le> length (h_store h')"
    and "hand subs = hand (sy_subs S)" and "\<forall>sb \<in> set subs. sub_ref sb < length (h_store h')"
  shows "sys_inv (S\<lparr>sy_host := h', sy_subs := subs\<rparr>)"
    and "ledger_step (ledger_of S) (ledger_of (S\<lparr>sy_host := h', sy_subs := subs\<rparr>))"
  using assms by (auto simp: sys_inv_def ledger_of_def intro: ledger_step.idle)

lemma sys_inv_host:
  assumes inv: "sys_inv S" and "mem_inv h'" and "infl h' = infl (sy_host S)" and "deliv h' = deliv (sy_host S)"
    and len: "length (h_store (sy_host S)) \<le> length (h_store h')"
  shows "sys_inv (S\<lparr>sy_host := h'\<rparr>) \<and> ledger_step (ledger_of S) (ledger_of (S\<lparr>sy_host := h'\<rparr>))"
proof -
  have "\<forall>sb \<in> set (sy_subs S). sub_ref sb < length (h_store h')"
    using inv len by (auto simp: sys_inv_def intro: order.strict_trans2)
  with assms sys_inv_frame [of S h' "sy_subs S"] show ?thesis
    by simp
qed

lemma refs_update:
  assumes "sys_inv S" and "i < length (sy_subs S)" and "sub_ref sb = sub_ref (sy_subs S ! i)"
    and "length (h_store h') = length (h_store (sy_host S))"
  shows "\<forall>sb' \<in> set ((sy_subs S)[i := sb]). sub_ref sb' < length (h_store h')"
  using assms set_update_subset_insert [of "sy_subs S" i sb] by (auto simp: sys_inv_def)

lemma sys_inv_ref: "sys_inv S \<Longrightarrow> i < length (sy_subs S) \<Longrightarrow> sub_ref (sy_subs S ! i) < length (h_store (sy_host S))"
  by (simp add: sys_inv_def)

lemma snd_image_remove:
  assumes "\<forall>j. (j, x) \<in> H \<longrightarrow> j = i"
  shows "snd ` (H - {(i, x)}) = snd ` H - {x}"
proof
  show "snd ` (H - {(i, x)}) \<subseteq> snd ` H - {x}"
    using assms by auto
  show "snd ` H - {x} \<subseteq> snd ` (H - {(i, x)})"
    by (auto intro!: image_eqI)
qed

lemma sys_release:
  assumes inv: "sys_inv S" and ok: "ledger_ok (ledger_of S)" and i: "i < length (sy_subs S)"
    and m: "sub_pc (sy_subs S ! i) = Handling m" and r: "r = sub_ref (sy_subs S ! i)"
    and h': "mem_inv h'" "length (h_store h') = length (h_store (sy_host S))" "sub_ref sb = r"
      "\<forall>m. sub_pc sb \<noteq> Handling m" "infl h' = infl (sy_host S) - {(r, msg_id m)}"
    and d: "deliv h' = set acks"
  shows "sys_inv (S\<lparr>sy_host := h', sy_subs := (sy_subs S)[i := sb], sy_acks := acks\<rparr>)"
    and "hand ((sy_subs S)[i := sb]) = hand (sy_subs S) - {(i, r, msg_id m)}" and "(i, r, msg_id m) \<in> hand (sy_subs S)"
proof -
  show hand: "hand ((sy_subs S)[i := sb]) = hand (sy_subs S) - {(i, r, msg_id m)}"
    using hand_update [OF i, of sb] h'(4) hand_at [OF i m] r by (auto split: sub_pc.splits)
  show "(i, r, msg_id m) \<in> hand (sy_subs S)"
    using hand_at [OF i m] r by simp
  have "infl h' = snd ` (hand (sy_subs S) - {(i, r, msg_id m)})"
    using snd_image_remove [of "(r, msg_id m)" "hand (sy_subs S)" i] inv ok h'(5) hand_at [OF i m] r
    by (simp add: sys_inv_def ledger_ok_def ledger_of_def)
  then show "sys_inv (S\<lparr>sy_host := h', sy_subs := (sy_subs S)[i := sb], sy_acks := acks\<rparr>)"
    using refs_update [OF inv i _ h'(2), of sb] h'(1,3) r d hand by (simp add: sys_inv_def)
qed

lemma sys_step_iterate:
  assumes inv: "sys_inv S" and i: "i < length (sy_subs S)" and pc: "sub_pc (sy_subs S ! i) = Looping"
    and it: "sub_iterate c (sy_host S) (sy_subs S ! i) = (h', sb)"
    and S': "S' = S\<lparr>sy_host := h', sy_subs := (sy_subs S)[i := sb]\<rparr>"
  shows "sys_inv S' \<and> ledger_step (ledger_of S) (ledger_of S')"
proof -
  have "mem_inv (sy_host S)"
    using inv by (simp add: sys_inv_def)
  note f = iterate_flags [OF this sys_inv_ref [OF inv i] it]
  have none: "\<forall>x. (i, x) \<notin> hand (sy_subs S)"
    using hand_not [of "sy_subs S" i] pc by auto
  then have all: "{x \<in> hand (sy_subs S). fst x \<noteq> i} = hand (sy_subs S)"
    by (auto simp: prod_eq_iff)
  note refs = refs_update [OF inv i, of sb h']
  show ?thesis
  proof (cases "\<exists>m. sub_pc sb = Handling m")
    case True
    then obtain m where m: "sub_pc sb = Handling m" by blast
    let ?x = "(sub_ref (sy_subs S ! i), msg_id m)"
    have hand: "hand ((sy_subs S)[i := sb]) = insert (i, ?x) (hand (sy_subs S))"
      using hand_update [OF i, of sb] all m f by auto
    have "?x \<notin> snd ` hand (sy_subs S)" "?x \<notin> set (sy_acks S)"
      using f m inv by (simp_all add: sys_inv_def)
    then have "(\<forall>j. (j, ?x) \<notin> hand (sy_subs S)) \<and> ?x \<notin> set (sy_acks S)"
      by (metis image_eqI snd_conv)
    with hand none show ?thesis
      using refs f m inv by (auto simp: S' sys_inv_def ledger_of_def intro: ledger_step.take)
  next
    case False
    then have "infl h' = infl (sy_host S)" "hand ((sy_subs S)[i := sb]) = hand (sy_subs S)"
      using f hand_update [OF i, of sb] all by (auto split: sub_pc.splits)
    then show ?thesis
      using sys_inv_frame [OF inv, of h' "(sy_subs S)[i := sb]"] f refs by (auto simp: S')
  qed
qed


lemma sys_step:
  assumes "mem_step S S'" and inv: "sys_inv S" and ok: "ledger_ok (ledger_of S)"
  shows "sys_inv S' \<and> ledger_step (ledger_of S) (ledger_of S')"
  using assms(1)
proof cases
  case (publish c sid w h' rp)
  then show ?thesis
    using sys_inv_host [OF inv, of h'] publish_flags [of "sy_host S" c sid w h' rp] inv
    by (simp add: sys_inv_def)
next
  case (subscribe sid lid h' sb)
  have "mem_inv (sy_host S)"
    using inv by (simp add: sys_inv_def)
  note f = subscribe_flags [OF this subscribe(2)]
  then have "\<forall>x \<in> set (sy_subs S @ [sb]). sub_ref x < length (h_store h')"
    using inv by (auto simp: sys_inv_def intro: order.strict_trans2)
  with f show ?thesis
    using sys_inv_frame [OF inv, of h' "sy_subs S @ [sb]"] hand_append [of sb "sy_subs S"] subscribe(1) by simp
next
  case (iterate i c h' sb)
  then show ?thesis
    using sys_step_iterate [OF inv] by blast
next
  case (woken i w h' sb)
  then have h': "h_store h' = h_store (sy_host S)" "h_streams h' = h_streams (sy_host S)"
    and sb: "sub_ref sb = sub_ref (sy_subs S ! i)" "sub_pc sb = Looping"
    by (auto simp: sub_wake_def)
  then have "mem_inv h'" "infl h' = infl (sy_host S)" "deliv h' = deliv (sy_host S)"
    using inv mem_inv_frame [OF _ h'] by (auto simp: sys_inv_def infl_def deliv_def)
  moreover have "hand ((sy_subs S)[i := sb]) = hand (sy_subs S)"
    using hand_update [of i "sy_subs S" sb] hand_not [of "sy_subs S" i] woken sb by auto
  ultimately show ?thesis
    using sys_inv_frame [OF inv, of h' "(sy_subs S)[i := sb]"] refs_update [OF inv, of i sb h'] woken h' sb by auto
next
  case (cancelled i w e)
  let ?sb = "(sy_subs S ! i)\<lparr>sub_pc := Returned e\<rparr>"
  have "hand ((sy_subs S)[i := ?sb]) = hand (sy_subs S)"
    using hand_update [of i "sy_subs S" ?sb] hand_not [of "sy_subs S" i] cancelled by auto
  then show ?thesis
    using sys_inv_frame [OF inv, of "sy_host S" "(sy_subs S)[i := ?sb]"] refs_update [OF inv, of i ?sb "sy_host S"]
      cancelled inv by (auto simp: sys_inv_def)
next
  case (handler_fails i m e h' sb)
  have "mem_inv (sy_host S)" "deliv (sy_host S) = set (sy_acks S)"
    using inv by (simp_all add: sys_inv_def)
  with fail_flags [OF _ sys_inv_ref [OF inv] handler_fails(4)] handler_fails
  have "sys_inv S'" "ledger_of S' = (hand (sy_subs S) - {(i, sub_ref (sy_subs S ! i), msg_id m)}, sy_acks S)"
    "(i, sub_ref (sy_subs S ! i), msg_id m) \<in> hand (sy_subs S)"
    using sys_release [OF inv ok handler_fails(2,3) refl, of h' sb "sy_acks S"] by (auto simp: ledger_of_def)
  then show ?thesis
    by (simp add: ledger_of_def ledger_step.give_back)
next
  case (handler_ok i m h' sb)
  have "mem_inv (sy_host S)" "deliv (sy_host S) = set (sy_acks S)"
    using inv by (simp_all add: sys_inv_def)
  with ack_flags [OF _ sys_inv_ref [OF inv] handler_ok(4)] handler_ok
  have "sys_inv S'" "ledger_of S' = (hand (sy_subs S) - {(i, sub_ref (sy_subs S ! i), msg_id m)},
      sy_acks S @ [(sub_ref (sy_subs S ! i), msg_id m)])"
    "(i, sub_ref (sy_subs S ! i), msg_id m) \<in> hand (sy_subs S)"
    using sys_release [OF inv ok handler_ok(2,3) refl, of h' sb "sy_acks S @ [(sub_ref (sy_subs S ! i), msg_id m)]"]
    by (auto simp: ledger_of_def)
  then show ?thesis
    by (simp add: ledger_of_def ledger_step.acknowledge)
next
  case (delete c sid h' r)
  then show ?thesis
    using sys_inv_host [OF inv, of h'] delete_flags [of "sy_host S" c sid h' r] inv
    by (simp add: sys_inv_def)
next
  case (side h')
  note f = side_op_frame [OF side(2)]
  then show ?thesis
    using sys_inv_host [OF inv, of h'] mem_inv_frame [OF _ f(1,2)] inv side
    by (simp add: sys_inv_def infl_def deliv_def)
qed

lemma mem_reach_inv: "mem_reach S \<Longrightarrow> sys_inv S \<and> ledger_ok (ledger_of S)"
proof (induction rule: mem_reach.induct)
  case init
  then show ?case
    using mem_inv_New by (simp add: sys_inv_def infl_def deliv_def hand_def mem_New_def ledger_ok_def ledger_of_def)
next
  case (step S S')
  then show ?case
    using sys_step ledger_step_ok by blast
qed


definition wit_msg :: message where
  "wit_msg = \<lparr>msg_id = ''1'', msg_data = Garbage\<rparr>"

definition wit_sys :: "sessionStream \<Rightarrow> subscriber list \<Rightarrow> (nat \<times> string) list \<Rightarrow> mem_sys" where
  "wit_sys st subs acks = \<lparr>sy_host = mem_New\<lparr>h_streams := [(''s'', 0)], h_store := [st]\<rparr>, sy_subs = subs, sy_acks = acks\<rparr>"

definition wit_sub :: "int \<Rightarrow> sub_pc \<Rightarrow> subscriber" where
  "wit_sub li pc = \<lparr>sub_ref = 0, sub_lastIdx = li, sub_pc = pc\<rparr>"

definition wit_one :: sessionStream where
  "wit_one = new_stream\<lparr>ss_nextID := 1, ss_messages := [wit_msg]\<rparr>"

definition wit_claimed :: mem_sys where
  "wit_claimed = wit_sys (claimed wit_msg wit_one) [wit_sub (-1) (Handling wit_msg), wit_sub (-1) Looping] []"

definition wit_acked :: mem_sys where
  "wit_acked = wit_sys (acked wit_msg (claimed wit_msg wit_one)) [wit_sub 0 Looping, wit_sub (-1) Looping] [(0, ''1'')]"

lemmas wit_defs = wit_msg_def wit_sys_def wit_sub_def wit_one_def wit_claimed_def wit_acked_def claimed_def acked_def
  mem_New_def new_stream_def

lemma wit_claimed_reach: "mem_reach wit_claimed"
proof -
  let ?n = "new_stream" and ?l = "wit_sub (-1) Looping"
  let ?S0 = "\<lparr>sy_host = mem_New, sy_subs = [], sy_acks = []\<rparr>"
  have "mem_step ?S0 (wit_sys ?n [?l] [])"
    using mem_step.subscribe [of "''s''" "[]" ?S0]
    by (simp add: subscribe_start_def getOrCreateStream_def wit_defs)
  moreover have "mem_step (wit_sys ?n [?l] []) (wit_sys ?n [?l, ?l] [])"
    using mem_step.subscribe [of "''s''" "[]" "wit_sys ?n [?l] []"]
    by (simp add: subscribe_start_def getOrCreateStream_def wit_defs)
  moreover have "mem_step (wit_sys ?n [?l, ?l] []) (wit_sys wit_one [?l, ?l] [])"
    using mem_step.publish [of None "''s''" Garbage "wit_sys ?n [?l, ?l] []"]
    by (simp add: mem_PublishSession_def getOrCreateStream_def wit_defs)
  moreover have "mem_step (wit_sys wit_one [?l, ?l] []) wit_claimed"
    using mem_step.iterate [of 0 "wit_sys wit_one [?l, ?l] []" None]
    by (simp add: sub_iterate_def claimable_def mflag_def wit_defs)
  ultimately show ?thesis
    using mem_reach.init mem_reach.step by metis
qed

lemma wit_ack_step: "mem_step wit_claimed wit_acked"
  using mem_step.handler_ok [of 0 wit_claimed wit_msg]
  by (simp add: sub_ack_def wit_defs)

text \<open>C1: the host with any number of concurrent subscribers refines the delivery ledger: every step
  of a reachable host either leaves the ledger alone, or a subscriber takes a message that nobody
  holds and nobody has acknowledged, or its holder gives it back, or its holder acknowledges it.\<close>

theorem delivery_refines_ledger:
  assumes "mem_reach S" and "mem_step S S'"
  shows "ledger_step (ledger_of S) (ledger_of S')"
  using assms mem_reach_inv sys_step by blast

theorem delivery_refines_ledger_witness:
  "ledger_step (ledger_of wit_claimed) (ledger_of wit_acked)"
  using delivery_refines_ledger [OF wit_claimed_reach wit_ack_step] .

text \<open>C2: in every reachable state a message is worked on by at most one subscriber, and by none once
  it has been acknowledged; no message is ever acknowledged twice; and a message is marked in flight
  exactly while some subscriber's handler runs on it.\<close>

theorem handled_exclusively:
  assumes "mem_reach S"
  shows "(\<forall>i j r k. (i, r, k) \<in> hand (sy_subs S) \<longrightarrow> (j, r, k) \<in> hand (sy_subs S) \<longrightarrow> i = j)
    \<and> (\<forall>i r k. (i, r, k) \<in> hand (sy_subs S) \<longrightarrow> (r, k) \<notin> deliv (sy_host S))
    \<and> distinct (sy_acks S) \<and> set (sy_acks S) = deliv (sy_host S)
    \<and> infl (sy_host S) = snd ` hand (sy_subs S)"
  using mem_reach_inv [OF assms] by (auto simp: sys_inv_def ledger_ok_def ledger_of_def)


theorem handled_exclusively_witness:
  "infl (sy_host wit_claimed) = snd ` hand (sy_subs wit_claimed) \<and> (0, 0, ''1'') \<in> hand (sy_subs wit_claimed)"
  using handled_exclusively [OF wit_claimed_reach] by (simp add: wit_defs hand_def)

subsection \<open>No wake-up is lost to a publisher\<close>

text \<open>A waiting subscriber's channel is registered with its stream or already signalled.\<close>

definition signalled :: "Host \<Rightarrow> nat \<Rightarrow> nat \<Rightarrow> bool" where
  "signalled h r w \<longleftrightarrow> w < length (h_chans h) \<and> (w \<in> set (ss_waiters (h_store h ! r)) \<or> h_chans h ! w)"

definition wait_ok :: "mem_sys \<Rightarrow> bool" where
  "wait_ok S \<longleftrightarrow>
     (\<forall>i w. i < length (sy_subs S) \<longrightarrow> sub_pc (sy_subs S ! i) = Waiting w \<longrightarrow>
        signalled (sy_host S) (sub_ref (sy_subs S ! i)) w) \<and>
     (\<forall>i j w. i < length (sy_subs S) \<longrightarrow> j < length (sy_subs S) \<longrightarrow> sub_pc (sy_subs S ! i) = Waiting w \<longrightarrow>
        sub_pc (sy_subs S ! j) = Waiting w \<longrightarrow> i = j)"

definition keeps :: "Host \<Rightarrow> Host \<Rightarrow> bool" where
  "keeps h h' \<longleftrightarrow> (\<forall>r w. r < length (h_store h) \<longrightarrow> signalled h r w \<longrightarrow> signalled h' r w)"

lemma keeps_frame:
  "h_chans h' = h_chans h \<Longrightarrow> (\<forall>r < length (h_store h). ss_waiters (h_store h' ! r) = ss_waiters (h_store h ! r)) \<Longrightarrow> keeps h h'"
  by (simp add: keeps_def signalled_def)

lemma keeps_trans: "keeps h h1 \<Longrightarrow> keeps h1 h2 \<Longrightarrow> length (h_store h) \<le> length (h_store h1) \<Longrightarrow> keeps h h2"
  by (auto simp: keeps_def intro: order.strict_trans2)

lemma keeps_wake:
  assumes "h_store h' = (h_store h)[r := s']" and "h_chans h' = wake (ss_waiters (h_store h ! r)) (h_chans h)"
  shows "keeps h h'"
  using assms by (auto simp: keeps_def signalled_def wake_nth) (metis nth_list_update_neq)

lemma wait_ok_host: "sys_inv S \<Longrightarrow> wait_ok S \<Longrightarrow> keeps (sy_host S) h' \<Longrightarrow> wait_ok (S\<lparr>sy_host := h'\<rparr>)"
  by (simp add: wait_ok_def keeps_def sys_inv_def)

lemma wait_ok_move:
  assumes "sys_inv S" and "wait_ok S" and "keeps (sy_host S) h'" and "i < length (sy_subs S)"
    and "\<forall>w. sub_pc sb \<noteq> Waiting w"
  shows "wait_ok (S\<lparr>sy_host := h', sy_subs := (sy_subs S)[i := sb]\<rparr>)"
  using assms by (auto simp: wait_ok_def keeps_def sys_inv_def nth_list_update split: if_splits)


lemma create_keeps: "getOrCreateStream sid h = (h1, r) \<Longrightarrow> keeps h h1"
  by (rule keeps_frame) (auto simp: getOrCreateStream_def Let_def nth_append split: option.splits)

lemma publish_keeps:
  assumes "mem_PublishSession c sid w h = (h', rp)"
  shows "keeps h h'"
proof (cases c)
  case (Some e)
  with assms show ?thesis by (simp add: mem_PublishSession_def keeps_def)
next
  case None
  obtain h1 r where g: "getOrCreateStream sid h = (h1, r)"
    by fastforce
  from assms None g have "keeps h1 h'"
    by (auto simp: mem_PublishSession_def Let_def intro!: keeps_wake [of _ h1 r])
  then show ?thesis
    using keeps_trans [OF create_keeps [OF g]] flags_create(3) [OF g] by blast
qed

lemma delete_keeps: "mem_DeleteSession c sid h = (h', r) \<Longrightarrow> keeps h h'"
  by (cases c; cases "mget (h_streams h) sid")
     (auto simp: mem_DeleteSession_def Let_def keeps_def [of h h] intro: keeps_wake keeps_frame)

lemma store_keeps:
  "h_store h' = (h_store h)[r := s'] \<Longrightarrow> ss_waiters s' = ss_waiters (h_store h ! r) \<Longrightarrow> h_chans h' = h_chans h \<Longrightarrow> keeps h h'"
  by (rule keeps_frame) (auto simp: nth_upd)

lemma wait_ok_enter:
  assumes inv: "sys_inv S" and ok: "wait_ok S" and k: "keeps (sy_host S) h'" and i: "i < length (sy_subs S)"
    and w: "sub_pc sb = Waiting w" and sig: "signalled h' (sub_ref sb) w"
    and fresh: "\<And>j w'. j < length (sy_subs S) \<Longrightarrow> sub_pc (sy_subs S ! j) = Waiting w' \<Longrightarrow> w' \<noteq> w"
  shows "wait_ok (S\<lparr>sy_host := h', sy_subs := (sy_subs S)[i := sb]\<rparr>)"
  unfolding wait_ok_def
proof (intro conjI allI impI, goal_cases)
  case (1 j w')
  then have j: "j < length (sy_subs S)" by simp
  show ?case
  proof (cases "j = i")
    case False
    with 1 j have "signalled (sy_host S) (sub_ref (sy_subs S ! j)) w'"
      using ok by (simp add: wait_ok_def)
    with False j k sys_inv_ref [OF inv j] show ?thesis by (simp add: keeps_def)
  qed (use 1 i w sig in simp)
next
  case (2 j l w')
  then have "j < length (sy_subs S)" "l < length (sy_subs S)" by simp_all
  with 2 show ?case
    using ok w fresh [of j w] fresh [of l w] unfolding wait_ok_def
    by (cases "j = i"; cases "l = i") (auto simp: i)
qed

lemma iterate_wait:
  assumes inv: "sys_inv S" and ok: "wait_ok S" and i: "i < length (sy_subs S)"
    and it: "sub_iterate c (sy_host S) (sy_subs S ! i) = (h', sb)"
  shows "wait_ok (S\<lparr>sy_host := h', sy_subs := (sy_subs S)[i := sb]\<rparr>)"
proof (cases "\<exists>w. sub_pc sb = Waiting w")
  case False
  with it have "keeps (sy_host S) h'"
    by (auto simp: sub_iterate_def Let_def keeps_def [of "sy_host S" "sy_host S"] split: option.splits if_splits
        intro: store_keeps)
  with False show ?thesis
    using wait_ok_move [OF inv ok _ i] by blast
next
  case True
  let ?h = "sy_host S" and ?r = "sub_ref (sy_subs S ! i)"
  let ?w = "length (h_chans ?h)"
  from True it have h': "h_chans h' = h_chans ?h @ [False]" "sub_pc sb = Waiting ?w" "sub_ref sb = ?r"
    "h_store h' = (h_store ?h)[?r := (h_store ?h ! ?r)\<lparr>ss_waiters := ss_waiters (h_store ?h ! ?r) @ [?w]\<rparr>]"
    by (auto simp: sub_iterate_def Let_def split: option.splits if_splits)
  have r: "?r < length (h_store ?h)"
    using sys_inv_ref [OF inv i] .
  then have new: "signalled h' ?r ?w"
    by (simp add: signalled_def h')
  have "keeps ?h h'"
    using r by (auto simp: keeps_def signalled_def h' nth_append nth_list_update)
  moreover have "w < ?w" if "j < length (sy_subs S)" "sub_pc (sy_subs S ! j) = Waiting w" for j w
    using ok that by (auto simp: wait_ok_def signalled_def)
  ultimately show ?thesis
    using wait_ok_enter [OF inv ok _ i h'(2)] new h'(3) by (metis less_irrefl)
qed

lemma woken_wait:
  assumes inv: "sys_inv S" and ok: "wait_ok S" and i: "i < length (sy_subs S)" and w: "sub_pc (sy_subs S ! i) = Waiting w"
    and wk: "sub_wake w (sy_host S) (sy_subs S ! i) = (h', sb)"
  shows "wait_ok (S\<lparr>sy_host := h', sy_subs := (sy_subs S)[i := sb]\<rparr>)"
proof -
  from wk have h': "h' = (sy_host S)\<lparr>h_chans := (h_chans (sy_host S))[w := False]\<rparr>" "sub_pc sb = Looping"
    by (auto simp: sub_wake_def)
  have keep: "signalled h' r w'" if "signalled (sy_host S) r w'" "w' \<noteq> w" for r w'
    using that by (simp add: signalled_def h' nth_upd)
  have other: "w' \<noteq> w" if "j < length (sy_subs S)" "sub_pc (sy_subs S ! j) = Waiting w'" "j \<noteq> i" for j w'
    using ok that i w unfolding wait_ok_def by metis
  have "signalled h' (sub_ref (sy_subs S ! j)) w'"
    if "j < length (sy_subs S)" "sub_pc (sy_subs S ! j) = Waiting w'" "j \<noteq> i" for j w'
    using keep other [OF that] ok that unfolding wait_ok_def by metis
  then show ?thesis
    using ok i h'(2) by (simp add: wait_ok_def nth_upd)
qed

lemma wait_step:
  assumes "mem_step S S'" and inv: "sys_inv S" and ok: "wait_ok S"
  shows "wait_ok S'"
  using assms(1)
proof cases
  case publish
  then show ?thesis using wait_ok_host [OF inv ok publish_keeps] by blast
next
  case (subscribe sid lid h' sb)
  obtain h1 r where g: "getOrCreateStream sid (sy_host S) = (h1, r)"
    by fastforce
  with subscribe(2) have "h' = h1" "sub_pc sb = Looping"
    by (auto simp: subscribe_start_def Let_def)
  with wait_ok_host [OF inv ok create_keeps [OF g]] subscribe(1) show ?thesis
    by (auto simp: wait_ok_def nth_append less_Suc_eq)
next
  case iterate
  then show ?thesis using iterate_wait [OF inv ok] by blast
next
  case woken
  then show ?thesis using woken_wait [OF inv ok] by blast
next
  case (cancelled i w e)
  then show ?thesis
    using wait_ok_move [OF inv ok, of "sy_host S" i "(sy_subs S ! i)\<lparr>sub_pc := Returned e\<rparr>"] by (simp add: keeps_def)
next
  case (handler_fails i m e h' sb)
  then show ?thesis
    using wait_ok_move [OF inv ok, of h' i sb] store_keeps [of h' "sy_host S"] by (auto simp: sub_fail_def Let_def)
next
  case (handler_ok i m h' sb)
  then have "wait_ok (S\<lparr>sy_host := h', sy_subs := (sy_subs S)[i := sb]\<rparr>)"
    using wait_ok_move [OF inv ok, of h' i sb] store_keeps [of h' "sy_host S"] by (auto simp: sub_ack_def Let_def)
  with handler_ok(1) show ?thesis by (simp add: wait_ok_def)
next
  case delete
  then show ?thesis using wait_ok_host [OF inv ok delete_keeps] by blast
next
  case (side h')
  then show ?thesis using wait_ok_host [OF inv ok keeps_frame] side_op_frame [OF side(2)] by simp
qed

lemma mem_reach_wait: "mem_reach S \<Longrightarrow> wait_ok S"
proof (induction rule: mem_reach.induct)
  case init
  then show ?case by (simp add: wait_ok_def)
next
  case (step S S')
  then show ?case using wait_step mem_reach_inv by blast
qed


lemma waiting_woken:
  assumes reach: "mem_reach S" and i: "i < length (sy_subs S)" and w: "sub_pc (sy_subs S ! i) = Waiting w"
  shows "wake (ss_waiters (h_store (sy_host S) ! sub_ref (sy_subs S ! i))) (h_chans (sy_host S)) ! w"
  using mem_reach_wait [OF reach] i w by (simp add: wait_ok_def signalled_def wake_nth)

lemma woken_moves:
  assumes "i < length (sy_subs S)" and "sub_pc (sy_subs S ! i) = Waiting w" and "h_chans (sy_host S) ! w"
  shows "\<exists>S'. mem_step S S' \<and> sub_pc (sy_subs S' ! i) = Looping"
  using mem_step.woken [OF assms] assms(1) by (fastforce simp: sub_wake_def)

text \<open>C4: publishing wakes every subscriber that waits on the session's stream: after
  \<open>PublishSession\<close> its channel is signalled and it can go back to its loop, whatever interleaving
  led to the state, so no wake-up is lost to a publisher.\<close>

theorem publish_wakes_waiters:
  assumes "mem_reach S" and "i < length (sy_subs S)" and "sub_pc (sy_subs S ! i) = Waiting w"
    and "mget (h_streams (sy_host S)) sid = Some (sub_ref (sy_subs S ! i))"
    and "mem_PublishSession None sid d (sy_host S) = (h', rp)"
  shows "h_chans h' ! w \<and> (\<exists>S'. mem_step (S\<lparr>sy_host := h'\<rparr>) S' \<and> sub_pc (sy_subs S' ! i) = Looping)"
proof -
  have "h_chans h' ! w"
    using waiting_woken [OF assms(1-3)] assms(4,5) by (auto simp: mem_PublishSession_def getOrCreateStream_Some Let_def)
  with assms woken_moves [of i "S\<lparr>sy_host := h'\<rparr>" w] show ?thesis by simp
qed

definition wit_waiting :: mem_sys where
  "wit_waiting = (wit_sys (new_stream\<lparr>ss_waiters := [0]\<rparr>) [wit_sub (-1) (Waiting 0)] [])
     \<lparr>sy_host := mem_New\<lparr>h_streams := [(''s'', 0)], h_store := [new_stream\<lparr>ss_waiters := [0]\<rparr>], h_chans := [False]\<rparr>\<rparr>"

lemma wit_waiting_reach: "mem_reach wit_waiting"
proof -
  let ?l = "wit_sub (-1) Looping"
  let ?S0 = "\<lparr>sy_host = mem_New, sy_subs = [], sy_acks = []\<rparr>"
  have "mem_step ?S0 (wit_sys new_stream [?l] [])"
    using mem_step.subscribe [of "''s''" "[]" ?S0]
    by (simp add: subscribe_start_def getOrCreateStream_def wit_defs)
  moreover have "mem_step (wit_sys new_stream [?l] []) wit_waiting"
    using mem_step.iterate [of 0 "wit_sys new_stream [?l] []" None]
    by (simp add: sub_iterate_def wit_waiting_def wit_defs)
  ultimately show ?thesis
    using mem_reach.init mem_reach.step by metis
qed

theorem publish_wakes_waiters_witness:
  "h_chans (fst (mem_PublishSession None ''s'' Garbage (sy_host wit_waiting))) ! 0"
proof -
  obtain h' rp where p: "mem_PublishSession None ''s'' Garbage (sy_host wit_waiting) = (h', rp)"
    by fastforce
  have "h_chans h' ! 0"
    using publish_wakes_waiters [OF wit_waiting_reach _ _ _ p, of 0 0] by (simp add: wit_waiting_def wit_defs)
  with p show ?thesis by simp
qed

text \<open>C5: deleting a session ends its subscriptions: every subscriber that waits on its stream is
  signalled, every subscriber at the top of its loop returns \<open>session closed\<close>, and the session's
  metadata, data and messages are gone while every other session's are untouched.\<close>

theorem delete_ends_subscriptions:
  assumes "mem_reach S" and "mget (h_streams (sy_host S)) sid = Some r"
    and "mem_DeleteSession None sid (sy_host S) = (h', e)"
  shows "e = None
    \<and> (\<forall>i w. i < length (sy_subs S) \<and> sub_ref (sy_subs S ! i) = r \<and> sub_pc (sy_subs S ! i) = Waiting w \<longrightarrow> h_chans h' ! w)
    \<and> (\<forall>sb. sub_ref sb = r \<longrightarrow> sub_pc (snd (sub_iterate None h' sb)) = Returned (ErrText ''session closed''))
    \<and> (\<forall>x. mget (h_metas h') x = (if x = sid then None else mget (h_metas (sy_host S)) x)
         \<and> mem_data h' x = (if x = sid then (\<lambda>_. None) else mem_data (sy_host S) x)
         \<and> mem_stream h' x = (if x = sid then [] else mem_stream (sy_host S) x))"
proof -
  let ?h = "sy_host S"
  have inv: "mem_inv ?h"
    using mem_reach_inv [OF assms(1)] by (simp add: sys_inv_def)
  note del = mem_delete_live [OF inv assms(3)]
  have ch: "h_chans h' = wake (ss_waiters (h_store ?h ! r)) (h_chans ?h)" and cl: "ss_closed (h_store h' ! r)"
    using assms(2,3) mem_invD(1) [OF inv assms(2)] by (auto simp: mem_DeleteSession_def Let_def)
  from cl have "\<forall>sb. sub_ref sb = r \<longrightarrow> sub_pc (snd (sub_iterate None h' sb)) = Returned (ErrText ''session closed'')"
    by (simp add: sub_iterate_def Let_def)
  moreover have "h_chans h' ! w" if "i < length (sy_subs S)" "sub_ref (sy_subs S ! i) = r"
    "sub_pc (sy_subs S ! i) = Waiting w" for i w
    using waiting_woken [OF assms(1) that(1,3)] ch that(2) by simp
  ultimately show ?thesis
    using del mem_data_delete [OF del(3)] by simp blast
qed

theorem delete_ends_subscriptions_witness:
  "h_chans (fst (mem_DeleteSession None ''s'' (sy_host wit_waiting))) ! 0"
proof -
  obtain h' e where p: "mem_DeleteSession None ''s'' (sy_host wit_waiting) = (h', e)"
    by fastforce
  have "h_chans h' ! 0"
    using delete_ends_subscriptions [OF wit_waiting_reach _ p, of 0] by (simp add: wit_waiting_def wit_defs)
  with p show ?thesis by simp
qed


text \<open>A message given back by a failing handler may be left unannounced: there is a reachable
  state in which the only live subscriber waits, unsignalled, on a stream that holds a message after
  its cursor which nobody works on and nobody has acknowledged.\<close>

theorem released_message_unannounced:
  "\<exists>S w. mem_reach S \<and> sy_subs S ! 1 = wit_sub (-1) (Waiting w) \<and> length (sy_subs S) = 2
    \<and> (\<exists>e. sub_pc (sy_subs S ! 0) = Returned e)
    \<and> pending (h_store (sy_host S) ! 0) (-1) = [wit_msg] \<and> \<not> h_chans (sy_host S) ! w"
proof -
  let ?S1 = "wit_claimed\<lparr>sy_host := mem_New\<lparr>h_streams := [(''s'', 0)], h_chans := [False],
      h_store := [(claimed wit_msg wit_one)\<lparr>ss_waiters := [0]\<rparr>]\<rparr>,
    sy_subs := [wit_sub (-1) (Handling wit_msg), wit_sub (-1) (Waiting 0)]\<rparr>"
  let ?S2 = "wit_claimed\<lparr>sy_host := mem_New\<lparr>h_streams := [(''s'', 0)], h_chans := [False],
      h_store := [wit_one\<lparr>ss_waiters := [0]\<rparr>]\<rparr>,
    sy_subs := [wit_sub (-1) (Returned CtxCanceled), wit_sub (-1) (Waiting 0)]\<rparr>"
  have "mem_step wit_claimed ?S1"
    using mem_step.iterate [of 1 wit_claimed None]
    by (simp add: sub_iterate_def claimable_def mflag_def wit_defs)
  moreover have "mem_step ?S1 ?S2"
    using mem_step.handler_fails [of 0 ?S1 wit_msg CtxCanceled]
    by (simp add: sub_fail_def wit_defs)
  ultimately have "mem_reach ?S2"
    using wit_claimed_reach mem_reach.step by metis
  then show ?thesis
    by (intro exI [of _ ?S2] exI [of _ 0]) (simp add: pending_def claimable_def mflag_def wit_defs)
qed

end
