(* ===== verification/StreamingHttp.thy ===== *)
theory StreamingHttp
  imports HttpWire Auth EngineEvents MemoryDelivery
begin

section \<open>The streaming HTTP transport (streaminghttp/handler.go)\<close>

text \<open>
  One function per HTTP handler, from the request, the response writer, the engine and the session host
  to their states afterwards; \<open>None\<close> is a Go panic. The context of the request is asked for twice in a
  POST that carries a request: \<open>c\<close> is what it says while the request is handled, \<open>c'\<close> what it says when
  the response is written. Header names are the canonical ones. The package contenttype, which reads the
  media types of a request, is a parameter (\<open>http_lib\<close>), as is net/url's parsing and printing of URLs;
  \<open>render\<close> gives the bytes of a message. Log output is left out; the response
  writer that counts bytes for the log is in \<open>HttpServe\<close>.
\<close>

subsection \<open>Requests and the handler\<close>

record http_lib =
  hl_isJSON :: "string \<Rightarrow> bool"
  hl_acceptsSSE :: "string \<Rightarrow> bool"

record http_request =
  hr_Header :: "(string, string) gomap"
  hr_Body :: wire

definition hdr :: "http_request \<Rightarrow> string \<Rightarrow> string" where
  "hdr r k = get_header (hr_Header r) k"

definition lastEventIDHeader :: string where "lastEventIDHeader = ''Last-Event-Id''"
definition mcpSessionIDHeader :: string where "mcpSessionIDHeader = ''Mcp-Session-Id''"
definition mcpProtocolVersionHeader :: string where "mcpProtocolVersionHeader = ''Mcp-Protocol-Version''"
definition authorizationHeader :: string where "authorizationHeader = ''Authorization''"
definition wwwAuthenticateHeader :: string where "wwwAuthenticateHeader = ''Www-Authenticate''"

text \<open>\<open>auth.Authenticator\<close>: the user's identifier; \<open>Inr None\<close> is a nil \<open>UserInfo\<close> without an error.\<close>

type_synonym Authenticator = "ctx \<Rightarrow> string \<Rightarrow> go_error + string option"

record StreamingHTTPHandler =
  hd_prmDocument :: json
  hd_prmDocumentURL :: string
  hd_authServerMetadata :: json
  hd_auth :: "Authenticator option"
  hd_realm :: string
  hd_hintScopes :: "string list"

subsection \<open>Authentication\<close>

definition challenge :: "StreamingHTTPHandler \<Rightarrow> (string, string) gomap \<Rightarrow> int \<Rightarrow> ResponseWriter \<Rightarrow> ResponseWriter" where
  "challenge h params code w =
     WriteHeader code (set_header wwwAuthenticateHeader (buildBearerChallenge (hd_realm h) (hd_prmDocumentURL h) params) w)"

definition bearerPrefix :: string where "bearerPrefix = ''Bearer ''"

definition scope_param :: "StreamingHTTPHandler \<Rightarrow> (string, string) gomap" where
  "scope_param h = (if hd_hintScopes h \<noteq> [] then [(''scope'', Join (hd_hintScopes h) '' '')] else [])"

definition checkAuthentication :: "StreamingHTTPHandler \<Rightarrow> ctx \<Rightarrow> http_request \<Rightarrow> ResponseWriter \<Rightarrow>
    (ResponseWriter \<times> string option) option" where
  "checkAuthentication h c r w =
     (let authHeader = hdr r authorizationHeader in
      if authHeader = [] then Some (challenge h (scope_param h) 401 w, None)
      else if \<not> HasPrefix authHeader bearerPrefix \<or> length authHeader \<le> length bearerPrefix
        then Some (challenge h [(''error'', ''invalid_request''),
               (''error_description'', ''malformed bearer authorization header'')] 400 w, None)
      else let tok = TrimSpace (drop (length bearerPrefix) authHeader) in
      if tok = [] then Some (challenge h [(''error'', ''invalid_request''), (''error_description'', ''empty bearer token'')] 400 w, None)
      else case hd_auth h of
        None \<Rightarrow> None
      | Some a \<Rightarrow> (case a c tok of
            Inr ui \<Rightarrow> Some (w, ui)
          | Inl err \<Rightarrow>
              if errors_is err ErrUnauthorized
              then Some (challenge h [(''error'', ''invalid_token''), (''error_description'', error_text err)] 401 w, None)
              else if errors_is err ErrInsufficientScope
              then Some (challenge h ([(''error'', ''insufficient_scope''), (''error_description'', error_text err)] @ scope_param h) 403 w, None)
              else Some (WriteHeader 500 w, None)))"

subsection \<open>DELETE\<close>

definition version_mismatch :: "http_request \<Rightarrow> SessionHandle \<Rightarrow> bool" where
  "version_mismatch r sess \<longleftrightarrow> (let pv = hdr r mcpProtocolVersionHeader; spv = sh_serverProtocolVersion sess
     in pv \<noteq> [] \<and> spv \<noteq> [] \<and> pv \<noteq> spv)"

definition advertise_version :: "SessionHandle \<Rightarrow> ResponseWriter \<Rightarrow> ResponseWriter" where
  "advertise_version sess w = (let spv = sh_serverProtocolVersion sess
     in if spv \<noteq> [] then set_header mcpProtocolVersionHeader spv w else w)"

type_synonym 'h outcome = "(ResponseWriter \<times> Engine \<times> 'h) option"

definition handleDeleteMCP :: "'h SessionHost \<Rightarrow> ServerCaps \<Rightarrow> StreamingHTTPHandler \<Rightarrow> ctx \<Rightarrow> time \<Rightarrow> http_request \<Rightarrow>
    ResponseWriter \<Rightarrow> Engine \<Rightarrow> 'h \<Rightarrow> 'h outcome" where
  "handleDeleteMCP ops srv hh c now r w e h = (case checkAuthentication hh c r w of
       None \<Rightarrow> None
     | Some (w1, None) \<Rightarrow> Some (w1, e, h)
     | Some (w1, Some user) \<Rightarrow>
         (let sessID = hdr r mcpSessionIDHeader in
          if sessID = [] then Some (WriteHeader 400 w1, e, h)
          else case LoadSession ops srv c now sessID user False e h of
            (e1, h1, Inl err) \<Rightarrow>
              if errors_is err ErrSessionNotFound then Some (WriteHeader 404 w1, e1, h1) else Some (WriteHeader 500 w1, e1, h1)
          | (e1, h1, Inr sess) \<Rightarrow>
              if version_mismatch r sess then Some (WriteHeader 400 w1, e1, h1)
              else (case eng_DeleteSession ops c sess e1 h1 of
                  (e2, h2, Some err) \<Rightarrow>
                    if errors_is err ErrSessionNotFound then Some (WriteHeader 404 w1, e2, h2) else Some (WriteHeader 500 w1, e2, h2)
                | (e2, h2, None) \<Rightarrow> Some (WriteHeader 204 (advertise_version sess w1), e2, h2))))"

subsection \<open>POST\<close>

definition post_initialize :: "'h SessionHost \<Rightarrow> ServerCaps \<Rightarrow> ctx \<Rightarrow> string \<Rightarrow> time \<Rightarrow> string \<Rightarrow> AnyMessage \<Rightarrow>
    ResponseWriter \<Rightarrow> Engine \<Rightarrow> 'h \<Rightarrow> ResponseWriter \<times> Engine \<times> 'h" where
  "post_initialize ops srv c uuid now user msg w e h = (case AsRequest msg of
       None \<Rightarrow> (writeJSONError 404 ''expected initialize request'' w, e, h)
     | Some req \<Rightarrow>
         if req_Method req \<noteq> InitializeMethod then (writeJSONError 404 ''expected initialize request'' w, e, h)
         else case dec_InitializeRequest (raw_wire (req_Params req)) of
           None \<Rightarrow> (writeJSONError 400 ''invalid initialize params'' w, e, h)
         | Some initReq \<Rightarrow>
             (case InitializeSession ops srv e c uuid now user (Some initReq) h of
                (h1, Inl err) \<Rightarrow>
                  if errors_is err ErrInvalidProtocolVersion then (writeJSONError 400 ''invalid initialize params'' w, e, h1)
                  else (writeJSONError 500 ''failed to initialize session'' w, e, h1)
              | (h1, Inr (sess, initRes)) \<Rightarrow>
                  (case NewResultResponse (req_ID req) (Some (enc_InitializeResult initRes)) of
                     Inl err \<Rightarrow> (writeJSONError 500 ''failed to encode initialize response'' w, e, h1)
                   | Inr resp \<Rightarrow>
                       (let w1 = set_header mcpSessionIDHeader (sh_sessionID sess) w;
                            v = irs_ProtocolVersion initRes;
                            w2 = (if v \<noteq> [] then set_header mcpProtocolVersionHeader v w1 else w1);
                            w3 = WriteHeader 200 (set_header ''Content-Type'' jsonMediaType w2);
                            w4 = (case marshal_response resp of None \<Rightarrow> w3 | Some j \<Rightarrow> fst (rw_Write (json_text j @ [LF]) w3))
                        in (w4, e, h1)))))"

text \<open>The writer of a POST: straight to the client, and through the session's stream when that fails.\<close>

definition post_writer :: "'h SessionHost \<Rightarrow> (wire \<Rightarrow> string) \<Rightarrow> ctx \<Rightarrow> string \<Rightarrow> string \<Rightarrow> wire \<Rightarrow> ResponseWriter \<Rightarrow> 'h \<Rightarrow>
    ResponseWriter \<times> 'h \<times> go_error option" where
  "post_writer ops render c sessID user msg w h = (case WriteMessageID c [] (render msg) w of
       (w1, None) \<Rightarrow> (w1, h, None)
     | (w1, Some err) \<Rightarrow> (case PublishToSession ops render c sessID user msg h of
           (h1, Inl pubErr) \<Rightarrow> (w1, h1, Some (ErrText (''direct write failed: '' @ error_text err @
              ''; fallback publish failed: '' @ error_text pubErr)))
         | (h1, Inr _) \<Rightarrow> (w1, h1, None)))"

definition stream_headers :: "SessionHandle \<Rightarrow> ResponseWriter \<Rightarrow> ResponseWriter" where
  "stream_headers sess w =
     WriteHeader 200 (set_header ''X-Accel-Buffering'' ''no'' (set_header ''Connection'' ''keep-alive''
       (set_header ''Cache-Control'' ''no-cache'' (set_header ''Content-Type'' eventStreamMediaType (advertise_version sess w)))))"

definition internal_error_response :: "Request \<Rightarrow> Response" where
  "internal_error_response req = \<lparr>res_JSONRPCVersion = ProtocolVersion, res_Result = None,
     res_Error = Some \<lparr>err_Code = ErrorCodeInternalError, err_Message = ''internal server error'', err_Data = None\<rparr>, res_ID = req_ID req\<rparr>"

definition post_request :: "'h SessionHost \<Rightarrow> ServerCaps \<Rightarrow> http_lib \<Rightarrow> (wire \<Rightarrow> string) \<Rightarrow> ctx \<Rightarrow> ctx \<Rightarrow> http_request \<Rightarrow> string \<Rightarrow>
    SessionHandle \<Rightarrow> Request \<Rightarrow> ResponseWriter \<Rightarrow> Engine \<Rightarrow> 'h \<Rightarrow> 'h outcome" where
  "post_request ops srv lib render c c' r user sess req w e h =
     (let acc = hdr r ''Accept'' in
      if acc \<noteq> [] \<and> \<not> hl_acceptsSSE lib acc then Some (WriteHeader 415 w, e, h)
      else let w1 = stream_headers sess w in
      case HandleRequest ops srv c sess req e h of
        None \<Rightarrow> None
      | Some (e1, h1, out) \<Rightarrow>
          (let res = (case out of Inl err \<Rightarrow> internal_error_response req | Inr res \<Rightarrow> res) in
           case marshal_response res of
             None \<Rightarrow> Some (w1, e1, h1)
           | Some b \<Rightarrow> (case post_writer ops render c' (hdr r mcpSessionIDHeader) user (Doc b) w1 h1 of
                 (w2, h2, _) \<Rightarrow> Some (w2, e1, h2))))"

definition post_session :: "'h SessionHost \<Rightarrow> ServerCaps \<Rightarrow> http_lib \<Rightarrow> (wire \<Rightarrow> string) \<Rightarrow> ctx \<Rightarrow> ctx \<Rightarrow> time \<Rightarrow> http_request \<Rightarrow> string \<Rightarrow>
    AnyMessage \<Rightarrow> ResponseWriter \<Rightarrow> Engine \<Rightarrow> 'h \<Rightarrow> 'h outcome" where
  "post_session ops srv lib render c c' now r user msg w e h =
     (case LoadSession ops srv c now (hdr r mcpSessionIDHeader) user True e h of
        (e1, h1, Inl err) \<Rightarrow>
          if errors_is err ErrSessionNotFound then Some (writeJSONError 404 ''session not found'' w, e1, h1)
          else Some (writeJSONError 500 ''failed to load session'' w, e1, h1)
      | (e1, h1, Inr sess) \<Rightarrow>
          (case AsRequest msg of
             Some req \<Rightarrow>
               if req_Method req = ''initialize'' then Some (writeJSONError 409 ''session already initialized'' w, e1, h1)
               else if version_mismatch r sess then Some (writeJSONError 400 ''protocol version mismatch'' w, e1, h1)
               else if id_IsNil (req_ID req) then
                 (case HandleNotification ops e1 c now sess req h1 of
                    (h2, Some err) \<Rightarrow> Some (WriteHeader 500 w, e1, h2)
                  | (h2, None) \<Rightarrow> Some (WriteHeader 202 (advertise_version sess w), e1, h2))
               else post_request ops srv lib render c c' r user sess req w e1 h1
           | None \<Rightarrow>
               if version_mismatch r sess then Some (writeJSONError 400 ''protocol version mismatch'' w, e1, h1)
               else (case AsResponse msg of
                   None \<Rightarrow> Some (w, e1, h1)
                 | Some res \<Rightarrow> (case HandleClientResponse ops c sess (Some res) h1 of
                       (h2, Some err) \<Rightarrow>
                         if errors_is err ErrSessionNotFound then Some (WriteHeader 404 w, e1, h2) else Some (WriteHeader 500 w, e1, h2)
                     | (h2, None) \<Rightarrow> Some (WriteHeader 202 (advertise_version sess w), e1, h2)))))"

text \<open>The text of an \<open>UnmarshalJSON\<close> error; what \<open>encoding/json\<close> adds about the position is left out.\<close>

fun unmarshal_text :: "unmarshal_error \<Rightarrow> string" where
  "unmarshal_text InvalidJSON = ''invalid JSON''"
| "unmarshal_text (InvalidVersion v) = ''invalid JSON-RPC version: expected '' @ quoted ''2.0'' @ '', got '' @ quoted v"
| "unmarshal_text RequestWithResultOrError = ''request message cannot have result or error fields''"
| "unmarshal_text ResponseWithBoth = ''response message cannot have both result and error fields''"
| "unmarshal_text ResponseWithNeither = ''response message must have either result or error field''"

definition post_message :: "'h SessionHost \<Rightarrow> ServerCaps \<Rightarrow> http_lib \<Rightarrow> (wire \<Rightarrow> string) \<Rightarrow> ctx \<Rightarrow> ctx \<Rightarrow> string \<Rightarrow> time \<Rightarrow> http_request \<Rightarrow>
    string \<Rightarrow> json \<Rightarrow> ResponseWriter \<Rightarrow> Engine \<Rightarrow> 'h \<Rightarrow> 'h outcome" where
  "post_message ops srv lib render c c' uuid now r user j w e h = (case UnmarshalJSON (Doc j) of
       Inl err \<Rightarrow> Some (writeJSONError 400 (''invalid JSON-RPC message: '' @ unmarshal_text err) w, e, h)
     | Inr msg \<Rightarrow>
         if hdr r mcpSessionIDHeader = [] then Some (post_initialize ops srv c uuid now user msg w e h)
         else post_session ops srv lib render c c' now r user msg w e h)"

definition is_array :: "json \<Rightarrow> bool" where
  "is_array j = (case j of JArr _ \<Rightarrow> True | _ \<Rightarrow> False)"

definition handlePostMCP :: "'h SessionHost \<Rightarrow> ServerCaps \<Rightarrow> http_lib \<Rightarrow> (wire \<Rightarrow> string) \<Rightarrow> StreamingHTTPHandler \<Rightarrow> ctx \<Rightarrow> ctx \<Rightarrow>
    string \<Rightarrow> time \<Rightarrow> http_request \<Rightarrow> ResponseWriter \<Rightarrow> Engine \<Rightarrow> 'h \<Rightarrow> 'h outcome" where
  "handlePostMCP ops srv lib render hh c c' uuid now r w e h =
     (if \<not> hl_isJSON lib (hdr r ''Content-Type'') then Some (writeJSONError 415 ''content-type must be application/json'' w, e, h)
      else if \<not> rw_flusher w then Some (WriteHeader 500 w, e, h)
      else case checkAuthentication hh c r w of
        None \<Rightarrow> None
      | Some (w1, None) \<Rightarrow> Some (w1, e, h)
      | Some (w1, Some user) \<Rightarrow> (case hr_Body r of
            Garbage \<Rightarrow> Some (writeJSONError 400 ''invalid JSON body'' w1, e, h)
          | Doc j \<Rightarrow>
              if is_array j
              then Some (writeJSONError 400 ''JSON-RPC batch arrays are forbidden on streaming HTTP transport'' w1, e, h)
              else post_message ops srv lib render c c' uuid now r user j w1 e h))"

subsection \<open>GET\<close>

text \<open>Up to the subscription; the last component is the session to subscribe to and the event to resume from.\<close>

definition get_begin :: "'h SessionHost \<Rightarrow> ServerCaps \<Rightarrow> http_lib \<Rightarrow> StreamingHTTPHandler \<Rightarrow> ctx \<Rightarrow> time \<Rightarrow> http_request \<Rightarrow>
    ResponseWriter \<Rightarrow> Engine \<Rightarrow> 'h \<Rightarrow> (ResponseWriter \<times> Engine \<times> 'h \<times> (string \<times> string) option) option" where
  "get_begin ops srv lib hh c now r w e h =
     (if \<not> hl_acceptsSSE lib (hdr r ''Accept'') then Some (WriteHeader 415 w, e, h, None)
      else if \<not> rw_flusher w then Some (WriteHeader 500 w, e, h, None)
      else case checkAuthentication hh c r w of
        None \<Rightarrow> None
      | Some (w1, None) \<Rightarrow> Some (w1, e, h, None)
      | Some (w1, Some user) \<Rightarrow>
          (let sessionHeader = hdr r mcpSessionIDHeader in
           if sessionHeader = [] then Some (WriteHeader 400 w1, e, h, None)
           else case LoadSession ops srv c now sessionHeader user False e h of
             (e1, h1, Inl err) \<Rightarrow>
               if errors_is err ErrSessionNotFound then Some (WriteHeader 404 w1, e1, h1, None)
               else Some (WriteHeader 500 w1, e1, h1, None)
           | (e1, h1, Inr sess) \<Rightarrow>
               if version_mismatch r sess then Some (WriteHeader 400 w1, e1, h1, None)
               else Some (stream_headers sess w1, e1, h1, Some (sh_sessionID sess, hdr r lastEventIDHeader))))"

text \<open>The handler that is given each message: it frames it with its identifier.\<close>

definition get_deliver :: "(wire \<Rightarrow> string) \<Rightarrow> ctx \<Rightarrow> message \<Rightarrow> ResponseWriter \<Rightarrow> ResponseWriter \<times> go_error option" where
  "get_deliver render c m w = WriteMessageID c (msg_id m) (render (msg_data m)) w"

text \<open>\<open>SubscribeSession\<close> of the in-memory host with a handler that has a state, up to the point where it
  waits for more messages or returns; the fuel is the number of messages it may deliver.\<close>

fun stream_run :: "nat \<Rightarrow> (message \<Rightarrow> 'w \<Rightarrow> 'w \<times> go_error option) \<Rightarrow> 'w \<Rightarrow> Host \<Rightarrow> subscriber \<Rightarrow> ('w \<times> Host \<times> subscriber) option" where
  "stream_run 0 handler w h sb = None"
| "stream_run (Suc n) handler w h sb =
     (let (h1, sb1) = sub_iterate None h sb in
      case sub_pc sb1 of
        Handling m \<Rightarrow> (case handler m w of
            (w1, None) \<Rightarrow> (let (h2, sb2) = sub_ack m h1 sb1 in stream_run n handler w1 h2 sb2)
          | (w1, Some e) \<Rightarrow> (let (h2, sb2) = sub_fail e m h1 sb1 in Some (w1, h2, sb2)))
      | _ \<Rightarrow> Some (w, h1, sb1))"

definition handleGetMCP :: "nat \<Rightarrow> ServerCaps \<Rightarrow> http_lib \<Rightarrow> (wire \<Rightarrow> string) \<Rightarrow> StreamingHTTPHandler \<Rightarrow> ctx \<Rightarrow> ctx \<Rightarrow> time \<Rightarrow> http_request \<Rightarrow>
    ResponseWriter \<Rightarrow> Engine \<Rightarrow> Host \<Rightarrow> Host outcome" where
  "handleGetMCP fuel srv lib render hh c c' now r w e h = (case get_begin memory_host srv lib hh c now r w e h of
       None \<Rightarrow> None
     | Some (w1, e1, h1, None) \<Rightarrow> Some (w1, e1, h1)
     | Some (w1, e1, h1, Some (sid, lastEventID)) \<Rightarrow>
         (let (h2, sb) = subscribe_start sid lastEventID h1 in
          map_option (\<lambda>(w2, h3, _). (w2, e1, h3)) (stream_run fuel (get_deliver render c') w1 h2 sb)))"

subsection \<open>Progress\<close>

text \<open>A float64 is its JSON literal: an integer, or the text of a number that is not zero.\<close>

definition positive :: "json \<Rightarrow> bool" where
  "positive j = (case j of JInt n \<Rightarrow> n > 0 | JFlt s \<Rightarrow> \<not> HasPrefix s ''-'' | _ \<Rightarrow> False)"

definition progress_note :: "string \<Rightarrow> json \<Rightarrow> json \<Rightarrow> Request" where
  "progress_note requestID progress tot = \<lparr>req_JSONRPCVersion = ProtocolVersion, req_Method = ProgressNotificationMethod,
     req_Params = Some (JObj ([(''progressToken'', JStr requestID), (''progress'', progress)] @
       (if positive tot then [(''total'', tot)] else []))), req_ID = None\<rparr>"

definition Report :: "ctx \<Rightarrow> string \<Rightarrow> json \<Rightarrow> json \<Rightarrow> ResponseWriter \<Rightarrow> ResponseWriter \<times> go_error option" where
  "Report c requestID progress tot w = (case marshal_request (progress_note requestID progress tot) of
       None \<Rightarrow> (w, Some (ErrText ''marshal''))
     | Some j \<Rightarrow> WriteMessageID c [] (json_text j) w)"

subsection \<open>Discovery documents\<close>

record ProtectedResourceMetadata =
  prm_Resource :: string
  prm_AuthorizationServers :: "string list"
  prm_JwksURI :: string
  prm_ScopesSupported :: "string list"
  prm_BearerMethodsSupported :: "string list"
  prm_ResourceName :: string
  prm_ResourceDocumentation :: string
  prm_ResourcePolicyURI :: string
  prm_ResourceTosURI :: string
  prm_AuthorizationDetailsTypesSupported :: "string list"

record AuthServerMetadata =
  asm_Issuer :: string
  asm_JwksURI :: string
  asm_Extra :: OIDCExtra

definition strs_nz :: "string \<Rightarrow> string list \<Rightarrow> (string \<times> json) list" where
  "strs_nz k xs = (if xs = [] then [] else [(k, JArr (map JStr xs))])"

text \<open>The fields \<open>New\<close> never sets are empty, and left out of the document.\<close>

definition enc_PRM :: "ProtectedResourceMetadata \<Rightarrow> json" where
  "enc_PRM d = JObj ([(''resource'', JStr (prm_Resource d))] @ strs_nz ''authorization_servers'' (prm_AuthorizationServers d) @
     str_nz ''jwks_uri'' (prm_JwksURI d) @ strs_nz ''scopes_supported'' (prm_ScopesSupported d) @
     strs_nz ''bearer_methods_supported'' (prm_BearerMethodsSupported d) @ str_nz ''resource_name'' (prm_ResourceName d) @
     str_nz ''resource_documentation'' (prm_ResourceDocumentation d) @ str_nz ''resource_policy_uri'' (prm_ResourcePolicyURI d) @
     str_nz ''resource_tos_uri'' (prm_ResourceTosURI d) @
     strs_nz ''authorization_details_types_supported'' (prm_AuthorizationDetailsTypesSupported d))"

definition enc_ASM :: "AuthServerMetadata \<Rightarrow> json" where
  "enc_ASM d = (let o' = asm_Extra d in
     JObj ([(''issuer'', JStr (asm_Issuer d)),
       (''response_types_supported'', if ox_ResponseTypesSupported o' = [] then JNull else JArr (map JStr (ox_ResponseTypesSupported o')))] @
     str_nz ''authorization_endpoint'' (ox_AuthorizationEndpoint o') @ str_nz ''token_endpoint'' (ox_TokenEndpoint o') @
     str_nz ''jwks_uri'' (asm_JwksURI d) @ str_nz ''registration_endpoint'' (ox_RegistrationEndpoint o') @
     strs_nz ''scopes_supported'' (ox_ScopesSupported o') @ strs_nz ''response_modes_supported'' (ox_ResponseModesSupported o') @
     strs_nz ''grant_types_supported'' (ox_GrantTypesSupported o') @
     strs_nz ''token_endpoint_auth_methods_supported'' (ox_TokenEndpointAuthMethodsSupported o') @
     strs_nz ''token_endpoint_auth_signing_alg_values_supported'' (ox_TokenEndpointAuthSigningAlgValuesSupported o') @
     str_nz ''service_documentation'' (ox_ServiceDocumentation o') @ str_nz ''op_policy_uri'' (ox_OpPolicyURI o') @
     str_nz ''op_tos_uri'' (ox_OpTosURI o') @ strs_nz ''code_challenge_methods_supported'' (ox_CodeChallengeMethodsSupported o')))"

definition http_Error :: "string \<Rightarrow> int \<Rightarrow> ResponseWriter \<Rightarrow> ResponseWriter" where
  "http_Error msg code w = fst (rw_Write (msg @ [LF]) (WriteHeader code
     (set_header ''X-Content-Type-Options'' ''nosniff'' (set_header ''Content-Type'' ''text/plain; charset=utf-8'' w))))"

definition handleOptionsMetadata :: "ResponseWriter \<Rightarrow> ResponseWriter" where
  "handleOptionsMetadata w = WriteHeader 204 (set_header ''Access-Control-Max-Age'' ''600''
     (set_header ''Access-Control-Allow-Headers'' ''Content-Type, Accept, Authorization''
       (set_header ''Access-Control-Allow-Methods'' ''GET, OPTIONS'' (set_header ''Access-Control-Allow-Origin'' ''*'' w))))"

definition serve_document :: "string \<Rightarrow> json \<Rightarrow> ResponseWriter \<Rightarrow> ResponseWriter" where
  "serve_document what doc w =
     (case rw_Write (json_text doc @ [LF]) (set_header ''Content-Type'' ''application/json''
        (set_header ''Vary'' ''Origin'' (set_header ''Access-Control-Allow-Origin'' ''*'' w))) of
        (w1, True) \<Rightarrow> w1
      | (w1, False) \<Rightarrow> http_Error (''failed to encode '' @ what @ '' metadata'') 500 w1)"

definition handleGetProtectedResourceMetadata :: "StreamingHTTPHandler \<Rightarrow> ResponseWriter \<Rightarrow> ResponseWriter" where
  "handleGetProtectedResourceMetadata hh w = serve_document ''protected resource'' (hd_prmDocument hh) w"

definition handleGetAuthorizationServerMetadata :: "StreamingHTTPHandler \<Rightarrow> ResponseWriter \<Rightarrow> ResponseWriter" where
  "handleGetAuthorizationServerMetadata hh w = serve_document ''authorization server'' (hd_authServerMetadata hh) w"

subsection \<open>Construction\<close>

record URL =
  url_Scheme :: string
  url_Host :: string
  url_Path :: string
  url_Rest :: string       \<comment> \<open>user, query and fragment\<close>

record url_lib =
  ul_Parse :: "string \<Rightarrow> go_error + URL"
  ul_String :: "URL \<Rightarrow> string"

record newConfig =
  nc_serverName :: string
  nc_securityConfig :: "SecurityConfig option"
  nc_realm :: string

type_synonym http_Option = "newConfig \<Rightarrow> newConfig"

definition WithServerName :: "string \<Rightarrow> http_Option" where
  "WithServerName n c = c\<lparr>nc_serverName := n\<rparr>"

definition WithSecurityConfig :: "SecurityConfig \<Rightarrow> http_Option" where
  "WithSecurityConfig sc c = c\<lparr>nc_securityConfig := Some sc\<rparr>"

definition WithRealm :: "string \<Rightarrow> http_Option" where
  "WithRealm r c = c\<lparr>nc_realm := TrimSpace r\<rparr>"

datatype route = PostMCP | GetMCP | DeleteMCP | GetPRM | OptionsPRM | GetASM | OptionsASM

definition pathOnly :: "URL \<Rightarrow> string" where
  "pathOnly u = (if url_Path u = [] then ''/'' else url_Path u)"

definition prm_url :: "URL \<Rightarrow> URL" where
  "prm_url u = \<lparr>url_Scheme = url_Scheme u, url_Host = url_Host u,
     url_Path = ''/.well-known/oauth-protected-resource'' @ url_Path u, url_Rest = []\<rparr>"

definition as_url :: "URL \<Rightarrow> URL" where
  "as_url u = \<lparr>url_Scheme = url_Scheme u, url_Host = url_Host u, url_Path = ''/.well-known/oauth-authorization-server'', url_Rest = []\<rparr>"

text \<open>The patterns registered with the \<open>ServeMux\<close>, which panics when one is registered twice.\<close>

definition routes :: "URL \<Rightarrow> (string \<times> route) list" where
  "routes u =
     (let p = pathOnly u; prmPath = pathOnly (prm_url u); asPath = pathOnly (as_url u);
          base = (if HasSuffix prmPath ''/'' then TrimSuffix prmPath ''/'' else prmPath)
      in [(''POST '' @ p, PostMCP), (''GET '' @ p, GetMCP), (''DELETE '' @ p, DeleteMCP),
          (''GET '' @ base, GetPRM), (''OPTIONS '' @ base, OptionsPRM),
          (''GET '' @ base @ ''/'', GetPRM), (''OPTIONS '' @ base @ ''/'', OptionsPRM),
          (''GET '' @ asPath, GetASM), (''OPTIONS '' @ asPath, OptionsASM)] @
         (if \<not> HasSuffix asPath ''/'' then [(''GET '' @ asPath @ ''/'', GetASM), (''OPTIONS '' @ asPath @ ''/'', OptionsASM)] else []))"

definition prm_zero :: ProtectedResourceMetadata where
  "prm_zero = \<lparr>prm_Resource = [], prm_AuthorizationServers = [], prm_JwksURI = [], prm_ScopesSupported = [],
     prm_BearerMethodsSupported = [], prm_ResourceName = [], prm_ResourceDocumentation = [], prm_ResourcePolicyURI = [],
     prm_ResourceTosURI = [], prm_AuthorizationDetailsTypesSupported = []\<rparr>"

definition advertised :: "url_lib \<Rightarrow> URL \<Rightarrow> string \<Rightarrow> SecurityConfig option \<Rightarrow> ProtectedResourceMetadata \<times> AuthServerMetadata" where
  "advertised ul u serverName resolved = (case resolved of
       Some sc \<Rightarrow>
         if sec_Advertise sc then
           (let o' = (case sec_OIDC sc of None \<Rightarrow> oidc_zero | Some x \<Rightarrow> x) in
            (\<lparr>prm_Resource = ul_String ul u, prm_AuthorizationServers = [sec_Issuer sc], prm_JwksURI = sec_JWKSURL sc,
              prm_ScopesSupported = ox_ScopesSupported o', prm_BearerMethodsSupported = [''authorization_header''],
              prm_ResourceName = serverName, prm_ResourceDocumentation = ox_ServiceDocumentation o',
              prm_ResourcePolicyURI = ox_OpPolicyURI o', prm_ResourceTosURI = ox_OpTosURI o',
              prm_AuthorizationDetailsTypesSupported = [''urn:ietf:params:oauth:authorization-details'']\<rparr>,
             \<lparr>asm_Issuer = sec_Issuer sc, asm_JwksURI = sec_JWKSURL sc, asm_Extra = o'\<rparr>))
         else (prm_zero, \<lparr>asm_Issuer = [], asm_JwksURI = [], asm_Extra = oidc_zero\<rparr>)
     | None \<Rightarrow> (prm_zero, \<lparr>asm_Issuer = [], asm_JwksURI = [], asm_Extra = oidc_zero\<rparr>))"

text \<open>An authenticator may also describe its configuration (\<open>auth.SecurityDescriptor\<close>).\<close>

definition http_New :: "url_lib \<Rightarrow> string \<Rightarrow> bool \<Rightarrow> bool \<Rightarrow> (Authenticator \<times> SecurityConfig option) option \<Rightarrow> http_Option list \<Rightarrow>
    go_error + StreamingHTTPHandler \<times> (string \<times> route) list" where
  "http_New ul publicEndpoint has_host has_server authenticator opts =
     (if \<not> has_server then Inl (ErrText ''server is required'')
      else if \<not> has_host then Inl (ErrText ''SessionHost is required'')
      else case ul_Parse ul publicEndpoint of
        Inl err \<Rightarrow> Inl (Wrapped (''invalid server URL '' @ quoted publicEndpoint) err)
      | Inr u \<Rightarrow>
          if url_Scheme u \<noteq> ''https'' \<and> url_Scheme u \<noteq> ''http''
          then Inl (ErrText (''server URL must use HTTP or HTTPS scheme, got '' @ quoted (url_Scheme u)))
          else let cfg = foldl (\<lambda>c opt. opt c) \<lparr>nc_serverName = [], nc_securityConfig = None, nc_realm = []\<rparr> opts;
                   resolved = (case nc_securityConfig cfg of Some sc \<Rightarrow> Some sc
                     | None \<Rightarrow> (case authenticator of None \<Rightarrow> None | Some (_, desc) \<Rightarrow> desc))
               in if resolved = None \<and> authenticator = None
                  then Inl (ErrText ''either authenticator or WithSecurityConfig required'')
                  else let (prm, asm) = advertised ul u (nc_serverName cfg) resolved
                  in Inr (\<lparr>hd_prmDocument = enc_PRM prm, hd_prmDocumentURL = ul_String ul (prm_url u),
                       hd_authServerMetadata = enc_ASM asm, hd_auth = map_option fst authenticator, hd_realm = nc_realm cfg,
                       hd_hintScopes = (case resolved of None \<Rightarrow> [] | Some sc \<Rightarrow> sec_HintScopes sc)\<rparr>, routes u))"

end
