(* ===== verification/HttpSessions.thy ===== *)
theory HttpSessions
  imports StreamingHttp
begin

section \<open>Sessions over HTTP\<close>

text \<open>
  What the HTTP transport and the engine guarantee together: a session changes only by requests that were
  authenticated as its user, every POST is answered, a request gets its response as one event, and a GET
  resumes the session's stream.
\<close>

subsection \<open>Who may change a session\<close>

lemma checkAuthentication_user:
  assumes "checkAuthentication hh c r w = Some (w1, Some user)"
  shows "w1 = w \<and> (\<exists>a tok. hd_auth hh = Some a \<and> a c tok = Inr (Some user))"
  using assms by (auto simp: checkAuthentication_def Let_def split: if_splits option.splits sum.splits)

context session_host
begin

definition leaves :: "string \<Rightarrow> 'h \<Rightarrow> 'h \<Rightarrow> bool" where
  "leaves sid h h' \<longleftrightarrow> metas h' sid = metas h sid \<and> data h' sid = data h sid \<and> stream h' sid = stream h sid"

lemma leaves_refl [simp]: "leaves sid h h"
  by (simp add: leaves_def)

lemma leaves_trans: "leaves sid h h1 \<Longrightarrow> leaves sid h1 h2 \<Longrightarrow> leaves sid h h2"
  by (simp add: leaves_def)

lemma leaves_event: "PublishEvent ops c t ev h = (h', r) \<Longrightarrow> leaves sid h h'"
  by (cases c) (auto simp: leaves_def event_cancelled dest: event_live)

lemma leaves_event_fst: "leaves sid h (fst (PublishEvent ops c t ev h))"
  by (metis leaves_event prod.collapse)

lemma leaves_publish: "invar h \<Longrightarrow> s \<noteq> sid \<Longrightarrow> PublishSession ops c s w h = (h', r) \<Longrightarrow> leaves sid h h'"
  by (cases c) (auto simp: leaves_def publish_cancelled dest: publish_live)

lemma leaves_touch:
  assumes "invar h" and "s \<noteq> sid" and "metas h s \<noteq> None" and "TouchSession ops c now s h = (h', r)"
  shows "leaves sid h h'"
  using assms by (cases c) (auto simp: leaves_def touch_cancelled dest: touch_live)

lemma leaves_delete: "invar h \<Longrightarrow> s \<noteq> sid \<Longrightarrow> DeleteSession ops c s h = (h', r) \<Longrightarrow> leaves sid h h'"
  by (cases c) (auto simp: leaves_def delete_cancelled dest: delete_live)

lemma leaves_mutate:
  assumes "invar h" and "s \<noteq> sid" and "\<And>m. snd (fn m) = None" and "MutateSession ops c now s fn h = (h', r)"
  shows "leaves sid h h'"
proof (cases c)
  case None
  show ?thesis
  proof (cases "metas h s")
    case None
    with assms \<open>c = None\<close> show ?thesis by (simp add: mutate_missing)
  next
    case (Some m)
    have "fn m = (fst (fn m), None)" using assms(3) by (metis prod.collapse)
    from mutate_live [where fn = fn, OF assms(1) Some this, of now h' r] assms(2,4) \<open>c = None\<close> show ?thesis
      by (simp add: leaves_def)
  qed
qed (use assms mutate_cancelled in simp)

lemma leaves_load:
  assumes "invar h" and "LoadSession ops srv c now s u b e h = (e', h', res)"
  shows "invar h' \<and> (s \<noteq> sid \<longrightarrow> leaves sid h h') \<and>
    (case res of Inl _ \<Rightarrow> h' = h | Inr sess \<Rightarrow> (\<exists>m. metas h s = Some m \<and> sm_UserID m = u \<and> sh_sessionID sess = sm_SessionID m))"
proof (cases c)
  case None
  note load = load_session_iff [OF assms(1) assms(2) [unfolded None]]
  show ?thesis
  proof (cases res)
    case (Inl err)
    with load have "h' = h" by auto
    with Inl assms(1) show ?thesis by simp
  next
    case (Inr sess)
    with load obtain m where "metas h s = Some m" "sm_UserID m = u" "sh_sessionID sess = sm_SessionID m"
        "metas h' = (metas h)(s \<mapsto> touch_meta now m)" "data h' = data h" "stream h' = stream h" "invar h'"
      by auto
    with Inr show ?thesis by (simp add: leaves_def)
  qed
next
  case (Some err)
  with assms show ?thesis by (auto simp: LoadSession_def get_cancelled)
qed

lemma leaves_delete_session:
  assumes "invar h" and "sh_sessionID sess \<noteq> sid" and "eng_DeleteSession ops c sess e h = (e', h', r)"
  shows "leaves sid h h'"
proof -
  obtain h1 r1 ev where p: "PublishEvent ops (without_cancel c) sessionFanoutTopic ev h = (h1, r1)"
      "\<not> (r1 = None \<and> h' \<noteq> fst (DeleteSession ops c (sh_sessionID sess) h1))" "r1 \<noteq> None \<longrightarrow> h' = h1"
    using assms(3) by (auto simp: eng_DeleteSession_def Let_def split: prod.splits option.splits)
  have "invar h1" using invar_event [OF assms(1)] p(1) by (metis fst_conv)
  obtain h2 r2 where d: "DeleteSession ops c (sh_sessionID sess) h1 = (h2, r2)" by fastforce
  have "leaves sid h1 h2" using leaves_delete [OF \<open>invar h1\<close> assms(2) d] .
  with p d leaves_event [OF p(1), of sid] show ?thesis
    by (cases r1) (auto intro: leaves_trans)
qed

lemma leaves_notification:
  assumes "invar h" and "sh_sessionID sess \<noteq> sid" and "HandleNotification ops e c now sess note h = (h', r)"
  shows "leaves sid h h'"
proof (cases "req_Method note = InitializedNotificationMethod")
  case True
  obtain h1 r1 where m: "MutateSession ops c now (sh_sessionID sess) (open_session e now (sh_userID sess)) h = (h1, r1)"
    by fastforce
  have "snd (open_session e now (sh_userID sess) m) = None" for m
    by (simp add: open_session_def)
  from leaves_mutate [OF assms(1,2) this m] True m assms(3) show ?thesis
    by (simp add: HandleNotification_def)
next
  case False
  with assms(3) show ?thesis
    by (auto simp: HandleNotification_def dest: leaves_event split: option.splits prod.splits)
qed

lemma leaves_response:
  "HandleClientResponse ops c sess res h = (h', r) \<Longrightarrow> leaves sid h h'"
  by (auto simp: HandleClientResponse_def dest: leaves_event split: option.splits prod.splits if_splits)

lemma leaves_unsubscribe: "handleResourcesUnsubscribe ops c sess req h = (h', r) \<Longrightarrow> leaves sid h h' \<and> (invar h \<longrightarrow> invar h')"
  by (auto simp: handleResourcesUnsubscribe_def Let_def leaves_event_fst invar_event split: option.splits if_splits)

lemma leaves_request:
  "HandleRequest ops srv c sess req e h = Some (e', h', out) \<Longrightarrow> leaves sid h h' \<and> (invar h \<longrightarrow> invar h')"
  by (auto simp: HandleRequest_def Let_def dest: leaves_unsubscribe split: if_splits prod.splits)

lemma leaves_create:
  assumes "invar h" and "uuid \<noteq> []" and "metas h sid \<noteq> None"
    and "createSession ops e c uuid now u cpv spv caps info h = (h', r)"
  shows "leaves sid h h' \<and> invar h' \<and> (\<forall>sess. r = Inr sess \<longrightarrow> sh_sessionID sess \<noteq> sid)"
proof (cases "u = []")
  case True
  with assms show ?thesis by (auto simp: createSession_def)
next
  case False
  obtain m where m: "sm_SessionID m = uuid"
    and cr: "createSession ops e c uuid now u cpv spv caps info h = (case CreateSession ops c uuid m h of
             (h', Inl err) \<Rightarrow> (h', Inl (Wrapped ''create session'' err))
           | (h', Inr m') \<Rightarrow> (h', Inr (NewSessionHandle m' [])))"
    using False by (intro that [of "\<lparr>sm_MetaVersion = 1, sm_SessionID = uuid, sm_UserID = u, sm_Issuer = [],
        sm_ClientProtocolVersion = cpv, sm_ServerProtocolVersion = spv, sm_Client = info, sm_Capabilities = caps,
        sm_State = SessionStatePending, sm_CreatedAt = now, sm_UpdatedAt = now, sm_LastAccess = now,
        sm_TTL = e_handshakeTTL e, sm_MaxLifetime = e_sessionMaxLifetime e, sm_OpenedAt = 0, sm_Revoked = False\<rparr>"])
      (simp_all add: createSession_def Let_def)
  obtain h1 r1 where c1: "CreateSession ops c uuid m h = (h1, r1)" by fastforce
  have h1: "h' = h1" "invar h1"
    using cr c1 assms(4) invar_create [OF assms(1), of c uuid m] by (auto split: sum.splits)
  show ?thesis
  proof (cases c)
    case (Some err)
    with c1 h1 cr assms(1,4) show ?thesis by (auto simp: create_cancelled)
  next
    case None
    show ?thesis
    proof (cases "metas h uuid")
      case None
      then have "uuid \<noteq> sid" using assms(3) by auto
      from create_fresh [OF assms(1), of m uuid] m None c1 \<open>c = None\<close> assms(2)
      have "r1 = Inr m \<and> metas h1 = (metas h)(uuid \<mapsto> m) \<and> data h1 = data h \<and> stream h1 = stream h" by simp
      with \<open>uuid \<noteq> sid\<close> h1 cr c1 assms(4) m show ?thesis
        by (auto simp: leaves_def NewSessionHandle_def)
    next
      case (Some m')
      from create_taken [OF assms(1), of m uuid] m Some c1 \<open>c = None\<close> assms(2)
      have "(\<exists>e. r1 = Inl e) \<and> h1 = h" by simp
      with h1 cr c1 assms(1,4) show ?thesis by auto
    qed
  qed
qed

lemma leaves_initialize:
  assumes "invar h" and "uuid \<noteq> []" and "metas h sid \<noteq> None"
    and "InitializeSession ops srv e c uuid now u req h = (h', r)"
  shows "leaves sid h h'"
proof (cases req)
  case None
  with assms(4) show ?thesis by (simp add: InitializeSession_def)
next
  case (Some q)
  show ?thesis
  proof (cases "ir_ProtocolVersion q = [] \<or> (\<exists>err. negotiate_version srv c (ir_ProtocolVersion q) = Inl err)")
    case True
    with Some assms(4) show ?thesis by (auto simp: InitializeSession_def split: if_splits)
  next
    case False
    then obtain v where v: "negotiate_version srv c (ir_ProtocolVersion q) = Inr v"
      by (cases "negotiate_version srv c (ir_ProtocolVersion q)") auto
    obtain h1 r1 where cr: "createSession ops e c uuid now u (ir_ProtocolVersion q) v (client_caps (ir_Capabilities q))
        \<lparr>ci_Name = ii_Name (ir_ClientInfo q), ci_Version = ii_Version (ir_ClientInfo q), ci_InstanceID = []\<rparr> h = (h1, r1)"
      by fastforce
    note k = leaves_create [OF assms(1-3) cr]
    show ?thesis
    proof (cases r1)
      case (Inl err)
      with cr v Some False assms(4) k show ?thesis by (simp add: InitializeSession_def)
    next
      case (Inr sess)
      obtain h2 r2 where d: "DeleteSession ops c (sh_sessionID sess) h1 = (h2, r2)" by fastforce
      have "leaves sid h1 h2" using leaves_delete [OF _ _ d] k Inr by blast
      with Inr cr v Some False assms(4) k d show ?thesis
        by (auto simp: InitializeSession_def intro: leaves_trans split: sum.splits)
    qed
  qed
qed

lemma leaves_publish_to:
  assumes "invar h" and "PublishToSession ops render c s u msg h = (h', r)" and "metas h sid = Some m" and "sm_UserID m \<noteq> u"
  shows "leaves sid h h'"
proof (cases "s = sid")
  case True
  have "GetSession ops c s h = Inr m'" if "c = None" "m' = m" for m'
    using that True assms(3) get_live by simp
  with assms(2,4) get_cancelled have "h' = h"
    by (cases c) (auto simp: PublishToSession_def split: sum.splits)
  then show ?thesis by simp
next
  case False
  with assms(1,2) leaves_publish [OF assms(1) False] show ?thesis
    by (auto simp: PublishToSession_def split: sum.splits if_splits prod.splits)
qed

lemma leaves_post_writer:
  assumes "invar h" and "post_writer ops render c s u msg w h = (w', h', r)" and "metas h sid = Some m" and "sm_UserID m \<noteq> u"
  shows "leaves sid h h'"
  using assms(2) leaves_publish_to [OF assms(1) _ assms(3,4)]
  by (auto simp: post_writer_def split: prod.splits option.splits sum.splits)

lemma leaves_post_request:
  assumes "invar h" and "post_request ops srv lib render c c' r u sess req w e h = Some (w', e', h')"
    and "metas h sid = Some m" and "sm_UserID m \<noteq> u"
  shows "leaves sid h h'"
proof (cases "HandleRequest ops srv c sess req e h")
  case None
  with assms(2) show ?thesis by (auto simp: post_request_def Let_def split: if_splits)
next
  case (Some x)
  obtain e1 h1 out where x: "x = (e1, h1, out)" by (metis prod_cases3)
  with Some leaves_request assms(1) have h1: "leaves sid h h1" "invar h1" by blast+
  then have m: "metas h1 sid = Some m" using assms(3) by (simp add: leaves_def)
  from assms(2) Some x h1 leaves_post_writer [OF h1(2) _ m assms(4)] show ?thesis
    by (auto simp: post_request_def Let_def intro: leaves_trans split: if_splits option.splits prod.splits)
qed

lemma leaves_post_session:
  assumes "invar h" and "\<forall>s m. metas h s = Some m \<longrightarrow> sm_SessionID m = s" and "metas h sid = Some m" and "sm_UserID m \<noteq> u"
    and "post_session ops srv lib render c c' now r u msg w e h = Some (w', e', h')"
  shows "leaves sid h h'"
proof -
  obtain e1 h1 res where l: "LoadSession ops srv c now (hdr r mcpSessionIDHeader) u True e h = (e1, h1, res)"
    by (metis prod_cases3)
  note k = leaves_load [OF assms(1) l, of sid]
  show ?thesis
  proof (cases res)
    case (Inl err)
    with k l assms(5) show ?thesis by (auto simp: post_session_def split: if_splits)
  next
    case (Inr sess)
    with k obtain m' where m': "metas h (hdr r mcpSessionIDHeader) = Some m'" "sm_UserID m' = u" "sh_sessionID sess = sm_SessionID m'"
      by auto
    with assms(2-4) have ne: "hdr r mcpSessionIDHeader \<noteq> sid" "sh_sessionID sess \<noteq> sid" by auto
    with k have k1: "leaves sid h h1" "invar h1" by blast+
    then have m1: "metas h1 sid = Some m" using assms(3) by (simp add: leaves_def)
    have "leaves sid h1 h'"
      using assms(5) l Inr leaves_notification [OF k1(2) ne(2)] leaves_response leaves_post_request [OF k1(2) _ m1 assms(4)]
      by (auto simp: post_session_def split: option.splits if_splits prod.splits)
    with k1 show ?thesis by (blast intro: leaves_trans)
  qed
qed

lemma leaves_post:
  assumes "invar h" and "uuid \<noteq> []" and "\<forall>s m. metas h s = Some m \<longrightarrow> sm_SessionID m = s" and "metas h sid = Some m"
    and "handlePostMCP ops srv lib render hh c c' uuid now r w e h = Some (w', e', h')"
  shows "leaves sid h h' \<or> (\<exists>a tok. hd_auth hh = Some a \<and> a c tok = Inr (Some (sm_UserID m)))"
proof (rule disjCI)
  assume no: "\<not> (\<exists>a tok. hd_auth hh = Some a \<and> a c tok = Inr (Some (sm_UserID m)))"
  have user: "sm_UserID m \<noteq> u" if "checkAuthentication hh c r w = Some (w1, Some u)" for w1 u
    using checkAuthentication_user [OF that] no by blast
  have init: "leaves sid h h'" if "post_initialize ops srv c uuid now u msg w1 e h = (w', e', h')" for u msg w1
    using that leaves_initialize [OF assms(1,2), of sid] assms(4)
    by (auto simp: post_initialize_def Let_def split: option.splits if_splits sum.splits prod.splits)
  have message: "leaves sid h h'" if "post_message ops srv lib render c c' uuid now r u j w1 e h = Some (w', e', h')" and "sm_UserID m \<noteq> u" for u j w1
    using that(1) init leaves_post_session [OF assms(1,3,4) that(2)]
    by (auto simp: post_message_def split: sum.splits if_splits)
  show "leaves sid h h'"
  proof (cases "checkAuthentication hh c r w")
    case None
    with assms(5) show ?thesis by (auto simp: handlePostMCP_def split: if_splits)
  next
    case (Some p)
    obtain w1 u where "p = (w1, u)" by fastforce
    with Some assms(5) user [of w1] message show ?thesis
      by (cases u) (auto simp: handlePostMCP_def split: if_splits wire.splits)
  qed
qed

lemma leaves_delete_handler:
  assumes "invar h" and "\<forall>s m. metas h s = Some m \<longrightarrow> sm_SessionID m = s" and "metas h sid = Some m"
    and "handleDeleteMCP ops srv hh c now r w e h = Some (w', e', h')"
  shows "leaves sid h h' \<or> (\<exists>a tok. hd_auth hh = Some a \<and> a c tok = Inr (Some (sm_UserID m)))"
proof (rule disjCI)
  assume no: "\<not> (\<exists>a tok. hd_auth hh = Some a \<and> a c tok = Inr (Some (sm_UserID m)))"
  obtain w1 u where a: "checkAuthentication hh c r w = Some (w1, u)"
    using assms(4) by (auto simp: handleDeleteMCP_def split: option.splits)
  show "leaves sid h h'"
  proof (cases "u = None \<or> hdr r mcpSessionIDHeader = []")
    case True
    with a assms(4) show ?thesis by (auto simp: handleDeleteMCP_def Let_def split: option.splits)
  next
    case False
    then obtain user where u: "u = Some user" by auto
    with checkAuthentication_user a no have user: "sm_UserID m \<noteq> user" by blast
    obtain e1 h1 res where l: "LoadSession ops srv c now (hdr r mcpSessionIDHeader) user False e h = (e1, h1, res)"
      by (metis prod_cases3)
    note k = leaves_load [OF assms(1) l, of sid]
    show ?thesis
    proof (cases res)
      case (Inl err)
      with k l a u False assms(4) show ?thesis by (auto simp: handleDeleteMCP_def Let_def split: if_splits)
    next
      case (Inr sess)
      with k obtain m' where m': "metas h (hdr r mcpSessionIDHeader) = Some m'" "sm_UserID m' = user" "sh_sessionID sess = sm_SessionID m'"
        by auto
      with assms(2,3) user have ne: "hdr r mcpSessionIDHeader \<noteq> sid" "sh_sessionID sess \<noteq> sid" by auto
      with k have k1: "leaves sid h h1" "invar h1" by blast+
      have "leaves sid h1 h'"
        using assms(4) a u False l Inr leaves_delete_session [OF k1(2) ne(2)]
        by (auto simp: handleDeleteMCP_def Let_def split: option.splits if_splits prod.splits)
      with k1 show ?thesis by (blast intro: leaves_trans)
    qed
  qed
qed

lemma leaves_get_begin:
  assumes "invar h" and "metas h sid = Some m" and "get_begin ops srv lib hh c now r w e h = Some (w', e', h', sub)"
  shows "leaves sid h h' \<or> (\<exists>a tok. hd_auth hh = Some a \<and> a c tok = Inr (Some (sm_UserID m)))"
proof (rule disjCI)
  assume no: "\<not> (\<exists>a tok. hd_auth hh = Some a \<and> a c tok = Inr (Some (sm_UserID m)))"
  have load: "leaves sid h h1" if "checkAuthentication hh c r w = Some (w1, Some user)"
    and l: "LoadSession ops srv c now s user False e h = (e1, h1, res)" for w1 user s e1 h1 res
  proof -
    have user: "sm_UserID m \<noteq> user" using checkAuthentication_user [OF that(1)] no by blast
    note k = leaves_load [OF assms(1) l, of sid]
    with user assms(2) show ?thesis by (cases res) auto
  qed
  from assms(3) show "leaves sid h h'"
    by (auto simp: get_begin_def Let_def dest: load split: if_splits option.splits prod.splits sum.splits)
qed

end


subsection \<open>Every POST is answered\<close>

lemma status_simps [simp]:
  "rw_status (set_header k v w) = rw_status w"
  "rw_status w = None \<Longrightarrow> rw_status (WriteHeader code w) = Some code"
  "rw_status w = Some s \<Longrightarrow> WriteHeader code w = w"
  "rw_status w = Some s \<Longrightarrow> rw_status (fst (rw_Write bs w)) = Some s"
  "rw_status w = None \<Longrightarrow> rw_status (writeJSONError code msg w) = Some code"
  "rw_status w = None \<Longrightarrow> rw_status (challenge hh ps code w) = Some code"
  "rw_status (advertise_version sess w) = rw_status w"
  "rw_status w = None \<Longrightarrow> rw_status (stream_headers sess w) = Some 200"
  by (auto simp: set_header_def WriteHeader_def rw_Write_def writeJSONError_def challenge_def advertise_version_def
      stream_headers_def Let_def split: option.split nat.split)

lemma status_WriteMessageID: "rw_status w = Some s \<Longrightarrow> WriteMessageID c i d w = (w', r) \<Longrightarrow> rw_status w' = Some s"
  by (auto simp: WriteMessageID_def rw_Write_def WriteHeader_def Let_def split: option.splits nat.splits if_splits prod.splits)

lemma status_post_writer: "rw_status w = Some s \<Longrightarrow> post_writer ops render c sid u m w h = (w', h', r) \<Longrightarrow> rw_status w' = Some s"
  by (auto simp: post_writer_def dest: status_WriteMessageID split: prod.splits option.splits sum.splits)

definition statuses :: "int set" where
  "statuses = {200, 202, 400, 401, 403, 404, 409, 415, 500}"

definition answered :: "'h outcome \<Rightarrow> bool" where
  "answered out \<longleftrightarrow> (\<exists>w e h s. out = Some (w, e, h) \<and> rw_status w = Some s \<and> s \<in> statuses)"

lemma answered_Some [simp]: "answered (Some (w, e, h)) \<longleftrightarrow> (\<exists>s. rw_status w = Some s \<and> s \<in> statuses)"
  by (auto simp: answered_def)

lemma post_request_answered:
  assumes "rw_status w = None"
  shows "answered (post_request ops srv lib render c c' r user sess req w e h)"
proof -
  obtain e1 h1 out where hr: "HandleRequest ops srv c sess req e h = Some (e1, h1, out)"
    using HandleRequest_answers by metis
  have "rw_status w2 = Some 200" if "post_writer ops render c' s u m (stream_headers sess w) h1 = (w2, h2, x)" for s u m w2 h2 x
    using status_post_writer [OF _ that] assms by simp
  then show ?thesis
    using assms hr by (auto simp: post_request_def Let_def statuses_def split: option.split prod.split)
qed

lemma AsRequest_or_AsResponse: "AsRequest m = None \<Longrightarrow> \<exists>res. AsResponse m = Some res"
  by (auto simp: AsRequest_def AsResponse_def split: if_splits)

lemma post_session_answered:
  assumes "rw_status w = None"
  shows "answered (post_session ops srv lib render c c' now r user msg w e h)"
  using assms post_request_answered [OF assms] AsRequest_or_AsResponse [of msg]
  by (auto simp: post_session_def statuses_def split: prod.split sum.split option.split)

lemma post_initialize_answered:
  assumes "rw_status w = None"
  shows "answered (Some (post_initialize ops srv c uuid now user msg w e h))"
  using assms
  by (auto simp: post_initialize_def statuses_def Let_def split: option.split sum.split prod.split)

lemma post_message_answered:
  assumes "rw_status w = None"
  shows "answered (post_message ops srv lib render c c' uuid now r user j w e h)"
  using assms
  by (simp add: post_message_def statuses_def post_session_answered post_initialize_answered split: sum.split
      del: answered_Some) (simp add: statuses_def)

lemma checkAuthentication_answered:
  assumes "hd_auth hh = Some a" and "\<forall>c t. a c t \<noteq> Inr None" and "rw_status w = None"
  shows "case checkAuthentication hh c r w of None \<Rightarrow> False
    | Some (w1, None) \<Rightarrow> \<exists>s \<in> {400, 401, 403, 500}. rw_status w1 = Some s
    | Some (w1, Some user) \<Rightarrow> w1 = w"
  using assms by (auto simp: checkAuthentication_def Let_def split: option.splits sum.splits)


subsection \<open>A request and its response\<close>

text \<open>The bytes of a JSON document.\<close>

definition json_wire :: "wire \<Rightarrow> string" where
  "json_wire w = (case w of Doc j \<Rightarrow> json_text j | Garbage \<Rightarrow> [])"

lemma marshal_response_id: "\<not> id_IsNil (res_ID res) \<Longrightarrow> \<exists>b. marshal_response res = Some b"
  by (auto simp: marshal_response_def enc_id_def id_MarshalJSON_def id_IsNil_def split: RequestID.splits)

lemma stream_headers_fields:
  "rw_body (stream_headers sess w) = rw_body w" "rw_room (stream_headers sess w) = rw_room w"
  "get_header (rw_header (stream_headers sess w)) ''Content-Type'' = eventStreamMediaType"
  by (simp_all add: stream_headers_def WriteHeader_def set_header_def advertise_version_def get_header_def Let_def split: option.split)

text \<open>A request posted to a session is answered on the same connection: the status is 200, the content is
  an event stream, and it holds exactly one event, the response the engine gave, whose identifier is that of
  the request.\<close>

theorem request_response_event:
  assumes "\<not> id_IsNil (req_ID req)" and "hdr r ''Accept'' = [] \<or> hl_acceptsSSE lib (hdr r ''Accept'')"
    and "rw_status w = None" and "rw_room w = None"
  shows "\<exists>e' h' res b w'. HandleRequest ops srv c sess req e h = Some (e', h', Inr res) \<and> res_ID res = req_ID req \<and>
    marshal_response res = Some b \<and> post_request ops srv lib render c None r user sess req w e h = Some (w', e', h') \<and>
    rw_status w' = Some 200 \<and> get_header (rw_header w') ''Content-Type'' = ''text/event-stream'' \<and>
    rw_body w' = rw_body w @ sse_frame [] (render (Doc b))"
proof -
  obtain e' h' out where hr: "HandleRequest ops srv c sess req e h = Some (e', h', out)" "answers req out"
    using HandleRequest_answers by metis
  then obtain res where res: "out = Inr res" "res_ID res = req_ID req"
    by (auto simp: answers_def)
  then obtain b where b: "marshal_response res = Some b"
    using marshal_response_id [of res] assms(1) by auto
  let ?w = "stream_headers sess w"
  have "WriteMessageID None [] (render (Doc b)) ?w = (?w\<lparr>rw_body := rw_body w @ sse_frame [] (render (Doc b))\<rparr>, None)"
    using WriteMessageID_live [of ?w "[]" "render (Doc b)"] assms(3,4) by (simp add: stream_headers_fields)
  with hr res b assms show ?thesis
    by (auto simp: post_request_def post_writer_def Let_def stream_headers_fields eventStreamMediaType_def)
qed

text \<open>A response is lost when the client goes away while its request is handled: the request's context is
  cancelled by then, so that the event is not written, and the session's stream, the fall-back, gets nothing
  either because it is published under the same cancelled context.\<close>

theorem disconnected_response_lost:
  assumes "hdr r ''Accept'' = [] \<or> hl_acceptsSSE lib (hdr r ''Accept'')"
  shows "\<exists>e' h' out w'. HandleRequest memory_host srv c sess req e h = Some (e', h', out) \<and>
    post_request memory_host srv lib render c (Some CtxCanceled) r user sess req w e h = Some (w', e', h') \<and> rw_body w' = rw_body w"
proof -
  obtain e' h' out where hr: "HandleRequest memory_host srv c sess req e h = Some (e', h', out)"
    using HandleRequest_answers by metis
  have "post_writer memory_host render (Some CtxCanceled) s u msg w1 h1 =
      (w1, h1, Some (ErrText (''direct write failed: '' @ error_text CtxCanceled @ ''; fallback publish failed: '' @ error_text ErrSessionNotFound)))"
    for s u msg w1 h1
    by (simp add: post_writer_def WriteMessageID_dead PublishToSession_def mem.get_cancelled)
  with hr assms show ?thesis
    by (auto simp: post_request_def Let_def stream_headers_fields split: option.split)
qed

subsection \<open>Resuming a stream\<close>

abbreviation event_of :: "(wire \<Rightarrow> string) \<Rightarrow> message \<Rightarrow> string \<times> string" where
  "event_of render m \<equiv> (msg_id m, render (msg_data m))"

lemma stream_run_writes:
  assumes "sub_run n (\<lambda>_. None) h sb = Some (ms, h', sb')" and "rw_room w = None"
  shows "\<exists>w'. stream_run n (get_deliver render None) w h sb = Some (w', h', sb') \<and> write_all None (map (event_of render) ms) w = (w', None)"
  using assms
proof (induction n arbitrary: h sb ms w)
  case (Suc n)
  obtain h1 sb1 where it: "sub_iterate None h sb = (h1, sb1)" by fastforce
  show ?case
  proof (cases "sub_pc sb1")
    case (Handling m)
    obtain h2 sb2 where a: "sub_ack m h1 sb1 = (h2, sb2)" by fastforce
    obtain ms' where r: "sub_run n (\<lambda>_. None) h2 sb2 = Some (ms', h', sb')" and ms: "ms = m # ms'"
      using Suc.prems(1) it Handling a by (auto simp: sub_run.simps(2))
    let ?w = "(WriteHeader 200 w)\<lparr>rw_body := rw_body w @ sse_frame (msg_id m) (render (msg_data m))\<rparr>"
    have "rw_room ?w = None" using Suc.prems(2) by (simp add: WriteHeader_def split: option.split)
    from Suc.IH [OF r this] WriteMessageID_live [OF Suc.prems(2)] it Handling a ms show ?thesis
      by (simp add: get_deliver_def)
  qed (use Suc.prems it in \<open>simp_all add: sub_run.simps(2)\<close>)
qed simp

lemma status_write_all: "rw_status w = Some s \<Longrightarrow> write_all c ms w = (w', err) \<Longrightarrow> rw_status w' = Some s"
proof (induction ms arbitrary: w)
  case (Cons m ms)
  obtain i d where m: "m = (i, d)" by fastforce
  obtain w1 e1 where wr: "WriteMessageID c i d w = (w1, e1)" by fastforce
  with Cons m status_WriteMessageID [OF Cons.prems(1) wr] show ?case
    by (cases e1) auto
qed simp

lemma length_stamp [simp]: "length (stamp lid ms) = length ms"
  by (induction ms arbitrary: lid) (auto simp: Let_def)

lemma stamp_ids: "\<forall>m \<in> set ms. fst m \<noteq> [] \<Longrightarrow> stamp lid ms = ms"
  by (induction ms arbitrary: lid) (auto simp: Let_def)

lemma get_begin_Some:
  assumes "get_begin memory_host srv lib hh None now r w e h = Some (w1, e1, h1, Some (sid, last_id))"
  shows "\<exists>sess. w1 = stream_headers sess w" and "h_streams h1 = h_streams h" and "h_store h1 = h_store h"
  using assms
  by (auto simp: get_begin_def Let_def LoadSession_def memory_host_def mem_TouchSession_def
      dest!: checkAuthentication_user split: if_splits option.splits prod.splits sum.splits)

lemma stream_ok_ids: "stream_ok s \<Longrightarrow> m \<in> set (ss_messages s) \<Longrightarrow> msg_id m \<noteq> [] \<and> one_line (msg_id m)"
proof -
  assume "stream_ok s" and "m \<in> set (ss_messages s)"
  then have "msg_id m \<in> set (map itoa [1..<Suc (ss_nextID s)])"
    unfolding stream_ok_def by (metis image_eqI set_map)
  then obtain k where "msg_id m = itoa k" by (auto simp del: upt_Suc)
  then show ?thesis
    using itoa_one_line [of "int k"] by (simp add: itoa_int_def)
qed

text \<open>C13: a GET with a \<open>Last-Event-ID\<close> resumes the stream: when the client of a session's user reconnects with the
  identifier of the \<open>k\<close>-th message, the event stream it reads is exactly the messages after it that are not yet
  delivered or being delivered, in order, each with its identifier and bytes.\<close>

theorem get_resumes_stream:
  assumes "mem_inv h" and "mget (h_streams h) sid = Some ref" and "s = h_store h ! ref" and "0 < k" and "k \<le> length (ss_messages s)"
    and "get_begin memory_host srv lib hh None now r w e h = Some (w1, e1, h1, Some (sid, itoa k))"
    and "rw_status w = None" and "rw_room w = None" and "rw_body w = []"
    and "todo = filter (claimable s) (drop k (ss_messages s))" and "\<forall>m \<in> set todo. one_line (render (msg_data m))"
  shows "\<exists>w' h'. handleGetMCP (Suc (length todo)) srv lib render hh None None now r w e h = Some (w', e1, h') \<and>
    rw_status w' = Some 200 \<and> sse_parse (rw_body w') = map (\<lambda>m. (msg_id m, render (msg_data m))) todo"
proof -
  obtain sess where w1: "w1 = stream_headers sess w" and h1: "h_streams h1 = h_streams h" "h_store h1 = h_store h"
    using get_begin_Some [OF assms(6)] by blast
  have inv: "mem_inv h1" using mem_inv_frame [OF assms(1)] h1 by simp
  let ?sb = "\<lparr>sub_ref = ref, sub_lastIdx = int k - 1, sub_pc = Looping\<rparr>"
  have start: "subscribe_start sid (itoa k) h1 = (h1, ?sb)"
    using subscribe_start_known [OF inv] assms(2-5) h1 by simp
  have ok: "stream_ok s" using mem_invD [OF assms(1,2)] assms(3) by simp
  have "pending (h_store h1 ! ref) (int k - 1) = todo"
    using assms(3,10) h1 by (simp add: pending_def)
  then obtain h' sb' where run: "sub_run (Suc (length todo)) (\<lambda>_. None) h1 ?sb = Some (handed (\<lambda>_. None) todo, h', sb')"
    using sub_run_pending [of h1 ?sb todo "Suc (length todo)" "\<lambda>_. None"] mem_invD [OF inv] h1 assms(2) by auto
  have "handed (\<lambda>_. None) todo = todo" by (induction todo) (simp_all add: handed_def)
  with stream_run_writes [OF run, of w1 render] w1 assms(8) obtain w' where
    sr: "stream_run (Suc (length todo)) (get_deliver render None) w1 h1 ?sb = Some (w', h', sb')"
    and wr: "write_all None (map (event_of render) todo) w1 = (w', None)"
    by (auto simp: stream_headers_fields)
  have sub: "set todo \<subseteq> set (ss_messages s)" using assms(10) by (auto dest: in_set_dropD)
  have one: "\<forall>(i, d) \<in> set (map (event_of render) todo). one_line i \<and> one_line d"
    using stream_ok_ids [OF ok] sub assms(11) by auto
  have "rw_body w1 = []" using w1 assms(9) by (simp add: stream_headers_fields)
  from sse_written [OF one this wr] have "sse_parse (rw_body w') = stamp [] (map (event_of render) todo)"
    by auto
  also have "\<dots> = map (event_of render) todo"
    using stream_ok_ids [OF ok] sub by (intro stamp_ids) auto
  finally have parse: "sse_parse (rw_body w') = map (event_of render) todo" .
  have "rw_status w' = Some 200" using status_write_all [OF _ wr] w1 assms(7) by simp
  with parse sr start assms(6) show ?thesis by (simp add: handleGetMCP_def)
qed

subsection \<open>Witnesses\<close>

text \<open>A handler whose authenticator knows one token for each of two users, and requests with a token.\<close>

definition wit_handler :: StreamingHTTPHandler where
  "wit_handler = \<lparr>hd_prmDocument = JNull, hd_prmDocumentURL = [], hd_authServerMetadata = JNull,
     hd_auth = Some (\<lambda>c tok. if tok = ''tok-v'' then Inr (Some ''v'') else Inl ErrUnauthorized),
     hd_realm = [], hd_hintScopes = []\<rparr>"

definition owner_handler :: StreamingHTTPHandler where
  "owner_handler = wit_handler\<lparr>hd_auth := Some (\<lambda>c tok. Inr (Some ''u''))\<rparr>"

definition wit_http :: http_lib where
  "wit_http = \<lparr>hl_isJSON = \<lambda>v. v = jsonMediaType, hl_acceptsSSE = \<lambda>v. True\<rparr>"

definition wit_request :: http_request where
  "wit_request = \<lparr>hr_Header = [(''Authorization'', ''Bearer tok-v''), (''Mcp-Session-Id'', ''s''), (''Last-Event-Id'', ''1'')], hr_Body = Garbage\<rparr>"

lemma wit_authenticated:
  "checkAuthentication wit_handler None wit_request w = Some (w, Some ''v'')"
  "checkAuthentication owner_handler None wit_request w = Some (w, Some ''u'')"
  by (simp_all add: checkAuthentication_def wit_handler_def owner_handler_def wit_request_def hdr_def get_header_def authorizationHeader_def
      bearerPrefix_def TrimSpace_def is_space_def Let_def)



theorem request_response_event_witness:
  "\<exists>e' h' b w'. post_request memory_host (NewServer []) wit_http json_wire None None wit_request ''u'' wit_sess (sub_req ''r'') new_writer
       (NewEngine []) wit_host_meta = Some (w', e', h') \<and> rw_body w' = sse_frame [] (json_text b)"
proof -
  have "\<not> id_IsNil (req_ID (sub_req ''r''))" by (simp add: sub_req_def id_IsNil_def)
  from request_response_event [OF this, of wit_request wit_http new_writer memory_host "NewServer []" None wit_sess "NewEngine []" wit_host_meta json_wire "''u''"]
  show ?thesis by (auto simp: wit_http_def new_writer_def json_wire_def)
qed

theorem disconnected_response_lost_witness:
  "\<exists>e' h' w'. post_request memory_host (NewServer []) wit_http json_wire None (Some CtxCanceled) wit_request ''u'' wit_sess (sub_req ''r'') new_writer
       (NewEngine []) wit_host_meta = Some (w', e', h') \<and> rw_body w' = []"
  using disconnected_response_lost [of wit_request wit_http "NewServer []" None wit_sess "sub_req ''r''" "NewEngine []" wit_host_meta json_wire "''u''" new_writer]
  by (auto simp: wit_http_def new_writer_def)

definition wit_stream_host :: Host where
  "wit_stream_host = wit_host\<lparr>h_metas := [(''s'', wit_meta)]\<rparr>"

lemma wit_stream_host_begin:
  "\<exists>w1 e1 h1. get_begin memory_host (NewServer []) wit_http owner_handler None 9 wit_request new_writer (NewEngine []) wit_stream_host =
     Some (w1, e1, h1, Some (''s'', ''1''))"
proof -
  have "LoadSession memory_host (NewServer []) None 9 ''s'' ''u'' False (NewEngine []) wit_stream_host =
      (wireListChangedEmitters (NewServer []) (NewSessionHandle wit_meta []) (NewEngine []),
       fst (mem_TouchSession None 9 ''s'' wit_stream_host), Inr (NewSessionHandle wit_meta []))"
    by (simp add: LoadSession_def memory_host_def mem_GetSession_def wit_stream_host_def Let_def)
  moreover have "hdr wit_request ''Accept'' = []" "hdr wit_request mcpSessionIDHeader = ''s''" "hdr wit_request lastEventIDHeader = ''1''"
      "hdr wit_request mcpProtocolVersionHeader = []"
    by (simp_all add: hdr_def wit_request_def get_header_def mcpSessionIDHeader_def lastEventIDHeader_def mcpProtocolVersionHeader_def)
  ultimately show ?thesis
    by (simp add: get_begin_def wit_http_def wit_authenticated new_writer_def version_mismatch_def NewSessionHandle_def Let_def)
qed

theorem get_resumes_stream_witness:
  "\<exists>w' e' h'. handleGetMCP 3 (NewServer []) wit_http (\<lambda>_. ''x'') owner_handler None None 9 wit_request new_writer (NewEngine []) wit_stream_host
      = Some (w', e', h') \<and> sse_parse (rw_body w') = [(''2'', ''x''), (''3'', ''x'')]"
proof -
  obtain w1 e1 h1 where g: "get_begin memory_host (NewServer []) wit_http owner_handler None 9 wit_request new_writer (NewEngine []) wit_stream_host =
     Some (w1, e1, h1, Some (''s'', itoa 1))"
    using wit_stream_host_begin by auto
  have inv: "mem_inv wit_stream_host"
    using wit_host_inv by (rule mem_inv_frame) (simp_all add: wit_stream_host_def)
  have todo: "[\<lparr>msg_id = ''2'', msg_data = Garbage\<rparr>, \<lparr>msg_id = ''3'', msg_data = Garbage\<rparr>] = filter (claimable wit_stream) (drop 1 (ss_messages wit_stream))"
    by (simp add: wit_stream_def claimable_def mflag_def)
  have "\<exists>w' h'. handleGetMCP (Suc (length [\<lparr>msg_id = ''2'', msg_data = Garbage\<rparr>, \<lparr>msg_id = ''3'', msg_data = Garbage\<rparr>])) (NewServer []) wit_http (\<lambda>_. ''x'')
        owner_handler None None 9 wit_request new_writer (NewEngine []) wit_stream_host = Some (w', e1, h') \<and> rw_status w' = Some 200 \<and>
      sse_parse (rw_body w') = map (\<lambda>m. (msg_id m, ''x'')) [\<lparr>msg_id = ''2'', msg_data = Garbage\<rparr>, \<lparr>msg_id = ''3'', msg_data = Garbage\<rparr>]"
    by (rule get_resumes_stream [OF inv, where ref = 0 and s = wit_stream, OF _ _ _ _ g _ _ _ todo])
       (simp_all add: wit_stream_host_def wit_host_eq wit_stream_def new_writer_def eol_code)
  then show ?thesis by (auto simp: eval_nat_numeral)
qed

end
