(* ===== verification/Stdio.thy ===== *)
theory Stdio
  imports StreamingHttp
begin

section \<open>The stdio transport (stdio/handler.go)\<close>

text \<open>
  One client, one process, messages as lines of JSON. \<open>stdio_Handler\<close> is the handler's state with the bytes
  written to its output (\<open>sd_room\<close>: how many more writes succeed); a session pump is the goroutine that
  copies the session's stream to the output. \<open>serve_step\<close> is the step relation of \<open>Serve\<close>: the reading loop
  takes one line after another, while the goroutines it started for requests, and the pump, run at any time.
  A request's goroutine is one step, with its tool call undisturbed. The JSON parser is the argument
  \<open>parse\<close>; the environment chooses the lines, the time and the identifiers.
\<close>

subsection \<open>State\<close>

record stdio_pump =
  pump_session :: string
  pump_cancelled :: bool
  pump_sub :: "subscriber option"

record stdio_Handler =
  sd_userID :: string
  sd_initialized :: bool
  sd_sessID :: string
  sd_sessionCancel :: "nat option"
  sd_pumps :: "stdio_pump list"
  sd_out :: string
  sd_room :: "nat option"

definition NewHandler :: "string \<Rightarrow> stdio_Handler" where
  "NewHandler userID = \<lparr>sd_userID = userID, sd_initialized = False, sd_sessID = [], sd_sessionCancel = None, sd_pumps = [],
     sd_out = [], sd_room = None\<rparr>"

subsection \<open>Output\<close>

definition sd_Write :: "string \<Rightarrow> stdio_Handler \<Rightarrow> stdio_Handler \<times> bool" where
  "sd_Write bs h = (case sd_room h of
       None \<Rightarrow> (h\<lparr>sd_out := sd_out h @ bs\<rparr>, True)
     | Some 0 \<Rightarrow> (h, False)
     | Some (Suc n) \<Rightarrow> (h\<lparr>sd_out := sd_out h @ bs, sd_room := Some n\<rparr>, True))"

definition writeMessageBytes :: "string \<Rightarrow> stdio_Handler \<Rightarrow> stdio_Handler \<times> go_error option" where
  "writeMessageBytes msg h =
     (let (h1, ok1) = sd_Write msg h in
      if \<not> ok1 then (h1, Some (ErrText ''write''))
      else if msg = [] \<or> last msg \<noteq> LF then
        (let (h2, ok2) = sd_Write [LF] h1 in if ok2 then (h2, None) else (h2, Some (ErrText ''write'')))
      else (h1, None))"

definition writeJSON :: "json option \<Rightarrow> stdio_Handler \<Rightarrow> stdio_Handler" where
  "writeJSON v h = (case v of None \<Rightarrow> h | Some j \<Rightarrow> fst (writeMessageBytes (json_text j) h))"

definition writeError :: "RequestID option \<Rightarrow> int \<Rightarrow> string \<Rightarrow> json option \<Rightarrow> stdio_Handler \<Rightarrow> stdio_Handler" where
  "writeError i code msg d h = writeJSON (marshal_response (NewErrorResponse i code msg d)) h"

subsection \<open>The session pump\<close>

definition stopSessionPump :: "stdio_Handler \<Rightarrow> stdio_Handler" where
  "stopSessionPump h = (case sd_sessionCancel h of
       None \<Rightarrow> h
     | Some i \<Rightarrow> h\<lparr>sd_pumps := (sd_pumps h)[i := (sd_pumps h ! i)\<lparr>pump_cancelled := True\<rparr>], sd_sessionCancel := None\<rparr>)"

definition startSessionPump :: "string \<Rightarrow> stdio_Handler \<Rightarrow> stdio_Handler" where
  "startSessionPump sessionID h =
     (let h1 = stopSessionPump h in
      h1\<lparr>sd_sessionCancel := Some (length (sd_pumps h1)),
         sd_pumps := sd_pumps h1 @ [\<lparr>pump_session = sessionID, pump_cancelled = False, pump_sub = None\<rparr>]\<rparr>)"

subsection \<open>Handlers\<close>

definition handleInitialize :: "ServerCaps \<Rightarrow> ctx \<Rightarrow> string \<Rightarrow> time \<Rightarrow> Request \<Rightarrow> stdio_Handler \<Rightarrow> Engine \<Rightarrow> Host \<Rightarrow> stdio_Handler \<times> Host" where
  "handleInitialize srv c uuid now req h e host =
     (if sd_initialized h then (writeError (req_ID req) ErrorCodeInvalidRequest ''session already initialized'' None h, host)
      else case dec_InitializeRequest (raw_wire (req_Params req)) of
        None \<Rightarrow> (writeError (req_ID req) ErrorCodeInvalidParams ''invalid params'' (Some (JStr ''invalid JSON'')) h, host)
      | Some initReq \<Rightarrow> (case InitializeSession memory_host srv e c uuid now (sd_userID h) (Some initReq) host of
            (host1, Inl err) \<Rightarrow>
              if errors_is err ErrInvalidProtocolVersion
              then (writeError (req_ID req) ErrorCodeInvalidParams ''invalid params'' (Some (JStr (error_text err))) h, host1)
              else (writeError (req_ID req) ErrorCodeInternalError ''internal error'' None h, host1)
          | (host1, Inr (sess, initRes)) \<Rightarrow>
              (let h1 = h\<lparr>sd_sessID := sh_sessionID sess, sd_initialized := True\<rparr> in
               case NewResultResponse (req_ID req) (Some (enc_InitializeResult initRes)) of
                 Inl err \<Rightarrow> (writeError (req_ID req) ErrorCodeInternalError ''internal error'' None h1, host1)
               | Inr resp \<Rightarrow> (writeJSON (marshal_response resp) h1, host1))))"

definition sd_handleRequest :: "ServerCaps \<Rightarrow> ctx \<Rightarrow> time \<Rightarrow> Request \<Rightarrow> stdio_Handler \<Rightarrow> Engine \<Rightarrow> Host \<Rightarrow> (stdio_Handler \<times> Engine \<times> Host) option" where
  "sd_handleRequest srv c now req h e host =
     (if \<not> sd_initialized h \<or> sd_sessID h = []
      then Some (writeError (req_ID req) ErrorCodeInvalidRequest ''session not initialized'' None h, e, host)
      else case LoadSession memory_host srv c now (sd_sessID h) (sd_userID h) True e host of
        (e1, host1, Inl err) \<Rightarrow> Some (writeError (req_ID req) ErrorCodeInternalError ''internal error'' None h, e1, host1)
      | (e1, host1, Inr sess) \<Rightarrow> (case HandleRequest memory_host srv c sess req e1 host1 of
            None \<Rightarrow> None
          | Some (e2, host2, Inl err) \<Rightarrow> Some (writeError (req_ID req) ErrorCodeInternalError ''internal error'' None h, e2, host2)
          | Some (e2, host2, Inr res) \<Rightarrow> Some (writeJSON (marshal_response res) h, e2, host2)))"

definition sd_handleNotification :: "ServerCaps \<Rightarrow> ctx \<Rightarrow> time \<Rightarrow> Request \<Rightarrow> stdio_Handler \<Rightarrow> Engine \<Rightarrow> Host \<Rightarrow> stdio_Handler \<times> Engine \<times> Host" where
  "sd_handleNotification srv c now note h e host =
     (if \<not> sd_initialized h \<or> sd_sessID h = [] then (h, e, host)
      else case LoadSession memory_host srv c now (sd_sessID h) (sd_userID h) False e host of
        (e1, host1, Inl err) \<Rightarrow> (h, e1, host1)
      | (e1, host1, Inr sess) \<Rightarrow> (case HandleNotification memory_host e1 c now sess note host1 of
            (host2, Some err) \<Rightarrow> (h, e1, host2)
          | (host2, None) \<Rightarrow>
              ((if req_Method note = InitializedNotificationMethod then startSessionPump (sh_sessionID sess) h else h), e1, host2)))"

definition handleClientResponse :: "ServerCaps \<Rightarrow> ctx \<Rightarrow> time \<Rightarrow> Response \<Rightarrow> stdio_Handler \<Rightarrow> Engine \<Rightarrow> Host \<Rightarrow> Engine \<times> Host" where
  "handleClientResponse srv c now res h e host =
     (if \<not> sd_initialized h \<or> sd_sessID h = [] then (e, host)
      else if id_IsNil (res_ID res) then (e, host)
      else case marshal_response res of
        None \<Rightarrow> (e, host)
      | Some payload \<Rightarrow> (case LoadSession memory_host srv c now (sd_sessID h) (sd_userID h) False e host of
            (e1, host1, Inl err) \<Rightarrow> (e1, host1)
          | (e1, host1, Inr sess) \<Rightarrow> (e1, fst (PublishEvent memory_host c sessionFanoutTopic (envelope sess payload) host1))))"

text \<open>Progress of a request, written to the output; the notification is that of the HTTP transport.\<close>

definition sd_Report :: "string \<Rightarrow> json \<Rightarrow> json \<Rightarrow> stdio_Handler \<Rightarrow> stdio_Handler \<times> go_error option" where
  "sd_Report requestID progress tot h =
     (if requestID = [] then (h, None)
      else case marshal_request (progress_note requestID progress tot) of
        None \<Rightarrow> (h, Some (ErrText ''marshal''))
      | Some j \<Rightarrow> writeMessageBytes (json_text j) h)"

subsection \<open>Serving\<close>

record stdio_sys =
  sy_h :: stdio_Handler
  sy_e :: Engine
  sy_hst :: Host
  sy_pending :: "Request list"
  sy_done :: "go_error option option"

text \<open>One line: blank lines are skipped, batches and malformed messages are answered without an identifier,
  requests other than initialize are handed to a goroutine, the rest is handled on the spot.\<close>

definition serve_line :: "ServerCaps \<Rightarrow> (string \<Rightarrow> wire) \<Rightarrow> ctx \<Rightarrow> string \<Rightarrow> time \<Rightarrow> string \<Rightarrow> stdio_sys \<Rightarrow> stdio_sys" where
  "serve_line srv parse c uuid now text' s =
     (let line = TrimSpace text'; h = sy_h s in
      if line = [] then s
      else if HasPrefix line ''['' then s\<lparr>sy_h := writeError None ErrorCodeInvalidRequest ''batch requests not supported'' None h\<rparr>
      else case UnmarshalJSON (parse line) of
        Inl err \<Rightarrow> s\<lparr>sy_h := writeError None ErrorCodeInvalidRequest ''invalid request'' (Some (JStr (unmarshal_text err))) h\<rparr>
      | Inr msg \<Rightarrow>
          if msg_Type msg = ''request'' then
            (case AsRequest msg of
               None \<Rightarrow> s\<lparr>sy_h := writeError (am_ID msg) ErrorCodeInvalidRequest ''invalid request structure'' None h\<rparr>
             | Some req \<Rightarrow>
                 if req_Method req = InitializeMethod then
                   (let (h1, host1) = handleInitialize srv c uuid now req h (sy_e s) (sy_hst s) in s\<lparr>sy_h := h1, sy_hst := host1\<rparr>)
                 else s\<lparr>sy_pending := sy_pending s @ [req]\<rparr>)
          else if msg_Type msg = ''notification'' then
            (case AsRequest msg of
               None \<Rightarrow> s
             | Some note \<Rightarrow>
                 (let (h1, e1, host1) = sd_handleNotification srv c now note h (sy_e s) (sy_hst s)
                  in s\<lparr>sy_h := h1, sy_e := e1, sy_hst := host1\<rparr>))
          else if msg_Type msg = ''response'' then
            (case AsResponse msg of
               None \<Rightarrow> s
             | Some res \<Rightarrow>
                 (let (e1, host1) = handleClientResponse srv c now res h (sy_e s) (sy_hst s) in s\<lparr>sy_e := e1, sy_hst := host1\<rparr>))
          else s\<lparr>sy_h := writeError (am_ID msg) ErrorCodeInvalidRequest ''unknown message type'' None h\<rparr>)"

text \<open>\<open>bufio.Scanner\<close> gives up on a line of 64 KiB or more.\<close>

definition MaxScanTokenSize :: nat where "MaxScanTokenSize = 65536"

definition serve_return :: "go_error option \<Rightarrow> stdio_sys \<Rightarrow> stdio_sys" where
  "serve_return err s = s\<lparr>sy_h := stopSessionPump (sy_h s), sy_done := Some err\<rparr>"

definition serve_input :: "ServerCaps \<Rightarrow> (string \<Rightarrow> wire) \<Rightarrow> ctx \<Rightarrow> string \<Rightarrow> time \<Rightarrow> string option \<Rightarrow> stdio_sys \<Rightarrow> stdio_sys" where
  "serve_input srv parse c uuid now input s = (case c of
       Some err \<Rightarrow> serve_return (Some err) s
     | None \<Rightarrow> (case input of
           None \<Rightarrow> serve_return None s
         | Some l \<Rightarrow> if length l \<ge> MaxScanTokenSize then serve_return (Some (ErrText ''bufio.Scanner: token too long'')) s
             else serve_line srv parse c uuid now l s))"

definition pump_turn :: "(wire \<Rightarrow> string) \<Rightarrow> nat \<Rightarrow> stdio_sys \<Rightarrow> stdio_sys" where
  "pump_turn render i s =
     (let h = sy_h s; p = sd_pumps h ! i; c = (if pump_cancelled p then Some CtxCanceled else None) in
      case pump_sub p of
        None \<Rightarrow> (let (host1, sb) = subscribe_start (pump_session p) [] (sy_hst s)
                 in s\<lparr>sy_h := h\<lparr>sd_pumps := (sd_pumps h)[i := p\<lparr>pump_sub := Some sb\<rparr>]\<rparr>, sy_hst := host1\<rparr>)
      | Some sb \<Rightarrow> (case sub_pc sb of
            Looping \<Rightarrow> (let (host1, sb1) = sub_iterate c (sy_hst s) sb
                 in s\<lparr>sy_h := h\<lparr>sd_pumps := (sd_pumps h)[i := p\<lparr>pump_sub := Some sb1\<rparr>]\<rparr>, sy_hst := host1\<rparr>)
          | Handling m \<Rightarrow> (case writeMessageBytes (render (msg_data m)) h of
                (h1, err) \<Rightarrow>
                  (let (host1, sb1) = (case err of None \<Rightarrow> sub_ack m (sy_hst s) sb | Some e \<Rightarrow> sub_fail e m (sy_hst s) sb)
                   in s\<lparr>sy_h := h1\<lparr>sd_pumps := (sd_pumps h1)[i := p\<lparr>pump_sub := Some sb1\<rparr>]\<rparr>, sy_hst := host1\<rparr>))
          | Waiting w \<Rightarrow>
              (let (host1, sb1) = (if h_chans (sy_hst s) ! w then sub_wake w (sy_hst s) sb
                     else if pump_cancelled p then (sy_hst s, sb\<lparr>sub_pc := Returned CtxCanceled\<rparr>) else (sy_hst s, sb))
               in s\<lparr>sy_h := h\<lparr>sd_pumps := (sd_pumps h)[i := p\<lparr>pump_sub := Some sb1\<rparr>]\<rparr>, sy_hst := host1\<rparr>)
          | Returned e \<Rightarrow> s))"

inductive serve_step :: "ServerCaps \<Rightarrow> (string \<Rightarrow> wire) \<Rightarrow> (wire \<Rightarrow> string) \<Rightarrow> stdio_sys \<Rightarrow> stdio_sys \<Rightarrow> bool"
  for srv parse render where
  read: "sy_done s = None \<Longrightarrow> uuid \<noteq> [] \<Longrightarrow> serve_step srv parse render s (serve_input srv parse c uuid now input s)"
| request: "i < length (sy_pending s) \<Longrightarrow>
    sd_handleRequest srv c now (sy_pending s ! i) (sy_h s) (sy_e s) (sy_hst s) = Some (h1, e1, host1) \<Longrightarrow>
    serve_step srv parse render s (s\<lparr>sy_h := h1, sy_e := e1, sy_hst := host1,
      sy_pending := take i (sy_pending s) @ drop (Suc i) (sy_pending s)\<rparr>)"
| pump: "i < length (sd_pumps (sy_h s)) \<Longrightarrow> serve_step srv parse render s (pump_turn render i s)"

definition serve_init :: "string \<Rightarrow> stdio_sys" where
  "serve_init userID = \<lparr>sy_h = NewHandler userID, sy_e = NewEngine [], sy_hst = mem_New, sy_pending = [], sy_done = None\<rparr>"

inductive serve_reach :: "ServerCaps \<Rightarrow> (string \<Rightarrow> wire) \<Rightarrow> (wire \<Rightarrow> string) \<Rightarrow> string \<Rightarrow> stdio_sys \<Rightarrow> bool"
  for srv parse render userID where
  start: "serve_reach srv parse render userID (serve_init userID)"
| step: "serve_reach srv parse render userID s \<Longrightarrow> serve_step srv parse render s s' \<Longrightarrow> serve_reach srv parse render userID s'"

subsection \<open>One session\<close>

text \<open>Who owns what on a host: identifier, user and revocation of each session.\<close>

definition owners :: "Host \<Rightarrow> string \<Rightarrow> (string \<times> string \<times> bool) option" where
  "owners h x = map_option (\<lambda>m. (sm_SessionID m, sm_UserID m, sm_Revoked m)) (mget (h_metas h) x)"

lemma owners_frame: "h_metas h' = h_metas h \<Longrightarrow> owners h' = owners h"
  by (simp add: owners_def fun_eq_iff)

lemma owners_touch: "owners (fst (mem_TouchSession c now sid h)) = owners h"
  by (auto simp: owners_def fun_eq_iff mem_TouchSession_def touch_meta_def split: option.split)

lemma owners_load:
  "LoadSession memory_host srv c now sid u b e h = (e', h', res) \<Longrightarrow> owners h' = owners h"
  by (auto simp: LoadSession_def memory_host_def owners_touch Let_def split: sum.splits if_splits)

lemma owners_eq: "mget (h_metas h') = mget (h_metas h) \<Longrightarrow> owners h' = owners h"
  by (simp add: owners_def fun_eq_iff)

lemma owners_event: "PublishEvent memory_host c t ev h = (h', r) \<Longrightarrow> owners h' = owners h"
  by (cases c) (auto simp: mem.event_cancelled dest: mem.event_live intro: owners_eq)

lemma owners_event_fst: "owners (fst (PublishEvent memory_host c t ev h)) = owners h"
  by (metis owners_event prod.collapse)

lemma owners_mutate:
  assumes "\<And>m. sm_SessionID (fst (fn m)) = sm_SessionID m \<and> sm_UserID (fst (fn m)) = sm_UserID m \<and> sm_Revoked (fst (fn m)) = sm_Revoked m"
  shows "owners (fst (MutateSession memory_host c now sid fn h)) = owners h"
proof (cases "c = None \<and> mget (h_metas h) sid \<noteq> None")
  case True
  then obtain m where m: "mget (h_metas h) sid = Some m" "c = None" by auto
  obtain m' err where f: "fn m = (m', err)" by fastforce
  with assms [of m] m show ?thesis
    by (cases err) (auto simp: owners_def fun_eq_iff memory_host_def mem_MutateSession_def Let_def)
next
  case False
  then show ?thesis
    by (cases c) (auto simp: memory_host_def mem_MutateSession_def)
qed

lemma owners_notification:
  "HandleNotification memory_host e c now sess note h = (h', r) \<Longrightarrow> owners h' = owners h"
proof -
  assume n: "HandleNotification memory_host e c now sess note h = (h', r)"
  have "owners (fst (MutateSession memory_host c now (sh_sessionID sess) (open_session e now (sh_userID sess)) h)) = owners h"
    by (rule owners_mutate) (simp add: open_session_def)
  with n show ?thesis
    by (auto simp: HandleNotification_def dest: owners_event split: if_splits option.splits prod.splits)
qed

lemma owners_request: "HandleRequest memory_host srv c sess req e h = Some (e', h', out) \<Longrightarrow> owners h' = owners h"
  by (auto simp: HandleRequest_def handleResourcesUnsubscribe_def Let_def owners_event_fst
      split: if_splits prod.splits option.splits)

lemma owners_streams:
  "owners (fst (subscribe_start sid lid h)) = owners h" "owners (fst (sub_iterate c h sb)) = owners h"
  "owners (fst (sub_ack m h sb)) = owners h" "owners (fst (sub_fail e m h sb)) = owners h"
  "owners (fst (sub_wake w h sb)) = owners h"
  by (auto intro!: owners_frame simp: subscribe_start_def getOrCreateStream_def sub_iterate_def sub_ack_def sub_fail_def sub_wake_def
      Let_def split: option.split prod.split)

lemma owners_initialize:
  assumes "owners h = Map.empty" and "uuid \<noteq> []" and "InitializeSession memory_host srv e c uuid now u req h = (h', res)"
  shows "case res of Inl err \<Rightarrow> owners h' = Map.empty
    | Inr (sess, ir) \<Rightarrow> sh_sessionID sess = uuid \<and> owners h' = [uuid \<mapsto> (uuid, u, False)]"
proof -
  have none: "mget (h_metas h) x = None" for x
    using fun_cong [OF assms(1), of x] by (simp add: owners_def)
  have created: "case r of Inl err \<Rightarrow> h1 = h
      | Inr sess \<Rightarrow> c = None \<and> sh_sessionID sess = uuid \<and> owners h1 = [uuid \<mapsto> (uuid, u, False)]"
    if "createSession memory_host e c uuid now u cpv spv caps info h = (h1, r)" for cpv spv caps info h1 r
    using that none assms(2)
    by (cases c) (auto simp: createSession_def memory_host_def mem_CreateSession_def Let_def NewSessionHandle_def owners_def
        fun_eq_iff split: if_splits)
  have deleted: "owners (fst (DeleteSession memory_host None uuid h1)) = Map.empty" if "owners h1 = [uuid \<mapsto> (uuid, u, False)]" for h1
  proof
    fix x
    have "owners h1 x = (if x = uuid then Some (uuid, u, False) else None)" using that by simp
    then show "owners (fst (DeleteSession memory_host None uuid h1)) x = Map.empty x"
      by (auto simp: owners_def memory_host_def mem_DeleteSession_def Let_def split: option.split if_splits)
  qed
  show ?thesis
  proof (cases req)
    case None
    with assms show ?thesis by (auto simp: InitializeSession_def)
  next
    case (Some q)
    show ?thesis
    proof (cases "ir_ProtocolVersion q = [] \<or> (\<exists>err. negotiate_version srv c (ir_ProtocolVersion q) = Inl err)")
      case True
      with Some assms(1,3) show ?thesis by (auto simp: InitializeSession_def split: if_splits)
    next
      case False
      then obtain v where v: "negotiate_version srv c (ir_ProtocolVersion q) = Inr v"
        by (cases "negotiate_version srv c (ir_ProtocolVersion q)") auto
      obtain h1 r1 where cr: "createSession memory_host e c uuid now u (ir_ProtocolVersion q) v (client_caps (ir_Capabilities q))
          \<lparr>ci_Name = ii_Name (ir_ClientInfo q), ci_Version = ii_Version (ir_ClientInfo q), ci_InstanceID = []\<rparr> h = (h1, r1)"
        by fastforce
      from created [OF cr] deleted [of h1] cr v Some False assms(1,3) show ?thesis
        by (cases r1) (auto simp: InitializeSession_def split: sum.splits)
    qed
  qed
qed

definition one_session :: "string \<Rightarrow> stdio_Handler \<Rightarrow> Host \<Rightarrow> bool" where
  "one_session u h host \<longleftrightarrow> sd_userID h = u \<and>
     (if sd_initialized h then sd_sessID h \<noteq> [] \<and> owners host = [sd_sessID h \<mapsto> (sd_sessID h, u, False)]
      else sd_sessID h = [] \<and> owners host = Map.empty)"

lemma one_session_frame:
  assumes "one_session u h host" and "owners host' = owners host" and "sd_userID h' = sd_userID h"
    and "sd_initialized h' = sd_initialized h" and "sd_sessID h' = sd_sessID h"
  shows "one_session u h' host'"
  using assms by (simp add: one_session_def)

lemma write_frame:
  "sd_userID (fst (writeMessageBytes b h)) = sd_userID h" "sd_initialized (fst (writeMessageBytes b h)) = sd_initialized h"
  "sd_sessID (fst (writeMessageBytes b h)) = sd_sessID h"
  by (auto simp: writeMessageBytes_def sd_Write_def Let_def split: option.split nat.split)

lemma writeJSON_frame:
  "sd_userID (writeJSON v h) = sd_userID h" "sd_initialized (writeJSON v h) = sd_initialized h" "sd_sessID (writeJSON v h) = sd_sessID h"
  by (simp_all add: writeJSON_def write_frame split: option.split)

lemma one_session_write [simp]:
  "one_session u (writeJSON v h) host = one_session u h host" "one_session u (writeError i c m d h) host = one_session u h host"
  "one_session u (stopSessionPump h) host = one_session u h host" "one_session u (startSessionPump sid h) host = one_session u h host"
  by (auto simp: one_session_def writeJSON_frame writeError_def stopSessionPump_def startSessionPump_def Let_def split: option.split)

lemma one_session_initialize:
  assumes "one_session u h host" and "uuid \<noteq> []" and "handleInitialize srv c uuid now req h e host = (h', host')"
  shows "one_session u h' host'"
proof (cases "sd_initialized h \<or> dec_InitializeRequest (raw_wire (req_Params req)) = None")
  case True
  with assms(1,3) show ?thesis by (auto simp: handleInitialize_def split: if_splits)
next
  case False
  then obtain q where q: "dec_InitializeRequest (raw_wire (req_Params req)) = Some q" and ni: "\<not> sd_initialized h" by auto
  obtain host1 res where i: "InitializeSession memory_host srv e c uuid now (sd_userID h) (Some q) host = (host1, res)"
    by fastforce
  have "owners host = Map.empty" "sd_userID h = u" using assms(1) ni by (simp_all add: one_session_def)
  from owners_initialize [OF this(1) assms(2) i] this(2) show ?thesis
    using assms q ni i
    by (cases res) (auto simp: handleInitialize_def one_session_def writeError_def writeJSON_frame Let_def split: if_splits sum.splits prod.splits)
qed

lemma one_session_request:
  assumes "one_session u h host" and "sd_handleRequest srv c now req h e host = Some (h', e', host')"
  shows "one_session u h' host'"
  using assms one_session_frame [OF assms(1), of host' h]
  by (auto simp: sd_handleRequest_def dest!: owners_load owners_request split: if_splits prod.splits sum.splits option.splits)

lemma one_session_notification:
  assumes "one_session u h host" and "sd_handleNotification srv c now note h e host = (h', e', host')"
  shows "one_session u h' host'"
  using assms one_session_frame [OF assms(1), of host' h]
  by (auto simp: sd_handleNotification_def dest!: owners_load owners_notification split: if_splits prod.splits sum.splits option.splits)

lemma one_session_response:
  assumes "one_session u h host" and "handleClientResponse srv c now res h e host = (e', host')"
  shows "one_session u h host'"
  using assms one_session_frame [OF assms(1), of host' h]
  by (auto simp: handleClientResponse_def owners_event_fst dest!: owners_load split: if_splits prod.splits sum.splits option.splits)

lemma one_session_line:
  assumes "one_session u (sy_h s) (sy_hst s)" and "uuid \<noteq> []"
  shows "one_session u (sy_h (serve_line srv parse c uuid now l s)) (sy_hst (serve_line srv parse c uuid now l s))"
  using assms one_session_initialize [OF assms] one_session_notification [OF assms(1)] one_session_response [OF assms(1)]
  by (auto simp: serve_line_def Let_def split: sum.split option.split prod.split)

lemma one_session_pump:
  assumes "one_session u (sy_h s) (sy_hst s)"
  shows "one_session u (sy_h (pump_turn render i s)) (sy_hst (pump_turn render i s))"
proof -
  have fr: "one_session u (h\<lparr>sd_pumps := ps\<rparr>) host'" if "one_session u h host" "owners host' = owners host" for h host ps host'
    using that by (simp add: one_session_def)
  have wr: "one_session u h1 (sy_hst s)" if "writeMessageBytes b (sy_h s) = (h1, err)" for b h1 err
    using one_session_frame [OF assms refl, of h1] write_frame [of b "sy_h s"] that by simp
  show ?thesis
    using assms fr [OF assms] fr [OF wr] owners_streams
    by (auto simp: pump_turn_def Let_def split: option.split prod.split sub_pc.split) (metis fst_conv)+
qed

text \<open>C14: the stdio transport serves one session: whatever lines the client sends, in whatever order, and however
  the goroutines for requests and the session pump interleave, the host has no session before a successful
  initialize and ever after exactly one, which belongs to the user of the process, is not revoked and is the one
  the handler uses for every message.\<close>

theorem stdio_single_session:
  assumes "serve_reach srv parse render userID s"
  shows "sd_userID (sy_h s) = userID \<and>
    (if sd_initialized (sy_h s) then
       \<exists>m. mget (h_metas (sy_hst s)) (sd_sessID (sy_h s)) = Some m \<and> sm_SessionID m = sd_sessID (sy_h s) \<and> sm_UserID m = userID \<and>
         \<not> sm_Revoked m \<and> (\<forall>x. x \<noteq> sd_sessID (sy_h s) \<longrightarrow> mget (h_metas (sy_hst s)) x = None)
     else \<forall>x. mget (h_metas (sy_hst s)) x = None)"
proof -
  have "one_session userID (sy_h s) (sy_hst s)"
    using assms
  proof induction
    case start
    then show ?case by (simp add: serve_init_def NewHandler_def one_session_def owners_def fun_eq_iff mem_New_def)
  next
    case (step s s')
    from step(2,3) show ?case
    proof cases
      case (read uuid c now input)
      with step(3) show ?thesis
        by (auto simp: serve_input_def serve_return_def intro: one_session_line split: option.split)
    next
      case (request i c now h1 e1 host1)
      with step(3) one_session_request show ?thesis by simp
    next
      case (pump i)
      with step(3) one_session_pump show ?thesis by simp
    qed
  qed
  then show ?thesis
    by (auto simp: one_session_def owners_def fun_eq_iff split: if_splits)
qed

subsection \<open>One line per request\<close>

lemma writeMessageBytes_live:
  "sd_room h = None \<Longrightarrow> b \<noteq> [] \<Longrightarrow> last b \<noteq> LF \<Longrightarrow> writeMessageBytes b h = (h\<lparr>sd_out := sd_out h @ b @ [LF]\<rparr>, None)"
  by (simp add: writeMessageBytes_def sd_Write_def)

lemma writeJSON_response:
  assumes "sd_room h = None" and "\<not> id_IsNil (res_ID res)"
  obtains b where "marshal_response res = Some b" and "writeJSON (marshal_response res) h = h\<lparr>sd_out := sd_out h @ json_text b @ [LF]\<rparr>"
proof -
  obtain i where "res_ID res = Some i" "i \<noteq> IdNil"
    using assms(2) by (cases "res_ID res") (auto simp: id_IsNil_def)
  then obtain kvs where b: "marshal_response res = Some (JObj kvs)"
    by (cases i) (simp_all add: marshal_response_def enc_id_def id_MarshalJSON_def)
  have "last (json_text (JObj kvs)) \<noteq> LF" "json_text (JObj kvs) \<noteq> []" by (simp_all add: LF_def)
  with writeMessageBytes_live [OF assms(1)] b that show thesis by (simp add: writeJSON_def)
qed

lemma NewErrorResponse_answers:
  "res_ID (NewErrorResponse i c m d) = i" "res_JSONRPCVersion (NewErrorResponse i c m d) = ''2.0''"
  "res_Result (NewErrorResponse i c m d) = None" "res_Error (NewErrorResponse i c m d) \<noteq> None"
  by (simp_all add: NewErrorResponse_def ProtocolVersion_def)



definition init_doc :: wire where
  "init_doc = Doc (JObj [(''jsonrpc'', JStr ''2.0''), (''method'', JStr ''initialize''),
     (''params'', JObj [(''protocolVersion'', JStr ''2025-06-18'')]), (''id'', JInt 1)])"

definition wit_stdio :: stdio_sys where
  "wit_stdio = serve_input (NewServer []) (\<lambda>_. init_doc) None ''s'' 7 (Some ''{}'') (serve_init ''u'')"

lemma wit_stdio_reach: "serve_reach (NewServer []) (\<lambda>_. init_doc) (\<lambda>_. []) ''u'' wit_stdio"
  unfolding wit_stdio_def
  by (rule serve_reach.step [OF serve_reach.start serve_step.read]) (simp_all add: serve_init_def)

lemma init_doc_message:
  "UnmarshalJSON init_doc = Inr \<lparr>am_JSONRPCVersion = ''2.0'', am_Method = ''initialize'', am_Params = Some (JObj [(''protocolVersion'', JStr ''2025-06-18'')]),
     am_Result = None, am_Error = None, am_ID = Some (IdInt 1)\<rparr>"
  by (simp add: UnmarshalJSON_def init_doc_def unmarshal_struct_def dec_any_fields_def key_eq_rec key_eq_same lower_char_def as_raw_def as_ptr_def
      id_UnmarshalJSON_def f64_round_exact validate_message_def ProtocolVersion_def)

lemma wit_stdio_initialized: "sd_initialized (sy_h wit_stdio) \<and> sd_sessID (sy_h wit_stdio) = ''s''"
proof -
  have dec: "dec_InitializeRequest (raw_wire (Some (JObj [(''protocolVersion'', JStr ''2025-06-18'')]))) = Some wit_init"
    by (simp add: dec_InitializeRequest_def raw_wire_def unmarshal_struct_def wit_init_def key_eq_rec key_eq_same lower_char_def)
  obtain ir where run: "InitializeSession memory_host (NewServer []) (NewEngine []) None ''s'' 7 ''u'' (Some wit_init) mem_New =
      (mem_New\<lparr>h_metas := [(''s'', wit_meta)]\<rparr>, Inr (NewSessionHandle wit_meta [], ir))"
    using wit_run_ok unfolding wit_run_def by blast
  have "TrimSpace ''{}'' = ''{}''" by (simp add: TrimSpace_def is_space_def)
  then show ?thesis
    by (simp add: wit_stdio_def serve_input_def serve_line_def MaxScanTokenSize_def init_doc_message msg_Type_def AsRequest_def InitializeMethod_def
        handleInitialize_def serve_init_def NewHandler_def dec run NewSessionHandle_def writeError_def writeJSON_frame Let_def
        split: sum.split)
qed

theorem stdio_single_session_witness:
  "\<exists>m. mget (h_metas (sy_hst wit_stdio)) ''s'' = Some m \<and> sm_UserID m = ''u'' \<and> (\<forall>x. x \<noteq> ''s'' \<longrightarrow> mget (h_metas (sy_hst wit_stdio)) x = None)"
  using stdio_single_session [OF wit_stdio_reach] wit_stdio_initialized by auto

end
