(* ===== verification/ToolWriter.thy ===== *)
theory ToolWriter
  imports McpTypes
begin

section \<open>The tool response writer (mcpservice/toolwriter.go, progress.go)\<close>

text \<open>
  The writer a tool handler composes its result with. Each method holds the writer's mutex, so a
  sequence of calls, from however many goroutines, is a sequence of these operations; \<open>c\<close> is what the
  writer's context reports when the method asks it. The ambient progress reporter, when there is one,
  is a function that may fail.
\<close>

record toolResponseWriter =
  w_finalized :: bool
  w_blocks :: "ContentBlock list"
  w_isError :: bool
  w_meta :: "(string, json) gomap"

definition newToolResponseWriter :: toolResponseWriter where
  "newToolResponseWriter = \<lparr>w_finalized = False, w_blocks = [], w_isError = False, w_meta = []\<rparr>"

definition AppendBlocks :: "ctx \<Rightarrow> ContentBlock list \<Rightarrow> toolResponseWriter \<Rightarrow> toolResponseWriter \<times> go_error option" where
  "AppendBlocks c blocks w = (case c of
       Some e \<Rightarrow> (w, Some e)
     | None \<Rightarrow> if w_finalized w then (w, Some ErrFinalized)
               else if blocks = [] then (w, None)
               else (w\<lparr>w_blocks := w_blocks w @ blocks\<rparr>, None))"

definition AppendText :: "ctx \<Rightarrow> string \<Rightarrow> toolResponseWriter \<Rightarrow> toolResponseWriter \<times> go_error option" where
  "AppendText c text w = (if text = [] then (w, None) else AppendBlocks c [text_block text] w)"

definition SetError :: "bool \<Rightarrow> toolResponseWriter \<Rightarrow> toolResponseWriter" where
  "SetError b w = w\<lparr>w_isError := b\<rparr>"

definition SetMeta :: "string \<Rightarrow> json \<Rightarrow> toolResponseWriter \<Rightarrow> toolResponseWriter" where
  "SetMeta key v w = (if key = [] then w else w\<lparr>w_meta := mput key v (w_meta w)\<rparr>)"

definition SendProgress :: "ctx \<Rightarrow> (string \<Rightarrow> string \<Rightarrow> go_error option) option \<Rightarrow> string \<Rightarrow> string \<Rightarrow> go_error option" where
  "SendProgress c reporter progress tot = (case c of
       Some e \<Rightarrow> Some e
     | None \<Rightarrow> (case reporter of None \<Rightarrow> None | Some report \<Rightarrow> report progress tot))"

definition cloneMeta :: "(string, json) gomap \<Rightarrow> meta" where
  "cloneMeta m = (if m = [] then [] else m)"

definition w_Result :: "toolResponseWriter \<Rightarrow> toolResponseWriter \<times> CallToolResult" where
  "w_Result w = (let r = \<lparr>ctres_Content = w_blocks w, ctres_IsError = w_isError w, ctres_StructuredContent = [],
        ctres_Meta = cloneMeta (w_meta w)\<rparr>
     in if w_finalized w then (w, r) else (w\<lparr>w_finalized := True\<rparr>, r))"

text \<open>Runs of a writer.\<close>

datatype w_call = CText ctx string | CBlocks ctx "ContentBlock list" | CError bool | CMeta string json | CResult

fun w_exec :: "w_call \<Rightarrow> toolResponseWriter \<Rightarrow> toolResponseWriter" where
  "w_exec (CText c t) w = fst (AppendText c t w)"
| "w_exec (CBlocks c bs) w = fst (AppendBlocks c bs w)"
| "w_exec (CError b) w = SetError b w"
| "w_exec (CMeta k v) w = SetMeta k v w"
| "w_exec CResult w = fst (w_Result w)"

fun written :: "w_call list \<Rightarrow> ContentBlock list" where
  "written [] = []"
| "written (CText None t # cs) = (if t = [] then [] else [text_block t]) @ written cs"
| "written (CBlocks None bs # cs) = bs @ written cs"
| "written (CResult # cs) = []"
| "written (c # cs) = written cs"

lemma w_exec_final: "w_finalized w \<Longrightarrow> w_finalized (w_exec c w) \<and> w_blocks (w_exec c w) = w_blocks w"
  by (cases c) (auto simp: AppendText_def AppendBlocks_def SetError_def SetMeta_def w_Result_def Let_def split: option.split)

lemma w_run_final: "w_finalized w \<Longrightarrow> w_blocks (fold w_exec cs w) = w_blocks w"
  by (induction cs arbitrary: w) (auto simp: w_exec_final)

lemma w_run_blocks: "\<not> w_finalized w \<Longrightarrow> w_blocks (fold w_exec cs w) = w_blocks w @ written cs"
proof (induction cs arbitrary: w rule: written.induct)
  case (4 cs)
  then show ?case using w_run_final [of "fst (w_Result w)" cs] by (simp add: w_Result_def Let_def)
qed (auto simp: AppendText_def AppendBlocks_def SetError_def SetMeta_def)

text \<open>The content of a result is exactly the blocks appended, with a live context, before the first
  call of \<open>Result\<close>, in the order of the calls; later appends change nothing and report
  \<open>ErrFinalized\<close>.\<close>

theorem writer_content:
  "ctres_Content (snd (w_Result (fold w_exec cs newToolResponseWriter))) = written cs
   \<and> (bs \<noteq> [] \<longrightarrow> AppendBlocks None bs (fst (w_Result w)) = (fst (w_Result w), Some ErrFinalized))"
  using w_run_blocks [of newToolResponseWriter cs]
  by (simp add: w_Result_def Let_def newToolResponseWriter_def AppendBlocks_def)

theorem writer_content_witness:
  "ctres_Content (snd (w_Result (fold w_exec [CText None ''a'', CText (Some CtxCanceled) ''b'', CResult, CText None ''c'']
     newToolResponseWriter))) = [text_block ''a'']
   \<and> AppendBlocks None [text_block ''c''] (fst (w_Result newToolResponseWriter)) =
     (fst (w_Result newToolResponseWriter), Some ErrFinalized)"
  using writer_content [of "[CText None ''a'', CText (Some CtxCanceled) ''b'', CResult, CText None ''c'']"
      "[text_block ''c'']" newToolResponseWriter] by simp

text \<open>\<open>Result\<close> is not idempotent: \<open>SetError\<close> after finalization changes what the next \<open>Result\<close>
  returns, with no error and even with a cancelled context.\<close>

theorem result_not_idempotent:
  "let w = fst (w_Result newToolResponseWriter) in
     snd (w_Result (SetError True w)) \<noteq> snd (w_Result w)"
  by (simp add: w_Result_def newToolResponseWriter_def SetError_def Let_def)

end
