(* ===== verification/Elicitation.thy ===== *)
theory Elicitation
  imports HttpWire Complex_Main
begin

section \<open>Elicitation schemas built by hand (elicitation/builder.go)\<close>

text \<open>
  A \<open>Builder\<close> collects the properties of a flat object and publishes them as a JSON schema; its decoders
  check what a client answered and store it in a map or in the fields of a struct.

  \<^item> Values of Go's type \<open>any\<close> that occur here are \<open>any\<close>; a float64 is a rational number (not-a-number and
    the infinities do not occur in JSON). The conversions between float64 and text and to float32 and the
    verb \<open>%q\<close> belong to the language's library and are the record \<open>float_lib\<close>.
  \<^item> \<open>None\<close> of an operation is a panic. Options that are nil are \<open>None\<close> in the list of options.
  \<^item> A schema shares the map of properties with its builder, so the decoders take the builder's current
    state beside the schema.
  \<^item> Destinations are pointers into a store: \<open>map_store\<close> for maps, \<open>struct_store\<close> for structs.
\<close>

datatype any =
    GNil
  | GBool bool
  | GNum rat
  | GInt int
  | GStr string
  | GStrs "string list"
  | GOther string  \<comment> \<open>arrays and objects of a JSON document, with the text of their type\<close>

fun type_text :: "any \<Rightarrow> string" where
  "type_text GNil = ''<nil>''"
| "type_text (GBool _) = ''bool''"
| "type_text (GNum _) = ''float64''"
| "type_text (GInt _) = ''int''"
| "type_text (GStr _) = ''string''"
| "type_text (GStrs _) = ''[]string''"
| "type_text (GOther t) = t"

record float_lib =
  fl_text :: "rat \<Rightarrow> string"          \<comment> \<open>\<open>%g\<close>\<close>
  fl_32 :: "rat \<Rightarrow> rat"              \<comment> \<open>rounding to float32\<close>
  fl_scan :: "string \<Rightarrow> rat option"  \<comment> \<open>\<open>fmt.Sscanf\<close> with \<open>%f\<close>\<close>
  fl_quote :: "string \<Rightarrow> string"      \<comment> \<open>\<open>%q\<close>\<close>

subsection \<open>Properties and builders\<close>

record propertyConstraints =
  pc_MinLength :: "int option"
  pc_MaxLength :: "int option"
  pc_Minimum :: "rat option"
  pc_Maximum :: "rat option"

definition no_constraints :: propertyConstraints where
  "no_constraints = \<lparr>pc_MinLength = None, pc_MaxLength = None, pc_Minimum = None, pc_Maximum = None\<rparr>"

record bProperty =
  bp_name :: string
  bp_ptype :: string
  bp_required :: bool
  bp_description :: string
  bp_enumVals :: "string list"
  bp_enumNames :: "string list"
  bp_constraints :: propertyConstraints
  bp_title :: string
  bp_format :: string
  bp_boolDefault :: "bool option"
  bp_strDefault :: "string option"
  bp_numDefault :: "rat option"

record Builder =
  b_props :: "(string, bProperty) gomap"
  b_order :: "string list"
  b_built :: bool

definition NewBuilder :: Builder where
  "NewBuilder = \<lparr>b_props = [], b_order = [], b_built = False\<rparr>"

definition new_property :: "string \<Rightarrow> bProperty" where
  "new_property name = \<lparr>bp_name = name, bp_ptype = [], bp_required = False, bp_description = [], bp_enumVals = [], bp_enumNames = [],
     bp_constraints = no_constraints, bp_title = [], bp_format = [], bp_boolDefault = None, bp_strDefault = None, bp_numDefault = None\<rparr>"

definition ensure :: "string \<Rightarrow> Builder \<Rightarrow> (Builder \<times> bProperty) option" where
  "ensure name b =
     (if TrimSpace name = [] then None
      else case mget (b_props b) name of
        Some bp \<Rightarrow> Some (b, bp)
      | None \<Rightarrow> Some (b\<lparr>b_props := mput name (new_property name) (b_props b), b_order := b_order b @ [name]\<rparr>, new_property name))"

subsection \<open>Property options\<close>

type_synonym PropOption = "bProperty \<Rightarrow> bProperty option"

fun apply_options :: "PropOption option list \<Rightarrow> bProperty \<Rightarrow> bProperty option" where
  "apply_options [] p = Some p"
| "apply_options (None # os) p = apply_options os p"
| "apply_options (Some f # os) p = Option.bind (f p) (apply_options os)"

definition Required :: PropOption where "Required p = Some (p\<lparr>bp_required := True\<rparr>)"
definition Optional :: PropOption where "Optional p = Some (p\<lparr>bp_required := False\<rparr>)"
definition Description :: "string \<Rightarrow> PropOption" where "Description d p = Some (p\<lparr>bp_description := d\<rparr>)"
definition Title :: "string \<Rightarrow> PropOption" where "Title t p = Some (p\<lparr>bp_title := t\<rparr>)"

definition known_format :: "string \<Rightarrow> bool" where
  "known_format f \<longleftrightarrow> f \<in> set [''email'', ''uri'', ''date'', ''date-time'']"

definition Format :: "string \<Rightarrow> PropOption" where
  "Format f p = Some (if known_format f then p\<lparr>bp_format := f\<rparr> else p)"

definition EnumNames :: "string list \<Rightarrow> PropOption" where
  "EnumNames names p = Some (if length (bp_enumVals p) = 0 \<or> length names \<noteq> length (bp_enumVals p) then p else p\<lparr>bp_enumNames := names\<rparr>)"

definition has_default :: "bProperty \<Rightarrow> bool" where
  "has_default p \<longleftrightarrow> bp_strDefault p \<noteq> None \<or> bp_numDefault p \<noteq> None \<or> bp_boolDefault p \<noteq> None"

definition below_min :: "'a::linorder \<Rightarrow> 'a option \<Rightarrow> bool" where
  "below_min v m = (case m of None \<Rightarrow> False | Some n \<Rightarrow> v < n)"

definition above_max :: "'a::linorder \<Rightarrow> 'a option \<Rightarrow> bool" where
  "above_max v m = (case m of None \<Rightarrow> False | Some n \<Rightarrow> n < v)"

definition DefaultBool :: "bool \<Rightarrow> PropOption" where
  "DefaultBool v p =
     (if bp_ptype p \<noteq> ''boolean'' then Some p
      else if bp_required p then None
      else if has_default p then None
      else Some (p\<lparr>bp_boolDefault := Some v\<rparr>))"

definition DefaultString :: "string \<Rightarrow> PropOption" where
  "DefaultString v p =
     (if bp_ptype p \<noteq> ''string'' then Some p
      else if bp_required p then None
      else if has_default p then None
      else if length (bp_enumVals p) > 0 \<and> v \<notin> set (bp_enumVals p) then None
      else if below_min (int (length v)) (pc_MinLength (bp_constraints p)) then None
      else if above_max (int (length v)) (pc_MaxLength (bp_constraints p)) then None
      else Some (p\<lparr>bp_strDefault := Some v\<rparr>))"

text \<open>The conversion of a float64 to int64 drops the fraction; out of range it gives the least int64, as the
  amd64 instruction does (the language leaves that case open).\<close>

definition trunc :: "rat \<Rightarrow> int" where
  "trunc v = (if v < 0 then - \<lfloor>- v\<rfloor> else \<lfloor>v\<rfloor>)"

definition to_int64 :: "rat \<Rightarrow> int" where
  "to_int64 v = (if int64_ok (trunc v) then trunc v else - (2 ^ 63))"

definition is_integral :: "rat \<Rightarrow> bool" where
  "is_integral v \<longleftrightarrow> v = of_int (to_int64 v)"

definition DefaultNumber :: "rat \<Rightarrow> PropOption" where
  "DefaultNumber v p =
     (if bp_ptype p \<noteq> ''number'' \<and> bp_ptype p \<noteq> ''integer'' then Some p
      else if bp_required p then None
      else if has_default p then None
      else if bp_ptype p = ''integer'' \<and> \<not> is_integral v then None
      else if below_min v (pc_Minimum (bp_constraints p)) then None
      else if above_max v (pc_Maximum (bp_constraints p)) then None
      else Some (p\<lparr>bp_numDefault := Some v\<rparr>))"

definition MinLength :: "int \<Rightarrow> PropOption" where "MinLength n p = Some (p\<lparr>bp_constraints := (bp_constraints p)\<lparr>pc_MinLength := Some n\<rparr>\<rparr>)"
definition MaxLength :: "int \<Rightarrow> PropOption" where "MaxLength n p = Some (p\<lparr>bp_constraints := (bp_constraints p)\<lparr>pc_MaxLength := Some n\<rparr>\<rparr>)"
definition Minimum :: "rat \<Rightarrow> PropOption" where "Minimum f p = Some (p\<lparr>bp_constraints := (bp_constraints p)\<lparr>pc_Minimum := Some f\<rparr>\<rparr>)"
definition Maximum :: "rat \<Rightarrow> PropOption" where "Maximum f p = Some (p\<lparr>bp_constraints := (bp_constraints p)\<lparr>pc_Maximum := Some f\<rparr>\<rparr>)"

subsection \<open>Adding properties\<close>

definition store_property :: "string \<Rightarrow> PropOption option list \<Rightarrow> bProperty \<Rightarrow> Builder \<Rightarrow> Builder option" where
  "store_property name opts bp b = map_option (\<lambda>p. b\<lparr>b_props := mput name p (b_props b)\<rparr>) (apply_options opts bp)"

definition b_add :: "string \<Rightarrow> string \<Rightarrow> PropOption option list \<Rightarrow> Builder \<Rightarrow> Builder option" where
  "b_add name ptype opts b =
     Option.bind (ensure name b) (\<lambda>(b1, bp). store_property name opts (bp\<lparr>bp_ptype := ptype\<rparr>) b1)"

definition b_String :: "string \<Rightarrow> PropOption option list \<Rightarrow> Builder \<Rightarrow> Builder option" where
  "b_String name opts b = b_add name ''string'' opts b"

definition b_Number :: "string \<Rightarrow> PropOption option list \<Rightarrow> Builder \<Rightarrow> Builder option" where
  "b_Number name opts b = b_add name ''number'' opts b"

definition b_Boolean :: "string \<Rightarrow> PropOption option list \<Rightarrow> Builder \<Rightarrow> Builder option" where
  "b_Boolean name opts b = b_add name ''boolean'' opts b"

definition b_Integer :: "string \<Rightarrow> PropOption option list \<Rightarrow> Builder \<Rightarrow> Builder option" where
  "b_Integer name opts b = b_add name ''integer'' opts b"

definition b_EnumString :: "string \<Rightarrow> string list \<Rightarrow> PropOption option list \<Rightarrow> Builder \<Rightarrow> Builder option" where
  "b_EnumString name values opts b =
     Option.bind (ensure name b) (\<lambda>(b1, bp). store_property name opts (bp\<lparr>bp_ptype := ''string'', bp_enumVals := values\<rparr>) b1)"

subsection \<open>The canonical schema text\<close>

text \<open>The buffer of the encoders: \<open>lit\<close> is the literal piece for a key that is not the first one.\<close>

definition encJSONString :: "string \<Rightarrow> string" where
  "encJSONString s = json_string s"

definition lit :: "string \<Rightarrow> string" where
  "lit k = '','' @ quoted k @ '':''"

fun write_list :: "('a \<Rightarrow> string) \<Rightarrow> nat \<Rightarrow> 'a list \<Rightarrow> string" where
  "write_list f i [] = []"
| "write_list f i (x # xs) = (if i > 0 then '','' else []) @ f x @ write_list f (Suc i) xs"

definition writeStringArray :: "string list \<Rightarrow> string" where
  "writeStringArray arr = ''['' @ write_list encJSONString 0 arr @ '']''"

definition intToString :: "int \<Rightarrow> string" where
  "intToString i = itoa_int i"

definition floatToString :: "float_lib \<Rightarrow> rat \<Rightarrow> string" where
  "floatToString fl f = fl_text fl f"

definition write_string_key :: "string \<Rightarrow> (string, any) gomap \<Rightarrow> string" where
  "write_string_key k pm = (case mget pm k of Some (GStr v) \<Rightarrow> lit k @ encJSONString v | _ \<Rightarrow> [])"

definition write_int_key :: "string \<Rightarrow> (string, any) gomap \<Rightarrow> string" where
  "write_int_key k pm = (case mget pm k of Some (GInt v) \<Rightarrow> lit k @ intToString v | _ \<Rightarrow> [])"

definition write_num_key :: "float_lib \<Rightarrow> string \<Rightarrow> (string, any) gomap \<Rightarrow> string" where
  "write_num_key fl k pm = (case mget pm k of Some (GNum v) \<Rightarrow> lit k @ floatToString fl v | _ \<Rightarrow> [])"

definition write_enum :: "(string, any) gomap \<Rightarrow> string" where
  "write_enum pm = (case mget pm ''enum'' of
       Some (GStrs ev) \<Rightarrow> lit ''enum'' @ writeStringArray ev @
         (case mget pm ''enumNames'' of
            Some (GStrs en) \<Rightarrow> if length en > 0 then lit ''enumNames'' @ writeStringArray en else []
          | _ \<Rightarrow> [])
     | _ \<Rightarrow> [])"

definition write_default :: "float_lib \<Rightarrow> (string, any) gomap \<Rightarrow> string" where
  "write_default fl pm = (case mget pm ''default'' of
       Some (GBool d) \<Rightarrow> lit ''default'' @ (if d then ''true'' else ''false'')
     | Some (GStr d) \<Rightarrow> lit ''default'' @ encJSONString d
     | Some (GNum d) \<Rightarrow> lit ''default'' @ floatToString fl d
     | _ \<Rightarrow> [])"

definition write_property :: "float_lib \<Rightarrow> (string, (string, any) gomap) gomap \<Rightarrow> string \<Rightarrow> string" where
  "write_property fl props name =
     (let pm = (case mget props name of None \<Rightarrow> [] | Some m \<Rightarrow> m);
          t = (case mget pm ''type'' of Some (GStr s) \<Rightarrow> s | _ \<Rightarrow> [])
      in encJSONString name @ '':'' @ ''{'' @ quoted ''type'' @ '':'' @ encJSONString t
         @ write_string_key ''title'' pm @ write_string_key ''description'' pm @ write_string_key ''format'' pm
         @ write_enum pm @ write_default fl pm
         @ write_int_key ''minLength'' pm @ write_int_key ''maxLength'' pm
         @ write_num_key fl ''minimum'' pm @ write_num_key fl ''maximum'' pm @ ''}'')"

definition marshalBuilderCanonical :: "float_lib \<Rightarrow> string list \<Rightarrow> (string, (string, any) gomap) gomap \<Rightarrow> string list \<Rightarrow> string" where
  "marshalBuilderCanonical fl order props required =
     ''{'' @ quoted ''type'' @ '':'' @ quoted ''object'' @ '','' @ quoted ''properties'' @ '':'' @ ''{''
     @ write_list (write_property fl props) 0 order @ ''}''
     @ (if length required > 0 then lit ''required'' @ ''['' @ write_list encJSONString 0 required @ '']'' else [])
     @ ''}''"

text \<open>\<open>hex.EncodeToString\<close> of the SHA-256 sum, an argument.\<close>

definition hex_text :: "string \<Rightarrow> string" where
  "hex_text bs = concat (map (\<lambda>c. let n = of_char c :: nat in [hex_digit (n div 16), hex_digit (n mod 16)]) bs)"

definition fingerprintBytes :: "(string \<Rightarrow> string) \<Rightarrow> string \<Rightarrow> string" where
  "fingerprintBytes sha256 b = hex_text (sha256 b)"

subsection \<open>Build\<close>

record dynamicSchema =
  ds_jsonBytes :: string
  ds_fingerprint :: string
  ds_requiredSet :: "string list"

definition put_if :: "bool \<Rightarrow> string \<Rightarrow> any \<Rightarrow> (string, any) gomap \<Rightarrow> (string, any) gomap" where
  "put_if c k v m = (if c then mput k v m else m)"

definition put_opt :: "string \<Rightarrow> any option \<Rightarrow> (string, any) gomap \<Rightarrow> (string, any) gomap" where
  "put_opt k v m = (case v of None \<Rightarrow> m | Some x \<Rightarrow> mput k x m)"

definition property_object :: "bProperty \<Rightarrow> (string, any) gomap" where
  "property_object p =
     (let m = [(''type'', GStr (bp_ptype p))];
          m = put_if (length (bp_enumVals p) > 0) ''enum'' (GStrs (bp_enumVals p)) m;
          m = put_if (length (bp_enumVals p) > 0 \<and> length (bp_enumNames p) = length (bp_enumVals p) \<and> length (bp_enumNames p) > 0)
                ''enumNames'' (GStrs (bp_enumNames p)) m;
          m = put_if (bp_title p \<noteq> []) ''title'' (GStr (bp_title p)) m;
          m = put_if (bp_description p \<noteq> []) ''description'' (GStr (bp_description p)) m;
          m = put_if (bp_format p \<noteq> []) ''format'' (GStr (bp_format p)) m;
          m = put_opt ''default'' (map_option GStr (bp_strDefault p)) m;
          m = put_opt ''default'' (map_option GNum (bp_numDefault p)) m;
          m = put_opt ''default'' (map_option GBool (bp_boolDefault p)) m;
          m = put_opt ''minLength'' (map_option GInt (pc_MinLength (bp_constraints p))) m;
          m = put_opt ''maxLength'' (map_option GInt (pc_MaxLength (bp_constraints p))) m;
          m = put_opt ''minimum'' (map_option GNum (pc_Minimum (bp_constraints p))) m
      in put_opt ''maximum'' (map_option GNum (pc_Maximum (bp_constraints p))) m)"

fun build_loop :: "(string, bProperty) gomap \<Rightarrow> string list \<Rightarrow> string list \<Rightarrow> (string, (string, any) gomap) gomap \<Rightarrow>
    (go_error + string list \<times> (string, (string, any) gomap) gomap) option" where
  "build_loop props [] required obj = Some (Inr (required, obj))"
| "build_loop props (name # names) required obj = (case mget props name of
       None \<Rightarrow> None
     | Some p \<Rightarrow>
         if bp_ptype p = [] then Some (Inl (ErrText (''elicitation: property '' @ name @ '' missing type'')))
         else build_loop props names (if bp_required p then required @ [name] else required) (mput name (property_object p) obj))"

definition Build :: "float_lib \<Rightarrow> (string \<Rightarrow> string) \<Rightarrow> Builder \<Rightarrow> (Builder \<times> (go_error + dynamicSchema)) option" where
  "Build fl sha256 b =
     (if b_built b then Some (b, Inl (ErrText ''elicitation: builder reused after Build''))
      else case build_loop (b_props b) (b_order b) [] [] of
        None \<Rightarrow> None
      | Some (Inl err) \<Rightarrow> Some (b, Inl err)
      | Some (Inr (required, obj)) \<Rightarrow>
          (let bytes = marshalBuilderCanonical fl (b_order b) obj required
           in Some (b\<lparr>b_built := True\<rparr>, Inr \<lparr>ds_jsonBytes = bytes, ds_fingerprint = fingerprintBytes sha256 bytes, ds_requiredSet = remdups required\<rparr>)))"

subsection \<open>Decoding into a map\<close>

definition typeErr :: "string \<Rightarrow> any \<Rightarrow> go_error" where
  "typeErr expected got = ErrText (''expected '' @ expected @ '' got '' @ type_text got)"

definition check_length :: "propertyConstraints \<Rightarrow> string \<Rightarrow> go_error option" where
  "check_length c vs =
     (if below_min (int (length vs)) (pc_MinLength c) then Some (ErrText (''minLength violation ('' @ intToString (the (pc_MinLength c)) @ '')''))
      else if above_max (int (length vs)) (pc_MaxLength c) then Some (ErrText (''maxLength violation ('' @ intToString (the (pc_MaxLength c)) @ '')''))
      else None)"

definition check_range :: "float_lib \<Rightarrow> propertyConstraints \<Rightarrow> rat \<Rightarrow> go_error option" where
  "check_range fl c f =
     (if below_min f (pc_Minimum c) then Some (ErrText (''minimum violation ('' @ floatToString fl (the (pc_Minimum c)) @ '')''))
      else if above_max f (pc_Maximum c) then Some (ErrText (''maximum violation ('' @ floatToString fl (the (pc_Maximum c)) @ '')''))
      else None)"

definition check_enum :: "float_lib \<Rightarrow> string list \<Rightarrow> any \<Rightarrow> go_error option" where
  "check_enum fl evs val =
     (if length evs > 0 then
        (case val of
           GStr vs \<Rightarrow> if vs \<in> set evs then None else Some (ErrText (''value '' @ fl_quote fl vs @ '' not in enum''))
         | _ \<Rightarrow> Some (ErrText ''enum expects string value''))
      else None)"

definition validateDynamicValue :: "float_lib \<Rightarrow> bProperty \<Rightarrow> any \<Rightarrow> go_error option" where
  "validateDynamicValue fl bp val =
     (if val = GNil then Some (ErrText ''null value'')
      else case check_enum fl (bp_enumVals bp) val of
        Some err \<Rightarrow> Some err
      | None \<Rightarrow>
          if bp_ptype bp = ''string'' then
            (case val of GStr vs \<Rightarrow> check_length (bp_constraints bp) vs | _ \<Rightarrow> Some (typeErr ''string'' val))
          else if bp_ptype bp = ''number'' then
            (case val of GNum f \<Rightarrow> check_range fl (bp_constraints bp) f | _ \<Rightarrow> Some (typeErr ''number'' val))
          else if bp_ptype bp = ''boolean'' then
            (case val of GBool _ \<Rightarrow> None | _ \<Rightarrow> Some (typeErr ''boolean'' val))
          else Some (ErrText (''unsupported type '' @ bp_ptype bp)))"

definition missing_required :: "string list \<Rightarrow> (string, any) gomap \<Rightarrow> string list" where
  "missing_required requiredSet raw = filter (\<lambda>r. mget raw r = None) requiredSet"

fun validate_all :: "float_lib \<Rightarrow> (string, bProperty) gomap \<Rightarrow> (string, any) gomap \<Rightarrow> go_error option" where
  "validate_all fl props [] = None"
| "validate_all fl props ((name, val) # raw) = (case mget props name of
       None \<Rightarrow> validate_all fl props raw
     | Some bp \<Rightarrow> (case validateDynamicValue fl bp val of
           Some err \<Rightarrow> Some (Wrapped (''field '' @ name) err)
         | None \<Rightarrow> validate_all fl props raw))"

fun apply_defaults :: "(string, bProperty) gomap \<Rightarrow> (string, any) gomap \<Rightarrow> (string, any) gomap" where
  "apply_defaults [] copyMap = copyMap"
| "apply_defaults ((name, bp) # props) copyMap = apply_defaults props
     (if mget copyMap name \<noteq> None then copyMap
      else case bp_boolDefault bp of Some v \<Rightarrow> mput name (GBool v) copyMap | None \<Rightarrow>
      (case bp_strDefault bp of Some v \<Rightarrow> mput name (GStr v) copyMap | None \<Rightarrow>
      (case bp_numDefault bp of Some v \<Rightarrow> mput name (GNum v) copyMap | None \<Rightarrow> copyMap)))"

text \<open>A destination of the static type \<open>any\<close>: a pointer to a map in the store, a nil pointer to a map, or
  something else; the nil interface is \<open>None\<close>.\<close>

datatype map_ptr = MapAt nat | MapNil | NotMap

type_synonym map_store = "(string, any) gomap list"

record dynamicDecoder =
  dd_schema :: dynamicSchema
  dd_dst :: map_ptr

definition bindDynamicSchema :: "dynamicSchema \<Rightarrow> map_ptr option \<Rightarrow> go_error + dynamicDecoder" where
  "bindDynamicSchema ds dst = (case dst of
       Some (MapAt i) \<Rightarrow> Inr \<lparr>dd_schema = ds, dd_dst = MapAt i\<rparr>
     | Some MapNil \<Rightarrow> Inr \<lparr>dd_schema = ds, dd_dst = MapNil\<rparr>
     | _ \<Rightarrow> Inl (ErrText ''elicitation: builder Bind currently only supports *map[string]any''))"

definition Bind :: "float_lib \<Rightarrow> (string \<Rightarrow> string) \<Rightarrow> map_ptr option \<Rightarrow> Builder \<Rightarrow> (Builder \<times> (go_error + dynamicDecoder)) option" where
  "Bind fl sha256 dst b = (case Build fl sha256 b of
       None \<Rightarrow> None
     | Some (b1, Inl err) \<Rightarrow> Some (b1, Inl err)
     | Some (b1, Inr ds) \<Rightarrow> Some (b1, bindDynamicSchema ds dst))"

definition dyn_Decode :: "float_lib \<Rightarrow> Builder \<Rightarrow> dynamicDecoder \<Rightarrow> (string, any) gomap \<Rightarrow> map_ptr option \<Rightarrow> map_store \<Rightarrow> map_store \<times> go_error option" where
  "dyn_Decode fl b d raw dst store =
     (case (case dst of None \<Rightarrow> dd_dst d | Some p \<Rightarrow> p) of
        MapAt i \<Rightarrow>
          (let missing = missing_required (ds_requiredSet (dd_schema d)) raw in
           if length missing > 0 then (store, Some (ErrText (''missing required fields: '' @ Join missing '','')))
           else case validate_all fl (b_props b) raw of
             Some err \<Rightarrow> (store, Some err)
           | None \<Rightarrow> (store[i := apply_defaults (b_props b) raw], None))
      | _ \<Rightarrow> (store, Some (ErrText ''elicitation: dynamic decode expects *map[string]any destination'')))"

subsection \<open>Go structs as reflection sees them\<close>

text \<open>A field has its name, whether it is exported, its two tags, whether its type is a pointer and the kind of
  its type or of what it points to; numeric kinds carry their width. A field's cell is the value it holds, \<open>None\<close>
  for a nil pointer.\<close>

datatype kind = KString | KBool | KInt nat | KUint nat | KFloat32 | KFloat64 | KOther

datatype fval = FStr string | FBool bool | FInt int | FUint int | FFloat rat | FOther

record sfield =
  sf_Name :: string
  sf_exported :: bool
  sf_json :: string
  sf_jsonschema :: string
  sf_ptr :: bool
  sf_kind :: kind

record stype =
  st_name :: string
  st_fields :: "sfield list"

type_synonym cell = "fval option"

record sobj =
  so_type :: stype
  so_cells :: "cell list"

type_synonym struct_store = "sobj list"

datatype struct_ptr = StructAt nat | PtrToOther | NotPtr

fun zero_val :: "kind \<Rightarrow> fval" where
  "zero_val KString = FStr []"
| "zero_val KBool = FBool False"
| "zero_val (KInt _) = FInt 0"
| "zero_val (KUint _) = FUint 0"
| "zero_val KFloat32 = FFloat 0"
| "zero_val KFloat64 = FFloat 0"
| "zero_val KOther = FOther"

definition zero_cell :: "sfield \<Rightarrow> cell" where
  "zero_cell f = (if sf_ptr f then None else Some (zero_val (sf_kind f)))"

definition zero_struct :: "stype \<Rightarrow> cell list" where
  "zero_struct t = map zero_cell (st_fields t)"

text \<open>\<open>SetInt\<close> and \<open>SetUint\<close> keep the low bits of the field's width.\<close>

definition wrap_int :: "nat \<Rightarrow> int \<Rightarrow> int" where
  "wrap_int w n = (n + 2 ^ (w - 1)) mod 2 ^ w - 2 ^ (w - 1)"

definition to_uint64 :: "rat \<Rightarrow> int" where
  "to_uint64 v = (if trunc v < 2 ^ 64 then trunc v else 2 ^ 63)"

definition set_number :: "float_lib \<Rightarrow> kind \<Rightarrow> rat \<Rightarrow> fval \<Rightarrow> fval" where
  "set_number fl k f old = (case k of
       KFloat32 \<Rightarrow> FFloat (fl_32 fl f)
     | KFloat64 \<Rightarrow> FFloat f
     | KInt w \<Rightarrow> FInt (wrap_int w (to_int64 f))
     | KUint w \<Rightarrow> FUint (to_uint64 (if f < 0 then 0 else f) mod 2 ^ w)
     | _ \<Rightarrow> old)"

definition set_string :: "kind \<Rightarrow> any \<Rightarrow> fval option" where
  "set_string k val = (case val of GStr s \<Rightarrow> if k = KString then Some (FStr s) else None | _ \<Rightarrow> None)"

definition set_bool :: "kind \<Rightarrow> any \<Rightarrow> fval option" where
  "set_bool k val = (case val of GBool v \<Rightarrow> if k = KBool then Some (FBool v) else None | _ \<Rightarrow> None)"

definition assignStructPrimitive :: "float_lib \<Rightarrow> kind \<Rightarrow> any \<Rightarrow> string \<Rightarrow> fval \<Rightarrow> fval option" where
  "assignStructPrimitive fl k val ptype old =
     (if ptype = ''string'' then set_string k val
      else if ptype = ''number'' then
        (case val of GNum f \<Rightarrow> Some (if k = KBool then FBool (f \<noteq> 0) else set_number fl k f old) | _ \<Rightarrow> None)
      else if ptype = ''boolean'' then set_bool k val
      else set_string k val)"

subsection \<open>Decoding into a struct\<close>

record fieldBinding =
  fb_index :: nat
  fb_kind :: kind
  fb_isPtr :: bool

definition compatibleKind :: "string \<Rightarrow> kind \<Rightarrow> bool" where
  "compatibleKind ptype k =
     (if ptype = ''string'' then k = KString
      else if ptype = ''number'' then (case k of KInt _ \<Rightarrow> True | KUint _ \<Rightarrow> True | KFloat32 \<Rightarrow> True | KFloat64 \<Rightarrow> True | _ \<Rightarrow> False)
      else if ptype = ''boolean'' then k = KBool
      else k = KString)"

text \<open>The property a field stands for: the first segment of its json tag, or its name.\<close>

definition field_property :: "sfield \<Rightarrow> string option" where
  "field_property f =
     (if \<not> sf_exported f then None
      else if sf_json f = [] then Some (sf_Name f)
      else let seg = hd (Split (sf_json f) CHR '','') in
           if seg = ''-'' then None else if seg \<noteq> [] then Some seg else Some (sf_Name f))"

fun field_bindings :: "nat \<Rightarrow> sfield list \<Rightarrow> (string, fieldBinding) gomap \<Rightarrow> (string, fieldBinding) gomap" where
  "field_bindings i [] m = m"
| "field_bindings i (f # fs) m = field_bindings (Suc i) fs (case field_property f of
       None \<Rightarrow> m
     | Some name \<Rightarrow> mput name \<lparr>fb_index = i, fb_kind = sf_kind f, fb_isPtr = sf_ptr f\<rparr> m)"

fun bind_props :: "(string, fieldBinding) gomap \<Rightarrow> (string, bProperty) gomap \<Rightarrow> (string, fieldBinding) gomap \<Rightarrow>
    go_error + (string, fieldBinding) gomap" where
  "bind_props bindings [] acc = Inr acc"
| "bind_props bindings ((pname, prop) # props) acc = (case mget bindings pname of
       None \<Rightarrow> if bp_required prop then Inl (ErrText (''elicitation: required property '' @ pname @ '' has no matching struct field''))
               else bind_props bindings props acc
     | Some fb \<Rightarrow>
         if \<not> compatibleKind (bp_ptype prop) (fb_kind fb)
         then Inl (ErrText (''elicitation: field '' @ pname @ '' incompatible with schema type '' @ bp_ptype prop))
         else bind_props bindings props (mput pname fb acc))"

record dynamicStructDecoder =
  sdd_schema :: dynamicSchema
  sdd_dst :: nat
  sdd_bindings :: "(string, fieldBinding) gomap"

definition b_BindStruct :: "float_lib \<Rightarrow> (string \<Rightarrow> string) \<Rightarrow> struct_ptr option \<Rightarrow> struct_store \<Rightarrow> Builder \<Rightarrow>
    (Builder \<times> (go_error + dynamicStructDecoder)) option" where
  "b_BindStruct fl sha256 ptr store b = (case Build fl sha256 b of
       None \<Rightarrow> None
     | Some (b1, Inl err) \<Rightarrow> Some (b1, Inl err)
     | Some (b1, Inr ds) \<Rightarrow> Some (b1, (case ptr of
           None \<Rightarrow> Inl (ErrText ''elicitation: nil destination in BindStruct'')
         | Some NotPtr \<Rightarrow> Inl (ErrText ''elicitation: BindStruct expects non-nil pointer to struct'')
         | Some PtrToOther \<Rightarrow> Inl (ErrText ''elicitation: BindStruct expects pointer to struct'')
         | Some (StructAt i) \<Rightarrow>
             (case bind_props (field_bindings 0 (st_fields (so_type (store ! i))) []) (b_props b1) [] of
                Inl err \<Rightarrow> Inl err
              | Inr pb \<Rightarrow> Inr \<lparr>sdd_schema = ds, sdd_dst = i, sdd_bindings = pb\<rparr>))))"

text \<open>A decoder that panics on an error of its constructor: \<open>MustBuild\<close>, \<open>MustBind\<close>, \<open>MustBindStruct\<close>.\<close>

definition must :: "(Builder \<times> (go_error + 'a)) option \<Rightarrow> (Builder \<times> 'a) option" where
  "must r = (case r of Some (b, Inr x) \<Rightarrow> Some (b, x) | _ \<Rightarrow> None)"

definition MustBuild :: "float_lib \<Rightarrow> (string \<Rightarrow> string) \<Rightarrow> Builder \<Rightarrow> (Builder \<times> dynamicSchema) option" where
  "MustBuild fl sha256 b = must (Build fl sha256 b)"

definition MustBind :: "float_lib \<Rightarrow> (string \<Rightarrow> string) \<Rightarrow> map_ptr option \<Rightarrow> Builder \<Rightarrow> (Builder \<times> dynamicDecoder) option" where
  "MustBind fl sha256 dst b = must (Bind fl sha256 dst b)"

definition MustBindStruct :: "float_lib \<Rightarrow> (string \<Rightarrow> string) \<Rightarrow> struct_ptr option \<Rightarrow> struct_store \<Rightarrow> Builder \<Rightarrow>
    (Builder \<times> dynamicStructDecoder) option" where
  "MustBindStruct fl sha256 ptr store b = must (b_BindStruct fl sha256 ptr store b)"

text \<open>A field to assign to: a nil pointer is allocated first.\<close>

definition field_target :: "kind \<Rightarrow> cell \<Rightarrow> fval" where
  "field_target k c = (case c of None \<Rightarrow> zero_val k | Some v \<Rightarrow> v)"

fun struct_assign :: "float_lib \<Rightarrow> (string, bProperty) gomap \<Rightarrow> (string, fieldBinding) gomap \<Rightarrow> (string, any) gomap \<Rightarrow>
    cell list \<Rightarrow> string list \<Rightarrow> (go_error + cell list \<times> string list) option" where
  "struct_assign fl props binds [] fresh provided = Some (Inr (fresh, provided))"
| "struct_assign fl props binds ((name, val) # raw) fresh provided = (case mget props name of
       None \<Rightarrow> struct_assign fl props binds raw fresh provided
     | Some prop \<Rightarrow> (case mget binds name of
           None \<Rightarrow> struct_assign fl props binds raw fresh provided
         | Some fb \<Rightarrow> (case validateDynamicValue fl prop val of
               Some err \<Rightarrow> Some (Inl (Wrapped (''field '' @ name) err))
             | None \<Rightarrow> (case assignStructPrimitive fl (fb_kind fb) val (bp_ptype prop) (field_target (fb_kind fb) (fresh ! fb_index fb)) of
                   None \<Rightarrow> None
                 | Some v \<Rightarrow> struct_assign fl props binds raw (fresh[fb_index fb := Some v]) (name # provided)))))"

definition default_value :: "bProperty \<Rightarrow> any option" where
  "default_value prop = (case bp_numDefault prop of Some v \<Rightarrow> Some (GNum v) | None \<Rightarrow>
     (case bp_strDefault prop of Some v \<Rightarrow> Some (GStr v) | None \<Rightarrow> map_option GBool (bp_boolDefault prop)))"

definition default_field :: "float_lib \<Rightarrow> string \<Rightarrow> kind \<Rightarrow> any \<Rightarrow> fval \<Rightarrow> fval option" where
  "default_field fl ptype k v old =
     (if ptype = ''string'' then set_string k v
      else if ptype = ''number'' \<or> ptype = ''integer'' then (case v of GNum f \<Rightarrow> Some (set_number fl k f old) | _ \<Rightarrow> None)
      else if ptype = ''boolean'' then set_bool k v
      else Some old)"

fun struct_defaults :: "float_lib \<Rightarrow> (string, bProperty) gomap \<Rightarrow> (string, fieldBinding) gomap \<Rightarrow> string list \<Rightarrow> cell list \<Rightarrow> cell list option" where
  "struct_defaults fl [] binds provided fresh = Some fresh"
| "struct_defaults fl ((name, prop) # props) binds provided fresh =
     (if name \<in> set provided then struct_defaults fl props binds provided fresh
      else case mget binds name of
        None \<Rightarrow> struct_defaults fl props binds provided fresh
      | Some fb \<Rightarrow>
          if \<not> fb_isPtr fb then struct_defaults fl props binds provided fresh
          else case default_value prop of
            None \<Rightarrow> struct_defaults fl props binds provided fresh
          | Some v \<Rightarrow> (case default_field fl (bp_ptype prop) (fb_kind fb) v (field_target (fb_kind fb) (fresh ! fb_index fb)) of
                None \<Rightarrow> None
              | Some x \<Rightarrow> struct_defaults fl props binds provided (fresh[fb_index fb := Some x])))"

definition dynStruct_Decode :: "float_lib \<Rightarrow> Builder \<Rightarrow> dynamicStructDecoder \<Rightarrow> (string, any) gomap \<Rightarrow> struct_ptr option \<Rightarrow> struct_store \<Rightarrow>
    (struct_store \<times> go_error option) option" where
  "dynStruct_Decode fl b d raw dst store =
     (case (case dst of
              None \<Rightarrow> Some (sdd_dst d)
            | Some (StructAt i) \<Rightarrow> if so_type (store ! i) = so_type (store ! sdd_dst d) then Some i else None
            | _ \<Rightarrow> None) of
        None \<Rightarrow> Some (store, Some (ErrText ''elicitation: typed decode destination mismatch''))
      | Some i \<Rightarrow>
          (let missing = missing_required (ds_requiredSet (sdd_schema d)) raw; t = so_type (store ! i) in
           if length missing > 0 then Some (store, Some (ErrText (''missing required fields: '' @ Join missing '','')))
           else case struct_assign fl (b_props b) (sdd_bindings d) raw (zero_struct t) [] of
             None \<Rightarrow> None
           | Some (Inl err) \<Rightarrow> Some (store, Some err)
           | Some (Inr (fresh, provided)) \<Rightarrow> (case struct_defaults fl (b_props b) (sdd_bindings d) provided fresh of
                 None \<Rightarrow> None
               | Some fresh' \<Rightarrow> Some (store[i := (store ! i)\<lparr>so_cells := fresh'\<rparr>], None))))"

end
