(* ===== verification/ElicitSchemas.thy ===== *)
theory ElicitSchemas
  imports Elicitation
begin

section \<open>What a built schema says and what its decoders accept\<close>

text \<open>
  \<open>schema_doc\<close> is the JSON document a builder stands for, \<open>validates\<close> the meaning JSON Schema gives it. The
  encoder writes exactly the text of that document, and the map decoder accepts exactly the objects that
  validate against it. The struct decoder never panics and stores the values, the defaults and zero.
\<close>

subsection \<open>Builders that a program can make\<close>

inductive_set prop_options :: "PropOption set" where
  "Required \<in> prop_options"
| "Optional \<in> prop_options"
| "Description d \<in> prop_options"
| "Title t \<in> prop_options"
| "Format f \<in> prop_options"
| "EnumNames ns \<in> prop_options"
| "DefaultBool v \<in> prop_options"
| "DefaultString s \<in> prop_options"
| "DefaultNumber n \<in> prop_options"
| "MinLength i \<in> prop_options"
| "MaxLength i \<in> prop_options"
| "Minimum n \<in> prop_options"
| "Maximum n \<in> prop_options"

definition options_ok :: "PropOption option list \<Rightarrow> bool" where
  "options_ok opts \<longleftrightarrow> (\<forall>f. Some f \<in> set opts \<longrightarrow> f \<in> prop_options)"

inductive builder_reach :: "Builder \<Rightarrow> bool" where
  new: "builder_reach NewBuilder"
| string: "builder_reach b \<Longrightarrow> options_ok os \<Longrightarrow> b_String n os b = Some b' \<Longrightarrow> builder_reach b'"
| number: "builder_reach b \<Longrightarrow> options_ok os \<Longrightarrow> b_Number n os b = Some b' \<Longrightarrow> builder_reach b'"
| boolean: "builder_reach b \<Longrightarrow> options_ok os \<Longrightarrow> b_Boolean n os b = Some b' \<Longrightarrow> builder_reach b'"
| integer: "builder_reach b \<Longrightarrow> options_ok os \<Longrightarrow> b_Integer n os b = Some b' \<Longrightarrow> builder_reach b'"
| enum: "builder_reach b \<Longrightarrow> options_ok os \<Longrightarrow> b_EnumString n vs os b = Some b' \<Longrightarrow> builder_reach b'"
| build: "builder_reach b \<Longrightarrow> Build fl sha b = Some (b', r) \<Longrightarrow> builder_reach b'"

definition property_types :: "string set" where
  "property_types = {''string'', ''number'', ''boolean'', ''integer''}"

definition property_ok :: "bProperty \<Rightarrow> bool" where
  "property_ok p \<longleftrightarrow> bp_ptype p \<in> property_types \<and>
     (bp_boolDefault p \<noteq> None \<longrightarrow> bp_strDefault p = None \<and> bp_numDefault p = None) \<and>
     (bp_strDefault p \<noteq> None \<longrightarrow> bp_numDefault p = None)"

definition builder_ok :: "Builder \<Rightarrow> bool" where
  "builder_ok b \<longleftrightarrow> wf_map (b_props b) \<and> distinct (b_order b) \<and> set (b_order b) = set (mkeys (b_props b)) \<and>
     (\<forall>n p. mget (b_props b) n = Some p \<longrightarrow> property_ok p)"

lemmas prop_option_defs =
  Required_def Optional_def Description_def Title_def Format_def EnumNames_def DefaultBool_def DefaultString_def DefaultNumber_def
  MinLength_def MaxLength_def Minimum_def Maximum_def

lemma prop_option_ok:
  assumes "f \<in> prop_options" and "property_ok p" and "f p = Some q"
  shows "property_ok q"
  using assms
  by (cases rule: prop_options.cases) (auto simp: prop_option_defs property_ok_def has_default_def split: if_splits)

lemma apply_options_ok:
  "options_ok os \<Longrightarrow> property_ok p \<Longrightarrow> apply_options os p = Some q \<Longrightarrow> property_ok q"
proof (induction os p rule: apply_options.induct)
  case (3 f os p)
  then obtain p1 where "f p = Some p1" "apply_options os p1 = Some q"
    by (auto split: bind_splits)
  moreover have "options_ok os" "f \<in> prop_options"
    using 3(2) by (auto simp: options_ok_def)
  ultimately show ?case
    using 3 prop_option_ok by blast
qed (auto simp: options_ok_def)

lemma mkeys_mput [simp]: "set (mkeys (mput k v m)) = insert k (set (mkeys m))"
  by (auto simp: mkeys_iff split: if_splits)

lemma builder_ok_store:
  assumes "builder_ok b" and "ensure n b = Some (b1, bp)" and "options_ok os" and "t \<in> property_types"
    and "apply_options os (g bp) = Some q"
    and "\<And>p. bp_ptype (g p) = t \<and> bp_boolDefault (g p) = bp_boolDefault p \<and> bp_strDefault (g p) = bp_strDefault p \<and> bp_numDefault (g p) = bp_numDefault p"
  shows "builder_ok (b1\<lparr>b_props := mput n q (b_props b1)\<rparr>)"
proof -
  have bp: "property_ok (g bp)" if "property_ok bp \<or> bp = new_property n"
    using that assms(4,6) by (auto simp: property_ok_def new_property_def)
  have b1: "builder_ok b1 \<or> b1 = b\<lparr>b_props := mput n (new_property n) (b_props b), b_order := b_order b @ [n]\<rparr> \<and> mget (b_props b) n = None"
    and n: "n \<in> set (mkeys (b_props b1))"
    using assms(1,2) by (auto simp: ensure_def mkeys_iff split: if_splits option.splits)
  have "property_ok bp \<or> bp = new_property n"
    using assms(1,2) by (auto simp: ensure_def builder_ok_def split: if_splits option.splits)
  then have q: "property_ok q"
    using apply_options_ok [OF assms(3) bp assms(5)] by simp
  show ?thesis
    using b1
  proof
    assume "builder_ok b1"
    with q n show ?thesis by (auto simp: builder_ok_def split: if_splits)
  next
    assume new: "b1 = b\<lparr>b_props := mput n (new_property n) (b_props b), b_order := b_order b @ [n]\<rparr> \<and> mget (b_props b) n = None"
    then have "n \<notin> set (b_order b)"
      using assms(1) by (simp add: builder_ok_def mkeys_iff)
    with new q assms(1) show ?thesis by (auto simp: builder_ok_def split: if_splits)
  qed
qed

lemma builder_ok_add:
  assumes "builder_ok b" and "options_ok os" and "t \<in> property_types" and "b_add n t os b = Some b'"
  shows "builder_ok b'"
proof -
  obtain b1 bp q where "ensure n b = Some (b1, bp)" "apply_options os (bp\<lparr>bp_ptype := t\<rparr>) = Some q" "b' = b1\<lparr>b_props := mput n q (b_props b1)\<rparr>"
    using assms(4) by (auto simp: b_add_def store_property_def split: bind_splits)
  with builder_ok_store [OF assms(1) _ assms(2,3), of n b1 bp "\<lambda>p. p\<lparr>bp_ptype := t\<rparr>" q] show ?thesis by simp
qed

lemma builder_ok_enum:
  assumes "builder_ok b" and "options_ok os" and "b_EnumString n vs os b = Some b'"
  shows "builder_ok b'"
proof -
  obtain b1 bp q where "ensure n b = Some (b1, bp)" "apply_options os (bp\<lparr>bp_ptype := ''string'', bp_enumVals := vs\<rparr>) = Some q"
      "b' = b1\<lparr>b_props := mput n q (b_props b1)\<rparr>"
    using assms(3) by (auto simp: b_EnumString_def store_property_def split: bind_splits)
  with builder_ok_store [OF assms(1) _ assms(2), of n b1 bp "''string''" "\<lambda>p. p\<lparr>bp_ptype := ''string'', bp_enumVals := vs\<rparr>" q]
  show ?thesis by (simp add: property_types_def)
qed

lemma builder_reach_ok: "builder_reach b \<Longrightarrow> builder_ok b"
proof (induction rule: builder_reach.induct)
  case new
  then show ?case by (simp add: NewBuilder_def builder_ok_def mkeys_def)
next
  case (build b fl sha b' r)
  then show ?case by (auto simp: Build_def builder_ok_def Let_def split: if_splits option.splits sum.splits)
qed (auto intro: builder_ok_add builder_ok_enum simp: b_String_def b_Number_def b_Boolean_def b_Integer_def property_types_def)

subsection \<open>The schema as a document\<close>

definition str_member :: "string \<Rightarrow> string \<Rightarrow> (string \<times> json) list" where
  "str_member k s = (if s = [] then [] else [(k, JStr s)])"

definition opt_member :: "string \<Rightarrow> json option \<Rightarrow> (string \<times> json) list" where
  "opt_member k v = (case v of None \<Rightarrow> [] | Some j \<Rightarrow> [(k, j)])"

definition strings_doc :: "string list \<Rightarrow> json" where
  "strings_doc xs = JArr (map JStr xs)"

text \<open>One description for both ways to make a schema: name, type, title, description, format, enumeration with
  names, default and constraints.\<close>

record property_view =
  pv_name :: string
  pv_type :: string
  pv_title :: string
  pv_description :: string
  pv_format :: string
  pv_enum :: "string list"
  pv_names :: "string list"
  pv_default :: "any option"
  pv_constraints :: propertyConstraints

definition num_doc :: "float_lib \<Rightarrow> rat \<Rightarrow> json" where
  "num_doc fl f = JFlt (fl_text fl f)"

fun default_doc :: "float_lib \<Rightarrow> any \<Rightarrow> json option" where
  "default_doc fl (GBool b) = Some (JBool b)"
| "default_doc fl (GStr s) = Some (JStr s)"
| "default_doc fl (GNum n) = Some (num_doc fl n)"
| "default_doc fl _ = None"

definition property_members :: "float_lib \<Rightarrow> property_view \<Rightarrow> (string \<times> json) list" where
  "property_members fl v =
     str_member ''title'' (pv_title v) @ str_member ''description'' (pv_description v) @ str_member ''format'' (pv_format v)
     @ (if pv_enum v = [] then [] else (''enum'', strings_doc (pv_enum v)) #
         (if pv_names v = [] then [] else [(''enumNames'', strings_doc (pv_names v))]))
     @ opt_member ''default'' (Option.bind (pv_default v) (default_doc fl))
     @ opt_member ''minLength'' (map_option JInt (pc_MinLength (pv_constraints v)))
     @ opt_member ''maxLength'' (map_option JInt (pc_MaxLength (pv_constraints v)))
     @ opt_member ''minimum'' (map_option (num_doc fl) (pc_Minimum (pv_constraints v)))
     @ opt_member ''maximum'' (map_option (num_doc fl) (pc_Maximum (pv_constraints v)))"

definition property_doc :: "float_lib \<Rightarrow> property_view \<Rightarrow> json" where
  "property_doc fl v = JObj ((''type'', JStr (pv_type v)) # property_members fl v)"

definition object_doc :: "float_lib \<Rightarrow> property_view list \<Rightarrow> string list \<Rightarrow> json" where
  "object_doc fl vs required = JObj ([(''type'', JStr ''object''), (''properties'', JObj (map (\<lambda>v. (pv_name v, property_doc fl v)) vs))]
     @ (if required = [] then [] else [(''required'', strings_doc required)]))"

definition builder_view :: "string \<Rightarrow> bProperty \<Rightarrow> property_view" where
  "builder_view n p = \<lparr>pv_name = n, pv_type = bp_ptype p, pv_title = bp_title p, pv_description = bp_description p, pv_format = bp_format p,
     pv_enum = bp_enumVals p, pv_names = (if length (bp_enumNames p) = length (bp_enumVals p) then bp_enumNames p else []),
     pv_default = default_value p, pv_constraints = bp_constraints p\<rparr>"

definition builder_views :: "Builder \<Rightarrow> property_view list" where
  "builder_views b = map (\<lambda>n. builder_view n (the (mget (b_props b) n))) (b_order b)"

definition builder_required :: "Builder \<Rightarrow> string list" where
  "builder_required b = filter (\<lambda>n. bp_required (the (mget (b_props b) n))) (b_order b)"

definition schema_doc :: "float_lib \<Rightarrow> Builder \<Rightarrow> json" where
  "schema_doc fl b = object_doc fl (builder_views b) (builder_required b)"

subsection \<open>Text\<close>

lemma write_list_Suc: "write_list f (Suc i) xs = concat (map (\<lambda>x. '','' @ f x) xs)"
  by (induction xs arbitrary: i) auto

lemma Join_concat: "Join (x # xs) sep = x @ concat (map (\<lambda>y. sep @ y) xs)"
  by (induction xs arbitrary: x) auto

lemma write_list_Join: "write_list f 0 xs = Join (map f xs) '',''"
  by (cases xs) (simp_all add: write_list_Suc Join_concat o_def del: Join.simps(2,3))

lemma writeStringArray_text: "writeStringArray xs = json_text (strings_doc xs)"
  by (simp add: writeStringArray_def write_list_Join strings_doc_def encJSONString_def [abs_def] o_def)

text \<open>The members of an object after its first one.\<close>

definition members_text :: "(string \<times> json) list \<Rightarrow> string" where
  "members_text kvs = concat (map (\<lambda>(k, v). '','' @ json_string k @ '':'' @ json_text v) kvs)"

lemma members_text_simps:
  "members_text [] = []" "members_text (kvs @ kvs') = members_text kvs @ members_text kvs'"
  "members_text ((k, v) # kvs) = '','' @ json_string k @ '':'' @ json_text v @ members_text kvs"
  by (simp_all add: members_text_def)

lemma json_text_object: "json_text (JObj ((k, v) # kvs)) = ''{'' @ json_string k @ '':'' @ json_text v @ members_text kvs @ ''}''"
  by (simp add: Join_concat members_text_def o_def case_prod_unfold del: Join.simps(2,3))

definition plain_key :: "string \<Rightarrow> bool" where
  "plain_key k \<longleftrightarrow> (\<forall>c \<in> set k. json_escape c = [c])"

lemma json_string_plain: "plain_key k \<Longrightarrow> json_string k = quoted k"
proof -
  have "plain_key k \<Longrightarrow> concat (map json_escape k) = k"
    by (induction k) (simp_all add: plain_key_def)
  then show "plain_key k \<Longrightarrow> json_string k = quoted k" by (simp add: json_string_def quoted_def)
qed

lemma schema_keys [simp]:
  "plain_key ''type''" "plain_key ''title''" "plain_key ''description''" "plain_key ''format''" "plain_key ''enum''" "plain_key ''enumNames''"
  "plain_key ''default''" "plain_key ''minLength''" "plain_key ''maxLength''" "plain_key ''minimum''" "plain_key ''maximum''"
  "plain_key ''properties''" "plain_key ''required''" "plain_key ''object''"
  by (simp_all add: plain_key_def json_escape_def)

lemma members_text_lit: "plain_key k \<Longrightarrow> members_text ((k, v) # kvs) = lit k @ json_text v @ members_text kvs"
  by (simp add: members_text_simps json_string_plain lit_def)

lemma str_member_text: "plain_key k \<Longrightarrow> members_text (str_member k s) = (if s = [] then [] else lit k @ encJSONString s)"
  by (simp add: str_member_def members_text_lit members_text_simps(1) encJSONString_def)

lemma opt_member_text: "plain_key k \<Longrightarrow> members_text (opt_member k v) = (case v of None \<Rightarrow> [] | Some j \<Rightarrow> lit k @ json_text j)"
  by (simp add: opt_member_def members_text_lit members_text_simps(1) split: option.split)

lemmas member_texts = members_text_lit members_text_simps(1,2) str_member_text opt_member_text

subsection \<open>The builder's encoder\<close>

lemma mget_put:
  "mget (put_if c k v m) k' = (if c \<and> k' = k then Some v else mget m k')"
  "mget (put_opt k x m) k' = (if x \<noteq> None \<and> k' = k then x else mget m k')"
  by (auto simp: put_if_def put_opt_def split: option.split)

lemma property_object_fields:
  "mget (property_object p) ''type'' = Some (GStr (bp_ptype p))"
  "mget (property_object p) ''title'' = (if bp_title p = [] then None else Some (GStr (bp_title p)))"
  "mget (property_object p) ''description'' = (if bp_description p = [] then None else Some (GStr (bp_description p)))"
  "mget (property_object p) ''format'' = (if bp_format p = [] then None else Some (GStr (bp_format p)))"
  "mget (property_object p) ''enum'' = (if bp_enumVals p = [] then None else Some (GStrs (bp_enumVals p)))"
  "mget (property_object p) ''enumNames'' =
     (if bp_enumVals p \<noteq> [] \<and> length (bp_enumNames p) = length (bp_enumVals p) then Some (GStrs (bp_enumNames p)) else None)"
  "mget (property_object p) ''minLength'' = map_option GInt (pc_MinLength (bp_constraints p))"
  "mget (property_object p) ''maxLength'' = map_option GInt (pc_MaxLength (bp_constraints p))"
  "mget (property_object p) ''minimum'' = map_option GNum (pc_Minimum (bp_constraints p))"
  "mget (property_object p) ''maximum'' = map_option GNum (pc_Maximum (bp_constraints p))"
  by (simp_all add: property_object_def mget_put Let_def)

lemma property_object_default: "property_ok p \<Longrightarrow> mget (property_object p) ''default'' = default_value p"
  by (auto simp: property_object_def mget_put Let_def default_value_def property_ok_def split: option.split)

lemma default_value_cases: "default_value p \<in> {None} \<union> range (Some \<circ> GNum) \<union> range (Some \<circ> GStr) \<union> range (Some \<circ> GBool)"
  by (auto simp: default_value_def split: option.split)

lemma write_default_text:
  "property_ok p \<Longrightarrow> write_default fl (property_object p) = members_text (opt_member ''default'' (Option.bind (default_value p) (default_doc fl)))"
  using default_value_cases [of p]
  by (auto simp: write_default_def property_object_default member_texts num_doc_def floatToString_def encJSONString_def)

lemma write_enum_text:
  "write_enum (property_object p) = members_text (if bp_enumVals p = [] then [] else (''enum'', strings_doc (bp_enumVals p)) #
     (if (if length (bp_enumNames p) = length (bp_enumVals p) then bp_enumNames p else []) = [] then []
      else [(''enumNames'', strings_doc (if length (bp_enumNames p) = length (bp_enumVals p) then bp_enumNames p else []))]))"
  by (simp add: write_enum_def property_object_fields member_texts writeStringArray_text del: json_text.simps)

lemma write_property_text:
  assumes "mget obj n = Some (property_object p)" and "property_ok p"
  shows "write_property fl obj n = json_string n @ '':'' @ json_text (property_doc fl (builder_view n p))"
proof -
  have keys:
    "write_string_key ''title'' (property_object p) = members_text (str_member ''title'' (bp_title p))"
    "write_string_key ''description'' (property_object p) = members_text (str_member ''description'' (bp_description p))"
    "write_string_key ''format'' (property_object p) = members_text (str_member ''format'' (bp_format p))"
    "write_int_key ''minLength'' (property_object p) = members_text (opt_member ''minLength'' (map_option JInt (pc_MinLength (bp_constraints p))))"
    "write_int_key ''maxLength'' (property_object p) = members_text (opt_member ''maxLength'' (map_option JInt (pc_MaxLength (bp_constraints p))))"
    "write_num_key fl ''minimum'' (property_object p) = members_text (opt_member ''minimum'' (map_option (num_doc fl) (pc_Minimum (bp_constraints p))))"
    "write_num_key fl ''maximum'' (property_object p) = members_text (opt_member ''maximum'' (map_option (num_doc fl) (pc_Maximum (bp_constraints p))))"
    by (simp_all add: write_string_key_def write_int_key_def write_num_key_def property_object_fields member_texts num_doc_def
        intToString_def floatToString_def split: option.split)
  show ?thesis
    using assms
    by (simp add: write_property_def Let_def property_object_fields(1) keys write_default_text write_enum_text property_doc_def json_text_object
        json_string_plain property_members_def members_text_simps(2) builder_view_def encJSONString_def del: json_text.simps(6,7))
qed

lemma build_loop_runs:
  assumes "\<forall>n \<in> set names. \<exists>p. mget props n = Some p \<and> property_ok p"
  shows "\<exists>obj'. build_loop props names req obj = Some (Inr (req @ filter (\<lambda>n. bp_required (the (mget props n))) names, obj')) \<and>
    (\<forall>n. mget obj' n = (if n \<in> set names then Some (property_object (the (mget props n))) else mget obj n))"
  using assms
proof (induction names arbitrary: req obj)
  case (Cons n names)
  then obtain p where p: "mget props n = Some p" "property_ok p" by auto
  then have "bp_ptype p \<noteq> []" by (auto simp: property_ok_def property_types_def)
  with p Cons.IH [of "if bp_required p then req @ [n] else req" "mput n (property_object p) obj"] Cons.prems
  show ?case by (auto split: if_splits)
qed simp

lemma Build_outcome:
  assumes "builder_ok b" and "\<not> b_built b"
  shows "Build fl sha b = Some (b\<lparr>b_built := True\<rparr>, Inr \<lparr>ds_jsonBytes = json_text (schema_doc fl b),
    ds_fingerprint = hex_text (sha (json_text (schema_doc fl b))), ds_requiredSet = builder_required b\<rparr>)"
proof -
  have all: "\<forall>n \<in> set (b_order b). \<exists>p. mget (b_props b) n = Some p \<and> property_ok p"
    using assms(1) by (auto simp: builder_ok_def mkeys_iff)
  obtain obj where l: "build_loop (b_props b) (b_order b) [] [] = Some (Inr (builder_required b, obj))"
    and obj: "\<forall>n \<in> set (b_order b). mget obj n = Some (property_object (the (mget (b_props b) n)))"
    using build_loop_runs [OF all, of "[]" "[]"] by (auto simp: builder_required_def)
  have props: "map (write_property fl obj) (b_order b) =
      map (\<lambda>(k, v). json_string k @ '':'' @ json_text v) (map (\<lambda>v. (pv_name v, property_doc fl v)) (builder_views b))"
    using obj all write_property_text by (auto simp: builder_views_def builder_view_def)
  have "marshalBuilderCanonical fl (b_order b) obj (builder_required b) = json_text (schema_doc fl b)"
    unfolding marshalBuilderCanonical_def schema_doc_def object_doc_def write_list_Join props append_Cons append_Nil json_text_object
    by (simp add: member_texts json_string_plain strings_doc_def encJSONString_def [abs_def] o_def lit_def)
  moreover have "distinct (builder_required b)"
    using assms(1) by (simp add: builder_ok_def builder_required_def)
  ultimately show ?thesis
    using assms(2) l by (simp add: Build_def Let_def fingerprintBytes_def distinct_remdups_id)
qed

text \<open>C23: the schema bytes of a builder, written piece by piece into a buffer, are exactly the JSON text of the
  object the builder stands for: its properties in the order of their first declaration, each with its type and
  attributes, and the required ones by name. No key occurs twice, the first \<open>Build\<close> succeeds without panic and
  any further one is refused.\<close>

theorem builder_schema_text:
  assumes "builder_reach b"
  shows "(if b_built b then \<exists>err. Build fl sha b = Some (b, Inl err)
    else \<exists>ds. Build fl sha b = Some (b\<lparr>b_built := True\<rparr>, Inr ds) \<and> ds_jsonBytes ds = json_text (schema_doc fl b) \<and>
      ds_fingerprint ds = hex_text (sha (ds_jsonBytes ds)) \<and> ds_requiredSet ds = builder_required b \<and>
      distinct (map pv_name (builder_views b)) \<and> set (map pv_name (builder_views b)) = set (mkeys (b_props b)))"
proof (cases "b_built b")
  case True
  then show ?thesis by (simp add: Build_def)
next
  case False
  have ok: "builder_ok b" using assms by (rule builder_reach_ok)
  have "map pv_name (builder_views b) = b_order b" by (simp add: builder_views_def builder_view_def o_def)
  with False Build_outcome [OF ok False, of fl sha] ok show ?thesis by (simp add: builder_ok_def)
qed

subsection \<open>The meaning of a schema\<close>

text \<open>
  JSON Schema's reading of the keywords the library writes, on the document itself. A string's length is its
  number of characters: the bytes of its UTF-8 encoding that do not continue a character.
\<close>

definition characters :: "string \<Rightarrow> nat" where
  "characters s = length (filter (\<lambda>c. \<not> (128 \<le> (of_char c :: nat) \<and> (of_char c :: nat) < 192)) s)"

definition has_type :: "string \<Rightarrow> any \<Rightarrow> bool" where
  "has_type t v = (case v of
       GStr _ \<Rightarrow> t = ''string''
     | GBool _ \<Rightarrow> t = ''boolean''
     | GNum f \<Rightarrow> t = ''number'' \<or> t = ''integer'' \<and> f = of_int \<lfloor>f\<rfloor>
     | _ \<Rightarrow> False)"

definition number_of :: "float_lib \<Rightarrow> json \<Rightarrow> rat option" where
  "number_of fl j = (case j of JFlt t \<Rightarrow> fl_scan fl t | JInt n \<Rightarrow> Some (of_int n) | _ \<Rightarrow> None)"

definition keyword_holds :: "float_lib \<Rightarrow> any \<Rightarrow> string \<times> json \<Rightarrow> bool" where
  "keyword_holds fl v = (\<lambda>(k, j).
     (k = ''type'' \<longrightarrow> (\<forall>t. j = JStr t \<longrightarrow> has_type t v)) \<and>
     (k = ''enum'' \<longrightarrow> (\<forall>js. j = JArr js \<longrightarrow> (\<exists>s. v = GStr s \<and> JStr s \<in> set js))) \<and>
     (k = ''minLength'' \<longrightarrow> (\<forall>n s. j = JInt n \<and> v = GStr s \<longrightarrow> n \<le> int (characters s))) \<and>
     (k = ''maxLength'' \<longrightarrow> (\<forall>n s. j = JInt n \<and> v = GStr s \<longrightarrow> int (characters s) \<le> n)) \<and>
     (k = ''minimum'' \<longrightarrow> (\<forall>x f. number_of fl j = Some x \<and> v = GNum f \<longrightarrow> x \<le> f)) \<and>
     (k = ''maximum'' \<longrightarrow> (\<forall>x f. number_of fl j = Some x \<and> v = GNum f \<longrightarrow> f \<le> x)))"

definition satisfies :: "float_lib \<Rightarrow> json \<Rightarrow> any \<Rightarrow> bool" where
  "satisfies fl j v = (case j of JObj kvs \<Rightarrow> (\<forall>kv \<in> set kvs. keyword_holds fl v kv) | _ \<Rightarrow> False)"

definition validates :: "float_lib \<Rightarrow> json \<Rightarrow> (string, any) gomap \<Rightarrow> bool" where
  "validates fl doc raw = (case doc of
       JObj kvs \<Rightarrow>
         (\<forall>ps n j v. mget kvs ''properties'' = Some (JObj ps) \<and> mget ps n = Some j \<and> mget raw n = Some v \<longrightarrow> satisfies fl j v) \<and>
         (\<forall>js n. mget kvs ''required'' = Some (JArr js) \<and> JStr n \<in> set js \<longrightarrow> mget raw n \<noteq> None)
     | _ \<Rightarrow> False)"

text \<open>What the library's conversions must do: reading back a number's text gives the number.\<close>

definition prints_exactly :: "float_lib \<Rightarrow> bool" where
  "prints_exactly fl \<longleftrightarrow> (\<forall>x. fl_scan fl (fl_text fl x) = Some x)"

definition ascii :: "string \<Rightarrow> bool" where
  "ascii s \<longleftrightarrow> (\<forall>c \<in> set s. (of_char c :: nat) < 128)"

lemma characters_ascii: "ascii s \<Longrightarrow> characters s = length s"
  by (induction s) (auto simp: ascii_def characters_def)

definition conforms :: "property_view \<Rightarrow> any \<Rightarrow> bool" where
  "conforms p v \<longleftrightarrow> has_type (pv_type p) v \<and> (pv_enum p \<noteq> [] \<longrightarrow> (\<exists>s. v = GStr s \<and> s \<in> set (pv_enum p))) \<and>
     (\<forall>s. v = GStr s \<longrightarrow> \<not> below_min (int (characters s)) (pc_MinLength (pv_constraints p)) \<and>
       \<not> above_max (int (characters s)) (pc_MaxLength (pv_constraints p))) \<and>
     (\<forall>f. v = GNum f \<longrightarrow> \<not> below_min f (pc_Minimum (pv_constraints p)) \<and> \<not> above_max f (pc_Maximum (pv_constraints p)))"

lemma keyword_simps:
  "keyword_holds fl v (''type'', JStr t) = has_type t v"
  "keyword_holds fl v (''enum'', strings_doc xs) = (\<exists>s. v = GStr s \<and> s \<in> set xs)"
  "keyword_holds fl v (''minLength'', JInt n) = (\<forall>s. v = GStr s \<longrightarrow> n \<le> int (characters s))"
  "keyword_holds fl v (''maxLength'', JInt n) = (\<forall>s. v = GStr s \<longrightarrow> int (characters s) \<le> n)"
  "prints_exactly fl \<Longrightarrow> keyword_holds fl v (''minimum'', num_doc fl x) = (\<forall>f. v = GNum f \<longrightarrow> x \<le> f)"
  "prints_exactly fl \<Longrightarrow> keyword_holds fl v (''maximum'', num_doc fl x) = (\<forall>f. v = GNum f \<longrightarrow> f \<le> x)"
  "keyword_holds fl v (''title'', j)" "keyword_holds fl v (''description'', j)" "keyword_holds fl v (''format'', j)"
  "keyword_holds fl v (''enumNames'', j)" "keyword_holds fl v (''default'', j)"
  by (auto simp: keyword_holds_def strings_doc_def number_of_def num_doc_def prints_exactly_def)

lemma ball_member:
  "(\<forall>kv \<in> set (opt_member k (map_option g x)). P kv) = (\<forall>n. x = Some n \<longrightarrow> P (k, g n))"
  "\<forall>kv \<in> set (opt_member ''default'' y). keyword_holds fl v kv"
  "(\<forall>kv \<in> set (str_member k s). P kv) = (s \<noteq> [] \<longrightarrow> P (k, JStr s))"
  by (auto simp: opt_member_def str_member_def keyword_simps split: option.split)

lemma bounds_iff:
  "\<not> below_min v m \<longleftrightarrow> (\<forall>n. m = Some n \<longrightarrow> n \<le> v)" "\<not> above_max v m \<longleftrightarrow> (\<forall>n. m = Some n \<longrightarrow> v \<le> n)"
  by (auto simp: below_min_def above_max_def not_less split: option.split)

lemma satisfies_property_doc:
  assumes "prints_exactly fl"
  shows "satisfies fl (property_doc fl p) v = conforms p v"
  using assms
  by (simp add: satisfies_def property_doc_def property_members_def ball_Un conforms_def ball_member keyword_simps bounds_iff) blast

subsection \<open>The map decoder\<close>

lemma validate_conforms:
  assumes "bp_ptype p \<in> property_types" "bp_ptype p \<noteq> ''integer''" and "\<And>s. v = GStr s \<Longrightarrow> ascii s" and "\<forall>n. v \<noteq> GInt n" "\<forall>xs. v \<noteq> GStrs xs"
  shows "validateDynamicValue fl p v = None \<longleftrightarrow> conforms (builder_view n p) v"
  using assms
  by (cases v)
    (auto simp: validateDynamicValue_def conforms_def builder_view_def has_type_def check_enum_def check_length_def check_range_def
      property_types_def characters_ascii)

lemma wf_map_mget: "wf_map m \<Longrightarrow> mget m n = Some v \<longleftrightarrow> (n, v) \<in> set m"
  by (simp add: wf_map_def mkeys_def mget_def)

lemma validate_all_iff:
  assumes "wf_map raw"
  shows "validate_all fl props raw = None \<longleftrightarrow>
     (\<forall>n p v. mget props n = Some p \<and> mget raw n = Some v \<longrightarrow> validateDynamicValue fl p v = None)"
proof -
  have "validate_all fl props raw = None \<longleftrightarrow> (\<forall>(n, v) \<in> set raw. \<forall>p. mget props n = Some p \<longrightarrow> validateDynamicValue fl p v = None)"
    by (induction fl props raw rule: validate_all.induct) (auto split: option.split)
  with wf_map_mget [OF assms] show ?thesis by fastforce
qed

lemma apply_defaults_get:
  "wf_map props \<Longrightarrow> (\<And>n p. mget props n = Some p \<Longrightarrow> property_ok p) \<Longrightarrow> mget (apply_defaults props m) n =
     (case mget m n of Some v \<Rightarrow> Some v | None \<Rightarrow> Option.bind (mget props n) default_value)"
proof (induction props m rule: apply_defaults.induct)
  case (2 name bp props m)
  have wf: "wf_map props" and new: "mget props name = None"
    using 2(2) by (simp_all add: wf_map_def mkeys_def mget_None_iff)
  have ok: "property_ok bp" "\<And>n p. mget props n = Some p \<Longrightarrow> property_ok p"
    using 2(3) [of name bp] 2(3) new by (simp, metis mget_Cons option.distinct(1))
  let ?m = "if mget m name \<noteq> None then m
      else case bp_boolDefault bp of Some v \<Rightarrow> mput name (GBool v) m | None \<Rightarrow>
      (case bp_strDefault bp of Some v \<Rightarrow> mput name (GStr v) m | None \<Rightarrow>
      (case bp_numDefault bp of Some v \<Rightarrow> mput name (GNum v) m | None \<Rightarrow> m))"
  have "mget ?m k = (if k = name \<and> mget m name = None then default_value bp else mget m k)" for k
    using ok(1) by (auto simp: default_value_def property_ok_def split: option.split)
  with 2(1) [OF wf ok(2)] new show ?case
    by (auto split: option.split)
qed (simp split: option.split)

lemma mget_views:
  "mget (map (\<lambda>v. (pv_name v, property_doc fl v)) (map (\<lambda>n. builder_view n (f n)) ns)) n =
     (if n \<in> set ns then Some (property_doc fl (builder_view n (f n))) else None)"
  by (induction ns) (auto simp: builder_view_def)

lemma validates_schema_doc:
  assumes "builder_ok b"
  shows "validates fl (schema_doc fl b) raw \<longleftrightarrow>
    (\<forall>n p v. mget (b_props b) n = Some p \<and> mget raw n = Some v \<longrightarrow> satisfies fl (property_doc fl (builder_view n p)) v) \<and>
    (\<forall>n \<in> set (builder_required b). mget raw n \<noteq> None)"
proof -
  have props: "mget (map (\<lambda>v. (pv_name v, property_doc fl v)) (builder_views b)) n =
      map_option (\<lambda>p. property_doc fl (builder_view n p)) (mget (b_props b) n)" for n
  proof (cases "mget (b_props b) n")
    case None
    then have "n \<notin> set (b_order b)" using assms by (simp add: builder_ok_def mkeys_iff)
    with None show ?thesis unfolding builder_views_def mget_views by simp
  next
    case (Some p)
    then have "n \<in> set (b_order b)" using assms by (simp add: builder_ok_def mkeys_iff)
    with Some show ?thesis unfolding builder_views_def mget_views by simp
  qed
  show ?thesis
    by (auto simp: validates_def schema_doc_def object_doc_def strings_doc_def props)
qed

definition plain_value :: "any \<Rightarrow> bool" where
  "plain_value v = (case v of GStr s \<Rightarrow> ascii s | GInt _ \<Rightarrow> False | GStrs _ \<Rightarrow> False | _ \<Rightarrow> True)"

definition no_integers :: "Builder \<Rightarrow> bool" where
  "no_integers b \<longleftrightarrow> (\<forall>n p. mget (b_props b) n = Some p \<longrightarrow> bp_ptype p \<noteq> ''integer'')"

text \<open>C22: for a schema without integer properties, decoding into a map accepts exactly the answers that are valid
  under the schema the client was sent, read as JSON Schema reads it (strings of ASCII characters): nothing else
  passes, and nothing valid is refused. An accepted answer is stored with every key it has, known or not, and the
  default of each property it leaves out; a refused one leaves the destination alone.\<close>

theorem map_decode_enforces_schema:
  assumes "builder_reach b" and "no_integers b" and "Bind fl sha (Some (MapAt i)) b = Some (b', Inr d)" and "prints_exactly fl"
    and "wf_map raw" and "\<forall>(n, v) \<in> set raw. plain_value v" and "i < length store"
  shows "let (store', err) = dyn_Decode fl b' d raw None store in
    ds_jsonBytes (dd_schema d) = json_text (schema_doc fl b) \<and>
    (err = None \<longleftrightarrow> validates fl (schema_doc fl b) raw) \<and>
    (err \<noteq> None \<longrightarrow> store' = store) \<and>
    (err = None \<longrightarrow> (\<forall>j. j \<noteq> i \<longrightarrow> store' ! j = store ! j) \<and>
       (\<forall>n. mget (store' ! i) n = (case mget raw n of Some v \<Rightarrow> Some v | None \<Rightarrow> Option.bind (mget (b_props b) n) default_value)))"
proof -
  have ok: "builder_ok b" using assms(1) by (rule builder_reach_ok)
  have nb: "\<not> b_built b" using assms(3) by (auto simp: Bind_def Build_def)
  have b': "b' = b\<lparr>b_built := True\<rparr>" and d: "dd_dst d = MapAt i" "ds_jsonBytes (dd_schema d) = json_text (schema_doc fl b)"
      "ds_requiredSet (dd_schema d) = builder_required b"
    using assms(3) unfolding Bind_def Build_outcome [OF ok nb] by (auto simp: bindDynamicSchema_def)
  have props: "property_ok p" "bp_ptype p \<noteq> ''integer''" if "mget (b_props b) n = Some p" for n p
    using that ok assms(2) by (auto simp: builder_ok_def no_integers_def)
  have "validateDynamicValue fl p v = None \<longleftrightarrow> satisfies fl (property_doc fl (builder_view n p)) v"
    if "mget (b_props b) n = Some p" "mget raw n = Some v" for n p v
  proof -
    have "plain_value v" using that(2) wf_map_mget [OF assms(5)] assms(6) by auto
    with props [OF that(1)] show ?thesis
      unfolding satisfies_property_doc [OF assms(4)] by (intro validate_conforms) (auto simp: property_ok_def plain_value_def)
  qed
  then have v: "validates fl (schema_doc fl b) raw \<longleftrightarrow> validate_all fl (b_props b) raw = None \<and> missing_required (builder_required b) raw = []"
    unfolding validates_schema_doc [OF ok] validate_all_iff [OF assms(5)]
    by (auto simp: missing_required_def filter_empty_conv)
  have "wf_map (b_props b)" using ok by (simp add: builder_ok_def)
  from apply_defaults_get [OF this props(1)] v b' d assms(7) show ?thesis
    by (auto simp: dyn_Decode_def Let_def split: option.split)
qed

text \<open>Conversions for the witnesses: a number is printed as a fraction, exactly.\<close>

definition frac_text :: "rat \<Rightarrow> string" where
  "frac_text x = Join [itoa_int (fst (quotient_of x)), itoa_int (snd (quotient_of x))] ''/''"

definition int_scan :: "string \<Rightarrow> int option" where
  "int_scan s = (case s of [] \<Rightarrow> None
     | c # cs \<Rightarrow> if c = CHR ''-'' then map_option (\<lambda>n. - int n) (parse_digits 0 cs) else map_option int (parse_digits 0 s))"

definition frac_scan :: "string \<Rightarrow> rat option" where
  "frac_scan s = (case Split s CHR ''/'' of
       [p, q] \<Rightarrow> Option.bind (int_scan p) (\<lambda>a. map_option (\<lambda>b. of_int a / of_int b) (int_scan q))
     | _ \<Rightarrow> None)"

definition frac_lib :: float_lib where
  "frac_lib = \<lparr>fl_text = frac_text, fl_32 = (\<lambda>x. x), fl_scan = frac_scan, fl_quote = quoted\<rparr>"

lemma int_scan_itoa: "int_scan (itoa_int n) = Some n"
proof (cases "n < 0")
  case False
  obtain c cs where c: "itoa (nat n) = c # cs" by (cases "itoa (nat n)") auto
  then have "c \<noteq> CHR ''-''" using itoa_head_not_minus [of "nat n" cs] by auto
  with False c parse_digits_itoa [of "nat n"] show ?thesis by (simp add: int_scan_def itoa_int_def)
qed (simp add: int_scan_def itoa_int_def)

lemma itoa_int_no_slash: "CHR ''/'' \<notin> set (itoa_int n)"
  using itoa_digits [of "nat n"] itoa_digits [of "nat (- n)"] by (auto simp: itoa_int_def is_digit_def)

lemma frac_lib_exact: "prints_exactly frac_lib"
proof -
  have "frac_scan (frac_text x) = Some x" for x
  proof -
    obtain p q where q: "quotient_of x = (p, q)" by fastforce
    then have "x = of_int p / of_int q" by (rule quotient_of_div)
    with q show ?thesis
      unfolding frac_scan_def frac_text_def by (subst Split_Join) (simp_all add: itoa_int_no_slash int_scan_itoa)
  qed
  then show ?thesis by (simp add: prints_exactly_def frac_lib_def)
qed

definition wit_builder :: Builder where
  "wit_builder = the (Option.bind (b_String ''n'' [Some Required, Some (MinLength 1)] NewBuilder) (b_Boolean ''f'' [Some (DefaultBool True)]))"

lemma wit_builder_eq:
  "wit_builder = \<lparr>b_props = [(''n'', (new_property ''n'')\<lparr>bp_ptype := ''string'', bp_required := True, bp_constraints := no_constraints\<lparr>pc_MinLength := Some 1\<rparr>\<rparr>),
      (''f'', (new_property ''f'')\<lparr>bp_ptype := ''boolean'', bp_boolDefault := Some True\<rparr>)], b_order = [''n'', ''f''], b_built = False\<rparr>"
  by (simp add: wit_builder_def b_String_def b_Boolean_def b_add_def ensure_def store_property_def NewBuilder_def new_property_def TrimSpace_def is_space_def
      prop_option_defs has_default_def)

lemma wit_builder_reach: "builder_reach wit_builder"
proof -
  have ok: "options_ok [Some Required, Some (MinLength 1)]" "options_ok [Some (DefaultBool True)]"
    by (auto simp: options_ok_def intro: prop_options.intros)
  obtain b1 where b1: "b_String ''n'' [Some Required, Some (MinLength 1)] NewBuilder = Some b1"
    by (simp add: b_String_def b_add_def ensure_def store_property_def NewBuilder_def new_property_def TrimSpace_def is_space_def prop_option_defs)
  obtain b2 where b2: "b_Boolean ''f'' [Some (DefaultBool True)] b1 = Some b2"
    using b1 by (auto simp: b_String_def b_Boolean_def b_add_def ensure_def store_property_def NewBuilder_def new_property_def TrimSpace_def is_space_def
      prop_option_defs has_default_def)
  have "builder_reach b1" using builder_reach.string [OF builder_reach.new ok(1) b1] .
  from builder_reach.boolean [OF this ok(2) b2] b1 b2 show ?thesis by (simp add: wit_builder_def)
qed

lemma wit_builder_facts: "\<not> b_built wit_builder" "builder_required wit_builder = [''n'']" "no_integers wit_builder"
  by (simp_all add: wit_builder_eq builder_required_def no_integers_def new_property_def)

theorem builder_schema_text_witness:
  "\<exists>ds. Build frac_lib id wit_builder = Some (wit_builder\<lparr>b_built := True\<rparr>, Inr ds) \<and> ds_jsonBytes ds = json_text (schema_doc frac_lib wit_builder) \<and>
     ds_requiredSet ds = [''n'']"
  using builder_schema_text [OF wit_builder_reach, of frac_lib id] wit_builder_facts by auto

theorem map_decode_enforces_schema_witness:
  "\<exists>b d. Bind frac_lib id (Some (MapAt 0)) wit_builder = Some (b, Inr d) \<and>
     snd (dyn_Decode frac_lib b d [(''n'', GStr ''x'')] None [[]]) = None \<and>
     mget (fst (dyn_Decode frac_lib b d [(''n'', GStr ''x'')] None [[]]) ! 0) ''f'' = Some (GBool True) \<and>
     validates frac_lib (schema_doc frac_lib wit_builder) [(''n'', GStr ''x'')]"
proof -
  let ?raw = "[(''n'', GStr ''x'')]"
  obtain b d where bind: "Bind frac_lib id (Some (MapAt 0)) wit_builder = Some (b, Inr d)"
    using Build_outcome [OF builder_reach_ok [OF wit_builder_reach] wit_builder_facts(1), of frac_lib id]
    by (simp add: Bind_def bindDynamicSchema_def)
  have res: "let (store', err) = dyn_Decode frac_lib b d ?raw None [[]] in
    ds_jsonBytes (dd_schema d) = json_text (schema_doc frac_lib wit_builder) \<and>
    (err = None \<longleftrightarrow> validates frac_lib (schema_doc frac_lib wit_builder) ?raw) \<and>
    (err \<noteq> None \<longrightarrow> store' = [[]]) \<and>
    (err = None \<longrightarrow> (\<forall>j. j \<noteq> 0 \<longrightarrow> store' ! j = [[]] ! j) \<and>
       (\<forall>n. mget (store' ! 0) n = (case mget ?raw n of Some v \<Rightarrow> Some v | None \<Rightarrow> Option.bind (mget (b_props wit_builder) n) default_value)))"
    by (intro map_decode_enforces_schema [OF wit_builder_reach wit_builder_facts(3) bind frac_lib_exact])
      (simp_all add: wf_map_def mkeys_def plain_value_def ascii_def)
  have "b = wit_builder\<lparr>b_built := True\<rparr>" "dd_dst d = MapAt 0" "ds_requiredSet (dd_schema d) = [''n'']"
    using bind Build_outcome [OF builder_reach_ok [OF wit_builder_reach] wit_builder_facts(1), of frac_lib id]
    by (auto simp: Bind_def bindDynamicSchema_def wit_builder_facts(2))
  then have "snd (dyn_Decode frac_lib b d ?raw None [[]]) = None"
    by (simp add: dyn_Decode_def wit_builder_eq missing_required_def validateDynamicValue_def check_enum_def check_length_def new_property_def
        no_constraints_def below_min_def above_max_def)
  with res bind show ?thesis
    by (intro exI [of _ b] exI [of _ d]) (auto simp: wit_builder_eq default_value_def new_property_def Let_def split: prod.splits)
qed

text \<open>An integer property cannot be answered: the map decoder refuses every answer that mentions it, and when
  it is required every other answer too; a struct cannot be bound to it either unless the field is a string.\<close>

theorem integer_property_unusable:
  assumes "builder_reach b" and "mget (b_props b) n = Some p" and "bp_ptype p = ''integer''" and "bp_required p"
  shows "(\<forall>d raw dst store. ds_requiredSet (dd_schema d) = builder_required b \<and> wf_map raw \<longrightarrow> snd (dyn_Decode fl b d raw dst store) \<noteq> None) \<and>
    (\<forall>k. compatibleKind (bp_ptype p) k \<longrightarrow> k = KString)"
proof -
  have ok: "builder_ok b" using assms(1) by (rule builder_reach_ok)
  then have req: "n \<in> set (builder_required b)"
    using assms(2,4) by (auto simp: builder_required_def builder_ok_def mkeys_iff)
  have val: "validateDynamicValue fl p v \<noteq> None" for v
    using assms(3) by (simp add: validateDynamicValue_def split: option.split)
  have "missing_required (builder_required b) raw \<noteq> [] \<or> validate_all fl (b_props b) raw \<noteq> None" if "wf_map raw" for raw
  proof (cases "mget raw n")
    case None
    with req show ?thesis by (auto simp: missing_required_def filter_empty_conv)
  next
    case (Some v)
    with assms(2) val validate_all_iff [OF that, of fl "b_props b"] show ?thesis by blast
  qed
  then have "snd (dyn_Decode fl b d raw dst store) \<noteq> None" if "ds_requiredSet (dd_schema d) = builder_required b" "wf_map raw" for d raw dst store
    using that by (fastforce simp: dyn_Decode_def Let_def split: map_ptr.split option.split)
  then show ?thesis
    using assms(3) by (simp add: compatibleKind_def)
qed

definition wit_integers :: Builder where
  "wit_integers = the (b_Integer ''age'' [Some Required] NewBuilder)"

theorem integer_property_unusable_witness:
  "\<forall>d store. ds_requiredSet (dd_schema d) = builder_required wit_integers \<longrightarrow>
     snd (dyn_Decode frac_lib wit_integers d [(''age'', GNum 42)] None store) \<noteq> None"
proof -
  have some: "b_Integer ''age'' [Some Required] NewBuilder = Some wit_integers"
    and p: "mget (b_props wit_integers) ''age'' = Some ((new_property ''age'')\<lparr>bp_ptype := ''integer'', bp_required := True\<rparr>)"
    by (simp_all add: wit_integers_def b_Integer_def b_add_def ensure_def store_property_def NewBuilder_def TrimSpace_def is_space_def Required_def)
  have "options_ok [Some Required]" by (auto simp: options_ok_def intro: prop_options.intros)
  from integer_property_unusable [OF builder_reach.integer [OF builder_reach.new this some] p] show ?thesis
    by (simp add: wf_map_def mkeys_def)
qed

end
