(* ===== verification/ElicitStructs.thy ===== *)
theory ElicitStructs
  imports ElicitSchemas
begin

section \<open>Decoding into structs bound by hand\<close>

text \<open>
  The decoder of \<open>Builder.BindStruct\<close>: which field each property goes to, what is stored in it, and that nothing
  panics for a builder whose defaults have the type of their property.
\<close>

subsection \<open>Bindings\<close>

definition binds_field :: "sfield list \<Rightarrow> string \<Rightarrow> fieldBinding \<Rightarrow> bool" where
  "binds_field fs n fb \<longleftrightarrow> fb_index fb < length fs \<and> field_property (fs ! fb_index fb) = Some n \<and>
     fb_kind fb = sf_kind (fs ! fb_index fb) \<and> fb_isPtr fb = sf_ptr (fs ! fb_index fb)"

lemma field_bindings_sound:
  "mget (field_bindings i fs m) n = Some fb \<Longrightarrow> mget m n = Some fb \<or>
     (\<exists>j < length fs. fb_index fb = i + j \<and> field_property (fs ! j) = Some n \<and> fb_kind fb = sf_kind (fs ! j) \<and> fb_isPtr fb = sf_ptr (fs ! j))"
proof (induction i fs m rule: field_bindings.induct)
  case (2 i f fs m)
  let ?m = "case field_property f of None \<Rightarrow> m | Some name \<Rightarrow> mput name \<lparr>fb_index = i, fb_kind = sf_kind f, fb_isPtr = sf_ptr f\<rparr> m"
  from 2 consider "mget ?m n = Some fb"
    | j where "j < length fs" "fb_index fb = Suc i + j" "field_property (fs ! j) = Some n" "fb_kind fb = sf_kind (fs ! j)" "fb_isPtr fb = sf_ptr (fs ! j)"
    by auto
  then show ?case
  proof cases
    case 1
    then show ?thesis by (auto split: option.splits if_splits)
  next
    case (2 j)
    then show ?thesis by (intro disjI2 exI [of _ "Suc j"]) simp
  qed
qed simp

lemma field_bindings_bind: "mget (field_bindings 0 fs []) n = Some fb \<Longrightarrow> binds_field fs n fb"
  using field_bindings_sound [of 0 fs "[]" n fb] by (auto simp: binds_field_def)

lemma bind_props_Inr:
  "bind_props bs props acc = Inr pb \<Longrightarrow>
     (\<forall>n. mget pb n = (if n \<in> set (mkeys props) \<and> mget bs n \<noteq> None then mget bs n else mget acc n)) \<and>
     (\<forall>(n, p) \<in> set props. case mget bs n of None \<Rightarrow> \<not> bp_required p | Some fb \<Rightarrow> compatibleKind (bp_ptype p) (fb_kind fb))"
  by (induction bs props acc rule: bind_props.induct) (auto simp: mkeys_def split: option.splits if_splits)

text \<open>What a decoder knows of its bindings.\<close>

definition bound :: "sfield list \<Rightarrow> (string, bProperty) gomap \<Rightarrow> (string, fieldBinding) gomap \<Rightarrow> bool" where
  "bound fs props bs \<longleftrightarrow> (\<forall>n fb. mget bs n = Some fb \<longrightarrow> binds_field fs n fb \<and>
     (\<exists>p. mget props n = Some p \<and> property_ok p \<and> compatibleKind (bp_ptype p) (fb_kind fb)))"

lemma bound_index: "bound fs props bs \<Longrightarrow> mget bs n = Some fb \<Longrightarrow> mget bs n' = Some fb' \<Longrightarrow> fb_index fb = fb_index fb' \<Longrightarrow> n = n'"
proof -
  assume b: "bound fs props bs" and n: "mget bs n = Some fb" and n': "mget bs n' = Some fb'" and i: "fb_index fb = fb_index fb'"
  have "field_property (fs ! fb_index fb) = Some n" "field_property (fs ! fb_index fb') = Some n'"
    using b n n' by (simp_all add: bound_def binds_field_def)
  with i show "n = n'" by simp
qed

lemma bound_compatible:
  "bound fs props bs \<Longrightarrow> mget bs n = Some fb \<Longrightarrow> mget props n = Some p \<Longrightarrow> property_ok p \<and> compatibleKind (bp_ptype p) (fb_kind fb)"
  unfolding bound_def by (metis option.inject)

subsection \<open>Values\<close>

definition stored :: "float_lib \<Rightarrow> kind \<Rightarrow> any \<Rightarrow> fval" where
  "stored fl k v = (case v of GStr s \<Rightarrow> FStr s | GBool x \<Rightarrow> FBool x | GNum f \<Rightarrow> set_number fl k f (zero_val k) | _ \<Rightarrow> FOther)"

lemma assign_stored:
  assumes "validateDynamicValue fl p v = None" and "property_ok p" and "compatibleKind (bp_ptype p) k"
  shows "assignStructPrimitive fl k v (bp_ptype p) old = Some (stored fl k v)"
  using assms
  by (cases v) (auto simp: validateDynamicValue_def property_ok_def property_types_def compatibleKind_def assignStructPrimitive_def set_string_def set_bool_def
      stored_def set_number_def split: option.splits if_splits kind.splits)

definition cells_match :: "(string \<Rightarrow> fieldBinding option) \<Rightarrow> cell list \<Rightarrow> (string \<Rightarrow> fieldBinding \<Rightarrow> cell) \<Rightarrow> cell list \<Rightarrow> bool" where
  "cells_match bs old f new \<longleftrightarrow> length new = length old \<and> (\<forall>n fb. bs n = Some fb \<longrightarrow> new ! fb_index fb = f n fb) \<and>
     (\<forall>j. (\<forall>n fb. bs n = Some fb \<longrightarrow> fb_index fb \<noteq> j) \<longrightarrow> new ! j = old ! j)"

lemma cells_match_trans: "cells_match bs old f mid \<Longrightarrow> cells_match bs mid g new \<Longrightarrow> cells_match bs old g new"
  by (auto simp: cells_match_def)

lemma cells_match_cong: "cells_match bs old f new \<Longrightarrow> (\<And>n fb. bs n = Some fb \<Longrightarrow> f n fb = g n fb) \<Longrightarrow> cells_match bs old g new"
  by (auto simp: cells_match_def)

subsection \<open>The loops over an answer and over the defaults\<close>

text \<open>
  Both struct decoders, the builder's and that of reflection, walk the answer and store what passes the checks into
  the field of its name, then walk the properties and store defaults. The interface is a decoder \<open>d\<close> that satisfies
  the invariant \<open>good\<close>: names have fields of their own (\<open>field_map\<close>); the loop over the answer skips names without a
  field, stops at a value that is refused and stores any other (\<open>answer_loop\<close>); the loop over the defaults stores the
  default of an element, if it has one to store (\<open>default_loop\<close>).
\<close>

definition refused :: "(string \<Rightarrow> fieldBinding option) \<Rightarrow> (string \<Rightarrow> any \<Rightarrow> go_error option) \<Rightarrow> (string, any) gomap \<Rightarrow> bool" where
  "refused bs check raw \<longleftrightarrow> (\<exists>(n, v) \<in> set raw. bs n \<noteq> None \<and> check n v \<noteq> None)"

definition answer_cell :: "(fieldBinding \<Rightarrow> any \<Rightarrow> fval) \<Rightarrow> (string, any) gomap \<Rightarrow> cell list \<Rightarrow> string \<Rightarrow> fieldBinding \<Rightarrow> cell" where
  "answer_cell conv raw fresh n fb = (case mget raw n of Some v \<Rightarrow> Some (conv fb v) | None \<Rightarrow> fresh ! fb_index fb)"

definition default_cell :: "('e \<Rightarrow> string) \<Rightarrow> ('e \<Rightarrow> fval option) \<Rightarrow> 'e list \<Rightarrow> cell list \<Rightarrow> string \<Rightarrow> fieldBinding \<Rightarrow> cell" where
  "default_cell dname dval es fresh n fb =
     (case Option.bind (map_of (map (\<lambda>e. (dname e, e)) es) n) dval of Some x \<Rightarrow> Some x | None \<Rightarrow> fresh ! fb_index fb)"

locale field_map =
  fixes good :: "'d \<Rightarrow> bool" and bs :: "'d \<Rightarrow> string \<Rightarrow> fieldBinding option" and width :: "'d \<Rightarrow> nat"
  assumes index_lt: "good d \<Longrightarrow> bs d n = Some fb \<Longrightarrow> fb_index fb < width d"
    and index_inj: "good d \<Longrightarrow> bs d n = Some fb \<Longrightarrow> bs d n' = Some fb' \<Longrightarrow> fb_index fb = fb_index fb' \<Longrightarrow> n = n'"
begin

lemma cells_match_store:
  assumes "good d" "length fresh = width d" and "bs d name = Some fb" and "f name fb = Some x" and "cells_match (bs d) (fresh[fb_index fb := Some x]) f new"
  shows "cells_match (bs d) fresh f new"
  using assms index_lt [OF assms(1,3)] by (auto simp: cells_match_def nth_list_update_neq)

lemma other_field:
  "good d \<Longrightarrow> bs d name = Some fb \<Longrightarrow> bs d n = Some fb' \<Longrightarrow> n \<noteq> name \<Longrightarrow> fresh[fb_index fb := x] ! fb_index fb' = fresh ! fb_index fb'"
  using index_inj by (metis nth_list_update_neq)

end

locale answer_loop = field_map +
  fixes check :: "'a \<Rightarrow> string \<Rightarrow> any \<Rightarrow> go_error option"
    and conv :: "'a \<Rightarrow> fieldBinding \<Rightarrow> any \<Rightarrow> fval"
    and loop :: "'a \<Rightarrow> (string, any) gomap \<Rightarrow> cell list \<Rightarrow> string list \<Rightarrow> (go_error + cell list \<times> string list) option"
  assumes loop_Nil: "loop d [] fresh prov = Some (Inr (fresh, prov))"
    and loop_skip: "good d \<Longrightarrow> bs d n = None \<Longrightarrow> loop d ((n, v) # raw) fresh prov = loop d raw fresh prov"
    and loop_reject: "good d \<Longrightarrow> bs d n = Some fb \<Longrightarrow> check d n v \<noteq> None \<Longrightarrow> \<exists>err. loop d ((n, v) # raw) fresh prov = Some (Inl err)"
    and loop_store: "good d \<Longrightarrow> bs d n = Some fb \<Longrightarrow> check d n v = None \<Longrightarrow>
      loop d ((n, v) # raw) fresh prov = loop d raw (fresh[fb_index fb := Some (conv d fb v)]) (n # prov)"
begin

lemma loop_outcome:
  assumes "good d" and "length fresh = width d" and "wf_map raw"
  shows "if refused (bs d) (check d) raw then \<exists>err. loop d raw fresh prov = Some (Inl err)
    else \<exists>fresh' prov'. loop d raw fresh prov = Some (Inr (fresh', prov')) \<and>
      set prov' = set prov \<union> {n. mget raw n \<noteq> None \<and> bs d n \<noteq> None} \<and> cells_match (bs d) fresh (answer_cell (conv d) raw fresh) fresh'"
  using assms(2,3)
proof (induction raw arbitrary: fresh prov)
  case Nil
  then show ?case by (simp add: refused_def loop_Nil cells_match_def answer_cell_def)
next
  case (Cons kv raw)
  obtain name val where kv: "kv = (name, val)" by fastforce
  have wf: "wf_map raw" and new: "mget raw name = None"
    using Cons.prems(2) kv by (simp_all add: wf_map_def mkeys_def mget_None_iff)
  have ref: "refused (bs d) (check d) (kv # raw) \<longleftrightarrow> bs d name \<noteq> None \<and> check d name val \<noteq> None \<or> refused (bs d) (check d) raw"
    by (simp add: refused_def kv)
  consider "bs d name = None" | fb where "bs d name = Some fb" "check d name val \<noteq> None" | fb where "bs d name = Some fb" "check d name val = None"
    by blast
  then show ?case
  proof cases
    case 1
    then have "answer_cell (conv d) (kv # raw) fresh n fb = answer_cell (conv d) raw fresh n fb" if "bs d n = Some fb" for n fb
      using that by (auto simp: answer_cell_def kv)
    then have "cells_match (bs d) fresh (answer_cell (conv d) (kv # raw) fresh) = cells_match (bs d) fresh (answer_cell (conv d) raw fresh)"
      by (simp add: cells_match_def fun_eq_iff)
    moreover have "{n. mget (kv # raw) n \<noteq> None \<and> bs d n \<noteq> None} = {n. mget raw n \<noteq> None \<and> bs d n \<noteq> None}"
      using 1 by (auto simp: kv)
    ultimately show ?thesis using Cons.IH [OF Cons.prems(1) wf, of prov] 1 loop_skip [OF assms(1) 1] unfolding ref by (auto simp: kv split: if_splits)
  next
    case (2 fb)
    with loop_reject [OF assms(1) 2] ref show ?thesis by (simp add: kv)
  next
    case (3 fb)
    let ?f = "fresh[fb_index fb := Some (conv d fb val)]"
    have run: "loop d (kv # raw) fresh prov = loop d raw ?f (name # prov)" using loop_store [OF assms(1) 3] by (simp add: kv)
    have cell: "answer_cell (conv d) raw ?f n fb' = answer_cell (conv d) (kv # raw) fresh n fb'" if "bs d n = Some fb'" for n fb'
      using that 3(1) new index_lt [OF assms(1) 3(1)] Cons.prems(1) other_field [OF assms(1) 3(1) that]
      by (cases "n = name") (auto simp: answer_cell_def kv split: option.split)
    have prov: "set (name # prov) \<union> {n. mget raw n \<noteq> None \<and> bs d n \<noteq> None} = set prov \<union> {n. mget (kv # raw) n \<noteq> None \<and> bs d n \<noteq> None}"
      using 3(1) by (auto simp: kv)
    have sound: "cells_match (bs d) fresh (answer_cell (conv d) (kv # raw) fresh) new" if "cells_match (bs d) ?f (answer_cell (conv d) raw ?f) new" for new
      by (rule cells_match_store [OF assms(1) Cons.prems(1) 3(1) _ cells_match_cong [OF that cell]]) (simp add: answer_cell_def kv)
    have "length ?f = width d" using Cons.prems(1) by simp
    from Cons.IH [OF this wf, of "name # prov"] show ?thesis
      using 3 ref run prov sound by (auto split: if_splits)
  qed
qed

end

locale default_loop = field_map +
  fixes dname :: "'e \<Rightarrow> string" and dval :: "'a \<Rightarrow> 'e \<Rightarrow> fval option" and dok :: "'a \<Rightarrow> 'e \<Rightarrow> bool"
    and dloop :: "'a \<Rightarrow> 'e list \<Rightarrow> cell list \<Rightarrow> cell list option"
  assumes dloop_Nil: "dloop d [] fresh = Some fresh"
    and dloop_skip: "good d \<Longrightarrow> dok d e \<Longrightarrow> dval d e = None \<Longrightarrow> dloop d (e # es) fresh = dloop d es fresh"
    and dval_bound: "good d \<Longrightarrow> dok d e \<Longrightarrow> dval d e = Some x \<Longrightarrow> \<exists>fb. bs d (dname e) = Some fb"
    and dloop_store: "good d \<Longrightarrow> dok d e \<Longrightarrow> dval d e = Some x \<Longrightarrow> bs d (dname e) = Some fb \<Longrightarrow>
      dloop d (e # es) fresh = dloop d es (fresh[fb_index fb := Some x])"
begin

lemma dloop_outcome:
  assumes "good d" and "length fresh = width d" and "\<forall>e \<in> set es. dok d e" and "distinct (map dname es)"
  shows "\<exists>new. dloop d es fresh = Some new \<and> cells_match (bs d) fresh (default_cell dname (dval d) es fresh) new"
  using assms(2-4)
proof (induction es arbitrary: fresh)
  case Nil
  then show ?case by (simp add: dloop_Nil cells_match_def default_cell_def)
next
  case (Cons e es)
  have notin: "map_of (map (\<lambda>e. (dname e, e)) es) (dname e) = None"
    using Cons.prems(3) by (auto simp: map_of_eq_None_iff image_iff)
  have e: "dok d e" using Cons.prems(2) by simp
  show ?case
  proof (cases "dval d e")
    case None
    then have "default_cell dname (dval d) (e # es) fresh = default_cell dname (dval d) es fresh"
      using notin by (auto simp: default_cell_def fun_eq_iff)
    with None Cons dloop_skip [OF assms(1) e None] show ?thesis by simp
  next
    case (Some x)
    then obtain fb where fb: "bs d (dname e) = Some fb" using dval_bound [OF assms(1) e] by auto
    let ?f = "fresh[fb_index fb := Some x]"
    have cell: "default_cell dname (dval d) es ?f n fb' = default_cell dname (dval d) (e # es) fresh n fb'" if "bs d n = Some fb'" for n fb'
      using that fb notin Some index_lt [OF assms(1) fb] Cons.prems(1) other_field [OF assms(1) fb that]
      by (cases "n = dname e") (auto simp: default_cell_def split: option.split)
    have "length ?f = width d" "\<forall>e \<in> set es. dok d e" "distinct (map dname es)" using Cons.prems by simp_all
    from Cons.IH [OF this] obtain new where new: "dloop d es ?f = Some new" "cells_match (bs d) ?f (default_cell dname (dval d) es ?f) new"
      by blast
    have "default_cell dname (dval d) (e # es) fresh (dname e) fb = Some x" using Some by (simp add: default_cell_def)
    from cells_match_store [OF assms(1) Cons.prems(1) fb this cells_match_cong [OF new(2) cell]] new(1) show ?thesis
      using dloop_store [OF assms(1) e Some fb] by simp
  qed
qed

end

subsection \<open>Defaults of a builder\<close>

definition default_typed :: "bProperty \<Rightarrow> bool" where
  "default_typed p \<longleftrightarrow> (\<forall>v. default_value p = Some v \<longrightarrow> has_type (bp_ptype p) v)"

lemma default_stored:
  assumes "default_value p = Some v" and "default_typed p" and "bp_ptype p \<noteq> ''integer''" and "compatibleKind (bp_ptype p) k"
  shows "default_field fl (bp_ptype p) k v old = Some (stored fl k v)"
proof -
  have "has_type (bp_ptype p) v" using assms(1,2) by (simp add: default_typed_def)
  with assms(3,4) show ?thesis
    by (cases v) (auto simp: has_type_def default_field_def set_string_def set_bool_def stored_def compatibleKind_def set_number_def split: kind.splits)
qed

subsection \<open>The builder's loops are such loops\<close>

type_synonym struct_decoder = "float_lib \<times> sfield list \<times> (string, bProperty) gomap \<times> (string, fieldBinding) gomap \<times> string list"

definition builder_decoder_ok :: "struct_decoder \<Rightarrow> bool" where
  "builder_decoder_ok = (\<lambda>(fl, fs, props, bs, prov). bound fs props bs)"

definition builder_binds :: "struct_decoder \<Rightarrow> string \<Rightarrow> fieldBinding option" where
  "builder_binds = (\<lambda>(fl, fs, props, bs, prov). mget bs)"

definition builder_check :: "struct_decoder \<Rightarrow> string \<Rightarrow> any \<Rightarrow> go_error option" where
  "builder_check = (\<lambda>(fl, fs, props, bs, prov) n v. case mget props n of None \<Rightarrow> None | Some p \<Rightarrow> validateDynamicValue fl p v)"

definition builder_default :: "struct_decoder \<Rightarrow> string \<times> bProperty \<Rightarrow> fval option" where
  "builder_default = (\<lambda>(fl, fs, props, bs, prov) (n, p).
     if n \<in> set prov then None else case mget bs n of None \<Rightarrow> None
     | Some fb \<Rightarrow> if fb_isPtr fb then map_option (stored fl (fb_kind fb)) (default_value p) else None)"

definition builder_default_ok :: "struct_decoder \<Rightarrow> string \<times> bProperty \<Rightarrow> bool" where
  "builder_default_ok = (\<lambda>(fl, fs, props, bs, prov) (n, p). mget props n = Some p \<and> default_typed p \<and> bp_ptype p \<noteq> ''integer'')"

lemmas builder_decoder_defs = builder_decoder_ok_def builder_binds_def builder_check_def builder_default_def builder_default_ok_def

interpretation builder_fields: field_map builder_decoder_ok builder_binds "\<lambda>(fl, fs, props, bs, prov). length fs"
  by unfold_locales (auto simp: builder_decoder_defs bound_def binds_field_def, metis option.inject)

interpretation builder_answer: answer_loop builder_decoder_ok builder_binds "\<lambda>(fl, fs, props, bs, prov). length fs" builder_check
  "\<lambda>(fl, fs, props, bs, prov) fb. stored fl (fb_kind fb)" "\<lambda>(fl, fs, props, bs, prov). struct_assign fl props bs"
proof unfold_locales
  fix d n v raw fresh prov fb
  assume d: "builder_decoder_ok d"
  obtain fl fs props bs pr where dd: "d = (fl, fs, props, bs, pr)" by (cases d)
  { assume "builder_binds d n = None"
    then show "(case d of (fl, fs, props, bs, prov) \<Rightarrow> struct_assign fl props bs) ((n, v) # raw) fresh prov =
        (case d of (fl, fs, props, bs, prov) \<Rightarrow> struct_assign fl props bs) raw fresh prov"
      by (auto simp: dd builder_decoder_defs split: option.split) }
  assume b: "builder_binds d n = Some fb"
  obtain p where p: "mget props n = Some p" "property_ok p" "compatibleKind (bp_ptype p) (fb_kind fb)"
    using d b by (auto simp: dd builder_decoder_defs bound_def)
  { assume "builder_check d n v \<noteq> None"
    with b p(1) show "\<exists>err. (case d of (fl, fs, props, bs, prov) \<Rightarrow> struct_assign fl props bs) ((n, v) # raw) fresh prov = Some (Inl err)"
      by (auto simp: dd builder_decoder_defs) }
  assume "builder_check d n v = None"
  with b p assign_stored show "(case d of (fl, fs, props, bs, prov) \<Rightarrow> struct_assign fl props bs) ((n, v) # raw) fresh prov =
      (case d of (fl, fs, props, bs, prov) \<Rightarrow> struct_assign fl props bs) raw
        (fresh[fb_index fb := Some ((case d of (fl, fs, props, bs, prov) \<Rightarrow> \<lambda>fb. stored fl (fb_kind fb)) fb v)]) (n # prov)"
    by (simp add: dd builder_decoder_defs)
qed (auto)

interpretation builder_defaults: default_loop builder_decoder_ok builder_binds "\<lambda>(fl, fs, props, bs, prov). length fs" fst builder_default
  builder_default_ok "\<lambda>(fl, fs, props, bs, prov) es. struct_defaults fl es bs prov"
proof unfold_locales
  fix d :: struct_decoder and e :: "string \<times> bProperty" and es fresh x fb
  assume d: "builder_decoder_ok d" and e: "builder_default_ok d e"
  obtain fl fs props bs pr n p where dd: "d = (fl, fs, props, bs, pr)" "e = (n, p)" by (cases d; cases e)
  { assume "builder_default d e = None"
    then show "(case d of (fl, fs, props, bs, prov) \<Rightarrow> \<lambda>es. struct_defaults fl es bs prov) (e # es) fresh =
        (case d of (fl, fs, props, bs, prov) \<Rightarrow> \<lambda>es. struct_defaults fl es bs prov) es fresh"
      by (auto simp: dd builder_decoder_defs split: option.split if_splits) }
  assume x: "builder_default d e = Some x"
  { show "\<exists>fb. builder_binds d (fst e) = Some fb" using x by (auto simp: dd builder_decoder_defs split: if_splits option.splits) }
  assume b: "builder_binds d (fst e) = Some fb"
  obtain v where v: "default_value p = Some v" "x = stored fl (fb_kind fb) v" "n \<notin> set pr" "fb_isPtr fb" "mget bs n = Some fb"
    using x b by (auto simp: dd builder_decoder_defs split: if_splits)
  have "default_field fl (bp_ptype p) (fb_kind fb) v old = Some x" for old
    using default_stored [OF v(1)] e bound_compatible [of fs props bs n fb p] d v(2,5) by (simp add: dd builder_decoder_defs)
  with v show "(case d of (fl, fs, props, bs, prov) \<Rightarrow> \<lambda>es. struct_defaults fl es bs prov) (e # es) fresh =
      (case d of (fl, fs, props, bs, prov) \<Rightarrow> \<lambda>es. struct_defaults fl es bs prov) es (fresh[fb_index fb := Some x])"
    by (simp add: dd)
qed (auto)

subsection \<open>The whole decoder\<close>

text \<open>What the field of a property holds after an accepted answer.\<close>

definition decoded_cell :: "float_lib \<Rightarrow> Builder \<Rightarrow> (string, any) gomap \<Rightarrow> string \<Rightarrow> fieldBinding \<Rightarrow> cell" where
  "decoded_cell fl b raw n fb = (case mget raw n of
       Some v \<Rightarrow> Some (stored fl (fb_kind fb) v)
     | None \<Rightarrow> if fb_isPtr fb then map_option (stored fl (fb_kind fb)) (Option.bind (mget (b_props b) n) default_value)
               else Some (zero_val (fb_kind fb)))"

lemma BindStruct_bound:
  assumes "builder_ok b" and "b_BindStruct fl sha (Some (StructAt i)) store b = Some (b', Inr d)"
  shows "b' = b\<lparr>b_built := True\<rparr>" "sdd_dst d = i" "ds_requiredSet (sdd_schema d) = builder_required b"
    "bound (st_fields (so_type (store ! i))) (b_props b) (sdd_bindings d)"
    "\<And>n. mget (sdd_bindings d) n = (if n \<in> set (mkeys (b_props b)) then mget (field_bindings 0 (st_fields (so_type (store ! i))) []) n else None)"
    "\<And>n. n \<in> set (builder_required b) \<Longrightarrow> mget (sdd_bindings d) n \<noteq> None"
proof -
  let ?fs = "st_fields (so_type (store ! i))"
  have nb: "\<not> b_built b" using assms(2) by (auto simp: b_BindStruct_def Build_def)
  obtain pb where pb: "bind_props (field_bindings 0 ?fs []) (b_props b) [] = Inr pb" and d: "sdd_bindings d = pb" "sdd_dst d = i"
      "ds_requiredSet (sdd_schema d) = builder_required b" and b': "b' = b\<lparr>b_built := True\<rparr>"
    using assms(2) unfolding b_BindStruct_def Build_outcome [OF assms(1) nb] by (auto split: sum.splits)
  show "b' = b\<lparr>b_built := True\<rparr>" "sdd_dst d = i" "ds_requiredSet (sdd_schema d) = builder_required b" using b' d by simp_all
  note pr = bind_props_Inr [OF pb]
  show get: "mget (sdd_bindings d) n = (if n \<in> set (mkeys (b_props b)) then mget (field_bindings 0 ?fs []) n else None)" for n
    using pr d(1) by auto
  have wf: "wf_map (b_props b)" using assms(1) by (simp add: builder_ok_def)
  have pair: "case mget (field_bindings 0 ?fs []) n of None \<Rightarrow> \<not> bp_required p | Some fb \<Rightarrow> compatibleKind (bp_ptype p) (fb_kind fb)"
    if "mget (b_props b) n = Some p" for n p
    using pr that wf_map_mget [OF wf] by fastforce
  show "bound ?fs (b_props b) (sdd_bindings d)"
    unfolding bound_def
  proof (intro allI impI conjI)
    fix n fb assume n: "mget (sdd_bindings d) n = Some fb"
    then have f: "mget (field_bindings 0 ?fs []) n = Some fb" "n \<in> set (mkeys (b_props b))" using get [of n] by (auto split: if_splits)
    then show "binds_field ?fs n fb" by (intro field_bindings_bind)
    from f(2) obtain p where p: "mget (b_props b) n = Some p" by (auto simp: mkeys_iff)
    with pair [OF p] f(1) assms(1) show "\<exists>p. mget (b_props b) n = Some p \<and> property_ok p \<and> compatibleKind (bp_ptype p) (fb_kind fb)"
      by (auto simp: builder_ok_def)
  qed
  fix n assume "n \<in> set (builder_required b)"
  then obtain p where "mget (b_props b) n = Some p" "bp_required p"
    using assms(1) by (auto simp: builder_required_def builder_ok_def mkeys_iff)
  with pair [of n p] get [of n] show "mget (sdd_bindings d) n \<noteq> None" by (auto simp: mkeys_iff split: option.splits)
qed


subsection \<open>An instance\<close>

definition wit_type :: stype where
  "wit_type = \<lparr>st_name = ''T'', st_fields = [
     \<lparr>sf_Name = ''N'', sf_exported = True, sf_json = ''n,omitempty'', sf_jsonschema = [], sf_ptr = False, sf_kind = KString\<rparr>,
     \<lparr>sf_Name = ''f'', sf_exported = True, sf_json = [], sf_jsonschema = [], sf_ptr = True, sf_kind = KBool\<rparr>]\<rparr>"

definition wit_structs :: struct_store where
  "wit_structs = [\<lparr>so_type = wit_type, so_cells = zero_struct wit_type\<rparr>]"

definition wit_binds :: "(string, fieldBinding) gomap" where
  "wit_binds = [(''n'', \<lparr>fb_index = 0, fb_kind = KString, fb_isPtr = False\<rparr>), (''f'', \<lparr>fb_index = 1, fb_kind = KBool, fb_isPtr = True\<rparr>)]"

lemma wit_bindings: "bind_props (field_bindings 0 (st_fields wit_type) []) (b_props wit_builder) [] = Inr wit_binds"
  by (simp add: wit_type_def field_property_def Split_def wit_builder_eq new_property_def compatibleKind_def wit_binds_def)

lemma wit_struct_bind:
  obtains b d where "b_BindStruct frac_lib id (Some (StructAt 0)) wit_structs wit_builder = Some (b, Inr d)" "sdd_bindings d = wit_binds"
proof -
  have "so_type (wit_structs ! 0) = wit_type" by (simp add: wit_structs_def)
  then show thesis
    using that Build_outcome [OF builder_reach_ok [OF wit_builder_reach] wit_builder_facts(1), of frac_lib id] wit_bindings
    by (simp add: b_BindStruct_def)
qed


text \<open>Declaring a property again with another type keeps its old default; when the field is a pointer, decoding an
  answer without it panics on the conversion of the default.\<close>

theorem retyped_default_panics:
  "\<exists>b b' d. Option.bind (b_String ''x'' [Some (DefaultString ''a'')] NewBuilder) (b_Number ''x'' []) = Some b \<and>
     b_BindStruct frac_lib id (Some (StructAt 0)) [\<lparr>so_type = \<lparr>st_name = ''T'', st_fields = [\<lparr>sf_Name = ''x'', sf_exported = True, sf_json = [],
       sf_jsonschema = [], sf_ptr = True, sf_kind = KFloat64\<rparr>]\<rparr>, so_cells = [None]\<rparr>] b = Some (b', Inr d) \<and>
     dynStruct_Decode frac_lib b' d [] None [\<lparr>so_type = \<lparr>st_name = ''T'', st_fields = [\<lparr>sf_Name = ''x'', sf_exported = True, sf_json = [],
       sf_jsonschema = [], sf_ptr = True, sf_kind = KFloat64\<rparr>]\<rparr>, so_cells = [None]\<rparr>] = None"
  by (simp add: b_String_def b_Number_def b_add_def ensure_def store_property_def NewBuilder_def new_property_def TrimSpace_def is_space_def
      DefaultString_def has_default_def no_constraints_def below_min_def above_max_def b_BindStruct_def Build_def Let_def field_property_def compatibleKind_def
      dynStruct_Decode_def missing_required_def default_value_def default_field_def)

end
