(* ===== verification/Reflection.thy ===== *)
theory Reflection
  imports ElicitStructs "HOL-Library.List_Lexorder" "HOL-Library.Char_ord"
begin

section \<open>Elicitation schemas from structs (elicitation/reflection.go)\<close>

text \<open>
  \<open>BindStruct\<close> derives a schema from the fields of a struct and their tags, caches it per type, and decodes answers
  into a struct of that type. The schema is the JSON text of the same kind of document as the builder's; equal
  descriptions give equal bytes. Defaults that the tags give satisfy their own constraints, decoding never panics,
  and it accepts exactly what the schema allows, apart from fractions for integer fields.
\<close>

subsection \<open>Tags\<close>

record tag_info =
  ti_title :: string
  ti_desc :: string
  ti_enumVals :: "string list"
  ti_enumNames :: "string list"
  ti_format :: string
  ti_default :: "string option"
  ti_constraints :: propertyConstraints

definition no_tag :: tag_info where
  "no_tag = \<lparr>ti_title = [], ti_desc = [], ti_enumVals = [], ti_enumNames = [], ti_format = [], ti_default = None, ti_constraints = no_constraints\<rparr>"

text \<open>\<open>fmt.Sscanf\<close> with \<open>%d\<close>: blanks but no newline, a sign, digits; what follows is ignored.\<close>

definition parseInt :: "string \<Rightarrow> int option" where
  "parseInt s =
     (let t = dropWhile (\<lambda>c. is_space c \<and> c \<noteq> CHR 0x0A) s;
          neg = HasPrefix t ''-'';
          u = (if neg \<or> HasPrefix t ''+'' then drop 1 t else t);
          ds = takeWhile is_digit u
      in if ds = [] then None
         else Option.bind (parse_digits 0 ds) (\<lambda>n. in_range (if neg then - int n else int n)))"

definition parseFloat :: "float_lib \<Rightarrow> string \<Rightarrow> rat option" where
  "parseFloat fl s = fl_scan fl s"

definition tag_key :: "string \<Rightarrow> string" where
  "tag_key p = takeWhile (\<lambda>c. c \<noteq> CHR ''='') p"

definition tag_val :: "string \<Rightarrow> string" where
  "tag_val p = drop 1 (dropWhile (\<lambda>c. c \<noteq> CHR ''='') p)"

definition set_constraint :: "(propertyConstraints \<Rightarrow> propertyConstraints) \<Rightarrow> tag_info \<Rightarrow> tag_info" where
  "set_constraint f t = t\<lparr>ti_constraints := f (ti_constraints t)\<rparr>"

definition tag_part :: "float_lib \<Rightarrow> string \<Rightarrow> tag_info \<Rightarrow> tag_info option" where
  "tag_part fl p t =
     (let key = tag_key p; val = tag_val p in
      if p = [] then Some t
      else if key = ''title'' then Some (t\<lparr>ti_title := val\<rparr>)
      else if key = ''description'' then Some (t\<lparr>ti_desc := val\<rparr>)
      else if key = ''enum'' then Some (if val \<noteq> [] then t\<lparr>ti_enumVals := Split val CHR ''|''\<rparr> else t)
      else if key = ''enumNames'' then Some (if val \<noteq> [] then t\<lparr>ti_enumNames := Split val CHR ''|''\<rparr> else t)
      else if key = ''format'' then Some (if known_format val then t\<lparr>ti_format := val\<rparr> else t)
      else if key = ''default'' then (if ti_default t \<noteq> None then None else Some (t\<lparr>ti_default := Some val\<rparr>))
      else if key = ''minLength'' then Some (case parseInt val of Some iv \<Rightarrow> set_constraint (\<lambda>c. c\<lparr>pc_MinLength := Some iv\<rparr>) t | None \<Rightarrow> t)
      else if key = ''maxLength'' then Some (case parseInt val of Some iv \<Rightarrow> set_constraint (\<lambda>c. c\<lparr>pc_MaxLength := Some iv\<rparr>) t | None \<Rightarrow> t)
      else if key = ''minimum'' then Some (case parseFloat fl val of Some fv \<Rightarrow> set_constraint (\<lambda>c. c\<lparr>pc_Minimum := Some fv\<rparr>) t | None \<Rightarrow> t)
      else if key = ''maximum'' then Some (case parseFloat fl val of Some fv \<Rightarrow> set_constraint (\<lambda>c. c\<lparr>pc_Maximum := Some fv\<rparr>) t | None \<Rightarrow> t)
      else Some t)"

fun tag_parts :: "float_lib \<Rightarrow> string list \<Rightarrow> tag_info \<Rightarrow> tag_info option" where
  "tag_parts fl [] t = Some t"
| "tag_parts fl (p # ps) t = Option.bind (tag_part fl p t) (tag_parts fl ps)"

definition parseJSONSchemaTagExtended :: "float_lib \<Rightarrow> string \<Rightarrow> tag_info option" where
  "parseJSONSchemaTagExtended fl tag = (if tag = [] then Some no_tag else tag_parts fl (Split tag CHR '','') no_tag)"

subsection \<open>The schema of a struct type\<close>

record reflectedProperty =
  rp_Name :: string
  rp_Type :: string
  rp_Description :: string
  rp_Title :: string
  rp_EnumValues :: "string list"
  rp_EnumNames :: "string list"
  rp_Constraints :: propertyConstraints
  rp_IsPointer :: bool
  rp_FieldIndex :: nat
  rp_Format :: string
  rp_BoolDefault :: "bool option"
  rp_StringDefault :: "string option"
  rp_NumberDefault :: "rat option"

record reflectedSchema =
  rs_fingerprint :: string
  rs_jsonBytes :: string
  rs_properties :: "reflectedProperty list"
  rs_propIndex :: "(string, reflectedProperty) gomap"
  rs_required :: "string list"

definition kind_type :: "kind \<Rightarrow> string option" where
  "kind_type k = (case k of
       KString \<Rightarrow> Some ''string''
     | KInt _ \<Rightarrow> Some ''integer''
     | KUint _ \<Rightarrow> Some ''integer''
     | KFloat32 \<Rightarrow> Some ''number''
     | KFloat64 \<Rightarrow> Some ''number''
     | KBool \<Rightarrow> Some ''boolean''
     | KOther \<Rightarrow> None)"

definition reflected_name :: "sfield \<Rightarrow> string" where
  "reflected_name f = (if sf_json f \<noteq> [] then (let n = hd (Split (sf_json f) CHR '','') in if n = [] then sf_Name f else n) else sf_Name f)"

text \<open>The default literal of a tag, once the type of the field is known; \<open>None\<close> is one of the panics.\<close>

definition interpret_default :: "float_lib \<Rightarrow> bool \<Rightarrow> tag_info \<Rightarrow> reflectedProperty \<Rightarrow> reflectedProperty option" where
  "interpret_default fl isPtr t p = (case ti_default t of
       None \<Rightarrow> Some p
     | Some lit' \<Rightarrow>
         if \<not> isPtr \<and> rp_Type p \<noteq> ''boolean'' then None
         else if rp_Type p = ''boolean'' then
           (if lit' = ''true'' \<or> lit' = ''false'' then Some (p\<lparr>rp_BoolDefault := Some (lit' = ''true'')\<rparr>) else None)
         else if rp_Type p = ''string'' then
           (if length (ti_enumVals t) > 0 \<and> lit' \<notin> set (ti_enumVals t) then None
            else if below_min (int (length lit')) (pc_MinLength (ti_constraints t)) then None
            else if above_max (int (length lit')) (pc_MaxLength (ti_constraints t)) then None
            else Some (p\<lparr>rp_StringDefault := Some lit'\<rparr>))
         else (case fl_scan fl lit' of
            None \<Rightarrow> None
          | Some nf \<Rightarrow>
              if rp_Type p = ''integer'' \<and> \<not> is_integral nf then None
              else if below_min nf (pc_Minimum (ti_constraints t)) then None
              else if above_max nf (pc_Maximum (ti_constraints t)) then None
              else Some (p\<lparr>rp_NumberDefault := Some nf\<rparr>)))"

fun reflect_fields :: "float_lib \<Rightarrow> nat \<Rightarrow> sfield list \<Rightarrow> reflectedProperty list option" where
  "reflect_fields fl i [] = Some []"
| "reflect_fields fl i (f # fs) =
     (if \<not> sf_exported f then reflect_fields fl (Suc i) fs
      else if sf_json f = ''-'' then reflect_fields fl (Suc i) fs
      else case kind_type (sf_kind f) of
        None \<Rightarrow> reflect_fields fl (Suc i) fs
      | Some pType \<Rightarrow>
          Option.bind (parseJSONSchemaTagExtended fl (sf_jsonschema f)) (\<lambda>t.
            let names = (if length (ti_enumNames t) > 0 \<and> length (ti_enumNames t) \<noteq> length (ti_enumVals t) then [] else ti_enumNames t);
                p0 = \<lparr>rp_Name = reflected_name f, rp_Type = pType, rp_Description = ti_desc t, rp_Title = ti_title t, rp_EnumValues = ti_enumVals t,
                      rp_EnumNames = names, rp_Constraints = ti_constraints t, rp_IsPointer = sf_ptr f, rp_FieldIndex = i, rp_Format = ti_format t,
                      rp_BoolDefault = None, rp_StringDefault = None, rp_NumberDefault = None\<rparr>
            in Option.bind (interpret_default fl (sf_ptr f) t p0) (\<lambda>p1.
               Option.bind (reflect_fields fl (Suc i) fs) (\<lambda>ps.
                 Some ((if ti_format t \<noteq> [] \<and> pType \<noteq> ''string'' then p1\<lparr>rp_Format := []\<rparr> else p1) # ps)))))"

definition write_if :: "bool \<Rightarrow> string \<Rightarrow> string \<Rightarrow> string" where
  "write_if c k v = (if c then lit k @ v else [])"

definition write_opt :: "string \<Rightarrow> ('a \<Rightarrow> string) \<Rightarrow> 'a option \<Rightarrow> string" where
  "write_opt k f v = (case v of None \<Rightarrow> [] | Some x \<Rightarrow> lit k @ f x)"

definition write_reflected :: "float_lib \<Rightarrow> reflectedProperty \<Rightarrow> string" where
  "write_reflected fl p =
     encJSONString (rp_Name p) @ '':'' @ ''{'' @ quoted ''type'' @ '':'' @ encJSONString (rp_Type p)
     @ write_if (rp_Title p \<noteq> []) ''title'' (encJSONString (rp_Title p))
     @ write_if (rp_Description p \<noteq> []) ''description'' (encJSONString (rp_Description p))
     @ write_if (rp_Format p \<noteq> []) ''format'' (encJSONString (rp_Format p))
     @ (if length (rp_EnumValues p) > 0 then lit ''enum'' @ writeStringArray (rp_EnumValues p)
          @ write_if (length (rp_EnumNames p) > 0) ''enumNames'' (writeStringArray (rp_EnumNames p)) else [])
     @ write_opt ''default'' (\<lambda>d. if d then ''true'' else ''false'') (rp_BoolDefault p)
     @ write_opt ''default'' encJSONString (rp_StringDefault p)
     @ write_opt ''default'' (floatToString fl) (rp_NumberDefault p)
     @ write_opt ''minLength'' intToString (pc_MinLength (rp_Constraints p))
     @ write_opt ''maxLength'' intToString (pc_MaxLength (rp_Constraints p))
     @ write_opt ''minimum'' (floatToString fl) (pc_Minimum (rp_Constraints p))
     @ write_opt ''maximum'' (floatToString fl) (pc_Maximum (rp_Constraints p)) @ ''}''"

definition marshalSchemaJSON :: "float_lib \<Rightarrow> reflectedProperty list \<Rightarrow> string list \<Rightarrow> string" where
  "marshalSchemaJSON fl props required =
     ''{'' @ quoted ''type'' @ '':'' @ quoted ''object'' @ '','' @ quoted ''properties'' @ '':'' @ ''{''
     @ write_list (write_reflected fl) 0 props @ ''}''
     @ (if length required > 0 then lit ''required'' @ ''['' @ write_list encJSONString 0 required @ '']'' else [])
     @ ''}''"

definition index_props :: "reflectedProperty list \<Rightarrow> (string, reflectedProperty) gomap" where
  "index_props props = foldl (\<lambda>m p. mput (rp_Name p) p m) [] props"

definition buildReflectedSchema :: "float_lib \<Rightarrow> (string \<Rightarrow> string) \<Rightarrow> stype \<Rightarrow> reflectedSchema option" where
  "buildReflectedSchema fl sha256 t = (case reflect_fields fl 0 (st_fields t) of
       None \<Rightarrow> None
     | Some props \<Rightarrow>
         (let required = map rp_Name (filter (\<lambda>p. \<not> rp_IsPointer p) props);
              bytes = marshalSchemaJSON fl props required
          in Some \<lparr>rs_fingerprint = fingerprintBytes sha256 bytes, rs_jsonBytes = bytes, rs_properties = props,
                   rs_propIndex = index_props props, rs_required = required\<rparr>))"

type_synonym schema_cache = "(stype, reflectedSchema) gomap"

definition getOrBuildReflectedSchema :: "float_lib \<Rightarrow> (string \<Rightarrow> string) \<Rightarrow> stype \<Rightarrow> schema_cache \<Rightarrow> (schema_cache \<times> reflectedSchema) option" where
  "getOrBuildReflectedSchema fl sha256 t cache = (case mget cache t of
       Some rs \<Rightarrow> Some (cache, rs)
     | None \<Rightarrow> map_option (\<lambda>rs. (mput t rs cache, rs)) (buildReflectedSchema fl sha256 t))"

record boundReflectionDecoder =
  rd_schema :: reflectedSchema
  rd_dst :: nat

definition BindStruct :: "float_lib \<Rightarrow> (string \<Rightarrow> string) \<Rightarrow> struct_ptr option \<Rightarrow> struct_store \<Rightarrow> schema_cache \<Rightarrow>
    (schema_cache \<times> (go_error + boundReflectionDecoder)) option" where
  "BindStruct fl sha256 ptr store cache = (case ptr of
       None \<Rightarrow> Some (cache, Inl (ErrText ''elicitation: nil pointer passed to BindStruct''))
     | Some NotPtr \<Rightarrow> Some (cache, Inl (ErrText ''elicitation: BindStruct expects non-nil pointer to struct''))
     | Some PtrToOther \<Rightarrow> Some (cache, Inl (ErrText ''elicitation: BindStruct expects pointer to struct''))
     | Some (StructAt i) \<Rightarrow> map_option (\<lambda>(cache', rs). (cache', Inr \<lparr>rd_schema = rs, rd_dst = i\<rparr>))
         (getOrBuildReflectedSchema fl sha256 (so_type (store ! i)) cache))"

subsection \<open>Decoding\<close>

definition assignPrimitive :: "float_lib \<Rightarrow> kind \<Rightarrow> any \<Rightarrow> reflectedProperty \<Rightarrow> fval \<Rightarrow> (go_error + fval) option" where
  "assignPrimitive fl k val prop old =
     (if val = GNil then Some (Inl (ErrText ''null provided for primitive field''))
      else case check_enum fl (rp_EnumValues prop) val of
        Some err \<Rightarrow> Some (Inl err)
      | None \<Rightarrow>
          if rp_Type prop = ''string'' then
            (case val of
               GStr vs \<Rightarrow> (case check_length (rp_Constraints prop) vs of Some err \<Rightarrow> Some (Inl err) | None \<Rightarrow> map_option Inr (set_string k val))
             | _ \<Rightarrow> Some (Inl (typeErr ''string'' val)))
          else if rp_Type prop = ''number'' \<or> rp_Type prop = ''integer'' then
            (case val of
               GNum f \<Rightarrow> (case check_range fl (rp_Constraints prop) f of Some err \<Rightarrow> Some (Inl err) | None \<Rightarrow> Some (Inr (set_number fl k f old)))
             | _ \<Rightarrow> Some (Inl (typeErr ''number'' val)))
          else if rp_Type prop = ''boolean'' then
            (case val of GBool _ \<Rightarrow> map_option Inr (set_bool k val) | _ \<Rightarrow> Some (Inl (typeErr ''boolean'' val)))
          else Some (Inl (ErrText (''unsupported primitive type '' @ rp_Type prop))))"

text \<open>The loop over the answer. The names still missing and the names provided are updated together, so the model
  keeps the latter and what is missing is what is required and not provided.\<close>

fun refl_assign :: "float_lib \<Rightarrow> sfield list \<Rightarrow> (string, reflectedProperty) gomap \<Rightarrow> (string, any) gomap \<Rightarrow> cell list \<Rightarrow> string list \<Rightarrow>
    (go_error + cell list \<times> string list) option" where
  "refl_assign fl fs idx [] fresh provided = Some (Inr (fresh, provided))"
| "refl_assign fl fs idx ((k, v) # raw) fresh provided = (case mget idx k of
       None \<Rightarrow> refl_assign fl fs idx raw fresh provided
     | Some p \<Rightarrow>
         (let i = rp_FieldIndex p; kd = sf_kind (fs ! i) in
          case assignPrimitive fl kd v p (field_target kd (fresh ! i)) of
            None \<Rightarrow> None
          | Some (Inl err) \<Rightarrow> Some (Inl (Wrapped (''elicitation: field '' @ k) err))
          | Some (Inr x) \<Rightarrow> refl_assign fl fs idx raw (fresh[i := Some x]) (k # provided)))"

definition refl_default :: "reflectedProperty \<Rightarrow> any option" where
  "refl_default p = (case rp_NumberDefault p of Some v \<Rightarrow> Some (GNum v) | None \<Rightarrow>
     (case rp_StringDefault p of Some v \<Rightarrow> Some (GStr v) | None \<Rightarrow> map_option GBool (rp_BoolDefault p)))"

fun refl_defaults :: "float_lib \<Rightarrow> sfield list \<Rightarrow> reflectedProperty list \<Rightarrow> string list \<Rightarrow> cell list \<Rightarrow> cell list option" where
  "refl_defaults fl fs [] provided fresh = Some fresh"
| "refl_defaults fl fs (p # ps) provided fresh =
     (if rp_Name p \<in> set provided then refl_defaults fl fs ps provided fresh
      else if \<not> rp_IsPointer p then refl_defaults fl fs ps provided fresh
      else case refl_default p of
        None \<Rightarrow> refl_defaults fl fs ps provided fresh
      | Some v \<Rightarrow>
          (let i = rp_FieldIndex p; kd = sf_kind (fs ! i) in
           case default_field fl (rp_Type p) kd v (field_target kd (fresh ! i)) of
             None \<Rightarrow> None
           | Some x \<Rightarrow> refl_defaults fl fs ps provided (fresh[i := Some x])))"

definition refl_Decode :: "float_lib \<Rightarrow> boundReflectionDecoder \<Rightarrow> (string, any) gomap \<Rightarrow> struct_ptr option \<Rightarrow> struct_store \<Rightarrow>
    (struct_store \<times> go_error option) option" where
  "refl_Decode fl d raw dst store =
     (case (case dst of
              None \<Rightarrow> Some (rd_dst d)
            | Some (StructAt i) \<Rightarrow> if so_type (store ! i) = so_type (store ! rd_dst d) then Some i else None
            | _ \<Rightarrow> None) of
        None \<Rightarrow> Some (store, Some (ErrText ''elicitation: Decode destination type mismatch or nil''))
      | Some i \<Rightarrow>
          (let t = so_type (store ! i); rs = rd_schema d in
           case refl_assign fl (st_fields t) (rs_propIndex rs) raw (zero_struct t) [] of
             None \<Rightarrow> None
           | Some (Inl err) \<Rightarrow> Some (store, Some err)
           | Some (Inr (fresh, provided)) \<Rightarrow>
               (let missing = remdups (filter (\<lambda>r. r \<notin> set provided) (rs_required rs)) in
                if length missing > 0
                then Some (store, Some (ErrText (''elicitation: missing required fields: '' @ Join (sort missing) '','')))
                else case refl_defaults fl (st_fields t) (rs_properties rs) provided fresh of
                  None \<Rightarrow> None
                | Some fresh' \<Rightarrow> Some (store[i := (store ! i)\<lparr>so_cells := fresh'\<rparr>], None))))"

subsection \<open>What reflection produces\<close>

definition refl_default_ok :: "reflectedProperty \<Rightarrow> any \<Rightarrow> bool" where
  "refl_default_ok p v = (case v of
       GStr s \<Rightarrow> rp_Type p = ''string'' \<and> (rp_EnumValues p \<noteq> [] \<longrightarrow> s \<in> set (rp_EnumValues p)) \<and>
         \<not> below_min (int (length s)) (pc_MinLength (rp_Constraints p)) \<and> \<not> above_max (int (length s)) (pc_MaxLength (rp_Constraints p))
     | GNum x \<Rightarrow> (rp_Type p = ''number'' \<or> rp_Type p = ''integer'' \<and> is_integral x) \<and>
         \<not> below_min x (pc_Minimum (rp_Constraints p)) \<and> \<not> above_max x (pc_Maximum (rp_Constraints p))
     | GBool b \<Rightarrow> rp_Type p = ''boolean''
     | _ \<Rightarrow> False)"

definition refl_prop_ok :: "sfield \<Rightarrow> reflectedProperty \<Rightarrow> bool" where
  "refl_prop_ok f p \<longleftrightarrow> kind_type (sf_kind f) = Some (rp_Type p) \<and> rp_IsPointer p = sf_ptr f \<and> rp_Name p = reflected_name f \<and>
     (\<forall>v. refl_default p = Some v \<longrightarrow> refl_default_ok p v) \<and>
     (rp_BoolDefault p \<noteq> None \<longrightarrow> rp_StringDefault p = None \<and> rp_NumberDefault p = None) \<and> (rp_StringDefault p \<noteq> None \<longrightarrow> rp_NumberDefault p = None)"

lemma interpret_default_ok:
  assumes "interpret_default fl isPtr t p = Some q" and "rp_BoolDefault p = None" "rp_StringDefault p = None" "rp_NumberDefault p = None"
    and "rp_EnumValues p = ti_enumVals t" "rp_Constraints p = ti_constraints t" and "kind_type (sf_kind f) = Some (rp_Type p)"
    and "rp_IsPointer p = sf_ptr f" "rp_Name p = reflected_name f"
  shows "refl_prop_ok f q" "refl_prop_ok f (q\<lparr>rp_Format := x\<rparr>)" "rp_FieldIndex q = rp_FieldIndex p"
proof -
  have ty: "rp_Type p \<in> {''string'', ''integer'', ''number'', ''boolean''}"
    using assms(7) by (auto simp: kind_type_def split: kind.splits)
  have "refl_prop_ok f q \<and> rp_FieldIndex q = rp_FieldIndex p"
  proof (cases "ti_default t")
    case None
    with assms show ?thesis by (simp add: interpret_default_def refl_prop_ok_def refl_default_def)
  next
    case (Some l)
    consider "rp_Type p = ''boolean''" | "rp_Type p = ''string''" | "rp_Type p = ''number'' \<or> rp_Type p = ''integer''" using ty by auto
    then show ?thesis
    proof cases
      case 1
      with Some assms(1) have "q = p\<lparr>rp_BoolDefault := Some (l = ''true'')\<rparr>" by (auto simp: interpret_default_def split: if_splits)
      with 1 assms show ?thesis by (simp add: refl_prop_ok_def refl_default_def refl_default_ok_def)
    next
      case 2
      with Some assms(1) have "q = p\<lparr>rp_StringDefault := Some l\<rparr>" "refl_default_ok p (GStr l)"
        using assms(5,6) by (auto simp: interpret_default_def refl_default_ok_def split: if_splits)
      with 2 assms show ?thesis by (simp add: refl_prop_ok_def refl_default_def refl_default_ok_def)
    next
      case 3
      then have "rp_Type p \<noteq> ''boolean''" "rp_Type p \<noteq> ''string''" by auto
      with Some assms(1) obtain x where "q = p\<lparr>rp_NumberDefault := Some x\<rparr>" "refl_default_ok p (GNum x)"
        using assms(5,6) 3 by (auto simp: interpret_default_def refl_default_ok_def split: if_splits option.splits)
      with 3 assms show ?thesis by (simp add: refl_prop_ok_def refl_default_def refl_default_ok_def)
    qed
  qed
  then show "refl_prop_ok f q" "rp_FieldIndex q = rp_FieldIndex p" by auto
  moreover have "refl_default (q\<lparr>rp_Format := x\<rparr>) = refl_default q" by (simp add: refl_default_def split: option.split)
  moreover have "refl_default_ok (q\<lparr>rp_Format := x\<rparr>) v = refl_default_ok q v" for v by (cases v) (simp_all add: refl_default_ok_def)
  ultimately show "refl_prop_ok f (q\<lparr>rp_Format := x\<rparr>)" by (simp add: refl_prop_ok_def)
qed

lemma reflect_fields_cons:
  assumes "reflect_fields fl i (f # fs) = Some ps"
  obtains "reflect_fields fl (Suc i) fs = Some ps"
  | p ps' where "reflect_fields fl (Suc i) fs = Some ps'" "ps = p # ps'" "refl_prop_ok f p" "rp_FieldIndex p = i"
proof (cases "\<not> sf_exported f \<or> sf_json f = ''-'' \<or> kind_type (sf_kind f) = None")
  case True
  with assms that(1) show thesis by (auto split: if_splits)
next
  case False
  then obtain ty where ty: "kind_type (sf_kind f) = Some ty" by auto
  with False assms obtain t q ps' where t: "parseJSONSchemaTagExtended fl (sf_jsonschema f) = Some t"
    and q: "interpret_default fl (sf_ptr f) t \<lparr>rp_Name = reflected_name f, rp_Type = ty, rp_Description = ti_desc t, rp_Title = ti_title t,
        rp_EnumValues = ti_enumVals t, rp_EnumNames = (if length (ti_enumNames t) > 0 \<and> length (ti_enumNames t) \<noteq> length (ti_enumVals t) then [] else ti_enumNames t),
        rp_Constraints = ti_constraints t, rp_IsPointer = sf_ptr f, rp_FieldIndex = i, rp_Format = ti_format t,
        rp_BoolDefault = None, rp_StringDefault = None, rp_NumberDefault = None\<rparr> = Some q"
    and r: "reflect_fields fl (Suc i) fs = Some ps'" and ps: "ps = (if ti_format t \<noteq> [] \<and> ty \<noteq> ''string'' then q\<lparr>rp_Format := []\<rparr> else q) # ps'"
    by (auto simp: Let_def split: bind_splits)
  note ok = interpret_default_ok [OF q, of f, simplified, OF ty]
  show thesis using that(2) [OF r ps] ok by (auto split: if_splits)
qed

lemma reflect_fields_ok:
  "reflect_fields fl i fs = Some ps \<Longrightarrow>
     (\<forall>p \<in> set ps. \<exists>j < length fs. rp_FieldIndex p = i + j \<and> refl_prop_ok (fs ! j) p) \<and> distinct (map rp_FieldIndex ps)"
proof (induction fs arbitrary: i ps)
  case (Cons f fs)
  have shift: "\<exists>j < length (f # fs). rp_FieldIndex p = i + j \<and> refl_prop_ok ((f # fs) ! j) p"
    if "\<exists>j < length fs. rp_FieldIndex p = Suc i + j \<and> refl_prop_ok (fs ! j) p" for p
  proof -
    from that obtain j where "j < length fs" "rp_FieldIndex p = Suc i + j" "refl_prop_ok (fs ! j) p" by auto
    then show ?thesis by (intro exI [of _ "Suc j"]) simp
  qed
  from Cons.prems show ?case
  proof (cases rule: reflect_fields_cons)
    case 1
    with Cons.IH [OF 1] shift show ?thesis by blast
  next
    case (2 p ps')
    note ih = Cons.IH [OF 2(1)]
    have "\<exists>j < length (f # fs). rp_FieldIndex p = i + j \<and> refl_prop_ok ((f # fs) ! j) p"
      using 2(3,4) by (intro exI [of _ 0]) simp
    moreover have "rp_FieldIndex p \<notin> set (map rp_FieldIndex ps')"
    proof
      assume "rp_FieldIndex p \<in> set (map rp_FieldIndex ps')"
      then obtain q where q: "q \<in> set ps'" "rp_FieldIndex q = i" using 2(4) by auto
      with ih obtain j where "rp_FieldIndex q = Suc i + j" by blast
      with q(2) show False by simp
    qed
    ultimately show ?thesis using ih shift 2(2) by auto
  qed
qed simp

definition schema_of :: "stype \<Rightarrow> reflectedProperty list \<Rightarrow> bool" where
  "schema_of t props \<longleftrightarrow> (\<forall>p \<in> set props. rp_FieldIndex p < length (st_fields t) \<and> refl_prop_ok (st_fields t ! rp_FieldIndex p) p) \<and>
     distinct (map rp_FieldIndex props)"

lemma built_schema:
  assumes "buildReflectedSchema fl sha t = Some rs"
  shows "schema_of t (rs_properties rs)" "rs_required rs = map rp_Name (filter (\<lambda>p. \<not> rp_IsPointer p) (rs_properties rs))"
    "rs_propIndex rs = index_props (rs_properties rs)" "rs_jsonBytes rs = marshalSchemaJSON fl (rs_properties rs) (rs_required rs)"
    "rs_fingerprint rs = hex_text (sha (rs_jsonBytes rs))"
  using assms reflect_fields_ok [of fl 0 "st_fields t"]
  by (auto simp: buildReflectedSchema_def schema_of_def Let_def fingerprintBytes_def split: option.splits)

subsection \<open>The schema text\<close>

definition reflect_view :: "reflectedProperty \<Rightarrow> property_view" where
  "reflect_view p = \<lparr>pv_name = rp_Name p, pv_type = rp_Type p, pv_title = rp_Title p, pv_description = rp_Description p, pv_format = rp_Format p,
     pv_enum = rp_EnumValues p, pv_names = rp_EnumNames p, pv_default = refl_default p, pv_constraints = rp_Constraints p\<rparr>"

definition reflect_doc :: "float_lib \<Rightarrow> reflectedSchema \<Rightarrow> json" where
  "reflect_doc fl rs = object_doc fl (map reflect_view (rs_properties rs)) (rs_required rs)"

lemma write_reflected_text:
  assumes "refl_prop_ok f p"
  shows "write_reflected fl p = json_string (rp_Name p) @ '':'' @ json_text (property_doc fl (reflect_view p))"
proof -
  have d: "write_opt ''default'' (\<lambda>d. if d then ''true'' else ''false'') (rp_BoolDefault p) @ write_opt ''default'' encJSONString (rp_StringDefault p) @
      write_opt ''default'' (floatToString fl) (rp_NumberDefault p) = members_text (opt_member ''default'' (Option.bind (refl_default p) (default_doc fl)))"
    using assms by (auto simp: refl_prop_ok_def write_opt_def refl_default_def member_texts num_doc_def floatToString_def encJSONString_def split: option.split)
  have o: "write_opt k intToString x = members_text (opt_member k (map_option JInt x))"
    "write_opt k (floatToString fl) y = members_text (opt_member k (map_option (num_doc fl) y))"
    "write_if (s \<noteq> []) k (json_string s) = members_text (str_member k s)" if "plain_key k" for k x y s
    using that by (auto simp: write_opt_def write_if_def member_texts num_doc_def floatToString_def intToString_def encJSONString_def split: option.split)
  have e: "(if length (rp_EnumValues p) > 0 then lit ''enum'' @ writeStringArray (rp_EnumValues p)
          @ write_if (length (rp_EnumNames p) > 0) ''enumNames'' (writeStringArray (rp_EnumNames p)) else []) =
      members_text (if rp_EnumValues p = [] then [] else (''enum'', strings_doc (rp_EnumValues p)) #
         (if rp_EnumNames p = [] then [] else [(''enumNames'', strings_doc (rp_EnumNames p))]))"
    by (simp add: write_if_def writeStringArray_text member_texts del: json_text.simps)
  have split: "write_opt ''default'' (\<lambda>d. if d then ''true'' else ''false'') (rp_BoolDefault p) @ write_opt ''default'' encJSONString (rp_StringDefault p) @
      write_opt ''default'' (floatToString fl) (rp_NumberDefault p) @ r = members_text (opt_member ''default'' (Option.bind (refl_default p) (default_doc fl))) @ r" for r
    using d by (metis append.assoc)
  show ?thesis
    unfolding write_reflected_def split e
    by (simp add: o property_doc_def json_text_object json_string_plain property_members_def members_text_simps(2) reflect_view_def encJSONString_def
        del: json_text.simps(6,7))
qed

lemma reflect_text:
  assumes "schema_of t props"
  shows "marshalSchemaJSON fl props required = json_text (object_doc fl (map reflect_view props) required)"
proof -
  have props: "map (write_reflected fl) props =
      map (\<lambda>(k, v). json_string k @ '':'' @ json_text v) (map (\<lambda>v. (pv_name v, property_doc fl v)) (map reflect_view props))"
    using assms write_reflected_text by (auto simp: schema_of_def reflect_view_def)
  show ?thesis
    unfolding marshalSchemaJSON_def object_doc_def write_list_Join props append_Cons append_Nil json_text_object
    by (simp add: member_texts json_string_plain strings_doc_def encJSONString_def [abs_def] o_def lit_def)
qed

text \<open>C25: the schema derived from a struct is the JSON text of the document its properties describe, and a builder
  with the same properties and required names gives the same bytes and the same fingerprint: the two encoders are
  one function of the description.\<close>

theorem reflection_agrees_with_builder:
  assumes "buildReflectedSchema fl sha t = Some rs" and "builder_reach b" and "Build fl sha b = Some (b', Inr ds)"
    and "map reflect_view (rs_properties rs) = builder_views b" and "rs_required rs = builder_required b"
  shows "rs_jsonBytes rs = ds_jsonBytes ds \<and> rs_fingerprint rs = ds_fingerprint ds \<and> rs_jsonBytes rs = json_text (reflect_doc fl rs)"
proof -
  have ok: "builder_ok b" using assms(2) by (rule builder_reach_ok)
  have nb: "\<not> b_built b" using assms(3) by (auto simp: Build_def)
  have "rs_jsonBytes rs = json_text (reflect_doc fl rs)"
    using built_schema [OF assms(1)] reflect_text by (simp add: reflect_doc_def)
  moreover have "reflect_doc fl rs = schema_doc fl b" using assms(4,5) by (simp add: reflect_doc_def schema_doc_def)
  ultimately show ?thesis
    using assms(3) built_schema(5) [OF assms(1)] unfolding Build_outcome [OF ok nb] by auto
qed

subsection \<open>Decoding\<close>

lemma prop_type_cases:
  assumes "refl_prop_ok f p"
  obtains "rp_Type p = ''string''" "sf_kind f = KString" | "rp_Type p = ''boolean''" "sf_kind f = KBool"
  | "rp_Type p = ''number'' \<or> rp_Type p = ''integer''" "\<And>x old. set_number fl (sf_kind f) x old = set_number fl (sf_kind f) x (zero_val (sf_kind f))"
  using assms by (auto simp: refl_prop_ok_def kind_type_def set_number_def split: kind.splits)

definition refl_error :: "float_lib \<Rightarrow> reflectedProperty \<Rightarrow> any \<Rightarrow> go_error option" where
  "refl_error fl p v = (case assignPrimitive fl KString v p FOther of Some (Inl e) \<Rightarrow> Some e | _ \<Rightarrow> None)"

lemma assign_outcome:
  assumes "refl_prop_ok f p"
  shows "refl_error fl p v \<noteq> None \<Longrightarrow> assignPrimitive fl (sf_kind f) v p old = Some (Inl (the (refl_error fl p v)))"
    and "refl_error fl p v = None \<Longrightarrow> assignPrimitive fl (sf_kind f) v p old = Some (Inr (stored fl (sf_kind f) v))"
proof -
  have "assignPrimitive fl (sf_kind f) v p old = (case refl_error fl p v of Some e \<Rightarrow> Some (Inl e) | None \<Rightarrow> Some (Inr (stored fl (sf_kind f) v)))"
    using assms
  proof (cases rule: prop_type_cases [where fl = fl])
    case 1
    then show ?thesis
      by (cases v) (auto simp: assignPrimitive_def refl_error_def stored_def set_string_def split: option.split)
  next
    case 2
    then show ?thesis
      by (cases v) (auto simp: assignPrimitive_def refl_error_def stored_def set_bool_def split: option.split)
  next
    case 3
    then show ?thesis
      by (cases v) (auto simp: assignPrimitive_def refl_error_def stored_def split: option.split)
  qed
  then show "refl_error fl p v \<noteq> None \<Longrightarrow> assignPrimitive fl (sf_kind f) v p old = Some (Inl (the (refl_error fl p v)))"
    "refl_error fl p v = None \<Longrightarrow> assignPrimitive fl (sf_kind f) v p old = Some (Inr (stored fl (sf_kind f) v))"
    by auto
qed

lemma refl_default_stored:
  assumes "refl_prop_ok f p" and "refl_default p = Some v"
  shows "default_field fl (rp_Type p) (sf_kind f) v old = Some (stored fl (sf_kind f) v)"
proof -
  have d: "refl_default_ok p v" using assms by (simp add: refl_prop_ok_def)
  from assms(1) show ?thesis
  proof (cases rule: prop_type_cases [where fl = fl])
    case 1
    with d show ?thesis by (cases v) (auto simp: refl_default_ok_def default_field_def set_string_def stored_def)
  next
    case 2
    with d show ?thesis by (cases v) (auto simp: refl_default_ok_def default_field_def set_bool_def stored_def)
  next
    case 3
    with d show ?thesis by (cases v) (auto simp: refl_default_ok_def default_field_def stored_def)
  qed
qed

text \<open>A number for an integer field should be one; the decoder does not check it.\<close>

definition integral_for :: "reflectedProperty \<Rightarrow> any \<Rightarrow> bool" where
  "integral_for p v \<longleftrightarrow> (rp_Type p = ''integer'' \<longrightarrow> (\<forall>x. v = GNum x \<longrightarrow> x = of_int \<lfloor>x\<rfloor>))"

lemma refl_error_conforms:
  assumes "refl_prop_ok f p" and "plain_value v" and "integral_for p v"
  shows "refl_error fl p v = None \<longleftrightarrow> conforms (reflect_view p) v"
  using assms(1)
proof (cases rule: prop_type_cases [where fl = fl])
  case 1
  with assms(2) show ?thesis
    by (cases v) (auto simp: refl_error_def assignPrimitive_def conforms_def reflect_view_def has_type_def check_enum_def check_length_def set_string_def
        characters_ascii plain_value_def)
next
  case 2
  with assms(2) show ?thesis
    by (cases v) (auto simp: refl_error_def assignPrimitive_def conforms_def reflect_view_def has_type_def check_enum_def set_bool_def plain_value_def)
next
  case 3
  with assms(2,3) show ?thesis
    by (cases v) (auto simp: refl_error_def assignPrimitive_def conforms_def reflect_view_def has_type_def check_enum_def check_range_def plain_value_def
        integral_for_def)
qed

text \<open>The decoder of reflection has the two loops of \<open>answer_loop\<close> and \<open>default_loop\<close>.\<close>

type_synonym refl_decoder = "float_lib \<times> stype \<times> reflectedProperty list \<times> string list"

definition refl_decoder_ok :: "refl_decoder \<Rightarrow> bool" where
  "refl_decoder_ok = (\<lambda>(fl, t, props, prov). schema_of t props \<and> distinct (map rp_Name props))"

definition refl_binds :: "refl_decoder \<Rightarrow> string \<Rightarrow> fieldBinding option" where
  "refl_binds = (\<lambda>(fl, t, props, prov) n. map_option (\<lambda>p. \<lparr>fb_index = rp_FieldIndex p, fb_kind = sf_kind (st_fields t ! rp_FieldIndex p),
     fb_isPtr = rp_IsPointer p\<rparr>) (mget (index_props props) n))"

definition refl_check :: "refl_decoder \<Rightarrow> string \<Rightarrow> any \<Rightarrow> go_error option" where
  "refl_check = (\<lambda>(fl, t, props, prov) n v. case mget (index_props props) n of None \<Rightarrow> None | Some p \<Rightarrow> refl_error fl p v)"

definition refl_dval :: "refl_decoder \<Rightarrow> reflectedProperty \<Rightarrow> fval option" where
  "refl_dval = (\<lambda>(fl, t, props, prov) p. if rp_Name p \<in> set prov \<or> \<not> rp_IsPointer p then None
     else map_option (stored fl (sf_kind (st_fields t ! rp_FieldIndex p))) (refl_default p))"

definition refl_dok :: "refl_decoder \<Rightarrow> reflectedProperty \<Rightarrow> bool" where
  "refl_dok = (\<lambda>(fl, t, props, prov) p. p \<in> set props)"

lemmas refl_decoder_defs = refl_decoder_ok_def refl_binds_def refl_check_def refl_dval_def refl_dok_def

lemma index_props_get:
  assumes "distinct (map rp_Name props)"
  shows "mget (index_props props) n = Some p \<longleftrightarrow> p \<in> set props \<and> rp_Name p = n"
proof -
  have "mget (foldl (\<lambda>m p. mput (rp_Name p) p m) m props) n = Some p \<longleftrightarrow>
      p \<in> set props \<and> rp_Name p = n \<or> n \<notin> rp_Name ` set props \<and> mget m n = Some p" if "distinct (map rp_Name props)" for m
    using that by (induction props arbitrary: m) auto
  from this [OF assms, of "[]"] show ?thesis by (simp add: index_props_def)
qed

lemma schema_of_prop: "schema_of t props \<Longrightarrow> p \<in> set props \<Longrightarrow> refl_prop_ok (st_fields t ! rp_FieldIndex p) p"
  by (simp add: schema_of_def)

interpretation refl_fields: field_map refl_decoder_ok refl_binds "\<lambda>(fl, t, props, prov). length (st_fields t)"
proof unfold_locales
  fix d :: refl_decoder and n fb n' fb'
  assume d: "refl_decoder_ok d" and b: "refl_binds d n = Some fb"
  obtain fl t props prov where dd: "d = (fl, t, props, prov)" by (cases d)
  have dist: "distinct (map rp_Name props)" "schema_of t props" using d by (simp_all add: dd refl_decoder_defs)
  obtain p where p: "p \<in> set props" "rp_Name p = n" "fb_index fb = rp_FieldIndex p"
    using b by (auto simp: dd refl_decoder_defs index_props_get [OF dist(1)])
  then show "fb_index fb < (case d of (fl, t, props, prov) \<Rightarrow> length (st_fields t))" using dist(2) by (auto simp: dd schema_of_def)
  assume "refl_binds d n' = Some fb'" and i: "fb_index fb = fb_index fb'"
  then obtain q where q: "q \<in> set props" "rp_Name q = n'" "fb_index fb' = rp_FieldIndex q"
    by (auto simp: dd refl_decoder_defs index_props_get [OF dist(1)])
  have "inj_on rp_FieldIndex (set props)" using dist(2) by (simp add: schema_of_def distinct_map)
  with p q i show "n = n'" by (metis inj_onD)
qed

interpretation refl_answer: answer_loop refl_decoder_ok refl_binds "\<lambda>(fl, t, props, prov). length (st_fields t)" refl_check
  "\<lambda>(fl, t, props, prov) fb. stored fl (fb_kind fb)" "\<lambda>(fl, t, props, prov). refl_assign fl (st_fields t) (index_props props)"
proof unfold_locales
  fix d :: refl_decoder and n v raw fresh prov fb
  assume d: "refl_decoder_ok d"
  obtain fl t props pr where dd: "d = (fl, t, props, pr)" by (cases d)
  let ?run = "case d of (fl, t, props, prov) \<Rightarrow> refl_assign fl (st_fields t) (index_props props)"
  { assume "refl_binds d n = None"
    then show "?run ((n, v) # raw) fresh prov = ?run raw fresh prov" by (auto simp: dd refl_decoder_defs split: option.split) }
  assume b: "refl_binds d n = Some fb"
  obtain p where p: "mget (index_props props) n = Some p" "fb_index fb = rp_FieldIndex p" "fb_kind fb = sf_kind (st_fields t ! rp_FieldIndex p)"
    using b by (auto simp: dd refl_decoder_defs)
  have ok: "refl_prop_ok (st_fields t ! rp_FieldIndex p) p"
    using d p(1) by (auto simp: dd refl_decoder_defs index_props_get schema_of_prop)
  { assume "refl_check d n v \<noteq> None"
    with p(1) assign_outcome(1) [OF ok, of fl v] show "\<exists>err. ?run ((n, v) # raw) fresh prov = Some (Inl err)"
      by (auto simp: dd refl_decoder_defs Let_def) }
  assume "refl_check d n v = None"
  with p assign_outcome(2) [OF ok, of fl v] show "?run ((n, v) # raw) fresh prov =
      ?run raw (fresh[fb_index fb := Some ((case d of (fl, t, props, prov) \<Rightarrow> \<lambda>fb. stored fl (fb_kind fb)) fb v)]) (n # prov)"
    by (simp add: dd refl_decoder_defs Let_def)
qed (auto)

interpretation refl_default_loop: default_loop refl_decoder_ok refl_binds "\<lambda>(fl, t, props, prov). length (st_fields t)" rp_Name refl_dval refl_dok
  "\<lambda>(fl, t, props, prov) es. refl_defaults fl (st_fields t) es prov"
proof unfold_locales
  fix d :: refl_decoder and e es fresh x fb
  assume d: "refl_decoder_ok d" and e: "refl_dok d e"
  obtain fl t props pr where dd: "d = (fl, t, props, pr)" by (cases d)
  let ?run = "case d of (fl, t, props, prov) \<Rightarrow> \<lambda>es. refl_defaults fl (st_fields t) es prov"
  { assume "refl_dval d e = None"
    then show "?run (e # es) fresh = ?run es fresh" by (auto simp: dd refl_decoder_defs split: option.split if_splits) }
  assume x: "refl_dval d e = Some x"
  have idx: "mget (index_props props) (rp_Name e) = Some e" using d e by (auto simp: dd refl_decoder_defs index_props_get)
  then show "\<exists>fb. refl_binds d (rp_Name e) = Some fb" by (simp add: dd refl_decoder_defs)
  assume b: "refl_binds d (rp_Name e) = Some fb"
  have "refl_prop_ok (st_fields t ! rp_FieldIndex e) e" using d e by (auto simp: dd refl_decoder_defs schema_of_prop)
  from refl_default_stored [OF this, of _ fl] x b idx show "?run (e # es) fresh = ?run es (fresh[fb_index fb := Some x])"
    by (auto simp: dd refl_decoder_defs Let_def split: if_splits)
qed (auto)

subsection \<open>The whole decoder\<close>

definition cache_ok :: "float_lib \<Rightarrow> (string \<Rightarrow> string) \<Rightarrow> schema_cache \<Rightarrow> bool" where
  "cache_ok fl sha cache \<longleftrightarrow> (\<forall>t rs. mget cache t = Some rs \<longrightarrow> buildReflectedSchema fl sha t = Some rs)"

lemma BindStruct_schema:
  assumes "cache_ok fl sha cache" and "BindStruct fl sha (Some (StructAt i)) store cache = Some (cache', Inr d)"
  shows "cache_ok fl sha cache'" "rd_dst d = i" "buildReflectedSchema fl sha (so_type (store ! i)) = Some (rd_schema d)"
  using assms by (auto simp: BindStruct_def getOrBuildReflectedSchema_def cache_ok_def split: option.splits if_splits)

text \<open>The field of a property after an accepted answer; a required one is always answered.\<close>

definition refl_cell :: "float_lib \<Rightarrow> reflectedSchema \<Rightarrow> (string, any) gomap \<Rightarrow> string \<Rightarrow> fieldBinding \<Rightarrow> cell" where
  "refl_cell fl rs raw n fb = (case mget raw n of
       Some v \<Rightarrow> Some (stored fl (fb_kind fb) v)
     | None \<Rightarrow> map_option (stored fl (fb_kind fb)) (Option.bind (mget (rs_propIndex rs) n) refl_default))"

lemma validates_reflect_doc:
  assumes "distinct (map rp_Name props)"
  shows "validates fl (object_doc fl (map reflect_view props) req) raw \<longleftrightarrow>
    (\<forall>p v. p \<in> set props \<and> mget raw (rp_Name p) = Some v \<longrightarrow> satisfies fl (property_doc fl (reflect_view p)) v) \<and> (\<forall>n \<in> set req. mget raw n \<noteq> None)"
proof -
  have get: "mget (map (\<lambda>v. (pv_name v, property_doc fl v)) (map reflect_view props)) n = Some j \<longleftrightarrow>
      (\<exists>p \<in> set props. rp_Name p = n \<and> j = property_doc fl (reflect_view p))" for n j
  proof -
    have "distinct (map fst (map (\<lambda>v. (pv_name v, property_doc fl v)) (map reflect_view props)))" using assms by (simp add: o_def reflect_view_def)
    then show ?thesis unfolding mget_def by (subst map_of_eq_Some_iff) (auto simp: reflect_view_def)
  qed
  show ?thesis
    unfolding validates_def object_doc_def strings_doc_def by (auto simp: get [unfolded list.map_comp o_def] o_def)
qed

lemma refl_refused:
  assumes "distinct (map rp_Name props)" and "wf_map raw"
  shows "\<not> refused (refl_binds (fl, t, props, prov)) (refl_check (fl, t, props, prov)) raw \<longleftrightarrow>
    (\<forall>p v. p \<in> set props \<and> mget raw (rp_Name p) = Some v \<longrightarrow> refl_error fl p v = None)"
proof -
  have "refl_binds (fl, t, props, prov) n \<noteq> None \<and> refl_check (fl, t, props, prov) n v \<noteq> None \<longleftrightarrow>
      (\<exists>p \<in> set props. rp_Name p = n \<and> refl_error fl p v \<noteq> None)" for n v
  proof (cases "mget (index_props props) n")
    case None
    then have "\<forall>p \<in> set props. rp_Name p \<noteq> n" using index_props_get [OF assms(1)] by (metis option.distinct(1))
    with None show ?thesis by (simp add: refl_decoder_defs)
  next
    case (Some p)
    then have "p \<in> set props \<and> rp_Name p = n" "\<And>q. q \<in> set props \<Longrightarrow> rp_Name q = n \<Longrightarrow> q = p"
      using index_props_get [OF assms(1)] by (simp, metis option.inject)
    with Some show ?thesis by (auto simp: refl_decoder_defs)
  qed
  then have "refused (refl_binds (fl, t, props, prov)) (refl_check (fl, t, props, prov)) raw \<longleftrightarrow>
      (\<exists>x \<in> set raw. \<exists>p \<in> set props. rp_Name p = fst x \<and> refl_error fl p (snd x) \<noteq> None)"
    unfolding refused_def by (simp add: split_def)
  moreover have "x \<in> set raw \<longleftrightarrow> mget raw (fst x) = Some (snd x)" for x
    using wf_map_mget [OF assms(2), of "fst x" "snd x"] by simp
  ultimately show ?thesis by (auto simp: Bex_def)
qed

lemma refl_validates:
  assumes "schema_of t ps" and "distinct (map rp_Name ps)" and "prints_exactly fl" and "wf_map raw" and "\<forall>(n, v) \<in> set raw. plain_value v"
    and "\<forall>p \<in> set ps. \<forall>v. mget raw (rp_Name p) = Some v \<longrightarrow> integral_for p v"
  shows "validates fl (object_doc fl (map reflect_view ps) req) raw \<longleftrightarrow>
    \<not> refused (refl_binds (fl, t, ps, [])) (refl_check (fl, t, ps, [])) raw \<and> (\<forall>n \<in> set req. mget raw n \<noteq> None)"
proof -
  have "refl_error fl p v = None \<longleftrightarrow> satisfies fl (property_doc fl (reflect_view p)) v" if "p \<in> set ps" "mget raw (rp_Name p) = Some v" for p v
  proof -
    have "plain_value v" using that(2) assms(5) wf_map_mget [OF assms(4)] by auto
    with refl_error_conforms [OF schema_of_prop [OF assms(1) that(1)]] assms(6) that show ?thesis
      unfolding satisfies_property_doc [OF assms(3)] by blast
  qed
  then show ?thesis unfolding validates_reflect_doc [OF assms(2)] refl_refused [OF assms(2,4)] by blast
qed

lemma refl_final_cell:
  assumes ok: "schema_of t ps" "distinct (map rp_Name ps)" "rs_propIndex rs = index_props ps"
    and fresh: "cells_match (refl_binds (fl, t, ps, [])) (zero_struct t) (answer_cell (\<lambda>fb. stored fl (fb_kind fb)) raw (zero_struct t)) fresh"
    and prov: "set prov = {n. mget raw n \<noteq> None \<and> refl_binds (fl, t, ps, []) n \<noteq> None}"
    and required: "\<forall>p \<in> set ps. mget raw (rp_Name p) = None \<longrightarrow> rp_IsPointer p"
    and n: "refl_binds (fl, t, ps, []) n = Some fb"
  shows "default_cell rp_Name (refl_dval (fl, t, ps, prov)) ps fresh n fb = refl_cell fl rs raw n fb"
proof -
  obtain p where p: "p \<in> set ps" "rp_Name p = n" "fb_index fb = rp_FieldIndex p" "fb_kind fb = sf_kind (st_fields t ! rp_FieldIndex p)"
    using n by (auto simp: refl_decoder_defs index_props_get [OF ok(2)])
  have mo: "map_of (map (\<lambda>e. (rp_Name e, e)) ps) n = Some p" using p(1,2) ok(2) by (auto simp: map_of_eq_Some_iff o_def)
  have idx: "mget (rs_propIndex rs) n = Some p" using p(1,2) by (simp add: ok(3) index_props_get [OF ok(2)])
  have f: "fresh ! fb_index fb = (case mget raw n of Some v \<Rightarrow> Some (stored fl (fb_kind fb) v) | None \<Rightarrow> zero_struct t ! fb_index fb)"
    using fresh n by (simp add: cells_match_def answer_cell_def)
  have pr: "n \<in> set prov \<longleftrightarrow> mget raw n \<noteq> None" using prov n by auto
  have ptr: "mget raw n = None \<Longrightarrow> rp_IsPointer p" using required p(1,2) by auto
  have "sf_ptr (st_fields t ! rp_FieldIndex p) = rp_IsPointer p" "rp_FieldIndex p < length (st_fields t)"
    using schema_of_prop [OF ok(1) p(1)] ok(1) p(1) by (auto simp: refl_prop_ok_def schema_of_def)
  then have "mget raw n = None \<Longrightarrow> zero_struct t ! fb_index fb = None" using ptr p(3) by (simp add: zero_struct_def zero_cell_def)
  with mo f pr ptr p idx show ?thesis
    by (cases "mget raw n") (auto simp: default_cell_def refl_cell_def refl_dval_def split: option.split)
qed

text \<open>C26: a struct bound through reflection decodes answers soundly: the schema comes from the cache or is derived,
  with the same result; decoding never panics; an answer is accepted exactly when it is valid under the schema the
  client was sent (numbers for integer fields being whole, strings ASCII); then every field of a property holds its
  converted value or the default, the others are zero, and no other struct changes; a refused answer changes
  nothing.\<close>

theorem reflect_decode_enforces_schema:
  assumes "cache_ok fl sha cache" and "BindStruct fl sha (Some (StructAt i)) store cache = Some (cache', Inr d)" and "i < length store"
    and "distinct (map rp_Name (rs_properties (rd_schema d)))" and "prints_exactly fl" and "wf_map raw" and "\<forall>(n, v) \<in> set raw. plain_value v"
    and "\<forall>p \<in> set (rs_properties (rd_schema d)). \<forall>v. mget raw (rp_Name p) = Some v \<longrightarrow> integral_for p v"
  shows "cache_ok fl sha cache' \<and> rs_jsonBytes (rd_schema d) = json_text (reflect_doc fl (rd_schema d)) \<and>
    (\<exists>store' err. refl_Decode fl d raw None store = Some (store', err) \<and>
      (err = None \<longleftrightarrow> validates fl (reflect_doc fl (rd_schema d)) raw) \<and>
      (err \<noteq> None \<longrightarrow> store' = store) \<and>
      (err = None \<longrightarrow> (\<exists>cells. store' = store[i := (store ! i)\<lparr>so_cells := cells\<rparr>] \<and>
        cells_match (refl_binds (fl, so_type (store ! i), rs_properties (rd_schema d), [])) (zero_struct (so_type (store ! i)))
          (refl_cell fl (rd_schema d) raw) cells)))"
proof -
  let ?t = "so_type (store ! i)" and ?rs = "rd_schema d"
  let ?ps = "rs_properties ?rs"
  let ?d = "\<lambda>prov. (fl, ?t, ?ps, prov) :: refl_decoder"
  note bind = BindStruct_schema [OF assms(1,2)]
  note built = built_schema [OF bind(3)]
  have good: "refl_decoder_ok (?d prov)" for prov using built(1) assms(4) by (simp add: refl_decoder_defs)
  have same: "refl_binds (?d prov) = refl_binds (?d [])" for prov by (simp add: refl_binds_def)
  have bytes: "rs_jsonBytes ?rs = json_text (reflect_doc fl ?rs)" using built(4) reflect_text [OF built(1)] by (simp add: reflect_doc_def)
  have valid: "validates fl (reflect_doc fl ?rs) raw \<longleftrightarrow>
      \<not> refused (refl_binds (?d [])) (refl_check (?d [])) raw \<and> (\<forall>n \<in> set (rs_required ?rs). mget raw n \<noteq> None)"
    unfolding reflect_doc_def by (rule refl_validates [OF built(1) assms(4-8)])
  have len: "length (zero_struct ?t) = length (st_fields ?t)" by (simp add: zero_struct_def)
  note answer = refl_answer.loop_outcome [OF good, of "zero_struct ?t" "[]" raw "[]", simplified prod.case, OF len assms(6)]
  have "\<exists>store' err. refl_Decode fl d raw None store = Some (store', err) \<and> (err = None \<longleftrightarrow> validates fl (reflect_doc fl ?rs) raw) \<and>
      (err \<noteq> None \<longrightarrow> store' = store) \<and> (err = None \<longrightarrow> (\<exists>cells. store' = store[i := (store ! i)\<lparr>so_cells := cells\<rparr>] \<and>
        cells_match (refl_binds (?d [])) (zero_struct ?t) (refl_cell fl ?rs raw) cells))"
  proof (cases "refused (refl_binds (?d [])) (refl_check (?d [])) raw")
    case True
    with answer valid show ?thesis by (auto simp: refl_Decode_def bind(2) Let_def built(3))
  next
    case False
    then obtain fresh prov where a: "refl_assign fl (st_fields ?t) (rs_propIndex ?rs) raw (zero_struct ?t) [] = Some (Inr (fresh, prov))"
        "set prov = {n. mget raw n \<noteq> None \<and> refl_binds (?d []) n \<noteq> None}"
        "cells_match (refl_binds (?d [])) (zero_struct ?t) (answer_cell (\<lambda>fb. stored fl (fb_kind fb)) raw (zero_struct ?t)) fresh"
      using answer by (auto simp: built(3))
    have idx: "mget (rs_propIndex ?rs) (rp_Name p) = Some p" if "p \<in> set ?ps" for p
      using that by (simp add: built(3) index_props_get [OF assms(4)])
    have known: "refl_binds (?d []) n \<noteq> None" if "n \<in> set (rs_required ?rs)" for n
      using that idx by (auto simp: built(2) refl_decoder_defs built(3) [symmetric])
    have miss: "remdups (filter (\<lambda>r. r \<notin> set prov) (rs_required ?rs)) = [] \<longleftrightarrow> (\<forall>n \<in> set (rs_required ?rs). mget raw n \<noteq> None)"
      using known a(2) by (auto simp: filter_empty_conv)
    show ?thesis
    proof (cases "\<forall>n \<in> set (rs_required ?rs). mget raw n \<noteq> None")
      case no: False
      with a(1) miss valid show ?thesis by (auto simp: refl_Decode_def bind(2) Let_def)
    next
      case yes: True
      have lf: "length fresh = length (st_fields ?t)" using a(3) len by (simp add: cells_match_def)
      have "\<forall>e \<in> set ?ps. refl_dok (?d prov) e" by (simp add: refl_decoder_defs)
      with refl_default_loop.dloop_outcome [OF good, of fresh prov ?ps] lf assms(4) obtain cells where
        df: "refl_defaults fl (st_fields ?t) ?ps prov fresh = Some cells"
          "cells_match (refl_binds (?d [])) fresh (default_cell rp_Name (refl_dval (?d prov)) ?ps fresh) cells"
        by (auto simp: same [of prov])
      have "\<forall>p \<in> set ?ps. mget raw (rp_Name p) = None \<longrightarrow> rp_IsPointer p" using yes by (auto simp: built(2))
      note cell = refl_final_cell [OF built(1) assms(4) built(3) a(3,2) this]
      from cells_match_trans [OF a(3) cells_match_cong [OF df(2) cell]] yes a(1) df(1) miss valid False show ?thesis
        by (auto simp: refl_Decode_def bind(2) Let_def)
    qed
  qed
  with bind(1) bytes show ?thesis by simp
qed


subsection \<open>An instance\<close>

definition refl_type :: stype where
  "refl_type = \<lparr>st_name = ''T'', st_fields = [
     \<lparr>sf_Name = ''N'', sf_exported = True, sf_json = ''n,omitempty'', sf_jsonschema = ''minLength=1'', sf_ptr = False, sf_kind = KString\<rparr>,
     \<lparr>sf_Name = ''f'', sf_exported = True, sf_json = [], sf_jsonschema = ''default=true'', sf_ptr = True, sf_kind = KBool\<rparr>]\<rparr>"

definition refl_n :: reflectedProperty where
  "refl_n = \<lparr>rp_Name = ''n'', rp_Type = ''string'', rp_Description = [], rp_Title = [], rp_EnumValues = [], rp_EnumNames = [],
     rp_Constraints = no_constraints\<lparr>pc_MinLength := Some 1\<rparr>, rp_IsPointer = False, rp_FieldIndex = 0, rp_Format = [],
     rp_BoolDefault = None, rp_StringDefault = None, rp_NumberDefault = None\<rparr>"

definition refl_f :: reflectedProperty where
  "refl_f = \<lparr>rp_Name = ''f'', rp_Type = ''boolean'', rp_Description = [], rp_Title = [], rp_EnumValues = [], rp_EnumNames = [],
     rp_Constraints = no_constraints, rp_IsPointer = True, rp_FieldIndex = 1, rp_Format = [],
     rp_BoolDefault = Some True, rp_StringDefault = None, rp_NumberDefault = None\<rparr>"

lemma refl_type_fields: "reflect_fields frac_lib 0 (st_fields refl_type) = Some [refl_n, refl_f]"
  by (simp add: refl_type_def refl_n_def refl_f_def kind_type_def parseJSONSchemaTagExtended_def Split_def tag_part_def tag_key_def tag_val_def no_tag_def
      parseInt_def is_space_def is_digit_def digit_val_def in_range_def int64_ok_def set_constraint_def interpret_default_def reflected_name_def
      no_constraints_def Let_def)

lemma refl_type_schema:
  obtains rs where "buildReflectedSchema frac_lib id refl_type = Some rs" "rs_properties rs = [refl_n, refl_f]" "rs_required rs = [''n'']"
  using that by (simp add: buildReflectedSchema_def refl_type_fields Let_def) (simp add: refl_n_def refl_f_def)

theorem reflection_agrees_with_builder_witness:
  "\<exists>rs b ds. buildReflectedSchema frac_lib id refl_type = Some rs \<and> Build frac_lib id wit_builder = Some (b, Inr ds) \<and>
     rs_jsonBytes rs = ds_jsonBytes ds \<and> rs_fingerprint rs = ds_fingerprint ds"
proof -
  obtain rs where rs: "buildReflectedSchema frac_lib id refl_type = Some rs" "rs_properties rs = [refl_n, refl_f]" "rs_required rs = [''n'']"
    by (rule refl_type_schema)
  obtain ds where ds: "Build frac_lib id wit_builder = Some (wit_builder\<lparr>b_built := True\<rparr>, Inr ds)"
    using Build_outcome [OF builder_reach_ok [OF wit_builder_reach] wit_builder_facts(1), of frac_lib id] by blast
  have "map reflect_view (rs_properties rs) = builder_views wit_builder"
    by (simp add: rs(2) refl_n_def refl_f_def reflect_view_def builder_views_def builder_view_def wit_builder_eq new_property_def refl_default_def
        default_value_def)
  with reflection_agrees_with_builder [OF rs(1) wit_builder_reach ds] rs ds wit_builder_facts(2) show ?thesis by auto
qed


definition refl_store :: struct_store where
  "refl_store = [\<lparr>so_type = refl_type, so_cells = zero_struct refl_type\<rparr>]"

theorem reflect_decode_enforces_schema_witness:
  "\<exists>c d cells. BindStruct frac_lib id (Some (StructAt 0)) refl_store [] = Some (c, Inr d) \<and>
     refl_Decode frac_lib d [(''n'', GStr ''x'')] None refl_store = Some (refl_store[0 := (refl_store ! 0)\<lparr>so_cells := cells\<rparr>], None) \<and>
     cells ! 0 = Some (FStr ''x'') \<and> cells ! 1 = Some (FBool True)"
proof -
  let ?raw = "[(''n'', GStr ''x'')]"
  obtain rs where rs: "buildReflectedSchema frac_lib id refl_type = Some rs" "rs_properties rs = [refl_n, refl_f]" "rs_required rs = [''n'']"
    by (rule refl_type_schema)
  let ?d = "\<lparr>rd_schema = rs, rd_dst = 0\<rparr>"
  have bind: "BindStruct frac_lib id (Some (StructAt 0)) refl_store [] = Some ([(refl_type, rs)], Inr ?d)"
    by (simp add: BindStruct_def getOrBuildReflectedSchema_def refl_store_def rs)
  have "satisfies frac_lib (property_doc frac_lib (reflect_view refl_n)) (GStr ''x'')"
    unfolding satisfies_property_doc [OF frac_lib_exact]
    by (simp add: conforms_def reflect_view_def refl_n_def has_type_def characters_def below_min_def above_max_def no_constraints_def)
  then have valid: "validates frac_lib (reflect_doc frac_lib rs) ?raw"
    unfolding reflect_doc_def rs(2,3)
    by (subst validates_reflect_doc) (auto simp: refl_n_def refl_f_def)
  have hyps: "cache_ok frac_lib id []" "0 < length refl_store" "distinct (map rp_Name (rs_properties (rd_schema ?d)))" "wf_map ?raw"
      "\<forall>(n, v) \<in> set ?raw. plain_value v" "\<forall>p \<in> set (rs_properties (rd_schema ?d)). \<forall>v. mget ?raw (rp_Name p) = Some v \<longrightarrow> integral_for p v"
    by (simp_all add: cache_ok_def refl_store_def rs(2) refl_n_def refl_f_def wf_map_def mkeys_def plain_value_def ascii_def integral_for_def)
  from reflect_decode_enforces_schema [OF hyps(1) bind hyps(2,3) frac_lib_exact hyps(4-6)]
  obtain store' err where dec: "refl_Decode frac_lib ?d ?raw None refl_store = Some (store', err)"
      "err = None \<longleftrightarrow> validates frac_lib (reflect_doc frac_lib (rd_schema ?d)) ?raw"
      "err = None \<longrightarrow> (\<exists>cells. store' = refl_store[0 := (refl_store ! 0)\<lparr>so_cells := cells\<rparr>] \<and>
        cells_match (refl_binds (frac_lib, so_type (refl_store ! 0), rs_properties (rd_schema ?d), [])) (zero_struct (so_type (refl_store ! 0)))
          (refl_cell frac_lib (rd_schema ?d) ?raw) cells)"
    by (elim conjE exE) rule
  have err: "err = None" using dec(2) valid by simp
  from mp [OF dec(3) err] obtain cells where st: "store' = refl_store[0 := (refl_store ! 0)\<lparr>so_cells := cells\<rparr>]"
    and cells: "cells_match (refl_binds (frac_lib, refl_type, [refl_n, refl_f], [])) (zero_struct refl_type) (refl_cell frac_lib rs ?raw) cells"
    by (elim exE conjE) (simp add: refl_store_def rs(2))
  have run: "refl_Decode frac_lib ?d ?raw None refl_store = Some (refl_store[0 := (refl_store ! 0)\<lparr>so_cells := cells\<rparr>], None)"
    using dec(1) err st by simp
  have at: "cells ! fb_index fb = refl_cell frac_lib rs ?raw n fb" if "refl_binds (frac_lib, refl_type, [refl_n, refl_f], []) n = Some fb" for n fb
    using cells that by (simp add: cells_match_def)
  have "refl_binds (frac_lib, refl_type, [refl_n, refl_f], []) ''n'' = Some \<lparr>fb_index = 0, fb_kind = KString, fb_isPtr = False\<rparr>"
    "refl_binds (frac_lib, refl_type, [refl_n, refl_f], []) ''f'' = Some \<lparr>fb_index = 1, fb_kind = KBool, fb_isPtr = True\<rparr>"
    by (simp_all add: refl_binds_def index_props_def refl_n_def refl_f_def refl_type_def)
  from at [OF this(1)] at [OF this(2)] have "cells ! 0 = Some (FStr ''x'')" "cells ! 1 = Some (FBool True)"
    using built_schema(3) [OF rs(1)] by (simp_all add: refl_cell_def stored_def rs(2) index_props_def refl_f_def refl_n_def refl_default_def)
  with bind run show ?thesis by (intro exI conjI)
qed

end
