(* ===== verification/GoPaths.thy ===== *)
theory GoPaths
  imports GoStrings "HOL-Library.Sublist"
begin

section \<open>Paths and URL escapes of the standard library\<close>

text \<open>
  What the file system resources use of \<open>path\<close>, \<open>path/filepath\<close> (on Unix), \<open>io/fs\<close>, \<open>net/url\<close> and
  \<open>unicode/utf8\<close>, with the laws their client relies on: cleaning leaves a valid path alone, \<open>within\<close> is the
  prefix order on the segments of absolute paths, and escaping a path segment can be undone.
\<close>

subsection \<open>Lexical paths\<close>

definition path_segs :: "string \<Rightarrow> string list" where
  "path_segs p = filter (\<lambda>s. s \<noteq> [] \<and> s \<noteq> ''.'') (Split p CHR ''/'')"

fun clean_segs :: "bool \<Rightarrow> string list \<Rightarrow> string list \<Rightarrow> string list" where
  "clean_segs rooted st [] = rev st"
| "clean_segs rooted st (s # ss) =
     (if s = ''..'' then
        (case st of
           [] \<Rightarrow> if rooted then clean_segs rooted [] ss else clean_segs rooted [s] ss
         | t # st' \<Rightarrow> if t = ''..'' then clean_segs rooted (s # st) ss else clean_segs rooted st' ss)
      else clean_segs rooted (s # st) ss)"

abbreviation rooted :: "string \<Rightarrow> bool" where
  "rooted p \<equiv> HasPrefix p ''/''"

definition canonical :: "string \<Rightarrow> string list" where
  "canonical p = clean_segs (rooted p) [] (path_segs p)"

definition Clean :: "string \<Rightarrow> string" where
  "Clean p = (if rooted p then ''/'' @ Join (canonical p) ''/''
     else if canonical p = [] then ''.'' else Join (canonical p) ''/'')"

definition path_Join :: "string \<Rightarrow> string \<Rightarrow> string" where
  "path_Join a b = (if a = [] \<and> b = [] then [] else if a = [] then Clean b else if b = [] then Clean a else Clean (a @ ''/'' @ b))"

fun drop_common :: "string list \<Rightarrow> string list \<Rightarrow> string list \<times> string list" where
  "drop_common (b # bs) (t # ts) = (if b = t then drop_common bs ts else (b # bs, t # ts))"
| "drop_common bs ts = (bs, ts)"

definition Rel :: "string \<Rightarrow> string \<Rightarrow> string option" where
  "Rel base targ =
     (let b = Clean base; t = Clean targ in
      if t = b then Some ''.''
      else let b' = (if b = ''.'' then [] else b) in
        if rooted b' \<noteq> rooted t then None
        else let (bs, ts) = drop_common (path_segs b') (path_segs t) in
          if bs \<noteq> [] \<and> hd bs = ''..'' then None else Some (Join (replicate (length bs) ''..'' @ ts) ''/''))"

definition last_elem :: "string \<Rightarrow> string" where
  "last_elem p = rev (takeWhile (\<lambda>c. c \<noteq> CHR ''/'') (rev p))"

definition path_Ext :: "string \<Rightarrow> string" where
  "path_Ext p = (let e = last_elem p in
     if CHR ''.'' \<in> set e then CHR ''.'' # rev (takeWhile (\<lambda>c. c \<noteq> CHR ''.'') (rev e)) else [])"

definition path_Base :: "string \<Rightarrow> string" where
  "path_Base p = (if p = [] then ''.'' else
     let q = rev (dropWhile (\<lambda>c. c = CHR ''/'') (rev p)) in if q = [] then ''/'' else last_elem q)"

definition TrimRight_slash :: "string \<Rightarrow> string" where
  "TrimRight_slash p = rev (dropWhile (\<lambda>c. c = CHR ''/'') (rev p))"

subsection \<open>UTF-8 and \<open>fs.ValidPath\<close>\<close>

definition cont_byte :: "nat \<Rightarrow> nat \<Rightarrow> char \<Rightarrow> bool" where
  "cont_byte lo hi c \<longleftrightarrow> lo \<le> (of_char c :: nat) \<and> (of_char c :: nat) \<le> hi"

fun utf8_valid :: "string \<Rightarrow> bool" where
  "utf8_valid [] = True"
| "utf8_valid (a # r) =
     (let n = of_char a :: nat in
      if n < 128 then utf8_valid r
      else case r of
        b # r1 \<Rightarrow>
          if 194 \<le> n \<and> n \<le> 223 then cont_byte 128 191 b \<and> utf8_valid r1
          else (case r1 of
            c # r2 \<Rightarrow>
              if n = 224 then cont_byte 160 191 b \<and> cont_byte 128 191 c \<and> utf8_valid r2
              else if n = 237 then cont_byte 128 159 b \<and> cont_byte 128 191 c \<and> utf8_valid r2
              else if 225 \<le> n \<and> n \<le> 239 then cont_byte 128 191 b \<and> cont_byte 128 191 c \<and> utf8_valid r2
              else (case r2 of
                d # r3 \<Rightarrow>
                  if n = 240 then cont_byte 144 191 b \<and> cont_byte 128 191 c \<and> cont_byte 128 191 d \<and> utf8_valid r3
                  else if 241 \<le> n \<and> n \<le> 243 then cont_byte 128 191 b \<and> cont_byte 128 191 c \<and> cont_byte 128 191 d \<and> utf8_valid r3
                  else if n = 244 then cont_byte 128 143 b \<and> cont_byte 128 191 c \<and> cont_byte 128 191 d \<and> utf8_valid r3
                  else False
              | [] \<Rightarrow> False)
          | [] \<Rightarrow> False)
      | [] \<Rightarrow> False)"

definition ValidPath :: "string \<Rightarrow> bool" where
  "ValidPath p \<longleftrightarrow> utf8_valid p \<and> (p = ''.'' \<or> (\<forall>e \<in> set (Split p CHR ''/''). e \<noteq> [] \<and> e \<noteq> ''.'' \<and> e \<noteq> ''..''))"

subsection \<open>Escapes\<close>

definition unreserved :: "char \<Rightarrow> bool" where
  "unreserved c \<longleftrightarrow> (let n = of_char c :: nat in 48 \<le> n \<and> n \<le> 57 \<or> 65 \<le> n \<and> n \<le> 90 \<or> 97 \<le> n \<and> n \<le> 122) \<or> c \<in> set ''-_.~$&+:=@''"

definition upper_hex :: "nat \<Rightarrow> char" where
  "upper_hex d = (if d < 10 then char_of (48 + d) else char_of (55 + d))"

definition PathEscape :: "string \<Rightarrow> string" where
  "PathEscape s = concat (map (\<lambda>c. if unreserved c then [c]
     else [CHR ''%'', upper_hex ((of_char c :: nat) div 16), upper_hex ((of_char c :: nat) mod 16)]) s)"

definition unhex :: "char \<Rightarrow> nat option" where
  "unhex c = (let n = of_char c :: nat in
     if 48 \<le> n \<and> n \<le> 57 then Some (n - 48) else if 97 \<le> n \<and> n \<le> 102 then Some (n - 87) else if 65 \<le> n \<and> n \<le> 70 then Some (n - 55) else None)"

fun PathUnescape :: "string \<Rightarrow> string option" where
  "PathUnescape [] = Some []"
| "PathUnescape (c # r) =
     (if c = CHR ''%'' then
        (case r of
           a # b # r' \<Rightarrow> (case (unhex a, unhex b) of
               (Some x, Some y) \<Rightarrow> map_option ((#) (char_of (16 * x + y))) (PathUnescape r')
             | _ \<Rightarrow> None)
         | _ \<Rightarrow> None)
      else map_option ((#) c) (PathUnescape r))"

subsection \<open>Laws\<close>

lemma unhex_upper: "d < 16 \<Longrightarrow> unhex (upper_hex d) = Some d"
  by (auto simp: unhex_def upper_hex_def Let_def)

lemma of_char_lt: "(of_char c :: nat) < 256"
  by (cases c) (simp add: of_char_def)

lemma PathUnescape_escape: "PathUnescape (PathEscape s) = Some s"
proof (induction s)
  case (Cons c s)
  have c: "(of_char c :: nat) div 16 < 16" using of_char_lt [of c] by linarith
  have p: "unreserved c \<Longrightarrow> c \<noteq> CHR ''%''" by (auto simp: unreserved_def Let_def)
  have "char_of (16 * ((of_char c :: nat) div 16) + of_char c mod 16) = c" by simp
  with Cons c p unhex_upper [OF c] unhex_upper [of "of_char c mod 16"] show ?case
    by (auto simp: PathEscape_def)
qed (simp add: PathEscape_def)

lemma PathEscape_no_slash: "CHR ''/'' \<notin> set (PathEscape s)"
proof -
  have u: "upper_hex d \<noteq> CHR ''/''" if "d < 16" for d
    using unhex_upper [OF that] by (auto simp: unhex_def Let_def)
  have h: "CHR ''/'' \<noteq> upper_hex ((of_char c :: nat) div 16)" "CHR ''/'' \<noteq> upper_hex ((of_char c :: nat) mod 16)" for c
    using of_char_lt [of c] by (intro u [symmetric]; linarith)+
  have n: "\<not> unreserved CHR ''/''" by (simp add: unreserved_def)
  show ?thesis using h n by (induction s) (auto simp: PathEscape_def)
qed

lemma split_from_no_sep: "s \<in> set (split_from sep cur p) \<Longrightarrow> sep \<notin> set cur \<Longrightarrow> sep \<notin> set s"
  by (induction sep cur p rule: split_from.induct) (auto split: if_splits)

lemma Split_no_sep: "s \<in> set (Split p sep) \<Longrightarrow> sep \<notin> set s"
  by (auto simp: Split_def dest: split_from_no_sep)

lemma split_from_not_Nil [simp]: "split_from sep x y \<noteq> []"
  by (induction sep x y rule: split_from.induct) auto

lemma Join_split_from: "Join (split_from sep cur p) [sep] = cur @ p"
  by (induction sep cur p rule: split_from.induct) (auto simp: Join_Cons)

lemma Join_Split: "Join (Split p sep) [sep] = p"
  by (simp add: Split_def Join_split_from)

lemma Split_not_Nil [simp]: "Split p sep \<noteq> []"
  by (simp add: Split_def)

text \<open>A segment that names something.\<close>

definition proper :: "string \<Rightarrow> bool" where
  "proper s \<longleftrightarrow> s \<noteq> [] \<and> s \<noteq> ''.'' \<and> s \<noteq> ''..'' \<and> CHR ''/'' \<notin> set s"

definition plain_segs :: "string list \<Rightarrow> bool" where
  "plain_segs ss \<longleftrightarrow> (\<forall>s \<in> set ss. s \<noteq> [] \<and> s \<noteq> ''.'' \<and> CHR ''/'' \<notin> set s)"

lemma path_segs_plain: "plain_segs (path_segs p)"
  using Split_no_sep by (auto simp: plain_segs_def path_segs_def)

lemma path_segs_Join: "plain_segs ss \<Longrightarrow> path_segs (Join ss ''/'') = ss"
proof (cases "ss = []")
  case True
  then show ?thesis by (simp add: path_segs_def Split_def)
next
  case False
  assume "plain_segs ss"
  then have "filter (\<lambda>s. s \<noteq> [] \<and> s \<noteq> ''.'') ss = ss" "\<forall>s \<in> set ss. CHR ''/'' \<notin> set s"
    by (simp_all add: plain_segs_def)
  with Split_Join [OF False this(2)] show ?thesis by (simp add: path_segs_def)
qed

lemma path_segs_slash: "path_segs (CHR ''/'' # p) = path_segs p"
  by (simp add: path_segs_def Split_def)

lemma clean_segs_plain: "plain_segs st \<Longrightarrow> plain_segs ss \<Longrightarrow> plain_segs (clean_segs r st ss)"
  by (induction r st ss rule: clean_segs.induct) (auto simp: plain_segs_def split: list.split)

lemma clean_segs_rooted: "''..'' \<notin> set st \<Longrightarrow> ''..'' \<notin> set (clean_segs True st ss)"
  by (induction "True" st ss rule: clean_segs.induct) (auto split: list.split)

lemma clean_segs_proper: "''..'' \<notin> set ss \<Longrightarrow> clean_segs r st ss = rev st @ ss"
  by (induction r st ss rule: clean_segs.induct) auto

lemma canonical_plain: "plain_segs (canonical p)"
  unfolding canonical_def by (intro clean_segs_plain path_segs_plain) (simp add: plain_segs_def)

lemma canonical_rooted: "rooted p \<Longrightarrow> s \<in> set (canonical p) \<Longrightarrow> proper s"
  using canonical_plain [of p] clean_segs_rooted [of "[]" "path_segs p"]
  by (auto simp: canonical_def proper_def plain_segs_def)

lemma rooted_iff: "rooted p \<longleftrightarrow> (\<exists>q. p = CHR ''/'' # q)"
  by (cases p) auto

lemma Clean_rooted: "rooted p \<Longrightarrow> Clean p = CHR ''/'' # Join (canonical p) ''/''"
  by (simp add: Clean_def)

lemma path_segs_Clean: "rooted p \<Longrightarrow> path_segs (Clean p) = canonical p"
  by (simp add: Clean_rooted path_segs_slash path_segs_Join canonical_plain)

lemma Clean_eq_iff: "rooted p \<Longrightarrow> rooted q \<Longrightarrow> Clean p = Clean q \<longleftrightarrow> canonical p = canonical q"
  using path_segs_Clean by (metis Clean_rooted)

lemma Clean_valid:
  assumes "\<forall>s \<in> set ss. proper s" and "ss \<noteq> []"
  shows "Clean (Join ss ''/'') = Join ss ''/''" "\<not> rooted (Join ss ''/'')" "canonical (Join ss ''/'') = ss"
proof -
  have plain: "plain_segs ss" and dd: "''..'' \<notin> set ss" using assms(1) by (auto simp: plain_segs_def proper_def)
  obtain s r where ss: "ss = s # r" using assms(2) by (cases ss) auto
  then have "proper s" using assms(1) by simp
  then obtain c cs where c: "s = c # cs" "c \<noteq> CHR ''/''" by (cases s) (auto simp: proper_def)
  then show r: "\<not> rooted (Join ss ''/'')" using ss by (cases r) auto
  show "canonical (Join ss ''/'') = ss"
    by (simp add: canonical_def path_segs_Join [OF plain] clean_segs_proper [OF dd])
  with r assms(2) show "Clean (Join ss ''/'') = Join ss ''/''" by (simp add: Clean_def)
qed

lemma drop_common_split:
  "drop_common bs ts = (bs', ts') \<Longrightarrow> \<exists>c. bs = c @ bs' \<and> ts = c @ ts' \<and> (bs' = [] \<or> ts' = [] \<or> hd bs' \<noteq> hd ts')"
proof (induction bs ts rule: drop_common.induct)
  case (1 b bs t ts)
  show ?case
  proof (cases "b = t")
    case True
    with 1 obtain c where "bs = c @ bs'" "ts = c @ ts'" "bs' = [] \<or> ts' = [] \<or> hd bs' \<noteq> hd ts'" by auto
    with True show ?thesis by (intro exI [of _ "b # c"]) simp
  qed (use 1(2) in auto)
qed auto

lemma Join_dotdot:
  assumes "plain_segs ts" and "ts = [] \<or> hd ts \<noteq> ''..''"
  shows "Join (replicate n ''..'' @ ts) ''/'' = ''..'' \<or> HasPrefix (Join (replicate n ''..'' @ ts) ''/'') ''../'' \<longleftrightarrow> 0 < n"
proof (cases n)
  case (Suc m)
  show ?thesis
  proof (cases "replicate m ''..'' @ ts")
    case Nil
    then show ?thesis using Suc by simp
  next
    case (Cons x xs)
    then have "Join (replicate n ''..'' @ ts) ''/'' = ''..'' @ ''/'' @ Join (x # xs) ''/''" by (simp add: Suc Join_Cons)
    then show ?thesis using Suc by simp
  qed
next
  case 0
  have segs: "path_segs (Join ts ''/'') = ts" using assms(1) by (rule path_segs_Join)
  have "path_segs ''..'' = [''..'']" "path_segs (''../'' @ z) = ''..'' # path_segs z" for z
    by (simp_all add: path_segs_def Split_def)
  with segs assms(2) have "Join ts ''/'' \<noteq> ''..''" "\<not> HasPrefix (Join ts ''/'') ''../''"
    by (metis list.distinct(1) list.sel(1), metis HasPrefix_iff list.distinct(1) list.sel(1))
  with 0 show ?thesis by simp
qed

definition within :: "string \<Rightarrow> string \<Rightarrow> bool" where
  "within target root = (case Rel root target of
       None \<Rightarrow> False
     | Some rel \<Rightarrow> rel = ''.'' \<or> \<not> (HasPrefix rel ''../'' \<or> rel = ''..'' \<or> HasPrefix rel ''../''))"

text \<open>For absolute paths, \<open>within\<close> says that the target is the root or below it.\<close>

lemma within_iff:
  assumes "rooted target" and "rooted root"
  shows "within target root \<longleftrightarrow> prefix (canonical root) (canonical target)"
proof (cases "canonical target = canonical root")
  case True
  with assms show ?thesis by (simp add: within_def Rel_def Clean_rooted)
next
  case False
  then have ne: "Clean target \<noteq> Clean root" using Clean_eq_iff assms by blast
  obtain bs ts where dc: "drop_common (canonical root) (canonical target) = (bs, ts)" by fastforce
  from drop_common_split [OF dc] obtain c where c: "canonical root = c @ bs" "canonical target = c @ ts" "bs = [] \<or> ts = [] \<or> hd bs \<noteq> hd ts" by blast
  have bs: "\<forall>s \<in> set bs. proper s" and ts: "\<forall>s \<in> set ts. proper s"
    using canonical_rooted [OF assms(1)] canonical_rooted [OF assms(2)] by (simp_all add: c(1,2))
  have plain: "plain_segs ts" using ts by (simp add: plain_segs_def proper_def)
  have hd_ts: "ts = [] \<or> hd ts \<noteq> ''..''" using ts by (cases ts) (simp_all add: proper_def)
  note dotdot = Join_dotdot [OF plain hd_ts]
  have rel: "Rel root target = Some (Join (replicate (length bs) ''..'' @ ts) ''/'')"
  proof -
    have r: "rooted (Clean root)" "rooted (Clean target)" "Clean root \<noteq> ''.''" using assms by (simp_all add: Clean_rooted)
    have "\<not> (bs \<noteq> [] \<and> hd bs = ''..'')" using bs by (cases bs) (simp_all add: proper_def)
    with ne r dc show ?thesis by (simp add: Rel_def path_segs_Clean assms Let_def)
  qed
  have dot: "bs = [] \<Longrightarrow> Join ts ''/'' \<noteq> ''.''"
  proof
    assume "Join ts ''/'' = ''.''"
    then have "path_segs (Join ts ''/'') = []" by (simp add: path_segs_def Split_def)
    then have "ts = []" using path_segs_Join [OF plain] by simp
    moreover assume "bs = []"
    ultimately show False using c(1,2) False by simp
  qed
  have "within target root \<longleftrightarrow> bs = []"
  proof (cases "bs = []")
    case True
    with rel dot dotdot [of 0] show ?thesis by (simp add: within_def)
  next
    case no: False
    have "Join (replicate (length bs) ''..'' @ ts) ''/'' \<noteq> ''.''"
      using dotdot [of "length bs"] no by (auto simp: HasPrefix_iff)
    with rel no dotdot [of "length bs"] show ?thesis by (auto simp: within_def)
  qed
  moreover have "bs = [] \<longleftrightarrow> prefix (canonical root) (canonical target)"
    using c by (cases bs; cases ts) (auto simp: prefix_def)
  ultimately show ?thesis by simp
qed

lemma ValidPath_segs:
  assumes "ValidPath p" and "p \<noteq> ''.''"
  shows "\<forall>s \<in> set (Split p CHR ''/''). proper s" "Clean p = p" "\<not> rooted p" "canonical p = Split p CHR ''/''"
proof -
  show all: "\<forall>s \<in> set (Split p CHR ''/''). proper s"
    using assms Split_no_sep by (auto simp: ValidPath_def proper_def)
  show "Clean p = p" "\<not> rooted p" "canonical p = Split p CHR ''/''"
    using Clean_valid [OF all Split_not_Nil] by (simp_all add: Join_Split)
qed

end
