(* ===== verification/FsResources.thy ===== *)
theory FsResources
  imports GoPaths Json Resources "HOL-Library.List_Lexorder" "HOL-Library.Char_ord"
begin

section \<open>Resources from a file system (mcpservice/fs_resources.go)\<close>

text \<open>
  \<open>FSResources\<close> lists the files of a directory or of an \<open>fs.FS\<close> as resources and reads them back by URI. The file
  system is the record \<open>fs_env\<close> of arguments: what resolving symbolic links, reading, \<open>Stat\<close> and walking return.
  ASCII upper case is lowered in extensions. The watcher of a directory (fsnotify) and the poller are given by what
  they do with one event and one tick; a debouncer by its critical sections, between which its timer and other
  goroutines run. Times are integers, the zero time is 0.
\<close>

record walk_entry =
  we_path :: string
  we_err :: bool
  we_dir :: bool
  we_typeLink :: bool                         \<comment> \<open>\<open>Type\<close> has the symlink bit\<close>
  we_Info :: "(bool \<times> int \<times> int) option"     \<comment> \<open>whether the mode has it, the size and the time\<close>

record fs_env =
  fe_Abs :: "string \<Rightarrow> string option"
  fe_EvalSymlinks :: "string \<Rightarrow> string option"
  fe_ReadFile :: "string \<Rightarrow> go_error + string"
  fe_IsDir :: "string \<Rightarrow> bool option"           \<comment> \<open>\<open>os.Stat\<close>\<close>
  fe_fsRead :: "string \<Rightarrow> go_error + string"    \<comment> \<open>\<open>fs.ReadFile\<close> of the configured file system\<close>
  fe_fsRegular :: "string \<Rightarrow> bool"              \<comment> \<open>it opens and is a regular file\<close>
  fe_walk :: "walk_entry list"                   \<comment> \<open>the calls \<open>fs.WalkDir\<close> makes, in order\<close>
  fe_mime :: "string \<Rightarrow> string"                 \<comment> \<open>\<open>mime.TypeByExtension\<close>\<close>

subsection \<open>State and options\<close>

record debouncer =
  db_interval :: int
  db_pending :: bool
  db_armed :: bool       \<comment> \<open>the timer runs\<close>
  db_waiting :: nat      \<comment> \<open>flushes started by the timer that wait for the lock\<close>
  db_flushing :: nat     \<comment> \<open>flushes between releasing the lock and firing\<close>

record FSResources =
  fr_fsys :: bool
  fr_osRoot :: string
  fr_baseURI :: string
  fr_pageSize :: int
  fr_pollInterval :: int
  fr_updateDebounce :: int
  fr_watchCtx :: "nat option"  \<comment> \<open>the context the watcher runs under, once \<open>pollOnce\<close> has run; 0 is the background\<close>
  fr_notifier :: ChangeNotifier
  fr_subsByURI :: "(string, (string, unit) gomap) gomap"
  fr_subsBySession :: "(string, (string, unit) gomap) gomap"
  fr_updatedNotifiers :: "(string, ChangeNotifier) gomap"
  fr_debounceState :: "(string, debouncer) gomap"

type_synonym FSOption = "FSResources \<Rightarrow> FSResources"

definition WithOSDir :: "fs_env \<Rightarrow> string \<Rightarrow> FSOption" where
  "WithOSDir env root r =
     (let root1 = (if \<not> rooted root then (case fe_Abs env root of Some a \<Rightarrow> a | None \<Rightarrow> root) else root) in
      case fe_EvalSymlinks env root1 of
        Some real \<Rightarrow> r\<lparr>fr_osRoot := real, fr_fsys := True\<rparr>
      | None \<Rightarrow> r\<lparr>fr_osRoot := root1, fr_fsys := True\<rparr>)"

definition WithFS :: "bool \<Rightarrow> FSOption" where
  "WithFS present r = r\<lparr>fr_fsys := present, fr_osRoot := []\<rparr>"

definition WithBaseURI :: "string \<Rightarrow> FSOption" where
  "WithBaseURI base r = r\<lparr>fr_baseURI := TrimRight_slash base\<rparr>"

definition WithFSPageSize :: "int \<Rightarrow> FSOption" where
  "WithFSPageSize n r = (if n > 0 then r\<lparr>fr_pageSize := n\<rparr> else r)"

definition WithPolling :: "int \<Rightarrow> FSOption" where
  "WithPolling interval r = r\<lparr>fr_pollInterval := interval\<rparr>"

definition WithUpdateDebounce :: "int \<Rightarrow> FSOption" where
  "WithUpdateDebounce d r = r\<lparr>fr_updateDebounce := d\<rparr>"

definition NewFSResources :: "FSOption list \<Rightarrow> FSResources" where
  "NewFSResources opts =
     (let r = foldl (\<lambda>r f. f r) \<lparr>fr_fsys = False, fr_osRoot = [], fr_baseURI = ''fs://'', fr_pageSize = 50, fr_pollInterval = 0,
          fr_updateDebounce = 250000000, fr_watchCtx = None, fr_notifier = cn_zero, fr_subsByURI = [], fr_subsBySession = [],
          fr_updatedNotifiers = [], fr_debounceState = []\<rparr> opts
      in r\<lparr>fr_subsByURI := [], fr_subsBySession := [], fr_updatedNotifiers := [], fr_debounceState := []\<rparr>)"

subsection \<open>URIs\<close>

definition validFSPath :: "string \<Rightarrow> bool" where
  "validFSPath p \<longleftrightarrow> ValidPath p \<and> CHR '':'' \<notin> set p"

definition relToURI :: "FSResources \<Rightarrow> string \<Rightarrow> string" where
  "relToURI r rel = fr_baseURI r @ ''/'' @ Join (map PathEscape (Split rel CHR ''/'')) ''/''"

definition uriToRel :: "FSResources \<Rightarrow> string \<Rightarrow> string option" where
  "uriToRel r uri =
     (let base = TrimRight_slash (fr_baseURI r) @ ''/'' in
      if \<not> HasPrefix uri base then None
      else case those (map PathUnescape (Split (TrimPrefix uri base) CHR ''/'')) of
        None \<Rightarrow> None
      | Some segs \<Rightarrow>
          (let rel = Clean (Join segs ''/'') in
           if rel = ''.'' \<or> HasPrefix rel ''../'' then None else Some rel))"

subsection \<open>Listing\<close>

definition ToLower :: "string \<Rightarrow> string" where
  "ToLower s = map lower_char s"

definition isSymlink :: "walk_entry \<Rightarrow> bool" where
  "isSymlink d = (if we_typeLink d then True else case we_Info d of Some (link, sz, mt) \<Rightarrow> link | None \<Rightarrow> False)"

definition visible :: "walk_entry \<Rightarrow> bool" where
  "visible e \<longleftrightarrow> \<not> we_err e \<and> \<not> we_dir e \<and> \<not> isSymlink e \<and> validFSPath (we_path e)"

definition file_resource :: "fs_env \<Rightarrow> FSResources \<Rightarrow> string \<Rightarrow> McpResource" where
  "file_resource env r p = \<lparr>r_URI = relToURI r p, r_Name = path_Base p, r_Description = [], r_MimeType = fe_mime env (ToLower (path_Ext p))\<rparr>"

fun scan_loop :: "fs_env \<Rightarrow> ctx \<Rightarrow> FSResources \<Rightarrow> walk_entry list \<Rightarrow> McpResource list \<Rightarrow> go_error + McpResource list" where
  "scan_loop env c r [] out = Inr out"
| "scan_loop env c r (e # es) out =
     (if \<not> visible e then scan_loop env c r es out
      else case c of
        Some err \<Rightarrow> Inl err
      | None \<Rightarrow> scan_loop env c r es (out @ [file_resource env r (we_path e)]))"

definition scanFiles :: "fs_env \<Rightarrow> ctx \<Rightarrow> FSResources \<Rightarrow> go_error + McpResource list" where
  "scanFiles env c r = map_sum id (sort_key r_URI) (scan_loop env c r (fe_walk env) [])"

definition pageSlice :: "'a list \<Rightarrow> int \<Rightarrow> string option \<Rightarrow> 'a Page option" where
  "pageSlice all pageSize cursor =
     (let start = (case cursor of None \<Rightarrow> 0 | Some s \<Rightarrow>
            if s = [] then 0 else (case atoi s of None \<Rightarrow> 0 | Some n \<Rightarrow> if n \<ge> 0 \<and> n \<le> int (length all) then n else 0))
      in page_from start pageSize all)"

definition fs_ListResources :: "fs_env \<Rightarrow> ctx \<Rightarrow> FSResources \<Rightarrow> string option \<Rightarrow> (go_error + McpResource Page) option" where
  "fs_ListResources env c r cursor =
     (if \<not> fr_fsys r then Some (Inr (NewPage []))
      else case scanFiles env c r of
        Inl err \<Rightarrow> Some (Inl err)
      | Inr all \<Rightarrow> map_option Inr (pageSlice all (fr_pageSize r) cursor))"

definition fs_ListResourceTemplates :: "string option \<Rightarrow> McpResourceTemplate Page" where
  "fs_ListResourceTemplates cursor = NewPage []"

subsection \<open>Reading\<close>

definition contentsFor :: "string \<Rightarrow> string \<Rightarrow> string \<Rightarrow> ResourceContents" where
  "contentsFor uri mimeType data =
     (let mt = (if mimeType = [] then ''application/octet-stream'' else mimeType) in
      if utf8_valid data then \<lparr>rct_URI = uri, rct_MimeType = mt, rct_Text = data, rct_Blob = []\<rparr>
      else \<lparr>rct_URI = uri, rct_MimeType = mt, rct_Text = [], rct_Blob = base64 data\<rparr>)"

definition not_found :: "string \<Rightarrow> go_error" where
  "not_found uri = ErrText (''resource not found: '' @ uri)"

definition fs_ReadResource :: "fs_env \<Rightarrow> FSResources \<Rightarrow> string \<Rightarrow> go_error + ResourceContents list" where
  "fs_ReadResource env r uri =
     (if \<not> fr_fsys r then Inl (not_found uri)
      else case uriToRel r uri of
        None \<Rightarrow> Inl (not_found uri)
      | Some rel \<Rightarrow>
          if fr_osRoot r \<noteq> [] then
            (case fe_EvalSymlinks env (path_Join (fr_osRoot r) rel) of
               None \<Rightarrow> Inl (not_found uri)
             | Some real \<Rightarrow>
                 if \<not> within real (fr_osRoot r) then Inl (not_found uri)
                 else (case fe_ReadFile env real of
                   Inl err \<Rightarrow> Inl (Wrapped ''read failed'' err)
                 | Inr data \<Rightarrow> Inr [contentsFor uri (fe_mime env (ToLower (path_Ext real))) data]))
          else if \<not> validFSPath rel then Inl (not_found uri)
          else (case fe_fsRead env rel of
              Inl err \<Rightarrow> Inl (Wrapped ''read failed'' err)
            | Inr data \<Rightarrow> Inr [contentsFor uri (fe_mime env (ToLower (path_Ext rel))) data]))"

text \<open>\<open>uriExists\<close> does not look whether a file system is configured: opening a file of none panics (\<open>None\<close>).\<close>

definition uriExists :: "fs_env \<Rightarrow> FSResources \<Rightarrow> string \<Rightarrow> bool option" where
  "uriExists env r uri = (case uriToRel r uri of
       None \<Rightarrow> Some False
     | Some rel \<Rightarrow>
         if fr_osRoot r \<noteq> [] then
           (case fe_EvalSymlinks env (path_Join (fr_osRoot r) rel) of
              None \<Rightarrow> Some False
            | Some real \<Rightarrow> Some (within real (fr_osRoot r) \<and> fe_IsDir env real = Some False))
         else if \<not> validFSPath rel then Some False
         else if \<not> fr_fsys r then None
         else Some (fe_fsRegular env rel))"

definition listChanged_supported :: "FSResources \<Rightarrow> bool" where
  "listChanged_supported r \<longleftrightarrow> \<not> (fr_osRoot r = [] \<and> fr_pollInterval r \<le> 0)"

subsection \<open>Debounced updates\<close>

text \<open>\<open>db_trigger\<close> is the critical section of \<open>trigger\<close>, with whether it fires at once; the timer's expiry, the
  critical section of \<open>flush\<close> and the call of \<open>fire\<close> after it are \<open>db_expire\<close>, \<open>db_flush\<close> and \<open>db_fire\<close>.\<close>

definition db_trigger :: "debouncer \<Rightarrow> debouncer \<times> bool" where
  "db_trigger d =
     (if db_interval d \<le> 0 then (d, True)
      else if db_pending d then (d, False)
      else (d\<lparr>db_pending := True, db_armed := True\<rparr>, False))"

definition db_expire :: "debouncer \<Rightarrow> debouncer" where
  "db_expire d = d\<lparr>db_armed := False, db_waiting := Suc (db_waiting d)\<rparr>"

definition db_flush :: "debouncer \<Rightarrow> debouncer" where
  "db_flush d = d\<lparr>db_pending := False, db_waiting := db_waiting d - 1, db_flushing := Suc (db_flushing d)\<rparr>"

definition db_fire :: "debouncer \<Rightarrow> debouncer" where
  "db_fire d = d\<lparr>db_flushing := db_flushing d - 1\<rparr>"

definition new_debouncer :: "int \<Rightarrow> debouncer" where
  "new_debouncer interval = \<lparr>db_interval = interval, db_pending = False, db_armed = False, db_waiting = 0, db_flushing = 0\<rparr>"

definition ensure_notifier :: "string \<Rightarrow> FSResources \<Rightarrow> FSResources" where
  "ensure_notifier uri r = (case mget (fr_updatedNotifiers r) uri of
       Some _ \<Rightarrow> r
     | None \<Rightarrow> r\<lparr>fr_updatedNotifiers := mput uri cn_zero (fr_updatedNotifiers r)\<rparr>)"

definition fire_update :: "string \<Rightarrow> FSResources \<Rightarrow> FSResources option" where
  "fire_update uri r = (case mget (fr_updatedNotifiers r) uri of
       None \<Rightarrow> None
     | Some cn \<Rightarrow> map_option (\<lambda>cn'. r\<lparr>fr_updatedNotifiers := mput uri cn' (fr_updatedNotifiers r)\<rparr>) (Notify cn))"

definition fs_markUpdated :: "string \<Rightarrow> FSResources \<Rightarrow> FSResources option" where
  "fs_markUpdated uri r =
     (let (r1, d) = (case mget (fr_debounceState r) uri of
            Some d \<Rightarrow> (r, d)
          | None \<Rightarrow> (ensure_notifier uri r, new_debouncer (fr_updateDebounce r)));
          (d', now) = db_trigger d;
          r2 = r1\<lparr>fr_debounceState := mput uri d' (fr_debounceState r1)\<rparr>
      in if now then fire_update uri r2 else Some r2)"

text \<open>The timer of a URI's debouncer runs out, its \<open>flush\<close> takes the lock, and the notifier is told.\<close>

definition timer_expires :: "string \<Rightarrow> FSResources \<Rightarrow> FSResources option" where
  "timer_expires uri r = (case mget (fr_debounceState r) uri of
       Some d \<Rightarrow> if db_armed d then Some (r\<lparr>fr_debounceState := mput uri (db_expire d) (fr_debounceState r)\<rparr>) else None
     | None \<Rightarrow> None)"

definition flush_locked :: "string \<Rightarrow> FSResources \<Rightarrow> FSResources option" where
  "flush_locked uri r = (case mget (fr_debounceState r) uri of
       Some d \<Rightarrow> if 0 < db_waiting d then Some (r\<lparr>fr_debounceState := mput uri (db_flush d) (fr_debounceState r)\<rparr>) else None
     | None \<Rightarrow> None)"

definition flush_fires :: "string \<Rightarrow> FSResources \<Rightarrow> FSResources option option" where
  "flush_fires uri r = (case mget (fr_debounceState r) uri of
       Some d \<Rightarrow> if 0 < db_flushing d then Some (fire_update uri (r\<lparr>fr_debounceState := mput uri (db_fire d) (fr_debounceState r)\<rparr>)) else None
     | None \<Rightarrow> None)"

definition subscriberForURI :: "string \<Rightarrow> FSResources \<Rightarrow> FSResources \<times> nat" where
  "subscriberForURI uri r =
     (let r1 = ensure_notifier uri r;
          (cn, i) = Subscriber (the (mget (fr_updatedNotifiers r1) uri))
      in (r1\<lparr>fr_updatedNotifiers := mput uri cn (fr_updatedNotifiers r1)\<rparr>, i))"

subsection \<open>Subscriptions\<close>

definition start_watch :: "nat \<Rightarrow> FSResources \<Rightarrow> FSResources" where
  "start_watch ctxid r = (case fr_watchCtx r of
       Some _ \<Rightarrow> r
     | None \<Rightarrow> r\<lparr>fr_watchCtx := Some ctxid\<rparr>)"

definition put_member :: "string \<Rightarrow> string \<Rightarrow> (string, (string, unit) gomap) gomap \<Rightarrow> (string, (string, unit) gomap) gomap" where
  "put_member a b m = mput a (mput b () (case mget m a of None \<Rightarrow> [] | Some s \<Rightarrow> s)) m"

definition del_member :: "string \<Rightarrow> string \<Rightarrow> (string, (string, unit) gomap) gomap \<Rightarrow> (string, (string, unit) gomap) gomap" where
  "del_member a b m = (case mget m a of
       None \<Rightarrow> m
     | Some s \<Rightarrow> if mdel b s = [] then mdel a m else mput a (mdel b s) m)"

definition fs_Subscribe :: "fs_env \<Rightarrow> string \<Rightarrow> string \<Rightarrow> FSResources \<Rightarrow> (FSResources \<times> (go_error + nat)) option" where
  "fs_Subscribe env sid uri r = map_option (\<lambda>found.
      if \<not> found then (r, Inl (not_found uri))
      else let r1 = start_watch 0 r;
               r2 = r1\<lparr>fr_subsByURI := put_member uri sid (fr_subsByURI r1), fr_subsBySession := put_member sid uri (fr_subsBySession r1)\<rparr>;
               (r3, ch) = subscriberForURI uri r2
           in (r3, Inr ch)) (uriExists env r uri)"

definition fs_cancel :: "string \<Rightarrow> string \<Rightarrow> FSResources \<Rightarrow> FSResources" where
  "fs_cancel sid uri r = r\<lparr>fr_subsByURI := del_member uri sid (fr_subsByURI r), fr_subsBySession := del_member sid uri (fr_subsBySession r)\<rparr>"

definition fs_Register :: "nat \<Rightarrow> bool \<Rightarrow> FSResources \<Rightarrow> FSResources \<times> nat option" where
  "fs_Register ctxid hasFn r =
     (if \<not> hasFn then (r, None)
      else let r1 = start_watch ctxid r; (cn, i) = Subscriber (fr_notifier r1) in (r1\<lparr>fr_notifier := cn\<rparr>, Some i))"

text \<open>The watcher runs until its context ends, and \<open>pollOnce\<close> never starts another.\<close>

definition watching :: "nat set \<Rightarrow> FSResources \<Rightarrow> bool" where
  "watching cancelled r = (case fr_watchCtx r of
       None \<Rightarrow> False
     | Some k \<Rightarrow> k \<notin> cancelled \<and> (fr_osRoot r \<noteq> [] \<or> 0 < fr_pollInterval r))"

subsection \<open>Watching\<close>

type_synonym fileMeta = "int \<times> int"

fun snapshot_loop :: "ctx \<Rightarrow> walk_entry list \<Rightarrow> (string, fileMeta) gomap \<Rightarrow> go_error + (string, fileMeta) gomap" where
  "snapshot_loop c [] rows = Inr rows"
| "snapshot_loop c (e # es) rows =
     (if \<not> visible e then snapshot_loop c es rows
      else case c of
        Some err \<Rightarrow> Inl err
      | None \<Rightarrow> snapshot_loop c es (mput (we_path e) (case we_Info e of Some (link, sz, mt) \<Rightarrow> (sz, mt) | None \<Rightarrow> (0, 0)) rows))"

definition snapshot :: "fs_env \<Rightarrow> ctx \<Rightarrow> FSResources \<Rightarrow> go_error + (string, fileMeta) gomap" where
  "snapshot env c r = (if \<not> fr_fsys r then Inl (ErrText ''no fs configured'') else snapshot_loop c (fe_walk env) [])"

fun poll_files :: "(string, fileMeta) gomap \<Rightarrow> (string, fileMeta) gomap \<Rightarrow> FSResources \<Rightarrow> bool \<Rightarrow> (FSResources \<times> bool) option" where
  "poll_files lastSnap [] r changed = Some (r, changed)"
| "poll_files lastSnap ((p, cur) # files) r changed = (case mget lastSnap p of
       Some prev \<Rightarrow>
         if prev \<noteq> cur then Option.bind (fs_markUpdated (relToURI r p) r) (\<lambda>r'. poll_files lastSnap files r' True)
         else poll_files lastSnap files r changed
     | None \<Rightarrow> poll_files lastSnap files r True)"

definition poll_tick :: "fs_env \<Rightarrow> ctx \<Rightarrow> (string, fileMeta) gomap \<Rightarrow> FSResources \<Rightarrow> (FSResources \<times> (string, fileMeta) gomap \<times> bool) option" where
  "poll_tick env c lastSnap r = (case snapshot env c r of
       Inl err \<Rightarrow> Some (r, lastSnap, False)
     | Inr curSnap \<Rightarrow> Option.bind (poll_files lastSnap curSnap r False) (\<lambda>(r1, changed0).
         let changed = changed0 \<or> (\<exists>p \<in> set (mkeys lastSnap). mget curSnap p = None) in
         if changed then map_option (\<lambda>cn. (r1\<lparr>fr_notifier := cn\<rparr>, curSnap, True)) (Notify (fr_notifier r1))
         else Some (r1, lastSnap, False)))"

text \<open>The snapshot a poller starts from; one that fails leaves the map empty.\<close>

definition poll_prime :: "fs_env \<Rightarrow> ctx \<Rightarrow> FSResources \<Rightarrow> (string, fileMeta) gomap" where
  "poll_prime env c r = (case snapshot env c r of Inl err \<Rightarrow> [] | Inr m \<Rightarrow> m)"

record fs_event =
  ev_Name :: string
  ev_Create :: bool
  ev_RemoveRename :: bool
  ev_WriteChmod :: bool

definition notify_list :: "FSResources \<Rightarrow> FSResources option" where
  "notify_list r = map_option (\<lambda>cn. r\<lparr>fr_notifier := cn\<rparr>) (Notify (fr_notifier r))"

text \<open>One event of the watcher: the new state and the directory to watch as well.\<close>

definition fsnotify_event :: "fs_env \<Rightarrow> fs_event \<Rightarrow> FSResources \<Rightarrow> (FSResources \<times> string option) option" where
  "fsnotify_event env ev r =
     (if ev_Create ev \<and> fe_IsDir env (ev_Name ev) = Some True then map_option (\<lambda>r'. (r', Some (ev_Name ev))) (notify_list r)
      else Option.bind (if ev_Create ev then notify_list r else Some r) (\<lambda>r1.
           Option.bind (if ev_RemoveRename ev then notify_list r1 else Some r1) (\<lambda>r2.
             if \<not> ev_WriteChmod ev then Some (r2, None)
             else let real = (case fe_Abs env (ev_Name ev) of Some a \<Rightarrow> a | None \<Rightarrow> ev_Name ev) in
               if \<not> within real (fr_osRoot r2) then Some (r2, None)
               else case Rel (fr_osRoot r2) real of
                 None \<Rightarrow> Some (r2, None)
               | Some rel \<Rightarrow> map_option (\<lambda>r3. (r3, None)) (fs_markUpdated (relToURI r2 rel) r2))))"

end
