(* ===== verification/FsSafety.thy ===== *)
theory FsSafety
  imports FsResources "HOL-Library.Multiset"
begin

section \<open>Listing and reading a file system\<close>

text \<open>
  What \<open>ListResources\<close> and \<open>ReadResource\<close> of mcpservice/fs_resources.go promise: a read looks only at files of the
  root, and a client that follows the cursors gets every visible file once, with a URI that reads it back.
\<close>

subsection \<open>URIs and paths\<close>

lemma TrimRight_slash_idem [simp]: "TrimRight_slash (TrimRight_slash p) = TrimRight_slash p"
  by (simp add: TrimRight_slash_def dropWhile_idem)

lemma those_unescape: "those (map PathUnescape (map PathEscape ss)) = Some ss"
  by (induction ss) (simp_all add: PathUnescape_escape)

lemma Split_escaped: "Split (Join (map PathEscape (Split p CHR ''/'')) ''/'') CHR ''/'' = map PathEscape (Split p CHR ''/'')"
  by (intro Split_Join) (simp_all add: PathEscape_no_slash)

lemma uriToRel_relToURI:
  assumes "TrimRight_slash (fr_baseURI r) = fr_baseURI r"
  shows "uriToRel r (relToURI r p) =
    (if Clean p = ''.'' \<or> HasPrefix (Clean p) ''../'' then None else Some (Clean p))"
proof -
  let ?base = "fr_baseURI r @ ''/''" and ?q = "Join (map PathEscape (Split p CHR ''/'')) ''/''"
  have "relToURI r p = ?base @ ?q" by (simp add: relToURI_def)
  then have "HasPrefix (relToURI r p) ?base" "TrimPrefix (relToURI r p) ?base = ?q"
    by (simp_all only: HasPrefix_append TrimPrefix_append)
  then show ?thesis
    using assms by (simp add: uriToRel_def Let_def Split_escaped those_unescape Join_Split del: map_map)
qed

lemma proper_not_up: "\<forall>s \<in> set ss. proper s \<Longrightarrow> ss \<noteq> [] \<Longrightarrow> Join ss ''/'' \<noteq> ''.'' \<and> \<not> HasPrefix (Join ss ''/'') ''../''"
proof -
  assume ss: "\<forall>s \<in> set ss. proper s" and "ss \<noteq> []"
  then have canon: "canonical (Join ss ''/'') = ss" and nr: "\<not> rooted (Join ss ''/'')" using Clean_valid by blast+
  have "plain_segs ss" "ss = [] \<or> hd ss \<noteq> ''..''" using ss by (cases ss; simp add: plain_segs_def proper_def)+
  from Join_dotdot [OF this, of 0] have "\<not> HasPrefix (Join ss ''/'') ''../''" by simp
  moreover have "Join ss ''/'' \<noteq> ''.''"
  proof
    assume "Join ss ''/'' = ''.''"
    then have "canonical (Join ss ''/'') = []" by (simp add: canonical_def path_segs_def Split_def)
    with canon \<open>ss \<noteq> []\<close> show False by simp
  qed
  ultimately show ?thesis by blast
qed

lemma uriToRel_valid:
  assumes "TrimRight_slash (fr_baseURI r) = fr_baseURI r" and "validFSPath p" and "p \<noteq> ''.''"
  shows "uriToRel r (relToURI r p) = Some p"
proof -
  have v: "ValidPath p" using assms(2) by (simp add: validFSPath_def)
  note segs = ValidPath_segs [OF v assms(3)]
  have "p \<noteq> ''.'' \<and> \<not> HasPrefix p ''../''"
    using proper_not_up [OF segs(1)] by (simp add: Join_Split)
  then show ?thesis using uriToRel_relToURI [OF assms(1)] segs(2) by simp
qed

lemma inj_PathEscape: "inj PathEscape"
  by (rule inj_on_inverseI [of _ "\<lambda>e. the (PathUnescape e)"]) (simp add: PathUnescape_escape)

lemma relToURI_inj:
  assumes "relToURI r p = relToURI r q"
  shows "p = q"
proof -
  let ?esc = "\<lambda>p. Join (map PathEscape (Split p CHR ''/'')) ''/''"
  have "?esc p = ?esc q" using assms by (simp add: relToURI_def)
  then have "Split (?esc p) CHR ''/'' = Split (?esc q) CHR ''/''" by (rule arg_cong)
  then have "map PathEscape (Split p CHR ''/'') = map PathEscape (Split q CHR ''/'')" unfolding Split_escaped .
  then have "Split p CHR ''/'' = Split q CHR ''/''" using inj_PathEscape by (rule map_injective)
  then have "Join (Split p CHR ''/'') ''/'' = Join (Split q CHR ''/'') ''/''" by (rule arg_cong)
  then show ?thesis unfolding Join_Split .
qed

text \<open>A relative path joined to an absolute root.\<close>

lemma split_from_append: "split_from sep cur (a @ sep # b) = split_from sep cur a @ split_from sep [] b"
  by (induction sep cur a rule: split_from.induct) auto

lemma path_segs_append: "path_segs (a @ ''/'' @ b) = path_segs a @ path_segs b"
  by (simp add: path_segs_def Split_def split_from_append)

lemma proper_dots: "\<not> proper ''..''"
  by (simp add: proper_def)

lemma clean_segs_append: "clean_segs True st (as @ bs) = clean_segs True (rev (clean_segs True st as)) bs"
  by (induction "True" st as rule: clean_segs.induct) (auto split: list.split)

lemma canonical_below:
  assumes "rooted root" and "ValidPath p" and "p \<noteq> ''.''"
  shows "path_Join root p = CHR ''/'' # Join (canonical root @ Split p CHR ''/'') ''/''"
    and "canonical (path_Join root p) = canonical root @ Split p CHR ''/''"
proof -
  note segs = ValidPath_segs [OF assms(2,3)]
  have ps: "path_segs p = Split p CHR ''/''"
    unfolding path_segs_def filter_id_conv using segs(1) by (simp add: proper_def)
  have dd: "''..'' \<notin> set (Split p CHR ''/'')" using segs(1) proper_dots by blast
  obtain q where root: "root = CHR ''/'' # q" using assms(1) rooted_iff by blast
  have "p \<noteq> []"
  proof
    assume "p = []"
    then have "[] \<in> set (Split p CHR ''/'')" by (simp add: Split_def)
    with segs(1) have "proper []" by (rule bspec)
    then show False by (simp add: proper_def)
  qed
  then have j: "path_Join root p = Clean (root @ ''/'' @ p)" by (simp add: path_Join_def root)
  have r: "rooted (root @ ''/'' @ p)" by (simp add: root)
  have c: "canonical (root @ ''/'' @ p) = canonical root @ Split p CHR ''/''"
    using r assms(1) by (simp only: canonical_def path_segs_append ps clean_segs_append clean_segs_proper [OF dd]) simp
  show "path_Join root p = CHR ''/'' # Join (canonical root @ Split p CHR ''/'') ''/''"
    using j r c by (simp add: Clean_rooted)
  then have "rooted (path_Join root p)" "path_segs (path_Join root p) = canonical root @ Split p CHR ''/''"
    using j path_segs_Clean [OF r] c by simp_all
  moreover have "''..'' \<notin> set (canonical root @ Split p CHR ''/'')"
    using dd canonical_rooted [OF assms(1)] proper_dots by simp blast
  ultimately show "canonical (path_Join root p) = canonical root @ Split p CHR ''/''"
    by (simp add: canonical_def clean_segs_proper)
qed

lemma takeWhile_sep: "takeWhile (\<lambda>x. x \<noteq> c) (b @ c # a) = takeWhile (\<lambda>x. x \<noteq> c) b"
  by (induction b) auto

lemma last_elem_append: "last_elem (a @ ''/'' @ b) = last_elem b"
  by (simp add: last_elem_def takeWhile_sep)

lemma Join_append: "as \<noteq> [] \<Longrightarrow> bs \<noteq> [] \<Longrightarrow> Join (as @ bs) sep = Join as sep @ sep @ Join bs sep"
proof (induction as)
  case (Cons x xs)
  then show ?case by (cases "xs = []") (simp_all add: Join_Cons)
qed simp

lemma Ext_below:
  assumes "rooted root" and "ValidPath p" and "p \<noteq> ''.''"
  shows "path_Ext (path_Join root p) = path_Ext p"
proof -
  have "\<exists>a. path_Join root p = a @ ''/'' @ p"
  proof (cases "canonical root = []")
    case True
    then show ?thesis using canonical_below(1) [OF assms] by (simp add: Join_Split)
  next
    case False
    then show ?thesis
      using canonical_below(1) [OF assms] Join_append [of "canonical root" "Split p CHR ''/''" "''/''"]
      by (intro exI [of _ "''/'' @ Join (canonical root) ''/''"]) (simp add: Join_Split)
  qed
  then obtain a where "path_Join root p = a @ ''/'' @ p" by blast
  then have "last_elem (path_Join root p) = last_elem p" using last_elem_append [of a p] by simp
  then show ?thesis by (simp add: path_Ext_def)
qed

subsection \<open>Reading\<close>

lemma read_of_rel:
  assumes "fr_fsys r" and "uriToRel r uri = Some rel"
  shows "fr_osRoot r = [] \<Longrightarrow> validFSPath rel \<Longrightarrow> fs_ReadResource env r uri =
      (case fe_fsRead env rel of Inl err \<Rightarrow> Inl (Wrapped ''read failed'' err)
       | Inr data \<Rightarrow> Inr [contentsFor uri (fe_mime env (ToLower (path_Ext rel))) data])"
    and "fr_osRoot r \<noteq> [] \<Longrightarrow> fe_EvalSymlinks env (path_Join (fr_osRoot r) rel) = Some real \<Longrightarrow> within real (fr_osRoot r) \<Longrightarrow>
      fs_ReadResource env r uri = (case fe_ReadFile env real of Inl err \<Rightarrow> Inl (Wrapped ''read failed'' err)
       | Inr data \<Rightarrow> Inr [contentsFor uri (fe_mime env (ToLower (path_Ext real))) data])"
  using assms by (simp_all add: fs_ReadResource_def)

lemma path_Join_rooted: "rooted a \<Longrightarrow> rooted (path_Join a b)"
  by (cases a) (auto simp: path_Join_def Clean_def)


definition wit_env :: fs_env where
  "wit_env = \<lparr>fe_Abs = Some, fe_EvalSymlinks = (\<lambda>p. if p = ''/r/l'' then Some ''/etc/x'' else Some p),
     fe_ReadFile = (\<lambda>p. if p = ''/r/a b.txt'' then Inr ''hi'' else Inl (ErrText ''no such file'')),
     fe_IsDir = (\<lambda>p. Some (p = ''/r'')), fe_fsRead = (\<lambda>p. if p = ''a b.txt'' then Inr ''hi'' else Inl (ErrText ''no such file'')),
     fe_fsRegular = (\<lambda>p. p = ''a b.txt''),
     fe_walk = [\<lparr>we_path = ''.'', we_err = False, we_dir = True, we_typeLink = False, we_Info = Some (False, 0, 0)\<rparr>,
       \<lparr>we_path = ''a b.txt'', we_err = False, we_dir = False, we_typeLink = False, we_Info = Some (False, 2, 7)\<rparr>,
       \<lparr>we_path = ''l'', we_err = False, we_dir = False, we_typeLink = True, we_Info = Some (True, 2, 7)\<rparr>],
     fe_mime = (\<lambda>e. if e = ''.txt'' then ''text/plain'' else [])\<rparr>"

definition wit_fs :: FSResources where
  "wit_fs = NewFSResources [WithOSDir wit_env ''/r'', WithBaseURI ''fs://w/'']"

definition wit_secret :: "string \<Rightarrow> go_error + string" where
  "wit_secret p = (if p = ''/etc/x'' then Inr ''secret'' else fe_ReadFile wit_env p)"


subsection \<open>Listing\<close>

definition listed_files :: "fs_env \<Rightarrow> FSResources \<Rightarrow> McpResource list" where
  "listed_files env r = map (\<lambda>e. file_resource env r (we_path e)) (filter visible (fe_walk env))"

lemma scan_loop_all: "scan_loop env None r es out = Inr (out @ map (\<lambda>e. file_resource env r (we_path e)) (filter visible es))"
  by (induction es arbitrary: out) simp_all

lemma scanFiles_all: "scanFiles env None r = Inr (sort_key r_URI (listed_files env r))"
  by (simp add: scanFiles_def scan_loop_all listed_files_def)

lemma pageSlice_eq: "pageSlice all k c = page_restart c k all"
proof -
  have "(case c of None \<Rightarrow> 0 | Some s \<Rightarrow>
      if s = [] then 0 else (case atoi s of None \<Rightarrow> 0 | Some n \<Rightarrow> if n \<ge> 0 \<and> n \<le> int (length all) then n else 0)) =
    (if parseCursor c < 0 \<or> parseCursor c > int (length all) then 0 else parseCursor c)"
    by (auto simp: parseCursor_def split: option.split)
  then show ?thesis by (simp add: pageSlice_def page_restart_def Let_def)
qed

definition fs_page :: "fs_env \<Rightarrow> FSResources \<Rightarrow> string option \<Rightarrow> McpResource Page option" where
  "fs_page env r c = (case fs_ListResources env None r c of Some (Inr p) \<Rightarrow> Some p | _ \<Rightarrow> None)"

lemma fs_page_eq: "fr_fsys r \<Longrightarrow> fs_page env r c = page_restart c (fr_pageSize r) (sort_key r_URI (listed_files env r))"
  by (auto simp: fs_page_def fs_ListResources_def scanFiles_all pageSlice_eq split: option.split)

interpretation fs_pages: pager "\<lambda>(env, r). fs_page env r" "\<lambda>(env, r). sort_key r_URI (listed_files env r)" "\<lambda>(env, r). nat (fr_pageSize r)"
  "\<lambda>(env, r). fr_fsys r \<and> 0 < fr_pageSize r \<and> int (length (listed_files env r)) + fr_pageSize r < 2 ^ 63"
proof (unfold_locales, goal_cases)
  case (3 s n c)
  then show ?case using page_restart_at [of "nat (fr_pageSize (snd s))" n "sort_key r_URI (listed_files (fst s) (snd s))" c]
    by (auto simp: fs_page_eq)
qed auto

lemma listed_reads_back:
  assumes fsys: "fr_fsys r" and base: "TrimRight_slash (fr_baseURI r) = fr_baseURI r" and v: "validFSPath p" and dot: "p \<noteq> ''.''"
  shows "fr_osRoot r = [] \<Longrightarrow> fe_fsRead env p = Inr data \<Longrightarrow>
      fs_ReadResource env r (relToURI r p) = Inr [contentsFor (relToURI r p) (fe_mime env (ToLower (path_Ext p))) data]"
    and "rooted (fr_osRoot r) \<Longrightarrow> fe_EvalSymlinks env (path_Join (fr_osRoot r) p) = Some (path_Join (fr_osRoot r) p) \<Longrightarrow>
      fe_ReadFile env (path_Join (fr_osRoot r) p) = Inr data \<Longrightarrow>
      fs_ReadResource env r (relToURI r p) = Inr [contentsFor (relToURI r p) (fe_mime env (ToLower (path_Ext p))) data]"
proof -
  note rel = read_of_rel [OF fsys uriToRel_valid [OF base v dot]]
  show "fs_ReadResource env r (relToURI r p) = Inr [contentsFor (relToURI r p) (fe_mime env (ToLower (path_Ext p))) data]"
    if "fr_osRoot r = []" "fe_fsRead env p = Inr data"
    using rel(1) [of env] that v by simp
  show "fs_ReadResource env r (relToURI r p) = Inr [contentsFor (relToURI r p) (fe_mime env (ToLower (path_Ext p))) data]"
    if os: "rooted (fr_osRoot r)" "fe_EvalSymlinks env (path_Join (fr_osRoot r) p) = Some (path_Join (fr_osRoot r) p)"
      "fe_ReadFile env (path_Join (fr_osRoot r) p) = Inr data"
  proof -
    have vp: "ValidPath p" using v by (simp add: validFSPath_def)
    have "within (path_Join (fr_osRoot r) p) (fr_osRoot r)"
      using canonical_below(2) [OF os(1) vp dot] by (simp add: within_iff path_Join_rooted os(1))
    moreover have "fr_osRoot r \<noteq> []" using os(1) by auto
    ultimately show ?thesis using rel(2) [of env] os(2,3) Ext_below [OF os(1) vp dot] by simp
  qed
qed

text \<open>What the file system holds at a path of the walk, which no symbolic link leads to.\<close>

definition file_data :: "fs_env \<Rightarrow> FSResources \<Rightarrow> string \<Rightarrow> string \<Rightarrow> bool" where
  "file_data env r p data \<longleftrightarrow> (if fr_osRoot r = [] then fe_fsRead env p = Inr data
     else fe_EvalSymlinks env (path_Join (fr_osRoot r) p) = Some (path_Join (fr_osRoot r) p) \<and>
       fe_ReadFile env (path_Join (fr_osRoot r) p) = Inr data)"


lemma mset_single_list:
  assumes "mset xs = mset [y]"
  shows "xs = [y]"
proof -
  have "size (mset xs) = 1" using assms by simp
  then obtain x where "xs = [x]" by (auto simp: length_Suc_conv)
  with assms show ?thesis by simp
qed


text \<open>With the default base URI, which ends in slashes, the URI of a file of an \<open>fs.FS\<close> does not read back.\<close>

lemma default_base_unreadable:
  "let r = NewFSResources [WithFS True] in
   fs_page wit_env r None = Some (NewPage [\<lparr>r_URI = ''fs:///a%20b.txt'', r_Name = ''a b.txt'', r_Description = [], r_MimeType = ''text/plain''\<rparr>]) \<and>
   fs_ReadResource wit_env r ''fs:///a%20b.txt'' = Inl (not_found ''fs:///a%20b.txt'')"
  by code_simp

end
