(* ===== verification/FsUpdates.thy ===== *)
theory FsUpdates
  imports FsSafety
begin

section \<open>Update notifications of file system resources\<close>

text \<open>
  The debouncers, notifiers and subscriptions of mcpservice/fs_resources.go as a step relation: changes are marked, timers
  run out, flushes take the lock and fire, sessions subscribe, cancel and receive, in any order. A notification is one
  step: the code looks its notifier up in the map without holding the lock of the map. A state carries, beside
  the \<open>FSResources\<close>, the channels that are owed a signal: those registered for a URI when a change of it was marked, until
  they receive.
\<close>

datatype fs_state = Live FSResources "(string \<times> nat) set" | Dead

definition channels :: "FSResources \<Rightarrow> string \<Rightarrow> nat list" where
  "channels r uri = (case mget (fr_updatedNotifiers r) uri of None \<Rightarrow> [] | Some cn \<Rightarrow> cn_subscribers cn)"

definition receive_update :: "string \<Rightarrow> nat \<Rightarrow> FSResources \<Rightarrow> FSResources option" where
  "receive_update uri i r = Option.bind (mget (fr_updatedNotifiers r) uri) (\<lambda>cn.
     case chan_receive i (cn_chans cn) of
       None \<Rightarrow> None
     | Some (cs, got) \<Rightarrow>
         if got then Some (r\<lparr>fr_updatedNotifiers := mput uri (cn\<lparr>cn_chans := cs\<rparr>) (fr_updatedNotifiers r)\<rparr>) else None)"

definition alive :: "FSResources option \<Rightarrow> (string \<times> nat) set \<Rightarrow> fs_state" where
  "alive x ow = (case x of None \<Rightarrow> Dead | Some r \<Rightarrow> Live r ow)"

inductive fs_step :: "fs_env \<Rightarrow> fs_state \<Rightarrow> fs_state \<Rightarrow> bool" for env where
  mark: "fs_step env (Live r ow) (alive (fs_markUpdated uri r) (ow \<union> {uri} \<times> set (channels r uri)))"
| expire: "timer_expires uri r = Some r' \<Longrightarrow> fs_step env (Live r ow) (Live r' ow)"
| flush: "flush_locked uri r = Some r' \<Longrightarrow> fs_step env (Live r ow) (Live r' ow)"
| fire: "flush_fires uri r = Some x \<Longrightarrow> fs_step env (Live r ow) (alive x ow)"
| list_changed: "fs_step env (Live r ow) (alive (notify_list r) ow)"
| register: "fs_Register k hasFn r = (r', ch) \<Longrightarrow> fs_step env (Live r ow) (Live r' ow)"
| subscribe: "fs_step env (Live r ow) (alive (map_option fst (fs_Subscribe env sid uri r)) ow)"
| cancel: "fs_step env (Live r ow) (Live (fs_cancel sid uri r) ow)"
| receive: "receive_update uri i r = Some r' \<Longrightarrow> fs_step env (Live r ow) (Live r' (ow - {(uri, i)}))"

inductive fs_reach :: "fs_env \<Rightarrow> FSOption list \<Rightarrow> fs_state \<Rightarrow> bool" for env opts where
  init: "fs_reach env opts (Live (NewFSResources opts) {})"
| step: "fs_reach env opts s \<Longrightarrow> fs_step env s s' \<Longrightarrow> fs_reach env opts s'"

inductive_cases fs_step_LiveE: "fs_step env (Live r ow) s'"
inductive_cases fs_step_DeadE [elim!]: "fs_step env Dead s'"

subsection \<open>Debouncers\<close>

text \<open>A change that waits has exactly one timer or flush that will serve it.\<close>

definition db_inv :: "debouncer \<Rightarrow> bool" where
  "db_inv d \<longleftrightarrow> (db_pending d \<longleftrightarrow> db_armed d \<or> db_waiting d = 1) \<and> db_waiting d \<le> 1 \<and> (db_armed d \<longrightarrow> db_waiting d = 0)"

definition busy :: "debouncer \<Rightarrow> bool" where
  "busy d \<longleftrightarrow> db_armed d \<or> 0 < db_waiting d \<or> 0 < db_flushing d"

lemma db_inv_new: "db_inv (new_debouncer k)"
  by (simp add: db_inv_def new_debouncer_def)

lemma db_inv_trigger: "db_inv d \<Longrightarrow> db_inv (fst (db_trigger d)) \<and> (snd (db_trigger d) \<or> busy (fst (db_trigger d))) \<and>
    (busy d \<longrightarrow> busy (fst (db_trigger d)))"
  by (auto simp: db_inv_def db_trigger_def busy_def)

lemma db_inv_expire: "db_inv d \<Longrightarrow> db_armed d \<Longrightarrow> db_inv (db_expire d) \<and> busy (db_expire d)"
  by (auto simp: db_inv_def db_expire_def busy_def)

lemma db_inv_flush: "db_inv d \<Longrightarrow> 0 < db_waiting d \<Longrightarrow> db_inv (db_flush d) \<and> busy (db_flush d)"
  by (auto simp: db_inv_def db_flush_def busy_def)

lemma db_inv_fire: "db_inv d \<Longrightarrow> db_inv (db_fire d)"
  by (auto simp: db_inv_def db_fire_def)

lemmas db_inv_steps = db_inv_new db_inv_trigger db_inv_expire db_inv_flush db_inv_fire

subsection \<open>Invariant\<close>

definition cn_good :: "ChangeNotifier \<Rightarrow> bool" where
  "cn_good cn \<longleftrightarrow> \<not> cn_closed cn \<and> cn_inv (Running cn [])"

text \<open>Every notifier is open, every debouncer has its notifier, and a channel that is owed a signal has it already or
  a flush of its URI is still to come.\<close>

definition served :: "FSResources \<Rightarrow> string \<times> nat \<Rightarrow> bool" where
  "served r p \<longleftrightarrow> (case mget (fr_updatedNotifiers r) (fst p) of None \<Rightarrow> False | Some cn \<Rightarrow>
     snd p \<in> set (cn_subscribers cn) \<and>
     (ch_full (cn_chans cn ! snd p) \<or> (case mget (fr_debounceState r) (fst p) of None \<Rightarrow> False | Some d \<Rightarrow> busy d)))"

definition fs_inv :: "fs_state \<Rightarrow> bool" where
  "fs_inv s \<longleftrightarrow> (case s of Dead \<Rightarrow> False | Live r ow \<Rightarrow>
     fr_fsys r \<and> cn_good (fr_notifier r) \<and> (\<forall>uri cn. mget (fr_updatedNotifiers r) uri = Some cn \<longrightarrow> cn_good cn) \<and>
     (\<forall>uri d. mget (fr_debounceState r) uri = Some d \<longrightarrow> db_inv d \<and> mget (fr_updatedNotifiers r) uri \<noteq> None) \<and>
     (\<forall>p \<in> ow. served r p))"

lemma cn_good_zero: "cn_good cn_zero"
  by (simp add: cn_good_def cn_inv_def cn_zero_def)

lemma cn_good_Notify:
  assumes "cn_good cn"
  shows "\<exists>cn'. Notify cn = Some cn' \<and> cn_good cn' \<and> cn_subscribers cn' = cn_subscribers cn \<and>
    (\<forall>i \<in> set (cn_subscribers cn). ch_full (cn_chans cn' ! i))"
proof -
  from notify_spec [of cn "[]"] assms obtain cn' where cn': "Notify cn = Some cn'" "cn_inv (Running cn' [])"
    "cn_subscribers cn' = cn_subscribers cn" "\<forall>i \<in> set (cn_subscribers cn). ch_full (cn_chans cn' ! i)"
    by (auto simp: cn_good_def)
  moreover have "\<not> cn_closed cn'" using cn'(1) assms by (auto simp: Notify_def cn_good_def split: if_splits)
  ultimately show ?thesis by (auto simp: cn_good_def)
qed

lemma cn_good_Subscriber:
  assumes "cn_good cn" and "Subscriber cn = (cn', i)"
  shows "cn_good cn'" "set (cn_subscribers cn) \<subseteq> set (cn_subscribers cn')"
    "j \<in> set (cn_subscribers cn) \<Longrightarrow> cn_chans cn' ! j = cn_chans cn ! j"
proof -
  have "cn_inv (Running cn' [])"
    using cn_step_inv [OF cn_step.subscribe [OF assms(2)]] assms(1) by (simp add: cn_good_def)
  with assms show "cn_good cn'" by (auto simp: cn_good_def Subscriber_def Let_def)
  show "set (cn_subscribers cn) \<subseteq> set (cn_subscribers cn')" using assms by (auto simp: Subscriber_def Let_def split: if_splits)
  show "cn_chans cn' ! j = cn_chans cn ! j" if "j \<in> set (cn_subscribers cn)"
    using that assms by (auto simp: Subscriber_def Let_def cn_good_def cn_inv_def nth_append split: if_splits)
qed

text \<open>A step that touches one URI only has to account for that URI.\<close>

lemma fs_inv_local:
  assumes "fs_inv (Live r ow)" and "fr_fsys r' = fr_fsys r" "fr_notifier r' = fr_notifier r"
    and "\<And>u. u \<noteq> uri \<Longrightarrow> mget (fr_updatedNotifiers r') u = mget (fr_updatedNotifiers r) u"
    and "\<And>u. u \<noteq> uri \<Longrightarrow> mget (fr_debounceState r') u = mget (fr_debounceState r) u"
    and "\<And>u i. u \<noteq> uri \<Longrightarrow> (u, i) \<in> ow' \<Longrightarrow> (u, i) \<in> ow"
    and "mget (fr_updatedNotifiers r') uri = Some cn'" and "cn_good cn'"
    and "\<And>d. mget (fr_debounceState r') uri = Some d \<Longrightarrow> db_inv d"
    and "\<And>i. (uri, i) \<in> ow' \<Longrightarrow> served r' (uri, i)"
  shows "fs_inv (Live r' ow')"
proof -
  have "served r' (u, i)" if "(u, i) \<in> ow'" for u i
  proof (cases "u = uri")
    case False
    then have "served r (u, i)" using that assms(1,6) by (auto simp: fs_inv_def)
    with False assms(4,5) [of u] show ?thesis by (auto simp: served_def split: option.splits)
  qed (use that assms(10) in simp)
  moreover have "db_inv d \<and> mget (fr_updatedNotifiers r') u \<noteq> None" if "mget (fr_debounceState r') u = Some d" for u d
    using that assms(1,4,5,7,9) by (cases "u = uri") (auto simp: fs_inv_def)
  moreover have "cn_good cn" if "mget (fr_updatedNotifiers r') u = Some cn" for u cn
    using that assms(1,4,7,8) by (cases "u = uri") (auto simp: fs_inv_def)
  ultimately show ?thesis using assms(1-3) by (auto simp: fs_inv_def)
qed

lemma fs_inv_db:
  assumes "fs_inv (Live r ow)" and "mget (fr_debounceState r) uri = Some d"
  shows "db_inv d" "\<exists>cn. mget (fr_updatedNotifiers r) uri = Some cn \<and> cn_good cn"
  using assms by (fastforce simp: fs_inv_def)+

lemma fs_inv_put_db:
  assumes "fs_inv (Live r ow)" and "mget (fr_debounceState r) uri = Some d" and "db_inv d'" and "busy d'"
  shows "fs_inv (Live (r\<lparr>fr_debounceState := mput uri d' (fr_debounceState r)\<rparr>) ow)"
proof -
  obtain cn where cn: "mget (fr_updatedNotifiers r) uri = Some cn" "cn_good cn" using fs_inv_db(2) [OF assms(1,2)] by blast
  show ?thesis
  proof (rule fs_inv_local [OF assms(1), where uri = uri and cn' = cn])
    fix i assume "(uri, i) \<in> ow"
    then have "served r (uri, i)" using assms(1) by (auto simp: fs_inv_def)
    with assms(4) show "served (r\<lparr>fr_debounceState := mput uri d' (fr_debounceState r)\<rparr>) (uri, i)"
      by (auto simp: served_def split: option.splits)
  qed (use assms(3) cn in \<open>auto split: if_splits\<close>)
qed

text \<open>Firing fills the channel of every subscriber of the URI.\<close>

lemma fs_inv_fire:
  assumes "fs_inv (Live r ow)" and "mget (fr_updatedNotifiers r) uri = Some cn" and "db_inv d'"
    and ow': "\<And>u i. u \<noteq> uri \<Longrightarrow> (u, i) \<in> ow' \<Longrightarrow> (u, i) \<in> ow" "\<And>i. (uri, i) \<in> ow' \<Longrightarrow> i \<in> set (cn_subscribers cn)"
  shows "fs_inv (alive (fire_update uri (r\<lparr>fr_debounceState := mput uri d' (fr_debounceState r)\<rparr>)) ow')"
proof -
  have "cn_good cn" using assms(1,2) by (auto simp: fs_inv_def)
  from cn_good_Notify [OF this] obtain cn' where cn': "Notify cn = Some cn'" "cn_good cn'"
    "cn_subscribers cn' = cn_subscribers cn" "\<forall>i \<in> set (cn_subscribers cn). ch_full (cn_chans cn' ! i)" by blast
  let ?r = "r\<lparr>fr_debounceState := mput uri d' (fr_debounceState r), fr_updatedNotifiers := mput uri cn' (fr_updatedNotifiers r)\<rparr>"
  have "fs_inv (Live ?r ow')"
    by (rule fs_inv_local [OF assms(1), where uri = uri and cn' = cn'])
      (use assms(3) cn' ow' in \<open>auto simp: served_def split: if_splits\<close>)
  then show ?thesis using assms(2) cn'(1) by (simp add: alive_def fire_update_def)
qed

lemma served_channel: "fs_inv (Live r ow) \<Longrightarrow> (uri, i) \<in> ow \<Longrightarrow> mget (fr_updatedNotifiers r) uri = Some cn \<Longrightarrow> i \<in> set (cn_subscribers cn)"
  by (auto simp: fs_inv_def served_def)

lemma fs_inv_mark_with:
  assumes inv: "fs_inv (Live r ow)" and cn: "mget (fr_updatedNotifiers r) uri = Some cn" and d: "db_inv d"
    and busy: "\<And>d0. mget (fr_debounceState r) uri = Some d0 \<Longrightarrow> busy d0 \<Longrightarrow> busy d"
  shows "fs_inv (alive (let (d', now) = db_trigger d; r2 = r\<lparr>fr_debounceState := mput uri d' (fr_debounceState r)\<rparr>
      in if now then fire_update uri r2 else Some r2) (ow \<union> {uri} \<times> set (cn_subscribers cn)))"
proof -
  obtain d' now where t: "db_trigger d = (d', now)" by fastforce
  have d': "db_inv d'" "now \<or> busy d'" using db_inv_trigger [OF d] t by auto
  let ?ow = "ow \<union> {uri} \<times> set (cn_subscribers cn)"
  have sub: "\<And>i. (uri, i) \<in> ?ow \<Longrightarrow> i \<in> set (cn_subscribers cn)" using served_channel [OF inv _ cn] by auto
  show ?thesis
  proof (cases now)
    case True
    have "fs_inv (alive (fire_update uri (r\<lparr>fr_debounceState := mput uri d' (fr_debounceState r)\<rparr>)) ?ow)"
      by (rule fs_inv_fire [OF inv cn d'(1)]) (use sub in auto)
    with True t show ?thesis by simp
  next
    case False
    have good: "cn_good cn" using inv cn by (auto simp: fs_inv_def)
    have "fs_inv (Live (r\<lparr>fr_debounceState := mput uri d' (fr_debounceState r)\<rparr>) ?ow)"
      by (rule fs_inv_local [OF inv, where uri = uri and cn' = cn])
        (use False d' cn good sub in \<open>auto simp: served_def split: if_splits\<close>)
    with False t show ?thesis by (simp add: alive_def)
  qed
qed

lemma ensure_notifier_props:
  "mget (fr_updatedNotifiers (ensure_notifier uri r)) u =
     (if u = uri \<and> mget (fr_updatedNotifiers r) uri = None then Some cn_zero else mget (fr_updatedNotifiers r) u)"
  "fr_debounceState (ensure_notifier uri r) = fr_debounceState r" "fr_fsys (ensure_notifier uri r) = fr_fsys r"
  "fr_notifier (ensure_notifier uri r) = fr_notifier r" "fr_updateDebounce (ensure_notifier uri r) = fr_updateDebounce r"
  by (auto simp: ensure_notifier_def split: option.split)

lemma channels_ensure [simp]: "channels (ensure_notifier uri r) uri = channels r uri"
  by (auto simp: channels_def ensure_notifier_props cn_zero_def split: option.split)

lemma fs_inv_ensure:
  assumes inv: "fs_inv (Live r ow)"
  shows "fs_inv (Live (ensure_notifier uri r) ow)" "\<exists>cn. mget (fr_updatedNotifiers (ensure_notifier uri r)) uri = Some cn \<and> cn_good cn"
proof -
  show cn: "\<exists>cn. mget (fr_updatedNotifiers (ensure_notifier uri r)) uri = Some cn \<and> cn_good cn"
    using inv cn_good_zero by (auto simp: ensure_notifier_props fs_inv_def)
  then obtain cn where cn': "mget (fr_updatedNotifiers (ensure_notifier uri r)) uri = Some cn" "cn_good cn" by blast
  show "fs_inv (Live (ensure_notifier uri r) ow)"
  proof (rule fs_inv_local [OF inv, where uri = uri and cn' = cn])
    fix i assume "(uri, i) \<in> ow"
    then have "served r (uri, i)" using inv by (auto simp: fs_inv_def)
    then show "served (ensure_notifier uri r) (uri, i)" by (auto simp: served_def ensure_notifier_props split: option.splits)
  next
    fix d assume "mget (fr_debounceState (ensure_notifier uri r)) uri = Some d"
    then show "db_inv d" using fs_inv_db(1) [OF inv] by (simp add: ensure_notifier_props)
  qed (use cn' in \<open>simp_all add: ensure_notifier_props\<close>)
qed

lemma channels_Some: "mget (fr_updatedNotifiers r) uri = Some cn \<Longrightarrow> channels r uri = cn_subscribers cn"
  by (simp add: channels_def)

lemma fs_inv_mark:
  assumes inv: "fs_inv (Live r ow)"
  shows "fs_inv (alive (fs_markUpdated uri r) (ow \<union> {uri} \<times> set (channels r uri)))"
proof (cases "mget (fr_debounceState r) uri")
  case None
  obtain cn where cn: "mget (fr_updatedNotifiers (ensure_notifier uri r)) uri = Some cn" using fs_inv_ensure(2) [OF inv] by blast
  have "set (channels r uri) = set (cn_subscribers cn)" using channels_Some [OF cn] by simp
  with None fs_inv_mark_with [OF fs_inv_ensure(1) [OF inv] cn db_inv_new] show ?thesis
    by (simp add: fs_markUpdated_def ensure_notifier_props)
next
  case (Some d)
  then obtain cn where cn: "mget (fr_updatedNotifiers r) uri = Some cn" using fs_inv_db(2) [OF inv] by blast
  from Some fs_inv_mark_with [OF inv cn fs_inv_db(1) [OF inv Some]] channels_Some [OF cn] show ?thesis
    by (simp add: fs_markUpdated_def)
qed

lemma fs_inv_timer:
  assumes inv: "fs_inv (Live r ow)"
  shows "timer_expires uri r = Some r' \<Longrightarrow> fs_inv (Live r' ow)" "flush_locked uri r = Some r' \<Longrightarrow> fs_inv (Live r' ow)"
    "flush_fires uri r = Some x \<Longrightarrow> fs_inv (alive x ow)"
proof -
  show "fs_inv (Live r' ow)" if "timer_expires uri r = Some r'"
    using that fs_inv_put_db [OF inv] fs_inv_db(1) [OF inv] db_inv_expire by (auto simp: timer_expires_def split: option.splits if_splits)
  show "fs_inv (Live r' ow)" if "flush_locked uri r = Some r'"
    using that fs_inv_put_db [OF inv] fs_inv_db(1) [OF inv] db_inv_flush by (auto simp: flush_locked_def split: option.splits if_splits)
  show "fs_inv (alive x ow)" if "flush_fires uri r = Some x"
  proof -
    from that obtain d where d: "mget (fr_debounceState r) uri = Some d"
      "x = fire_update uri (r\<lparr>fr_debounceState := mput uri (db_fire d) (fr_debounceState r)\<rparr>)"
      by (auto simp: flush_fires_def split: option.splits if_splits)
    obtain cn where cn: "mget (fr_updatedNotifiers r) uri = Some cn" using fs_inv_db(2) [OF inv d(1)] by blast
    show ?thesis
      unfolding d(2) by (rule fs_inv_fire [OF inv cn]) (use db_inv_fire fs_inv_db(1) [OF inv d(1)] served_channel [OF inv _ cn] in auto)
  qed
qed

lemma fs_inv_frame:
  assumes "fs_inv (Live r ow)" and "fr_fsys r' = fr_fsys r" "fr_updatedNotifiers r' = fr_updatedNotifiers r"
    "fr_debounceState r' = fr_debounceState r" and "cn_good (fr_notifier r')"
  shows "fs_inv (Live r' ow)"
proof -
  have "served r' p = served r p" for p using assms(3,4) by (auto simp: served_def split: option.split)
  with assms show ?thesis by (simp add: fs_inv_def)
qed

lemma fs_inv_subscriber:
  assumes inv: "fs_inv (Live r ow)"
  shows "fs_inv (Live (fst (subscriberForURI uri r)) ow)"
proof -
  let ?r = "ensure_notifier uri r"
  note inv1 = fs_inv_ensure(1) [OF inv, of uri]
  obtain cn where cn: "mget (fr_updatedNotifiers ?r) uri = Some cn" "cn_good cn" using fs_inv_ensure(2) [OF inv] by blast
  obtain cn' i where s: "Subscriber cn = (cn', i)" by fastforce
  note sub = cn_good_Subscriber [OF cn(2) s]
  have "fs_inv (Live (?r\<lparr>fr_updatedNotifiers := mput uri cn' (fr_updatedNotifiers ?r)\<rparr>) ow)"
  proof (rule fs_inv_local [OF inv1, where uri = uri and cn' = cn'])
    fix j assume "(uri, j) \<in> ow"
    then have "served ?r (uri, j)" using inv1 by (auto simp: fs_inv_def)
    then show "served (?r\<lparr>fr_updatedNotifiers := mput uri cn' (fr_updatedNotifiers ?r)\<rparr>) (uri, j)"
      using cn(1) sub(2) sub(3) [of j] by (auto simp: served_def)
  next
    fix d assume "mget (fr_debounceState (?r\<lparr>fr_updatedNotifiers := mput uri cn' (fr_updatedNotifiers ?r)\<rparr>)) uri = Some d"
    then show "db_inv d" using fs_inv_db(1) [OF inv1] by simp
  qed (use sub(1) in simp_all)
  then show ?thesis using cn(1) s by (simp add: subscriberForURI_def Let_def)
qed

lemma uriExists_Some: "fr_fsys r \<Longrightarrow> \<exists>b. uriExists env r uri = Some b"
  by (auto simp: uriExists_def split: option.split)

lemma fs_inv_Subscribe:
  assumes inv: "fs_inv (Live r ow)"
  shows "fs_inv (alive (map_option fst (fs_Subscribe env sid uri r)) ow)"
proof -
  have "fr_fsys r" using inv by (simp add: fs_inv_def)
  then obtain b where b: "uriExists env r uri = Some b" using uriExists_Some by blast
  have "fs_inv (Live (start_watch k r\<lparr>fr_subsByURI := x, fr_subsBySession := y\<rparr>) ow)" for k x y
    by (rule fs_inv_frame [OF inv]) (use inv in \<open>auto simp: start_watch_def fs_inv_def split: option.split\<close>)
  from fs_inv_subscriber [OF this] b inv show ?thesis
    by (simp add: fs_Subscribe_def alive_def Let_def case_prod_beta)
qed

lemma receive_update_Some:
  assumes "receive_update uri i r = Some r'"
  obtains cn cs where "mget (fr_updatedNotifiers r) uri = Some cn" "chan_receive i (cn_chans cn) = Some (cs, True)"
    "r' = r\<lparr>fr_updatedNotifiers := mput uri (cn\<lparr>cn_chans := cs\<rparr>) (fr_updatedNotifiers r)\<rparr>"
proof -
  from assms obtain cn where cn: "mget (fr_updatedNotifiers r) uri = Some cn"
    by (cases "mget (fr_updatedNotifiers r) uri") (simp_all add: receive_update_def)
  with assms obtain cs got where c: "chan_receive i (cn_chans cn) = Some (cs, got)"
    by (cases "chan_receive i (cn_chans cn)") (auto simp: receive_update_def)
  with assms cn that [of cn cs] show thesis by (cases got) (simp_all add: receive_update_def)
qed

lemma fs_inv_receive:
  assumes inv: "fs_inv (Live r ow)" and rec: "receive_update uri i r = Some r'"
  shows "fs_inv (Live r' (ow - {(uri, i)}))"
proof -
  from rec obtain cn cs where cn: "mget (fr_updatedNotifiers r) uri = Some cn" "chan_receive i (cn_chans cn) = Some (cs, True)"
    "r' = r\<lparr>fr_updatedNotifiers := mput uri (cn\<lparr>cn_chans := cs\<rparr>) (fr_updatedNotifiers r)\<rparr>"
    by (rule receive_update_Some)
  have good: "cn_good cn" using inv cn(1) by (auto simp: fs_inv_def)
  have good': "cn_good (cn\<lparr>cn_chans := cs\<rparr>)"
    using good cn_step_inv [OF cn_step.receive [OF cn(2)]] by (simp add: cn_good_def)
  have other: "cs ! j = cn_chans cn ! j" if "j \<noteq> i" for j
    using cn(2) that by (auto simp: chan_receive_def split: if_splits)
  show ?thesis
  proof (rule fs_inv_local [OF inv, where uri = uri and cn' = "cn\<lparr>cn_chans := cs\<rparr>"])
    fix j assume j: "(uri, j) \<in> ow - {(uri, i)}"
    then have "served r (uri, j)" using inv by (auto simp: fs_inv_def)
    then show "served r' (uri, j)" using j other [of j] by (auto simp: served_def cn(1,3))
  next
    fix d assume "mget (fr_debounceState r') uri = Some d"
    then show "db_inv d" using fs_inv_db(1) [OF inv] by (simp add: cn(3))
  qed (use good' in \<open>auto simp: cn(3)\<close>)
qed

lemma fs_inv_list:
  assumes inv: "fs_inv (Live r ow)"
  shows "fs_inv (alive (notify_list r) ow)" "fs_Register k hasFn r = (r', ch) \<Longrightarrow> fs_inv (Live r' ow)" "fs_inv (Live (fs_cancel sid uri r) ow)"
proof -
  have good: "cn_good (fr_notifier r)" using inv by (simp add: fs_inv_def)
  from cn_good_Notify [OF good] obtain cn' where cn': "Notify (fr_notifier r) = Some cn'" "cn_good cn'" by blast
  have "fs_inv (Live (r\<lparr>fr_notifier := cn'\<rparr>) ow)" by (rule fs_inv_frame [OF inv]) (use cn' in simp_all)
  then show "fs_inv (alive (notify_list r) ow)" by (simp add: notify_list_def alive_def cn')
  show "fs_inv (Live (fs_cancel sid uri r) ow)" by (rule fs_inv_frame [OF inv]) (use good in \<open>simp_all add: fs_cancel_def\<close>)
  show "fs_inv (Live r' ow)" if reg: "fs_Register k hasFn r = (r', ch)"
  proof (cases hasFn)
    case True
    obtain cn i where s: "Subscriber (fr_notifier (start_watch k r)) = (cn, i)" by fastforce
    have "fr_notifier (start_watch k r) = fr_notifier r" by (simp add: start_watch_def split: option.split)
    with cn_good_Subscriber(1) [OF good] s have "cn_good cn" by simp
    moreover have "r' = start_watch k r\<lparr>fr_notifier := cn\<rparr>" using reg True s by (simp add: fs_Register_def Let_def)
    ultimately show ?thesis
      by (intro fs_inv_frame [OF inv]) (auto simp: start_watch_def split: option.split)
  qed (use reg inv in \<open>simp add: fs_Register_def\<close>)
qed

lemma fs_step_inv: "fs_step env s s' \<Longrightarrow> fs_inv s \<Longrightarrow> fs_inv s'"
proof (induction rule: fs_step.induct)
  case (mark r ow uri)
  then show ?case by (rule fs_inv_mark)
next
  case (expire uri r r' ow)
  show ?case by (rule fs_inv_timer(1) [OF expire(2,1)])
next
  case (flush uri r r' ow)
  show ?case by (rule fs_inv_timer(2) [OF flush(2,1)])
next
  case (fire uri r x ow)
  show ?case by (rule fs_inv_timer(3) [OF fire(2,1)])
next
  case (list_changed r ow)
  then show ?case by (rule fs_inv_list(1))
next
  case (register k hasFn r r' ch ow)
  show ?case by (rule fs_inv_list(2) [OF register(2,1)])
next
  case (subscribe r ow sid uri)
  then show ?case by (rule fs_inv_Subscribe)
next
  case (cancel r ow sid uri)
  then show ?case by (rule fs_inv_list(3))
next
  case (receive uri i r r' ow)
  show ?case by (rule fs_inv_receive [OF receive(2,1)])
qed

text \<open>Options replace the configuration and leave the notifier alone.\<close>

definition quiet_option :: "FSOption \<Rightarrow> bool" where
  "quiet_option f \<longleftrightarrow> (\<forall>r. fr_notifier (f r) = fr_notifier r)"

lemma foldl_quiet: "\<forall>f \<in> set opts. quiet_option f \<Longrightarrow> fr_notifier (foldl (\<lambda>r f. f r) r opts) = fr_notifier r"
  by (induction opts arbitrary: r) (simp_all add: quiet_option_def)

lemma quiet_options: "quiet_option (WithOSDir env root)" "quiet_option (WithFS b)" "quiet_option (WithBaseURI base)"
  "quiet_option (WithFSPageSize n)" "quiet_option (WithPolling k)" "quiet_option (WithUpdateDebounce k)"
  by (auto simp: quiet_option_def WithOSDir_def WithFS_def WithBaseURI_def WithFSPageSize_def WithPolling_def
      WithUpdateDebounce_def Let_def split: option.split)

lemma fs_reach_inv:
  assumes "fs_reach env opts s" and "fr_fsys (NewFSResources opts)" and "\<forall>f \<in> set opts. quiet_option f"
  shows "fs_inv s"
  using assms(1)
proof (induction rule: fs_reach.induct)
  case init
  then show ?case
    using assms(2) cn_good_zero foldl_quiet [OF assms(3)] by (simp add: fs_inv_def NewFSResources_def Let_def)
next
  case (step s s')
  then show ?case using fs_step_inv by blast
qed

subsection \<open>Delivery\<close>

text \<open>The next thing that happens to a URI's debouncer when nothing new is marked.\<close>

definition serve :: "string \<Rightarrow> FSResources \<Rightarrow> FSResources option" where
  "serve uri r = (case flush_fires uri r of
       Some x \<Rightarrow> x
     | None \<Rightarrow> (case flush_locked uri r of Some r' \<Rightarrow> Some r' | None \<Rightarrow> timer_expires uri r))"

definition signalled :: "string \<Rightarrow> nat \<Rightarrow> FSResources \<Rightarrow> bool" where
  "signalled uri i r \<longleftrightarrow> receive_update uri i r \<noteq> None"

lemma signalled_iff: "mget (fr_updatedNotifiers r) uri = Some cn \<Longrightarrow> signalled uri i r \<longleftrightarrow> ch_full (cn_chans cn ! i)"
  by (auto simp: signalled_def receive_update_def chan_receive_def)

lemma serve_inv: "fs_inv (Live r ow) \<Longrightarrow> serve uri r = Some r' \<Longrightarrow> fs_inv (Live r' ow)"
proof -
  assume inv: "fs_inv (Live r ow)" and serve: "serve uri r = Some r'"
  show "fs_inv (Live r' ow)"
  proof (cases "flush_fires uri r")
    case (Some x)
    with serve fs_inv_timer(3) [OF inv Some] show ?thesis by (simp add: serve_def alive_def)
  next
    case None
    with serve fs_inv_timer(1,2) [OF inv, of uri r'] show ?thesis by (cases "flush_locked uri r") (simp_all add: serve_def)
  qed
qed

text \<open>How many steps a debouncer is away from firing.\<close>

definition phase :: "string \<Rightarrow> FSResources \<Rightarrow> nat" where
  "phase uri r = (case mget (fr_debounceState r) uri of None \<Rightarrow> 0 | Some d \<Rightarrow>
     if 0 < db_flushing d then 1 else if 0 < db_waiting d then 2 else if db_armed d then 3 else 0)"

lemma serve_fires:
  assumes inv: "fs_inv (Live r ow)" and own: "(uri, i) \<in> ow" and "phase uri r = 1"
  shows "\<exists>r'. serve uri r = Some r' \<and> signalled uri i r'"
proof -
  obtain d where d: "mget (fr_debounceState r) uri = Some d" "0 < db_flushing d"
    using assms(3) by (auto simp: phase_def split: option.splits if_splits)
  obtain cn where cn: "mget (fr_updatedNotifiers r) uri = Some cn" "cn_good cn" using fs_inv_db(2) [OF inv d(1)] by blast
  from cn_good_Notify [OF cn(2)] obtain cn' where cn': "Notify cn = Some cn'" "\<forall>i \<in> set (cn_subscribers cn). ch_full (cn_chans cn' ! i)" by blast
  let ?r = "r\<lparr>fr_debounceState := mput uri (db_fire d) (fr_debounceState r), fr_updatedNotifiers := mput uri cn' (fr_updatedNotifiers r)\<rparr>"
  have "serve uri r = Some ?r" using d cn(1) cn'(1) by (simp add: serve_def flush_fires_def fire_update_def)
  moreover have "signalled uri i ?r" using cn'(2) served_channel [OF inv own cn(1)] by (simp add: signalled_iff)
  ultimately show ?thesis by blast
qed

lemma serve_phase:
  assumes "1 < phase uri r"
  shows "\<exists>r'. serve uri r = Some r' \<and> phase uri r' = phase uri r - 1"
  using assms by (auto simp: phase_def serve_def flush_fires_def flush_locked_def timer_expires_def db_expire_def db_flush_def
      split: option.splits if_splits)

fun serve_n :: "nat \<Rightarrow> string \<Rightarrow> FSResources \<Rightarrow> FSResources option" where
  "serve_n 0 uri r = Some r"
| "serve_n (Suc n) uri r = Option.bind (serve uri r) (serve_n n uri)"

lemma serve_delivers:
  assumes "fs_inv (Live r ow)" and "(uri, i) \<in> ow" and "phase uri r = Suc n"
  shows "\<exists>r'. serve_n (Suc n) uri r = Some r' \<and> signalled uri i r'"
  using assms
proof (induction n arbitrary: r)
  case 0
  then show ?case using serve_fires [OF 0(1,2)] by auto
next
  case (Suc n)
  then obtain r' where r': "serve uri r = Some r'" "phase uri r' = Suc n" using serve_phase [of uri r] by auto
  from Suc.IH [OF serve_inv [OF Suc.prems(1) r'(1)] Suc.prems(2) r'(2)] r'(1) show ?case by simp
qed

lemma busy_phase: "fs_inv (Live r ow) \<Longrightarrow> (uri, i) \<in> ow \<Longrightarrow> signalled uri i r \<or> 0 < phase uri r"
proof -
  assume "fs_inv (Live r ow)" and "(uri, i) \<in> ow"
  then have "served r (uri, i)" by (auto simp: fs_inv_def)
  then show ?thesis
    by (auto simp: served_def busy_def phase_def signalled_iff split: option.splits)
qed

lemma phase_le: "phase uri r \<le> 3"
  by (simp add: phase_def split: option.split)


definition wit_opts :: "FSOption list" where
  "wit_opts = [WithOSDir wit_env ''/r'', WithBaseURI ''fs://w/'']"

definition wit_subscribed :: FSResources where
  "wit_subscribed = fst (the (fs_Subscribe wit_env ''s'' ''fs://w/a%20b.txt'' wit_fs))"

definition wit_marked :: FSResources where
  "wit_marked = the (fs_markUpdated ''fs://w/a%20b.txt'' wit_subscribed)"

lemma wit_opts_quiet: "fr_fsys (NewFSResources wit_opts)" "\<forall>f \<in> set wit_opts. quiet_option f"
  by code_simp (simp add: wit_opts_def quiet_options)

lemma wit_subscribed_reach: "fs_reach wit_env wit_opts (Live wit_subscribed {})"
proof -
  have "fs_reach wit_env wit_opts (Live wit_fs {})" using fs_reach.init by (simp add: wit_fs_def wit_opts_def)
  from fs_reach.step [OF this fs_step.subscribe, of "''s''" "''fs://w/a%20b.txt''"]
  have r: "fs_reach wit_env wit_opts (alive (map_option fst (fs_Subscribe wit_env ''s'' ''fs://w/a%20b.txt'' wit_fs)) {})" .
  have "fs_Subscribe wit_env ''s'' ''fs://w/a%20b.txt'' wit_fs \<noteq> None" by code_simp
  with r show ?thesis by (auto simp: alive_def wit_subscribed_def)
qed

lemma wit_channels: "channels wit_subscribed ''fs://w/a%20b.txt'' = [0]"
  by code_simp


text \<open>When the interval is not positive, marking a change signals at once.\<close>

lemma no_debounce_signals:
  assumes inv: "fs_inv (Live r ow)" and "fr_updateDebounce r \<le> 0" and "mget (fr_debounceState r) uri = None" and "i \<in> set (channels r uri)"
  shows "\<exists>r'. fs_markUpdated uri r = Some r' \<and> signalled uri i r'"
proof -
  from assms(4) obtain cn where cn: "mget (fr_updatedNotifiers r) uri = Some cn" "i \<in> set (cn_subscribers cn)"
    by (cases "mget (fr_updatedNotifiers r) uri") (simp_all add: channels_def)
  then have "cn_good cn" using inv by (auto simp: fs_inv_def)
  from cn_good_Notify [OF this] obtain cn' where "Notify cn = Some cn'" "\<forall>i \<in> set (cn_subscribers cn). ch_full (cn_chans cn' ! i)" by blast
  with cn assms(2,3) show ?thesis
    by (simp add: fs_markUpdated_def ensure_notifier_def db_trigger_def new_debouncer_def fire_update_def signalled_iff)
qed

subsection \<open>Polling\<close>

lemma Notify_subscribers: "Notify cn = Some cn' \<Longrightarrow> cn_subscribers cn' = cn_subscribers cn"
  by (auto simp: Notify_def split: if_splits)

lemma fire_update_frame:
  assumes "fire_update uri r = Some r'"
  shows "channels r' u = channels r u" "fr_baseURI r' = fr_baseURI r" "fr_notifier r' = fr_notifier r"
proof -
  from assms obtain cn cn' where cn: "mget (fr_updatedNotifiers r) uri = Some cn" "Notify cn = Some cn'"
    "r' = r\<lparr>fr_updatedNotifiers := mput uri cn' (fr_updatedNotifiers r)\<rparr>"
    by (auto simp: fire_update_def split: option.splits)
  then show "channels r' u = channels r u" "fr_baseURI r' = fr_baseURI r" "fr_notifier r' = fr_notifier r"
    using Notify_subscribers [OF cn(2)] by (auto simp: channels_def split: option.split)
qed

lemma channels_cong: "fr_updatedNotifiers r' = fr_updatedNotifiers r \<Longrightarrow> channels r' u = channels r u"
  by (simp add: channels_def)

lemma markUpdated_frame:
  assumes "fs_markUpdated uri r = Some r'"
  shows "channels r' u = channels r u" "fr_baseURI r' = fr_baseURI r" "fr_notifier r' = fr_notifier r"
proof -
  define r1 where "r1 = (case mget (fr_debounceState r) uri of Some d \<Rightarrow> r | None \<Rightarrow> ensure_notifier uri r)"
  have r1: "channels r1 u = channels r u" "fr_baseURI r1 = fr_baseURI r" "fr_notifier r1 = fr_notifier r"
    by (auto simp: r1_def channels_def ensure_notifier_def cn_zero_def split: option.split)
  from assms obtain ds where ds: "fire_update uri (r1\<lparr>fr_debounceState := ds\<rparr>) = Some r' \<or> r' = r1\<lparr>fr_debounceState := ds\<rparr>"
    by (auto simp: fs_markUpdated_def r1_def Let_def case_prod_beta split: option.splits if_splits)
  then show "channels r' u = channels r u" "fr_baseURI r' = fr_baseURI r" "fr_notifier r' = fr_notifier r"
    using fire_update_frame(1) [of uri "r1\<lparr>fr_debounceState := ds\<rparr>" r' u] fire_update_frame(2,3) [of uri "r1\<lparr>fr_debounceState := ds\<rparr>" r'] r1 channels_cong [of "r1\<lparr>fr_debounceState := ds\<rparr>" r1 u] by auto
qed

lemma relToURI_cong: "fr_baseURI r' = fr_baseURI r \<Longrightarrow> relToURI r' p = relToURI r p"
  by (simp add: relToURI_def)

lemma differ_iff: "(\<exists>p. f p \<noteq> g p) \<longleftrightarrow> (\<exists>p. g p \<noteq> None \<and> g p \<noteq> f p) \<or> (\<exists>p. f p \<noteq> None \<and> g p = None)"
  by metis

lemma differ_Cons: "g p = None \<Longrightarrow>
  (\<exists>q. (if q = p then Some c else g q) \<noteq> None \<and> (if q = p then Some c else g q) \<noteq> f q) \<longleftrightarrow>
    f p \<noteq> Some c \<or> (\<exists>q. g q \<noteq> None \<and> g q \<noteq> f q)"
  by (metis option.distinct(1))

text \<open>A file of both snapshots whose data changed, and the channels that are owed a signal for it.\<close>

definition modified :: "(string, fileMeta) gomap \<Rightarrow> (string, fileMeta) gomap \<Rightarrow> string \<Rightarrow> bool" where
  "modified old new p \<longleftrightarrow> mget old p \<noteq> None \<and> mget new p \<noteq> None \<and> mget old p \<noteq> mget new p"

lemma poll_files_reach:
  assumes reach: "fs_reach env opts (Live r ow)" and cfg: "fr_fsys (NewFSResources opts)" "\<forall>f \<in> set opts. quiet_option f"
    and "wf_map files"
  shows "\<exists>r' ow' ch. poll_files old files r b = Some (r', ch) \<and> fs_reach env opts (Live r' ow') \<and> ow \<subseteq> ow' \<and>
    (ch \<longleftrightarrow> b \<or> (\<exists>p. mget files p \<noteq> None \<and> mget files p \<noteq> mget old p)) \<and> fr_notifier r' = fr_notifier r \<and>
    (\<forall>p. modified old files p \<longrightarrow> {relToURI r p} \<times> set (channels r (relToURI r p)) \<subseteq> ow')"
  using assms(1,4)
proof (induction files arbitrary: r ow b)
  case Nil
  then show ?case by (auto simp: modified_def)
next
  case (Cons f files)
  obtain p cur where f: "f = (p, cur)" by (cases f) blast
  have wf: "wf_map files" and fresh: "mget files p = None"
    using Cons.prems(2) by (simp_all add: wf_map_def mkeys_def f mget_def map_of_eq_None_iff)
  have diff: "(\<exists>q. mget (f # files) q \<noteq> None \<and> mget (f # files) q \<noteq> mget old q) \<longleftrightarrow>
      mget old p \<noteq> Some cur \<or> (\<exists>q. mget files q \<noteq> None \<and> mget files q \<noteq> mget old q)"
    unfolding f mget_Cons using fresh by (rule differ_Cons)
  show ?case
  proof (cases "mget old p = None \<or> mget old p = Some cur")
    case True
    then have run: "poll_files old (f # files) r b = poll_files old files r (b \<or> mget old p = None)" by (auto simp: f)
    have mod: "modified old (f # files) q \<Longrightarrow> modified old files q" for q using True by (auto simp: modified_def f split: if_splits)
    from Cons.IH [OF Cons.prems(1) wf, of "b \<or> mget old p = None"] obtain r' ow' ch where ih:
      "poll_files old files r (b \<or> mget old p = None) = Some (r', ch)" "fs_reach env opts (Live r' ow')" "ow \<subseteq> ow'"
      "ch \<longleftrightarrow> (b \<or> mget old p = None) \<or> (\<exists>q. mget files q \<noteq> None \<and> mget files q \<noteq> mget old q)" "fr_notifier r' = fr_notifier r"
      "\<forall>q. modified old files q \<longrightarrow> {relToURI r q} \<times> set (channels r (relToURI r q)) \<subseteq> ow'" by (elim exE conjE)
    have "ch \<longleftrightarrow> b \<or> (\<exists>q. mget (f # files) q \<noteq> None \<and> mget (f # files) q \<noteq> mget old q)"
      unfolding ih(4) diff using True by (cases "mget old p") simp_all
    then show ?thesis using run ih mod by (intro exI [of _ r'] exI [of _ ow'] exI [of _ ch] conjI) simp_all
  next
    case False
    let ?uri = "relToURI r p" and ?ow = "ow \<union> {relToURI r p} \<times> set (channels r (relToURI r p))"
    have "fs_reach env opts (alive (fs_markUpdated ?uri r) ?ow)" using Cons.prems(1) fs_step.mark by (rule fs_reach.step)
    moreover from fs_reach_inv [OF this cfg] obtain r1 where r1: "fs_markUpdated ?uri r = Some r1"
      by (cases "fs_markUpdated ?uri r") (simp_all add: alive_def fs_inv_def)
    ultimately have reach1: "fs_reach env opts (Live r1 ?ow)" by (simp add: alive_def)
    note frame = markUpdated_frame [OF r1]
    have run: "poll_files old (f # files) r b = poll_files old files r1 True" using False r1 by (auto simp: f)
    have uri: "relToURI r1 q = relToURI r q" for q using frame(2) by (rule relToURI_cong)
    from Cons.IH [OF reach1 wf, of True, unfolded uri frame(1,3)] obtain r' ow' ch where ih: "poll_files old files r1 True = Some (r', ch)"
      "fs_reach env opts (Live r' ow')" "?ow \<subseteq> ow'" "ch" "fr_notifier r' = fr_notifier r"
      "\<forall>q. modified old files q \<longrightarrow> {relToURI r q} \<times> set (channels r (relToURI r q)) \<subseteq> ow'" by auto
    have "{relToURI r q} \<times> set (channels r (relToURI r q)) \<subseteq> ow'" if "modified old (f # files) q" for q
      using that ih(3,6) by (cases "q = p") (auto simp: modified_def f)
    then show ?thesis using run ih(1-5) False diff by (intro exI [of _ r'] exI [of _ ow'] exI [of _ ch]) simp
  qed
qed

lemma snapshot_loop_wf: "snapshot_loop c es rows = Inr m \<Longrightarrow> wf_map rows \<Longrightarrow> wf_map m"
  by (induction es arbitrary: rows) (auto split: if_splits option.splits)

lemma snapshot_wf: "snapshot env c r = Inr m \<Longrightarrow> wf_map m"
  by (auto simp: snapshot_def dest: snapshot_loop_wf split: if_splits)

text \<open>One tick of the poller finds every change. If the walk succeeds, the list subscribers are notified exactly when the two
  snapshots differ, and every channel subscribed to a file whose size or time changed is owed a signal for it; the tick is made
  of steps of the system, so what is owed is delivered.\<close>

theorem poll_tick_finds_changes:
  assumes reach: "fs_reach env opts (Live r ow)" and cfg: "fr_fsys (NewFSResources opts)" "\<forall>f \<in> set opts. quiet_option f"
    and snap: "snapshot env c r = Inr new"
  shows "\<exists>r' ow' changed. poll_tick env c old r = Some (r', if changed then new else old, changed) \<and>
    fs_reach env opts (Live r' ow') \<and> (changed \<longleftrightarrow> (\<exists>p. mget old p \<noteq> mget new p)) \<and>
    (changed \<longrightarrow> (\<forall>i \<in> set (cn_subscribers (fr_notifier r)). ch_full (cn_chans (fr_notifier r') ! i))) \<and>
    (\<forall>p. modified old new p \<longrightarrow> {relToURI r p} \<times> set (channels r (relToURI r p)) \<subseteq> ow')"
proof -
  from poll_files_reach [OF reach cfg snapshot_wf [OF snap], of old False] obtain r1 ow1 ch where run:
    "poll_files old new r False = Some (r1, ch)" "fs_reach env opts (Live r1 ow1)" "fr_notifier r1 = fr_notifier r"
    "ch \<longleftrightarrow> (\<exists>p. mget new p \<noteq> None \<and> mget new p \<noteq> mget old p)"
    "\<forall>p. modified old new p \<longrightarrow> {relToURI r p} \<times> set (channels r (relToURI r p)) \<subseteq> ow1" by auto
  define changed where "changed \<longleftrightarrow> ch \<or> (\<exists>p \<in> set (mkeys old). mget new p = None)"
  have iff: "changed \<longleftrightarrow> (\<exists>p. mget old p \<noteq> mget new p)"
    unfolding changed_def run(4) differ_iff [of "mget old"] by (simp add: Bex_def mkeys_iff del: not_None_eq)
  have "cn_good (fr_notifier r1)" using fs_reach_inv [OF run(2) cfg] by (simp add: fs_inv_def)
  from cn_good_Notify [OF this] obtain cn where cn: "Notify (fr_notifier r1) = Some cn"
    "\<forall>i \<in> set (cn_subscribers (fr_notifier r1)). ch_full (cn_chans cn ! i)" by blast
  have listed: "fs_reach env opts (Live (r1\<lparr>fr_notifier := cn\<rparr>) ow1)"
    using fs_reach.step [OF run(2) fs_step.list_changed] by (simp add: notify_list_def alive_def cn(1))
  show ?thesis
  proof (cases changed)
    case True
    then have "poll_tick env c old r = Some (r1\<lparr>fr_notifier := cn\<rparr>, new, True)"
      using snap run(1) cn(1) by (simp add: poll_tick_def changed_def)
    with True iff listed cn(2) run(3,5) show ?thesis
      by (intro exI [of _ "r1\<lparr>fr_notifier := cn\<rparr>"] exI [of _ ow1] exI [of _ True]) simp
  next
    case False
    then have "poll_tick env c old r = Some (r1, old, False)" using snap run(1) by (simp add: poll_tick_def changed_def)
    with False iff run(2,5) show ?thesis by (intro exI [of _ r1] exI [of _ ow1] exI [of _ False]) simp
  qed
qed

theorem poll_tick_finds_changes_witness:
  "\<exists>r' ow'. poll_tick wit_env None [(''a b.txt'', (1, 7))] wit_subscribed = Some (r', [(''a b.txt'', (2, 7))], True) \<and>
    fs_reach wit_env wit_opts (Live r' ow') \<and> (''fs://w/a%20b.txt'', 0) \<in> ow'"
proof -
  let ?old = "[(''a b.txt'', (1, 7))] :: (string, fileMeta) gomap" and ?new = "[(''a b.txt'', (2, 7))] :: (string, fileMeta) gomap"
  have snap: "snapshot wit_env None wit_subscribed = Inr ?new" by code_simp
  have uri: "relToURI wit_subscribed ''a b.txt'' = ''fs://w/a%20b.txt''" by code_simp
  have m: "modified ?old ?new ''a b.txt''" by (simp add: modified_def)
  then have d: "\<exists>p. mget ?old p \<noteq> mget ?new p" by (auto simp: modified_def)
  from poll_tick_finds_changes [OF wit_subscribed_reach wit_opts_quiet snap, of ?old] obtain r' ow' changed where
    t: "poll_tick wit_env None ?old wit_subscribed = Some (r', if changed then ?new else ?old, changed)"
    "fs_reach wit_env wit_opts (Live r' ow')" "changed \<longleftrightarrow> (\<exists>p. mget ?old p \<noteq> mget ?new p)"
    "\<forall>p. modified ?old ?new p \<longrightarrow> {relToURI wit_subscribed p} \<times> set (channels wit_subscribed (relToURI wit_subscribed p)) \<subseteq> ow'"
    by (elim exE conjE)
  have "changed" using t(3) d by (rule iffD2)
  moreover from t(4) [rule_format, OF m] have "(''fs://w/a%20b.txt'', 0) \<in> ow'" by (simp add: uri wit_channels)
  ultimately show ?thesis using t(1,2) by (intro exI [of _ r'] exI [of _ ow'] conjI) simp_all
qed

subsection \<open>The subscription index\<close>

definition member :: "string \<Rightarrow> string \<Rightarrow> (string, (string, unit) gomap) gomap \<Rightarrow> bool" where
  "member a b m \<longleftrightarrow> (case mget m a of None \<Rightarrow> False | Some s \<Rightarrow> mget s b \<noteq> None)"

lemma member_put: "member x y (put_member a b m) \<longleftrightarrow> (x = a \<and> y = b) \<or> member x y m"
  by (auto simp: member_def put_member_def split: option.split)

lemma member_del: "member x y (del_member a b m) \<longleftrightarrow> \<not> (x = a \<and> y = b) \<and> member x y m"
  by (auto simp: member_def del_member_def mdel_empty_iff split: option.split)

text \<open>The two indexes hold the same pairs after every subscription and cancellation.\<close>

definition mirrored :: "FSResources \<Rightarrow> bool" where
  "mirrored r \<longleftrightarrow> (\<forall>uri sid. member uri sid (fr_subsByURI r) \<longleftrightarrow> member sid uri (fr_subsBySession r))"

lemma mirrored_cancel: "mirrored r \<Longrightarrow> mirrored (fs_cancel sid uri r)"
  by (auto simp: mirrored_def fs_cancel_def member_del)

lemma mirrored_Subscribe:
  assumes "mirrored r" and "fs_Subscribe env sid uri r = Some (r', res)"
  shows "mirrored r'" "res = Inr ch \<Longrightarrow> member uri sid (fr_subsByURI r')"
proof -
  have sub: "fr_subsByURI (fst (subscriberForURI uri q)) = fr_subsByURI q" "fr_subsBySession (fst (subscriberForURI uri q)) = fr_subsBySession q" for q
    by (simp_all add: subscriberForURI_def ensure_notifier_def Let_def case_prod_beta split: option.split)
  have st: "fr_subsByURI (start_watch 0 r) = fr_subsByURI r" "fr_subsBySession (start_watch 0 r) = fr_subsBySession r"
    by (simp_all add: start_watch_def split: option.split)
  show "mirrored r'" "res = Inr ch \<Longrightarrow> member uri sid (fr_subsByURI r')"
    using assms by (auto simp: fs_Subscribe_def Let_def case_prod_beta mirrored_def sub st member_put split: if_splits)
qed

end
