(* ===== verification/RedisHost.thy ===== *)
theory RedisHost
  imports Sessions "HOL-Library.Sublist"
begin

section \<open>The Redis session host (sessions/redishost/redis.go)\<close>

text \<open>
  Redis is a service outside the sources. An operation of the host is a program over its commands: it sends a command and
  goes on with the reply, reads the clock, asks whether its context has ended, or calls the handler of a subscription. A
  server is any relation between a state, a command, a reply and the next state; between two commands of one program
  other clients and the expiry of keys may change the state (\<open>rely\<close>). The laws of Redis that a property uses are the
  predicates \<open>kv_laws\<close> on the server; a command whose context has ended is one that fails.

  The JSON form of the metadata and the name of a consumer (clock and random numbers) are arguments. A pipeline is the
  command \<open>EXEC\<close> with the key its connection watches. A subscription never returns by itself; its programs take the number
  of turns after which they are looked at, with the result \<open>None\<close> for a loop that is still running.
\<close>

datatype redis_cmd =
    GET string
  | SET string string duration
  | SETNX string string duration
  | DEL "string list"
  | TTL string
  | EXPIRE string duration
  | SCAN nat string nat
  | WATCH string
  | EXEC string "redis_cmd list"
  | XADD string string int                            \<comment> \<open>approximate maximal length, 0 for none\<close>
  | XGROUP string string string
  | XREADGROUP string string string nat
  | XAUTOCLAIM string string string duration string nat
  | XACK string string string
  | XREAD string string
  | PING

type_synonym xmessage = "string \<times> string"

datatype reply =
    Done
  | NilReply
  | TxFailed
  | Failed go_error
  | Text string
  | Flag bool
  | Dur duration
  | Keys "string list" nat
  | EntryID string
  | Entries "xmessage list"
  | Claimed "xmessage list" string

datatype 'a prog =
    Ret 'a
  | Do redis_cmd "reply \<Rightarrow> 'a prog"
  | Now "time \<Rightarrow> 'a prog"
  | CtxErr "ctx \<Rightarrow> 'a prog"
  | Handle string string "go_error option \<Rightarrow> 'a prog"

definition redis_Nil :: go_error where
  "redis_Nil = ErrText ''redis: nil''"

definition TxFailedErr :: go_error where
  "TxFailedErr = ErrText ''redis: transaction failed''"

text \<open>The error a command's result has; replies of another type than the command's are errors of the client.\<close>

fun reply_err :: "reply \<Rightarrow> go_error" where
  "reply_err (Failed e) = e"
| "reply_err NilReply = redis_Nil"
| "reply_err TxFailed = TxFailedErr"
| "reply_err _ = ErrText ''redis: unexpected reply''"

fun cmd_err :: "reply \<Rightarrow> go_error option" where
  "cmd_err (Failed e) = Some e"
| "cmd_err NilReply = Some redis_Nil"
| "cmd_err TxFailed = Some TxFailedErr"
| "cmd_err _ = None"

subsection \<open>The host and its keys\<close>

record RedisHost =
  rh_keyPrefix :: string
  rh_streamMaxLen :: int
  rh_claimMinIdle :: duration
  rh_claimInterval :: duration

type_synonym RedisOption = "RedisHost \<Rightarrow> RedisHost"

definition WithKeyPrefix :: "string \<Rightarrow> RedisOption" where
  "WithKeyPrefix p h = (if p \<noteq> [] then h\<lparr>rh_keyPrefix := p\<rparr> else h)"

definition WithStreamMaxLen :: "int \<Rightarrow> RedisOption" where
  "WithStreamMaxLen n h = h\<lparr>rh_streamMaxLen := n\<rparr>"

definition WithClaimSettings :: "duration \<Rightarrow> duration \<Rightarrow> RedisOption" where
  "WithClaimSettings minIdle interval h =
     (let h1 = (if minIdle > 0 then h\<lparr>rh_claimMinIdle := minIdle\<rparr> else h)
      in if interval > 0 then h1\<lparr>rh_claimInterval := interval\<rparr> else h1)"

text \<open>\<open>url_err\<close> is the error of \<open>redis.ParseURL\<close>, if any.\<close>

definition redis_New :: "go_error option \<Rightarrow> RedisOption list \<Rightarrow> (go_error + RedisHost) prog" where
  "redis_New url_err opts = (case url_err of
       Some e \<Rightarrow> Ret (Inl (Wrapped ''redis parse url'' e))
     | None \<Rightarrow> Do PING (\<lambda>r. case cmd_err r of
         Some e \<Rightarrow> Ret (Inl (Wrapped ''redis ping'' e))
       | None \<Rightarrow> Ret (Inr (foldl (\<lambda>h f. f h) \<lparr>rh_keyPrefix = ''mcp:sessions:'', rh_streamMaxLen = 10000,
           rh_claimMinIdle = 5 * 10 ^ 9, rh_claimInterval = 10 ^ 9\<rparr> opts))))"

definition streamKey :: "RedisHost \<Rightarrow> string \<Rightarrow> string" where
  "streamKey h sid = rh_keyPrefix h @ ''stream:'' @ sid"

definition metaKey :: "RedisHost \<Rightarrow> string \<Rightarrow> string" where
  "metaKey h sid = rh_keyPrefix h @ ''meta:'' @ sid"

definition groupName :: "RedisHost \<Rightarrow> string" where
  "groupName h = rh_keyPrefix h @ ''cg''"

definition dataKey :: "RedisHost \<Rightarrow> string \<Rightarrow> string \<Rightarrow> string" where
  "dataKey h sid k = rh_keyPrefix h @ ''data:'' @ sid @ '':'' @ k"

definition dataScanPattern :: "RedisHost \<Rightarrow> string \<Rightarrow> string" where
  "dataScanPattern h sid = rh_keyPrefix h @ ''data:'' @ sid @ '':*''"

definition eventStreamKey :: "RedisHost \<Rightarrow> string \<Rightarrow> string" where
  "eventStreamKey h topic = rh_keyPrefix h @ ''evtstream:'' @ topic"

subsection \<open>Messages\<close>

definition redis_PublishSession :: "RedisHost \<Rightarrow> string \<Rightarrow> string \<Rightarrow> (go_error + string) prog" where
  "redis_PublishSession h sid d =
     Do (XADD (streamKey h sid) d (if rh_streamMaxLen h > 0 then rh_streamMaxLen h else 0)) (\<lambda>r. case r of
         EntryID i \<Rightarrow> Do (TTL (metaKey h sid)) (\<lambda>t. case t of
             Dur ttl \<Rightarrow> if ttl > 0 then Do (EXPIRE (streamKey h sid) ttl) (\<lambda>_. Ret (Inr i)) else Ret (Inr i)
           | _ \<Rightarrow> Ret (Inr i))
       | _ \<Rightarrow> Ret (Inl (reply_err r)))"

text \<open>A batch: each message goes to the handler and is acknowledged if the handler took it.\<close>

fun process :: "string \<Rightarrow> string \<Rightarrow> xmessage list \<Rightarrow> (go_error option \<Rightarrow> 'a prog) \<Rightarrow> 'a prog" where
  "process key grp [] k = k None"
| "process key grp ((i, d) # ms) k = Handle i d (\<lambda>out. case out of
       Some e \<Rightarrow> k (Some e)
     | None \<Rightarrow> Do (XACK key grp i) (\<lambda>_. process key grp ms k))"

primrec claim_loop :: "nat \<Rightarrow> RedisHost \<Rightarrow> string \<Rightarrow> string \<Rightarrow> string \<Rightarrow> string \<Rightarrow> (go_error option \<Rightarrow> go_error option prog) \<Rightarrow> go_error option prog" where
  "claim_loop 0 h key grp consumer start k = Ret None"
| "claim_loop (Suc n) h key grp consumer start k =
     Do (XAUTOCLAIM key grp consumer (rh_claimMinIdle h) start 16) (\<lambda>r. case r of
         Claimed msgs next \<Rightarrow>
           if msgs = [] then k None
           else process key grp msgs (\<lambda>out. case out of
               Some e \<Rightarrow> k (Some e)
             | None \<Rightarrow> claim_loop n h key grp consumer next k)
       | _ \<Rightarrow> k None)"

definition read_group :: "string \<Rightarrow> string \<Rightarrow> string \<Rightarrow> go_error option prog \<Rightarrow> go_error option prog" where
  "read_group key grp consumer continue =
     Do (XREADGROUP key grp consumer 1) (\<lambda>r. case r of
         Entries msgs \<Rightarrow>
           if msgs = [] then continue
           else process key grp msgs (\<lambda>out. case out of Some e \<Rightarrow> Ret (Some e) | None \<Rightarrow> continue)
       | NilReply \<Rightarrow> continue
       | Failed e \<Rightarrow> if errors_is e CtxDeadlineExceeded \<or> errors_is e CtxCanceled then continue else Ret (Some e)
       | _ \<Rightarrow> Ret (Some (reply_err r)))"

primrec subscribe_loop :: "nat \<Rightarrow> RedisHost \<Rightarrow> string \<Rightarrow> string \<Rightarrow> string \<Rightarrow> time \<Rightarrow> go_error option prog" where
  "subscribe_loop 0 h key grp consumer lastClaim = Ret None"
| "subscribe_loop (Suc n) h key grp consumer lastClaim = CtxErr (\<lambda>c. case c of
       Some e \<Rightarrow> Ret (Some e)
     | None \<Rightarrow>
         if rh_claimInterval h > 0 \<and> rh_claimMinIdle h > 0 then
           Now (\<lambda>t. if t - lastClaim \<ge> rh_claimInterval h
             then Now (\<lambda>t'. claim_loop n h key grp consumer ''0-0'' (\<lambda>out. case out of
                 Some e \<Rightarrow> Ret (Some e)
               | None \<Rightarrow> read_group key grp consumer (subscribe_loop n h key grp consumer t')))
             else read_group key grp consumer (subscribe_loop n h key grp consumer lastClaim))
         else read_group key grp consumer (subscribe_loop n h key grp consumer lastClaim))"

definition is_busygroup :: "go_error \<Rightarrow> bool" where
  "is_busygroup e \<longleftrightarrow> sublist ''BUSYGROUP'' (error_text e)"

definition redis_SubscribeSession :: "nat \<Rightarrow> RedisHost \<Rightarrow> string \<Rightarrow> string \<Rightarrow> string \<Rightarrow> go_error option prog" where
  "redis_SubscribeSession n h consumer sid lastEventID =
     (let key = streamKey h sid; grp = groupName h; startID = (if lastEventID \<noteq> [] then lastEventID else ''$'') in
      Do (XGROUP key grp startID) (\<lambda>r. case cmd_err r of
          Some e \<Rightarrow> if is_busygroup e then Now (\<lambda>t. subscribe_loop n h key grp consumer t) else Ret (Some e)
        | None \<Rightarrow> Now (\<lambda>t. subscribe_loop n h key grp consumer t)))"

subsection \<open>Sessions\<close>

record meta_codec =
  mc_Marshal :: "SessionMetadata \<Rightarrow> go_error + string"
  mc_Unmarshal :: "string \<Rightarrow> go_error + SessionMetadata"

primrec deleteByPattern :: "nat \<Rightarrow> nat \<Rightarrow> string \<Rightarrow> go_error option prog \<Rightarrow> go_error option prog" where
  "deleteByPattern 0 cursor pattern k = k"
| "deleteByPattern (Suc n) cursor pattern k = Do (SCAN cursor pattern 50) (\<lambda>r. case r of
       Keys keys cur \<Rightarrow>
         if keys \<noteq> [] then Do (DEL keys) (\<lambda>_. if cur = 0 then k else deleteByPattern n cur pattern k)
         else if cur = 0 then k else deleteByPattern n cur pattern k
     | _ \<Rightarrow> k)"

definition redis_DeleteSession :: "nat \<Rightarrow> RedisHost \<Rightarrow> string \<Rightarrow> go_error option prog" where
  "redis_DeleteSession n h sid =
     Do (DEL [metaKey h sid]) (\<lambda>_. Do (DEL [streamKey h sid]) (\<lambda>_. deleteByPattern n 0 (dataScanPattern h sid) (Ret None)))"

definition redis_CreateSession :: "meta_codec \<Rightarrow> RedisHost \<Rightarrow> SessionMetadata \<Rightarrow> go_error option prog" where
  "redis_CreateSession mc h m = (case mc_Marshal mc m of
       Inl e \<Rightarrow> Ret (Some e)
     | Inr b \<Rightarrow> Do (SETNX (metaKey h (sm_SessionID m)) b (sm_TTL m)) (\<lambda>r. case r of
         Flag ok \<Rightarrow> Ret (if ok then None else Some (ErrText ''session exists''))
       | _ \<Rightarrow> Ret (Some (reply_err r))))"

definition redis_GetSession :: "meta_codec \<Rightarrow> RedisHost \<Rightarrow> string \<Rightarrow> (go_error + SessionMetadata) prog" where
  "redis_GetSession mc h sid = Do (GET (metaKey h sid)) (\<lambda>r. case r of
       Text v \<Rightarrow> Ret (mc_Unmarshal mc v)
     | NilReply \<Rightarrow> Ret (Inl ErrSessionNotFound)
     | _ \<Rightarrow> Ret (Inl (reply_err r)))"

text \<open>The time to live after a change, unless the session is older than its maximal lifetime.\<close>

definition with_ttl :: "SessionMetadata \<Rightarrow> go_error option prog \<Rightarrow> (duration \<Rightarrow> go_error option prog) \<Rightarrow> go_error option prog" where
  "with_ttl m expired k =
     (if sm_MaxLifetime m > 0 then Now (\<lambda>t.
        let elapsed = t - sm_CreatedAt m in
        if elapsed \<ge> sm_MaxLifetime m then expired
        else let left = sm_MaxLifetime m - elapsed in k (if left < sm_TTL m then left else sm_TTL m))
      else k (sm_TTL m))"

definition store_meta :: "RedisHost \<Rightarrow> string \<Rightarrow> string \<Rightarrow> string \<Rightarrow> duration \<Rightarrow> redis_cmd" where
  "store_meta h key sid b ttl = EXEC key [SET key b ttl, EXPIRE (streamKey h sid) ttl]"

text \<open>One attempt of \<open>MutateSession\<close>: what happens with the value of the key, and the transaction around it. \<open>fails\<close> is
  the return of an error, which for a conflict is the next attempt \<open>again\<close>.\<close>

definition mutate_write :: "meta_codec \<Rightarrow> RedisHost \<Rightarrow> string \<Rightarrow> (go_error \<Rightarrow> go_error option prog) \<Rightarrow> SessionMetadata \<Rightarrow> go_error option prog" where
  "mutate_write mc h key fails m1 = Now (\<lambda>now. let m2 = m1\<lparr>sm_UpdatedAt := now\<rparr> in
     case mc_Marshal mc m2 of
       Inl e \<Rightarrow> fails e
     | Inr b \<Rightarrow> with_ttl m2 (fails ErrSessionNotFound) (\<lambda>ttl. Do (store_meta h key (sm_SessionID m2) b ttl)
         (\<lambda>x. case cmd_err x of None \<Rightarrow> Ret None | Some e \<Rightarrow> fails e)))"

definition mutate_found :: "meta_codec \<Rightarrow> RedisHost \<Rightarrow> string \<Rightarrow> (SessionMetadata \<Rightarrow> SessionMetadata \<times> go_error option) \<Rightarrow>
    (go_error \<Rightarrow> go_error option prog) \<Rightarrow> string \<Rightarrow> go_error option prog" where
  "mutate_found mc h key fn fails v = (case mc_Unmarshal mc v of
       Inl e \<Rightarrow> fails e
     | Inr m \<Rightarrow> (case fn m of
           (_, Some e) \<Rightarrow> fails e
         | (m1, None) \<Rightarrow> mutate_write mc h key fails m1))"

definition mutate_attempt :: "meta_codec \<Rightarrow> RedisHost \<Rightarrow> string \<Rightarrow> (SessionMetadata \<Rightarrow> SessionMetadata \<times> go_error option) \<Rightarrow>
    go_error option prog \<Rightarrow> go_error option prog" where
  "mutate_attempt mc h sid fn again =
     (let key = metaKey h sid; fails = (\<lambda>e. if e = TxFailedErr then again else Ret (Some e)) in
      Do (WATCH key) (\<lambda>w. case cmd_err w of
          Some e \<Rightarrow> fails e
        | None \<Rightarrow> Do (GET key) (\<lambda>g. case g of
            Text v \<Rightarrow> mutate_found mc h key fn fails v
          | NilReply \<Rightarrow> fails ErrSessionNotFound
          | _ \<Rightarrow> fails (reply_err g))))"

primrec mutate_loop :: "nat \<Rightarrow> meta_codec \<Rightarrow> RedisHost \<Rightarrow> string \<Rightarrow> (SessionMetadata \<Rightarrow> SessionMetadata \<times> go_error option) \<Rightarrow> go_error option prog" where
  "mutate_loop 0 mc h sid fn = Ret (Some (ErrText ''mutation retries exceeded''))"
| "mutate_loop (Suc n) mc h sid fn = mutate_attempt mc h sid fn (mutate_loop n mc h sid fn)"

definition redis_MutateSession :: "meta_codec \<Rightarrow> RedisHost \<Rightarrow> string \<Rightarrow> (SessionMetadata \<Rightarrow> SessionMetadata \<times> go_error option) \<Rightarrow> go_error option prog" where
  "redis_MutateSession mc h sid fn = mutate_loop 5 mc h sid fn"

definition redis_TouchSession :: "meta_codec \<Rightarrow> RedisHost \<Rightarrow> string \<Rightarrow> go_error option prog" where
  "redis_TouchSession mc h sid =
     (let key = metaKey h sid in
      Do (WATCH key) (\<lambda>w. case cmd_err w of
          Some e \<Rightarrow> Ret (Some e)
        | None \<Rightarrow> Do (GET key) (\<lambda>g. case g of
            Text v \<Rightarrow> (case mc_Unmarshal mc v of
                Inl e \<Rightarrow> Ret (Some e)
              | Inr m \<Rightarrow> Now (\<lambda>now. let m1 = m\<lparr>sm_LastAccess := now, sm_UpdatedAt := now\<rparr> in
                  with_ttl m1 (Ret (Some ErrSessionNotFound)) (\<lambda>ttl. case mc_Marshal mc m1 of
                      Inl e \<Rightarrow> Ret (Some e)
                    | Inr b \<Rightarrow> Do (store_meta h key sid b ttl) (\<lambda>x. Ret (cmd_err x)))))
          | _ \<Rightarrow> Ret (Some (reply_err g)))))"

definition redis_PutSessionData :: "RedisHost \<Rightarrow> string \<Rightarrow> string \<Rightarrow> string \<Rightarrow> go_error option prog" where
  "redis_PutSessionData h sid k v = Do (TTL (metaKey h sid)) (\<lambda>t.
     let ttl = (case t of Dur d \<Rightarrow> if d < 0 then 3600 * 10 ^ 9 else d | _ \<Rightarrow> 0)
     in Do (SET (dataKey h sid k) v ttl) (\<lambda>r. Ret (cmd_err r)))"

definition redis_GetSessionData :: "RedisHost \<Rightarrow> string \<Rightarrow> string \<Rightarrow> (go_error + string option) prog" where
  "redis_GetSessionData h sid k = Do (GET (dataKey h sid k)) (\<lambda>r. case r of
       Text v \<Rightarrow> Ret (Inr (Some v))
     | NilReply \<Rightarrow> Ret (Inr None)
     | _ \<Rightarrow> Ret (Inl (reply_err r)))"

definition redis_DeleteSessionData :: "RedisHost \<Rightarrow> string \<Rightarrow> string \<Rightarrow> go_error option prog" where
  "redis_DeleteSessionData h sid k = Do (DEL [dataKey h sid k]) (\<lambda>r. Ret (cmd_err r))"

subsection \<open>Events\<close>

definition redis_PublishEvent :: "RedisHost \<Rightarrow> string \<Rightarrow> string \<Rightarrow> go_error option prog" where
  "redis_PublishEvent h topic payload = Do (XADD (eventStreamKey h topic) payload 1000) (\<lambda>r. Ret (cmd_err r))"

text \<open>The messages of one read: the identifier of the last one that was handed over, and whether the handler took all.\<close>

fun deliver_events :: "xmessage list \<Rightarrow> string \<Rightarrow> (string \<Rightarrow> bool \<Rightarrow> 'a prog) \<Rightarrow> 'a prog" where
  "deliver_events [] lastID k = k lastID True"
| "deliver_events ((i, d) # ms) lastID k = Handle i d (\<lambda>out. case out of Some e \<Rightarrow> k i False | None \<Rightarrow> deliver_events ms i k)"

primrec events_loop :: "nat \<Rightarrow> RedisHost \<Rightarrow> string \<Rightarrow> string \<Rightarrow> unit option prog" where
  "events_loop 0 h topic lastID = Ret None"
| "events_loop (Suc n) h topic lastID = CtxErr (\<lambda>c. case c of
       Some e \<Rightarrow> Ret (Some ())
     | None \<Rightarrow> Do (XREAD (eventStreamKey h topic) lastID) (\<lambda>r. case r of
         Entries msgs \<Rightarrow> deliver_events msgs lastID (\<lambda>i ok. if ok then events_loop n h topic i else Ret (Some ()))
       | NilReply \<Rightarrow> events_loop n h topic lastID
       | Failed e \<Rightarrow>
           if errors_is e CtxDeadlineExceeded then events_loop n h topic lastID
           else CtxErr (\<lambda>c. case c of Some e \<Rightarrow> Ret (Some ()) | None \<Rightarrow> events_loop n h topic lastID)
       | _ \<Rightarrow> events_loop n h topic lastID))"

text \<open>The goroutine that \<open>SubscribeEvents\<close> starts, and the return of \<open>SubscribeEvents\<close> itself: it waits until the goroutine is about to
  read or the context has ended (\<open>pick\<close> is the choice of \<open>select\<close> when both hold), and blocks (\<open>None\<close>) while neither holds.\<close>

definition redis_SubscribeEvents :: "nat \<Rightarrow> RedisHost \<Rightarrow> string \<Rightarrow> unit option prog" where
  "redis_SubscribeEvents n h topic = events_loop n h topic ''$''"

fun await_ready :: "bool \<Rightarrow> ctx \<Rightarrow> bool \<Rightarrow> go_error option option" where
  "await_ready armed None pick = (if armed then Some None else None)"
| "await_ready armed (Some e) pick = Some (if armed \<and> pick then None else Some e)"

end
