(* ===== verification/RedisSessions.thy ===== *)
theory RedisSessions
  imports RedisHost
begin

section \<open>What the Redis host guarantees\<close>

text \<open>
  Runs of the programs of \<open>RedisHost\<close> on any server and with any interference of other clients between their commands.
  A run leaves a trace of the commands, with the states around them, the clock readings and the handler calls. Changing a
  session is one atomic step on the metadata that are current at that moment, or no step at all; a message is
  acknowledged exactly when its handler took it.
\<close>

datatype 'r event =
    Ran 'r redis_cmd reply 'r
  | Clock time
  | Handled string string "go_error option"

inductive runs :: "('r \<Rightarrow> redis_cmd \<Rightarrow> reply \<Rightarrow> 'r \<Rightarrow> bool) \<Rightarrow> ('r \<Rightarrow> 'r \<Rightarrow> bool) \<Rightarrow> 'a prog \<Rightarrow> 'r \<Rightarrow> 'r event list \<Rightarrow> 'a \<Rightarrow> bool"
  for srv rely where
  ret: "runs srv rely (Ret x) r [] x"
| cmd: "rely\<^sup>*\<^sup>* r r0 \<Longrightarrow> srv r0 c rep r1 \<Longrightarrow> runs srv rely (k rep) r1 tr x \<Longrightarrow> runs srv rely (Do c k) r (Ran r0 c rep r1 # tr) x"
| now: "runs srv rely (k t) r tr x \<Longrightarrow> runs srv rely (Now k) r (Clock t # tr) x"
| check: "runs srv rely (k c) r tr x \<Longrightarrow> runs srv rely (CtxErr k) r tr x"
| handle: "runs srv rely (k out) r tr x \<Longrightarrow> runs srv rely (Handle i d k) r (Handled i d out # tr) x"

inductive_cases runs_RetE [elim!]: "runs srv rely (Ret x) r tr y"
inductive_cases runs_DoE: "runs srv rely (Do c k) r tr y"
inductive_cases runs_NowE: "runs srv rely (Now k) r tr y"
inductive_cases runs_CtxErrE: "runs srv rely (CtxErr k) r tr y"
inductive_cases runs_HandleE: "runs srv rely (Handle i d k) r tr y"

subsection \<open>Laws of the key-value commands\<close>

text \<open>\<open>kv\<close> is what the keys hold and \<open>clean r k\<close> whether the key watched by the connection has not been touched since. The
  commands the sessions use leave the keys alone, except those that store; \<open>GET\<close> returns what the key holds; a
  transaction runs as one step and only on a clean key, and one that is refused does nothing. Nothing is assumed of a
  transaction whose reply is lost.\<close>

fun apply_cmd :: "redis_cmd \<Rightarrow> (string \<Rightarrow> string option) \<Rightarrow> string \<Rightarrow> string option" where
  "apply_cmd (SET k v ttl) m = m(k \<mapsto> v)"
| "apply_cmd (DEL ks) m = (\<lambda>k. if k \<in> set ks then None else m k)"
| "apply_cmd _ m = m"

definition apply_cmds :: "redis_cmd list \<Rightarrow> (string \<Rightarrow> string option) \<Rightarrow> string \<Rightarrow> string option" where
  "apply_cmds cs m = foldl (\<lambda>m c. apply_cmd c m) m cs"

definition kv_laws :: "('r \<Rightarrow> redis_cmd \<Rightarrow> reply \<Rightarrow> 'r \<Rightarrow> bool) \<Rightarrow> ('r \<Rightarrow> 'r \<Rightarrow> bool) \<Rightarrow> ('r \<Rightarrow> string \<Rightarrow> string option) \<Rightarrow> ('r \<Rightarrow> string \<Rightarrow> bool) \<Rightarrow> bool" where
  "kv_laws srv rely kv clean \<longleftrightarrow>
     (\<forall>r k rep r'. srv r (GET k) rep r' \<longrightarrow> kv r' = kv r \<and> clean r' = clean r \<and>
        (\<forall>v. rep = Text v \<longrightarrow> kv r k = Some v) \<and> (rep = NilReply \<longrightarrow> kv r k = None)) \<and>
     (\<forall>r k rep r'. srv r (WATCH k) rep r' \<longrightarrow> kv r' = kv r) \<and>
     (\<forall>r k cs rep r'. srv r (EXEC k cs) rep r' \<longrightarrow>
        (cmd_err rep = None \<longrightarrow> clean r k \<and> kv r' = apply_cmds cs (kv r)) \<and>
        (rep = TxFailed \<or> rep = NilReply \<longrightarrow> kv r' = kv r)) \<and>
     (\<forall>r r' k. rely r r' \<and> clean r' k \<longrightarrow> clean r k \<and> kv r' k = kv r k)"

lemma rely_clean:
  assumes "kv_laws srv rely kv clean" and "rely\<^sup>*\<^sup>* r r'" and "clean r' k"
  shows "clean r k \<and> kv r' k = kv r k"
  using assms(2,3)
proof (induction rule: rtranclp_induct)
  case (step y z)
  have "clean y k \<and> kv z k = kv y k" using step.hyps(2) step.prems assms(1) unfolding kv_laws_def by blast
  then show ?case using step.IH by simp
qed simp

subsection \<open>Changing a session\<close>

text \<open>What a step of a run does to the keys.\<close>

definition writes :: "('r \<Rightarrow> string \<Rightarrow> string option) \<Rightarrow> 'r event \<Rightarrow> bool" where
  "writes kv e = (case e of Ran r0 c rep r1 \<Rightarrow> kv r1 \<noteq> kv r0 | _ \<Rightarrow> False)"

definition lost_reply :: "'r event \<Rightarrow> bool" where
  "lost_reply e = (case e of Ran r0 (EXEC k cs) (Failed x) r1 \<Rightarrow> True | _ \<Rightarrow> False)"

text \<open>A trace whose last step stores the metadata \<open>m\<close> under a key, with a time to live that ends neither after
  the session's own nor after its maximal lifetime.\<close>

definition stores :: "('r \<Rightarrow> string \<Rightarrow> string option) \<Rightarrow> meta_codec \<Rightarrow> RedisHost \<Rightarrow> string \<Rightarrow> string \<Rightarrow> SessionMetadata \<Rightarrow> 'r event list \<Rightarrow> 'r \<Rightarrow> bool" where
  "stores kv mc h key sid m tr pre \<longleftrightarrow> (\<exists>tr1 b ttl rep post.
     tr = tr1 @ [Ran pre (store_meta h key sid b ttl) rep post] \<and> cmd_err rep = None \<and> (\<forall>e \<in> set tr1. \<not> writes kv e) \<and>
     mc_Marshal mc m = Inr b \<and> kv post = (kv pre)(key \<mapsto> b) \<and> ttl \<le> sm_TTL m \<and>
     (0 < sm_MaxLifetime m \<longrightarrow> (\<exists>tr2 t. tr1 = tr2 @ [Clock t] \<and> t + ttl \<le> sm_CreatedAt m + sm_MaxLifetime m \<and> (0 < sm_TTL m \<longrightarrow> 0 < ttl))))"

lemma with_ttl_runs:
  assumes "runs srv rely (with_ttl m expired k) r tr x"
  obtains (expired) tr' where "tr' = tl tr" "0 < sm_MaxLifetime m" "runs srv rely expired r tr' x" "\<exists>t. tr = Clock t # tr'"
  | (live) ttl cs tr' where "runs srv rely (k ttl) r tr' x" "tr = cs @ tr'" "ttl \<le> sm_TTL m"
      "sm_MaxLifetime m \<le> 0 \<Longrightarrow> cs = []"
      "0 < sm_MaxLifetime m \<Longrightarrow> \<exists>t. cs = [Clock t] \<and> t + ttl \<le> sm_CreatedAt m + sm_MaxLifetime m \<and> (0 < sm_TTL m \<longrightarrow> 0 < ttl)"
proof (cases "0 < sm_MaxLifetime m")
  case True
  from assms have "runs srv rely (Now (\<lambda>t. if t - sm_CreatedAt m \<ge> sm_MaxLifetime m then expired
      else k (if sm_MaxLifetime m - (t - sm_CreatedAt m) < sm_TTL m then sm_MaxLifetime m - (t - sm_CreatedAt m) else sm_TTL m))) r tr x"
    unfolding with_ttl_def Let_def using True by simp
  then obtain t tr' where t: "tr = Clock t # tr'" "runs srv rely (if t - sm_CreatedAt m \<ge> sm_MaxLifetime m then expired
      else k (if sm_MaxLifetime m - (t - sm_CreatedAt m) < sm_TTL m then sm_MaxLifetime m - (t - sm_CreatedAt m) else sm_TTL m)) r tr' x"
    by (rule runs_NowE)
  show thesis
  proof (cases "t - sm_CreatedAt m \<ge> sm_MaxLifetime m")
    case exp: True
    then show thesis using expired [of tr'] t True by simp
  next
    case False
    then show thesis
      using live [of "if sm_MaxLifetime m - (t - sm_CreatedAt m) < sm_TTL m then sm_MaxLifetime m - (t - sm_CreatedAt m) else sm_TTL m" tr' "[Clock t]"] t True
      by (auto split: if_splits)
  qed
next
  case False
  with assms have "runs srv rely (k (sm_TTL m)) r tr x" by (simp add: with_ttl_def)
  then show thesis using live [of "sm_TTL m" tr "[]"] False by simp
qed

text \<open>A run that has written nothing so far and has ended with an error or goes on with \<open>again\<close>.\<close>

definition no_effect :: "('r \<Rightarrow> redis_cmd \<Rightarrow> reply \<Rightarrow> 'r \<Rightarrow> bool) \<Rightarrow> ('r \<Rightarrow> 'r \<Rightarrow> bool) \<Rightarrow> ('r \<Rightarrow> string \<Rightarrow> string option) \<Rightarrow>
    go_error option prog \<Rightarrow> 'r event list \<Rightarrow> go_error option \<Rightarrow> bool" where
  "no_effect srv rely kv again tr x \<longleftrightarrow> (\<exists>tr1 tr2. tr = tr1 @ tr2 \<and> (\<forall>e \<in> set tr1. \<not> writes kv e) \<and>
     (x \<noteq> None \<and> tr2 = [] \<or> (\<exists>r'. runs srv rely again r' tr2 x)))"

lemma no_effect_Cons: "\<not> writes kv e \<Longrightarrow> no_effect srv rely kv again tr x \<Longrightarrow> no_effect srv rely kv again (e # tr) x"
  unfolding no_effect_def by (elim exE conjE) (rule exI [of _ "e # tr1" for tr1], auto)

lemma no_effect_append: "\<forall>e \<in> set es. \<not> writes kv e \<Longrightarrow> no_effect srv rely kv again tr x \<Longrightarrow> no_effect srv rely kv again (es @ tr) x"
  by (induction es) (simp_all add: no_effect_Cons)

lemma no_effect_fails:
  "runs srv rely (if e = TxFailedErr then again else Ret (Some e)) r tr x \<Longrightarrow> no_effect srv rely kv again tr x"
  unfolding no_effect_def by (rule exI [of _ "[]"], rule exI [of _ tr]) (auto split: if_splits)

definition mutated :: "('r \<Rightarrow> string \<Rightarrow> string option) \<Rightarrow> meta_codec \<Rightarrow> RedisHost \<Rightarrow> string \<Rightarrow> (SessionMetadata \<Rightarrow> SessionMetadata \<times> go_error option) \<Rightarrow>
    'r event list \<Rightarrow> bool" where
  "mutated kv mc h sid fn tr \<longleftrightarrow> (\<exists>pre v m m1 now. kv pre (metaKey h sid) = Some v \<and> mc_Unmarshal mc v = Inr m \<and> fn m = (m1, None) \<and>
     stores kv mc h (metaKey h sid) (sm_SessionID m1) (m1\<lparr>sm_UpdatedAt := now\<rparr>) tr pre)"

lemma mutatedI:
  "kv pre (metaKey h sid) = Some v \<Longrightarrow> mc_Unmarshal mc v = Inr m \<Longrightarrow> fn m = (m1, None) \<Longrightarrow>
   stores kv mc h (metaKey h sid) (sm_SessionID m1) (m1\<lparr>sm_UpdatedAt := now\<rparr>) tr pre \<Longrightarrow> mutated kv mc h sid fn tr"
  unfolding mutated_def by (intro exI conjI)

lemma storesI:
  assumes "tr = cs @ [Ran pre (store_meta h key sid b ttl) rep post]" "cmd_err rep = None" "\<forall>e \<in> set cs. \<not> writes kv e"
    "mc_Marshal mc m = Inr b" "kv post = (kv pre)(key \<mapsto> b)" "ttl \<le> sm_TTL m"
    "0 < sm_MaxLifetime m \<Longrightarrow> \<exists>t. cs = [Clock t] \<and> t + ttl \<le> sm_CreatedAt m + sm_MaxLifetime m \<and> (0 < sm_TTL m \<longrightarrow> 0 < ttl)"
  shows "stores kv mc h key sid m tr pre"
proof -
  have "\<exists>tr2 t. cs = tr2 @ [Clock t] \<and> t + ttl \<le> sm_CreatedAt m + sm_MaxLifetime m \<and> (0 < sm_TTL m \<longrightarrow> 0 < ttl)" if "0 < sm_MaxLifetime m"
    using assms(7) [OF that] by (metis append_Nil)
  with assms(1-6) show ?thesis unfolding stores_def by blast
qed

lemma stores_Cons: "\<not> writes kv e \<Longrightarrow> stores kv mc h key sid m tr pre \<Longrightarrow> stores kv mc h key sid m (e # tr) pre"
  unfolding stores_def by (elim exE conjE) (rule exI [of _ "e # tr1" for tr1], fastforce)

lemma mutated_Cons: "\<not> writes kv e \<Longrightarrow> mutated kv mc h sid fn tr \<Longrightarrow> mutated kv mc h sid fn (e # tr)"
  unfolding mutated_def by (elim exE conjE) (intro exI conjI; (assumption | erule (1) stores_Cons))

lemma writes_quiet:
  assumes "kv_laws srv rely kv clean"
  shows "srv r (GET k) rep r' \<Longrightarrow> \<not> writes kv (Ran r (GET k) rep r')" "srv r (WATCH k) rep r' \<Longrightarrow> \<not> writes kv (Ran r (WATCH k) rep r')"
    "\<not> writes kv (Clock t)"
  using assms by (simp_all add: kv_laws_def writes_def)

lemma store_runs:
  assumes laws: "kv_laws srv rely kv clean" and run: "runs srv rely (Do (store_meta h key sid b ttl) k) r tr x"
    and lost: "\<forall>e \<in> set tr. \<not> lost_reply e"
  obtains r0 rep r1 tr' where "tr = Ran r0 (store_meta h key sid b ttl) rep r1 # tr'" "runs srv rely (k rep) r1 tr' x"
    "cmd_err rep = None \<longrightarrow> clean r key \<and> kv r0 key = kv r key \<and> kv r1 = (kv r0)(key \<mapsto> b)"
    "cmd_err rep \<noteq> None \<longrightarrow> \<not> writes kv (Ran r0 (store_meta h key sid b ttl) rep r1)"
proof -
  from run obtain r0 rep r1 tr' where s: "tr = Ran r0 (store_meta h key sid b ttl) rep r1 # tr'" "rely\<^sup>*\<^sup>* r r0"
    "srv r0 (EXEC key [SET key b ttl, EXPIRE (streamKey h sid) ttl]) rep r1" "runs srv rely (k rep) r1 tr' x"
    unfolding store_meta_def by (rule runs_DoE) blast
  from laws s(3) have e: "cmd_err rep = None \<Longrightarrow> clean r0 key \<and> kv r1 = apply_cmds [SET key b ttl, EXPIRE (streamKey h sid) ttl] (kv r0)"
    "rep = TxFailed \<or> rep = NilReply \<Longrightarrow> kv r1 = kv r0" unfolding kv_laws_def by blast+
  show thesis
  proof (rule that [OF s(1,4)])
    show "cmd_err rep = None \<longrightarrow> clean r key \<and> kv r0 key = kv r key \<and> kv r1 = (kv r0)(key \<mapsto> b)"
      using e(1) rely_clean [OF laws s(2)] by (auto simp: apply_cmds_def)
    have "\<forall>err. rep \<noteq> Failed err" using lost s(1) by (auto simp: lost_reply_def store_meta_def)
    then show "cmd_err rep \<noteq> None \<longrightarrow> \<not> writes kv (Ran r0 (store_meta h key sid b ttl) rep r1)"
      using e(2) by (cases rep) (auto simp: writes_def)
  qed
qed

lemma write_back_runs:
  assumes laws: "kv_laws srv rely kv clean" and lost: "\<forall>e \<in> set tr. \<not> lost_reply e"
    and run: "runs srv rely (with_ttl m2 (fails ErrSessionNotFound) (\<lambda>ttl.
        Do (store_meta h key (sm_SessionID m2) b ttl) (\<lambda>x. case cmd_err x of None \<Rightarrow> Ret None | Some e \<Rightarrow> fails e))) r tr x"
    and fails: "\<forall>e r tr x. runs srv rely (fails e) r tr x \<longrightarrow> no_effect srv rely kv again tr x"
    and b: "mc_Marshal mc m2 = Inr b"
  shows "x = None \<and> (\<exists>pre. clean r key \<and> kv pre key = kv r key \<and> stores kv mc h key (sm_SessionID m2) m2 tr pre) \<or> no_effect srv rely kv again tr x"
  using run
proof (cases rule: with_ttl_runs)
  case (expired tr')
  then obtain t where t: "tr = Clock t # tr'" by blast
  have "no_effect srv rely kv again tr x"
    unfolding t by (rule no_effect_Cons [OF writes_quiet(3) [OF laws] fails [rule_format, OF expired(3)]])
  then show ?thesis ..
next
  case (live ttl cs tr')
  have cs: "\<forall>e \<in> set cs. \<not> writes kv e" using live(4,5) by (cases "0 < sm_MaxLifetime m2") (auto simp: writes_def)
  have lost': "\<forall>e \<in> set tr'. \<not> lost_reply e" using lost live(2) by simp
  obtain r0 rep r1 tr2 where
    st: "tr' = Ran r0 (store_meta h key (sm_SessionID m2) b ttl) rep r1 # tr2"
      "runs srv rely (case cmd_err rep of None \<Rightarrow> Ret None | Some e \<Rightarrow> fails e) r1 tr2 x"
      "cmd_err rep = None \<longrightarrow> clean r key \<and> kv r0 key = kv r key \<and> kv r1 = (kv r0)(key \<mapsto> b)"
      "cmd_err rep \<noteq> None \<longrightarrow> \<not> writes kv (Ran r0 (store_meta h key (sm_SessionID m2) b ttl) rep r1)"
    by (rule store_runs [OF laws live(1) lost'], rule that)
  show ?thesis
  proof (cases "cmd_err rep")
    case None
    with st(2) have x: "x = None" "tr2 = []" by auto
    have "stores kv mc h key (sm_SessionID m2) m2 tr r0"
    proof (rule storesI [OF _ None cs b _ live(3)])
      show "tr = cs @ [Ran r0 (store_meta h key (sm_SessionID m2) b ttl) rep r1]" using live(2) st(1) x(2) by simp
      show "kv r1 = (kv r0)(key \<mapsto> b)" using st(3) None by simp
    qed (use live(5) in simp)
    then show ?thesis using x(1) st(3) None by (intro disjI1 conjI exI [of _ r0]) simp_all
  next
    case (Some e)
    then have "no_effect srv rely kv again tr2 x" using st(2) by (intro fails [rule_format, of e r1]) simp
    then have "no_effect srv rely kv again tr' x" unfolding st(1) using st(4) Some by (intro no_effect_Cons) simp_all
    then have "no_effect srv rely kv again tr x" unfolding live(2) by (rule no_effect_append [OF cs])
    then show ?thesis ..
  qed
qed

lemma mutate_found_write: "mc_Unmarshal mc v = Inr m \<Longrightarrow> fn m = (m1, None) \<Longrightarrow> mutate_found mc h key fn fails v = mutate_write mc h key fails m1"
  by (simp add: mutate_found_def)

lemma mutate_write_runs:
  assumes laws: "kv_laws srv rely kv clean" and lost: "\<forall>e \<in> set tr. \<not> lost_reply e"
    and run: "runs srv rely (mutate_write mc h (metaKey h sid) fails m1) r tr x" and v: "kv r (metaKey h sid) = Some v"
    and m: "mc_Unmarshal mc v = Inr m" and fn: "fn m = (m1, None)"
    and fails: "\<forall>e r tr x. runs srv rely (fails e) r tr x \<longrightarrow> no_effect srv rely kv again tr x"
  shows "x = None \<and> mutated kv mc h sid fn tr \<or> no_effect srv rely kv again tr x"
proof -
  obtain now tr' where tr: "tr = Clock now # tr'" and run': "runs srv rely (let m2 = m1\<lparr>sm_UpdatedAt := now\<rparr> in
           case mc_Marshal mc m2 of
             Inl e \<Rightarrow> fails e
           | Inr b \<Rightarrow> with_ttl m2 (fails ErrSessionNotFound) (\<lambda>ttl. Do (store_meta h (metaKey h sid) (sm_SessionID m2) b ttl)
               (\<lambda>x. case cmd_err x of None \<Rightarrow> Ret None | Some e \<Rightarrow> fails e))) r tr' x"
    using run unfolding mutate_write_def by (rule runs_NowE)
  let ?m2 = "m1\<lparr>sm_UpdatedAt := now\<rparr>"
  have clock: "\<not> writes kv (Clock now)" by (simp add: writes_def)
  have "x = None \<and> mutated kv mc h sid fn tr' \<or> no_effect srv rely kv again tr' x"
  proof (cases "mc_Marshal mc ?m2")
    case (Inl e)
    with run' fails show ?thesis by simp
  next
    case b: (Inr b)
    have lost': "\<forall>e \<in> set tr'. \<not> lost_reply e" using lost tr by simp
    from run' b have "runs srv rely (with_ttl ?m2 (fails ErrSessionNotFound) (\<lambda>ttl. Do (store_meta h (metaKey h sid) (sm_SessionID ?m2) b ttl)
               (\<lambda>x. case cmd_err x of None \<Rightarrow> Ret None | Some e \<Rightarrow> fails e))) r tr' x" by simp
    from write_back_runs [where again = again, OF laws lost' this fails b]
    consider pre where "x = None" "kv pre (metaKey h sid) = Some v" "stores kv mc h (metaKey h sid) (sm_SessionID ?m2) ?m2 tr' pre"
      | "no_effect srv rely kv again tr' x" using v by auto
    then show ?thesis
    proof cases
      case 1
      have "mutated kv mc h sid fn tr'"
        by (rule mutatedI [of kv pre h sid v mc m fn m1 now]) (use 1 m fn in simp_all)
      with 1(1) show ?thesis by simp
    qed simp
  qed
  then show ?thesis unfolding tr using mutated_Cons [OF clock] no_effect_Cons [OF clock] by blast
qed

lemma mutate_found_runs:
  assumes laws: "kv_laws srv rely kv clean" and lost: "\<forall>e \<in> set tr. \<not> lost_reply e"
    and run: "runs srv rely (mutate_found mc h (metaKey h sid) fn fails v) r tr x" and v: "kv r (metaKey h sid) = Some v"
    and fails: "\<forall>e r tr x. runs srv rely (fails e) r tr x \<longrightarrow> no_effect srv rely kv again tr x"
  shows "x = None \<and> mutated kv mc h sid fn tr \<or> no_effect srv rely kv again tr x"
proof (cases "\<exists>m m1. mc_Unmarshal mc v = Inr m \<and> fn m = (m1, None)")
  case True
  then obtain m m1 where m: "mc_Unmarshal mc v = Inr m" "fn m = (m1, None)" by blast
  show ?thesis
    by (rule mutate_write_runs [where fn = fn and again = again and m = m, OF laws lost run [unfolded mutate_found_write [of mc v m fn m1, OF m]] v m fails])
next
  case False
  then have "\<exists>e. mutate_found mc h (metaKey h sid) fn fails v = fails e"
    by (auto simp: mutate_found_def split: sum.split prod.split option.split)
  with run fails show ?thesis by auto
qed

lemma mutate_attempt_runs:
  assumes laws: "kv_laws srv rely kv clean" and run: "runs srv rely (mutate_attempt mc h sid fn again) r tr x"
    and lost: "\<forall>e \<in> set tr. \<not> lost_reply e"
  shows "x = None \<and> mutated kv mc h sid fn tr \<or> no_effect srv rely kv again tr x"
proof -
  let ?key = "metaKey h sid" and ?fails = "\<lambda>e. if e = TxFailedErr then again else Ret (Some e)"
  let ?got = "\<lambda>g. case g of Text v \<Rightarrow> mutate_found mc h ?key fn ?fails v | NilReply \<Rightarrow> ?fails ErrSessionNotFound | _ \<Rightarrow> ?fails (reply_err g)"
  have fails: "\<forall>e r tr x. runs srv rely (?fails e) r tr x \<longrightarrow> no_effect srv rely kv again tr x"
    by (intro allI impI) (rule no_effect_fails)
  from run obtain r0 w r1 tr1 where w: "tr = Ran r0 (WATCH ?key) w r1 # tr1" "srv r0 (WATCH ?key) w r1"
    "runs srv rely (case cmd_err w of Some e \<Rightarrow> ?fails e | None \<Rightarrow> Do (GET ?key) ?got) r1 tr1 x"
    unfolding mutate_attempt_def Let_def by (rule runs_DoE) blast
  have nw: "\<not> writes kv (Ran r0 (WATCH ?key) w r1)" using writes_quiet(2) [OF laws] w(2) by blast
  have "x = None \<and> mutated kv mc h sid fn tr1 \<or> no_effect srv rely kv again tr1 x"
  proof (cases "cmd_err w")
    case (Some e)
    with w(3) have "runs srv rely (?fails e) r1 tr1 x" by simp
    then show ?thesis using fails by blast
  next
    case None
    with w(3) have "runs srv rely (Do (GET ?key) ?got) r1 tr1 x" by simp
    then obtain r2 g r3 tr2 where g: "tr1 = Ran r2 (GET ?key) g r3 # tr2" "srv r2 (GET ?key) g r3" "runs srv rely (?got g) r3 tr2 x"
      by (rule runs_DoE) blast
    have ng: "\<not> writes kv (Ran r2 (GET ?key) g r3)" using writes_quiet(1) [OF laws] g(2) by blast
    have "x = None \<and> mutated kv mc h sid fn tr2 \<or> no_effect srv rely kv again tr2 x"
    proof (cases "\<exists>v. g = Text v")
      case True
      then obtain v where v: "g = Text v" by blast
      then have "kv r3 ?key = Some v" using laws g(2) unfolding kv_laws_def by metis
      moreover have "\<forall>e \<in> set tr2. \<not> lost_reply e" using lost w(1) g(1) by simp
      moreover have "runs srv rely (mutate_found mc h ?key fn ?fails v) r3 tr2 x" using g(3) v by simp
      ultimately show ?thesis using fails by (intro mutate_found_runs [OF laws])
    next
      case False
      then have "?got g = ?fails (if g = NilReply then ErrSessionNotFound else reply_err g)" by (cases g) auto
      with g(3) have "runs srv rely (?fails (if g = NilReply then ErrSessionNotFound else reply_err g)) r3 tr2 x" by (simp only:)
      then show ?thesis using fails by blast
    qed
    then show ?thesis unfolding g(1) using no_effect_Cons [OF ng] mutated_Cons [OF ng] by blast
  qed
  then show ?thesis unfolding w(1) using no_effect_Cons [OF nw] mutated_Cons [OF nw] by blast
qed

lemma mutate_loop_runs:
  assumes laws: "kv_laws srv rely kv clean" and "runs srv rely (mutate_loop n mc h sid fn) r tr x" and "\<forall>e \<in> set tr. \<not> lost_reply e"
  shows "x = None \<and> mutated kv mc h sid fn tr \<or> x \<noteq> None \<and> (\<forall>e \<in> set tr. \<not> writes kv e)"
  using assms(2,3)
proof (induction n arbitrary: r tr)
  case 0
  then show ?case by auto
next
  case (Suc n)
  have mono: "mutated kv mc h sid fn (tr1 @ tr2)" if "\<forall>e \<in> set tr1. \<not> writes kv e" "mutated kv mc h sid fn tr2" for tr1 tr2
    using that by (induction tr1) (simp_all add: mutated_Cons)
  from mutate_attempt_runs [OF laws _ Suc.prems(2)] Suc.prems(1)
  have "x = None \<and> mutated kv mc h sid fn tr \<or> no_effect srv rely kv (mutate_loop n mc h sid fn) tr x" by simp
  then show ?case
  proof
    assume "no_effect srv rely kv (mutate_loop n mc h sid fn) tr x"
    then obtain tr1 tr2 where tr: "tr = tr1 @ tr2" "\<forall>e \<in> set tr1. \<not> writes kv e"
      "x \<noteq> None \<and> tr2 = [] \<or> (\<exists>r'. runs srv rely (mutate_loop n mc h sid fn) r' tr2 x)" unfolding no_effect_def by blast
    from tr(3) show ?case
    proof
      assume "\<exists>r'. runs srv rely (mutate_loop n mc h sid fn) r' tr2 x"
      then obtain r' where "runs srv rely (mutate_loop n mc h sid fn) r' tr2 x" by blast
      from Suc.IH [OF this] Suc.prems(2) tr(1) have "x = None \<and> mutated kv mc h sid fn tr2 \<or> x \<noteq> None \<and> (\<forall>e \<in> set tr2. \<not> writes kv e)" by simp
      with tr(1,2) mono show ?case by auto
    qed (use tr in simp)
  qed simp
qed


text \<open>A server of one connection that keeps its keys in a map and remembers which have been touched since they were
  watched; the others set keys.\<close>

type_synonym kv_server = "(string \<Rightarrow> string option) \<times> (string \<Rightarrow> bool)"

fun kv_step :: "kv_server \<Rightarrow> redis_cmd \<Rightarrow> reply \<Rightarrow> kv_server \<Rightarrow> bool" where
  "kv_step (m, d) (GET k) rep s = (s = (m, d) \<and> rep = (case m k of None \<Rightarrow> NilReply | Some v \<Rightarrow> Text v))"
| "kv_step (m, d) (WATCH k) rep s = (s = (m, \<lambda>_. False) \<and> rep = Done)"
| "kv_step (m, d) (EXEC k cs) rep s = (if d k then s = (m, d) \<and> rep = TxFailed else s = (apply_cmds cs m, d) \<and> rep = Done)"
| "kv_step _ _ _ _ = False"

definition kv_others :: "kv_server \<Rightarrow> kv_server \<Rightarrow> bool" where
  "kv_others s t \<longleftrightarrow> (\<exists>k v. t = ((fst s)(k \<mapsto> v), (snd s)(k := True)))"

lemma kv_step_laws: "kv_laws kv_step kv_others fst (\<lambda>s k. \<not> snd s k)"
  unfolding kv_laws_def kv_others_def by (auto split: option.splits if_splits)

definition wit_codec :: "string \<Rightarrow> meta_codec" where
  "wit_codec sid = \<lparr>mc_Marshal = (\<lambda>m. Inr (sm_UserID m)), mc_Unmarshal = (\<lambda>v. Inr
     \<lparr>sm_MetaVersion = 1, sm_SessionID = sid, sm_UserID = v, sm_Issuer = [], sm_ClientProtocolVersion = [], sm_ServerProtocolVersion = [],
      sm_Client = \<lparr>ci_Name = [], ci_Version = [], ci_InstanceID = []\<rparr>, sm_Capabilities = \<lparr>cs_Roots = False, cs_RootsListChanged = False, cs_Sampling = False, cs_Elicitation = False\<rparr>,
      sm_State = SessionStatePending, sm_CreatedAt = 0, sm_UpdatedAt = 0, sm_LastAccess = 0, sm_TTL = 10, sm_MaxLifetime = 12, sm_OpenedAt = 0, sm_Revoked = False\<rparr>)\<rparr>"

inductive_simps runs_simps:
  "runs srv rely (Ret x) r tr y"
  "runs srv rely (Do c k) r tr y"
  "runs srv rely (Now k) r tr y"
  "runs srv rely (CtxErr k) r tr y"
  "runs srv rely (Handle i d k) r tr y"

lemma kv_others_set: "kv_others\<^sup>*\<^sup>* (m, d) (m(k \<mapsto> v), d(k := True))"
  by (rule r_into_rtranclp) (auto simp: kv_others_def)


subsection \<open>Delivering messages\<close>

text \<open>The messages a trace received, and what was done with them.\<close>

datatype delivery =
    Took string string
  | Refused string string go_error
  | Acked string string string

fun received :: "'r event \<Rightarrow> xmessage list" where
  "received (Ran r0 (XREADGROUP key grp consumer n) (Entries ms) r1) = ms"
| "received (Ran r0 (XAUTOCLAIM key grp consumer idle start n) (Claimed ms next) r1) = ms"
| "received _ = []"

fun work :: "'r event \<Rightarrow> delivery list" where
  "work (Handled i d None) = [Took i d]"
| "work (Handled i d (Some e)) = [Refused i d e]"
| "work (Ran r0 (XACK key grp i) rep r1) = [Acked key grp i]"
| "work _ = []"

definition all_received :: "'r event list \<Rightarrow> xmessage list" where
  "all_received tr = concat (map received tr)"

definition all_work :: "'r event list \<Rightarrow> delivery list" where
  "all_work tr = concat (map work tr)"

definition taken :: "string \<Rightarrow> string \<Rightarrow> xmessage list \<Rightarrow> delivery list" where
  "taken key grp ms = concat (map (\<lambda>(i, d). [Took i d, Acked key grp i]) ms)"

text \<open>The promise of a subscription: what was received is handed over in order and each message that is taken is acknowledged
  before the next one is handed over; the subscription ends with the first message that is refused.\<close>

definition delivered :: "string \<Rightarrow> string \<Rightarrow> 'r event list \<Rightarrow> go_error option \<Rightarrow> bool" where
  "delivered key grp tr x \<longleftrightarrow>
     all_work tr = taken key grp (all_received tr) \<or>
     (\<exists>ms i d rest e. all_received tr = ms @ (i, d) # rest \<and> all_work tr = taken key grp ms @ [Refused i d e] \<and> x = Some e)"

lemma all_simps [simp]:
  "all_received [] = []" "all_received (e # tr) = received e @ all_received tr" "all_received (tr @ tr') = all_received tr @ all_received tr'"
  "all_work [] = []" "all_work (e # tr) = work e @ all_work tr" "all_work (tr @ tr') = all_work tr @ all_work tr'"
  "taken key grp [] = []" "taken key grp ((i, d) # ms) = Took i d # Acked key grp i # taken key grp ms" "taken key grp (ms @ ms') = taken key grp ms @ taken key grp ms'"
  by (simp_all add: all_received_def all_work_def taken_def)

lemma delivered_append:
  assumes "all_work tr = taken key grp (all_received tr)" and "delivered key grp tr' x"
  shows "delivered key grp (tr @ tr') x"
  using assms(2) unfolding delivered_def
proof (elim disjE exE conjE)
  fix ms i d rest e
  assume "all_received tr' = ms @ (i, d) # rest" "all_work tr' = taken key grp ms @ [Refused i d e]" "x = Some e"
  with assms(1) have "all_received (tr @ tr') = (all_received tr @ ms) @ (i, d) # rest"
    "all_work (tr @ tr') = taken key grp (all_received tr @ ms) @ [Refused i d e]" by simp_all
  with \<open>x = Some e\<close> show "all_work (tr @ tr') = taken key grp (all_received (tr @ tr')) \<or>
     (\<exists>ms i d rest e. all_received (tr @ tr') = ms @ (i, d) # rest \<and> all_work (tr @ tr') = taken key grp ms @ [Refused i d e] \<and> x = Some e)" by blast
qed (use assms(1) in simp)

lemma delivered_Nil [simp]: "delivered key grp [] x"
  by (simp add: delivered_def)

lemma delivered_quiet: "received e = [] \<Longrightarrow> work e = [] \<Longrightarrow> delivered key grp tr x \<Longrightarrow> delivered key grp (e # tr) x"
  using delivered_append [of "[e]" key grp tr x] by simp

text \<open>A trace that handed over messages \<open>ms1\<close>, all taken, and went on with the rest of the program.\<close>

definition handed :: "('r \<Rightarrow> redis_cmd \<Rightarrow> reply \<Rightarrow> 'r \<Rightarrow> bool) \<Rightarrow> ('r \<Rightarrow> 'r \<Rightarrow> bool) \<Rightarrow> string \<Rightarrow> string \<Rightarrow> xmessage list \<Rightarrow> delivery list \<Rightarrow> 'a prog \<Rightarrow> 'r event list \<Rightarrow> 'a \<Rightarrow> bool" where
  "handed srv rely key grp ms ds p tr x \<longleftrightarrow>
     (\<exists>tr1 tr2 r'. tr = tr1 @ tr2 \<and> all_received tr1 = [] \<and> all_work tr1 = taken key grp ms @ ds \<and> runs srv rely p r' tr2 x)"

lemma handed_start: "runs srv rely p r tr x \<Longrightarrow> handed srv rely key grp [] [] p tr x"
  unfolding handed_def by (rule exI [of _ "[]"]) auto

lemma handed_refuse: "runs srv rely p r tr x \<Longrightarrow> handed srv rely key grp [] [Refused i d e] p (Handled i d (Some e) # tr) x"
  unfolding handed_def by (rule exI [of _ "[Handled i d (Some e)]"]) auto

lemma handed_Cons:
  "handed srv rely key grp ms ds p tr x \<Longrightarrow>
   handed srv rely key grp ((i, d) # ms) ds p (Handled i d None # Ran r0 (XACK key grp i) rep r1 # tr) x"
  unfolding handed_def
  by (elim exE conjE) (rule exI [of _ "Handled i d None # Ran r0 (XACK key grp i) rep r1 # tr1" for tr1], auto)

lemma process_handed:
  "runs srv rely (process key grp ms k) r tr x \<Longrightarrow> handed srv rely key grp ms [] (k None) tr x \<or>
     (\<exists>ms1 i d ms2 e. ms = ms1 @ (i, d) # ms2 \<and> handed srv rely key grp ms1 [Refused i d e] (k (Some e)) tr x)"
proof (induction ms arbitrary: r tr)
  case Nil
  then show ?case using handed_start by simp
next
  case (Cons m ms)
  obtain i d where m: "m = (i, d)" by (cases m)
  from Cons.prems obtain out tr' where h: "tr = Handled i d out # tr'"
    "runs srv rely (case out of Some e \<Rightarrow> k (Some e) | None \<Rightarrow> Do (XACK key grp i) (\<lambda>_. process key grp ms k)) r tr' x"
    unfolding m process.simps by (rule runs_HandleE)
  show ?case
  proof (cases out)
    case (Some e)
    then have "runs srv rely (k (Some e)) r tr' x" using h(2) by simp
    then have "handed srv rely key grp [] [Refused i d e] (k (Some e)) tr x" unfolding h(1) Some by (rule handed_refuse)
    moreover have "m # ms = [] @ (i, d) # ms" using m by simp
    ultimately show ?thesis by blast
  next
    case None
    with h(2) have "runs srv rely (Do (XACK key grp i) (\<lambda>_. process key grp ms k)) r tr' x" by simp
    then obtain r0 rep r1 tr'' where a: "tr' = Ran r0 (XACK key grp i) rep r1 # tr''" "runs srv rely (process key grp ms k) r1 tr'' x"
      by (rule runs_DoE) blast
    from Cons.IH [OF a(2)] show ?thesis unfolding h(1) a(1) m None
    proof (elim disjE exE conjE)
      fix ms1 i' d' ms2 e
      assume "ms = ms1 @ (i', d') # ms2" "handed srv rely key grp ms1 [Refused i' d' e] (k (Some e)) tr'' x"
      then show "handed srv rely key grp ((i, d) # ms) [] (k None) (Handled i d None # Ran r0 (XACK key grp i) rep r1 # tr'') x \<or>
        (\<exists>ms1 ia da ms2 e. (i, d) # ms = ms1 @ (ia, da) # ms2 \<and>
          handed srv rely key grp ms1 [Refused ia da e] (k (Some e)) (Handled i d None # Ran r0 (XACK key grp i) rep r1 # tr'') x)"
        by (metis append_Cons handed_Cons)
    qed (simp add: handed_Cons)
  qed
qed

lemma process_runs:
  assumes "runs srv rely (process key grp ms k) r tr x"
  obtains (taken) tr1 tr2 r' where "tr = tr1 @ tr2" "all_received tr1 = []" "all_work tr1 = taken key grp ms" "runs srv rely (k None) r' tr2 x"
  | (refused) tr1 tr2 r' ms1 i d ms2 e where "tr = tr1 @ tr2" "all_received tr1 = []" "ms = ms1 @ (i, d) # ms2"
      "all_work tr1 = taken key grp ms1 @ [Refused i d e]" "runs srv rely (k (Some e)) r' tr2 x"
  using process_handed [OF assms] taken refused unfolding handed_def by auto

text \<open>The steps of a subscription deliver if what follows delivers.\<close>

lemma batch_delivered:
  assumes run: "runs srv rely (process key grp ms (\<lambda>out. case out of Some e \<Rightarrow> stop e | None \<Rightarrow> goon)) r tr x"
    and e0: "received e0 = ms" "work e0 = []"
    and stop: "\<forall>e r tr. runs srv rely (stop e) r tr x \<longrightarrow> tr = [] \<and> x = Some e"
    and more: "\<forall>r tr. runs srv rely goon r tr x \<longrightarrow> delivered key grp tr x"
  shows "delivered key grp (e0 # tr) x"
  using run
proof (cases rule: process_runs)
  case (taken tr1 tr2 r')
  have "delivered key grp ((e0 # tr1) @ tr2) x"
    by (rule delivered_append) (use taken e0 more in simp_all)
  then show ?thesis using taken(1) by simp
next
  case (refused tr1 tr2 r' ms1 i d ms2 e)
  from stop [rule_format, of e r' tr2] refused(5) have s: "tr2 = []" "x = Some e" by simp_all
  have "all_received (e0 # tr) = ms1 @ (i, d) # ms2" "all_work (e0 # tr) = taken key grp ms1 @ [Refused i d e]"
    using refused s(1) e0 by simp_all
  with s(2) show ?thesis unfolding delivered_def by blast
qed

lemma read_group_delivered:
  assumes run: "runs srv rely (read_group key grp consumer continue) r tr x"
    and more: "\<forall>r tr. runs srv rely continue r tr x \<longrightarrow> delivered key grp tr x"
  shows "delivered key grp tr x"
proof -
  let ?c = "XREADGROUP key grp consumer 1"
  from run obtain r0 rep r1 tr' where s: "tr = Ran r0 ?c rep r1 # tr'"
    "runs srv rely (case rep of
         Entries msgs \<Rightarrow> if msgs = [] then continue
           else process key grp msgs (\<lambda>out. case out of Some e \<Rightarrow> Ret (Some e) | None \<Rightarrow> continue)
       | NilReply \<Rightarrow> continue
       | Failed e \<Rightarrow> if errors_is e CtxDeadlineExceeded \<or> errors_is e CtxCanceled then continue else Ret (Some e)
       | _ \<Rightarrow> Ret (Some (reply_err rep))) r1 tr' x"
    unfolding read_group_def by (rule runs_DoE) blast
  show ?thesis
  proof (cases "\<exists>ms. rep = Entries ms \<and> ms \<noteq> []")
    case True
    then obtain ms where ms: "rep = Entries ms" "ms \<noteq> []" by blast
    with s(2) have b: "runs srv rely (process key grp ms (\<lambda>out. case out of Some e \<Rightarrow> Ret (Some e) | None \<Rightarrow> continue)) r1 tr' x" by simp
    show ?thesis unfolding s(1) by (rule batch_delivered [OF b _ _ _ more]) (use ms in auto)
  next
    case False
    then have q: "received (Ran r0 ?c rep r1) = []" "work (Ran r0 ?c rep r1) = []" by (cases rep; simp)+
    have "runs srv rely continue r1 tr' x \<or> tr' = []" using s(2) False by (cases rep) (auto split: if_splits)
    then have "delivered key grp tr' x" using more by auto
    then show ?thesis unfolding s(1) by (rule delivered_quiet [OF q])
  qed
qed

lemma claim_loop_delivered:
  assumes "runs srv rely (claim_loop n h key grp consumer start (\<lambda>out. case out of Some e \<Rightarrow> Ret (Some e) | None \<Rightarrow> goon)) r tr x"
    and more: "\<forall>r tr. runs srv rely goon r tr x \<longrightarrow> delivered key grp tr x"
  shows "delivered key grp tr x"
  using assms(1)
proof (induction n arbitrary: start r tr)
  case 0
  then show ?case by auto
next
  case (Suc n)
  let ?c = "XAUTOCLAIM key grp consumer (rh_claimMinIdle h) start 16" and ?k = "\<lambda>out. case out of Some e \<Rightarrow> Ret (Some e) | None \<Rightarrow> goon"
  from Suc.prems obtain r0 rep r1 tr' where s: "tr = Ran r0 ?c rep r1 # tr'"
    "runs srv rely (case rep of Claimed msgs next \<Rightarrow> if msgs = [] then ?k None
         else process key grp msgs (\<lambda>out. case out of Some e \<Rightarrow> Ret (Some e) | None \<Rightarrow> claim_loop n h key grp consumer next ?k)
       | _ \<Rightarrow> ?k None) r1 tr' x"
    unfolding claim_loop.simps option.case by (rule runs_DoE) blast
  show ?case
  proof (cases "\<exists>ms next. rep = Claimed ms next \<and> ms \<noteq> []")
    case True
    then obtain ms "next" where ms: "rep = Claimed ms next" "ms \<noteq> []" by blast
    with s(2) have b: "runs srv rely (process key grp ms (\<lambda>out. case out of Some e \<Rightarrow> Ret (Some e) | None \<Rightarrow> claim_loop n h key grp consumer next ?k)) r1 tr' x"
      by (simp cong: option.case_cong)
    show ?thesis unfolding s(1) by (rule batch_delivered [OF b]) (use ms Suc.IH in auto)
  next
    case False
    then have q: "received (Ran r0 ?c rep r1) = []" "work (Ran r0 ?c rep r1) = []" by (cases rep; simp)+
    have "runs srv rely goon r1 tr' x" using s(2) False by (cases rep) (auto split: if_splits)
    then show ?thesis unfolding s(1) using more delivered_quiet [OF q] by blast
  qed
qed

lemma subscribe_loop_delivered:
  "runs srv rely (subscribe_loop n h key grp consumer t) r tr x \<Longrightarrow> delivered key grp tr x"
proof (induction n arbitrary: t r tr)
  case 0
  then show ?case by auto
next
  case (Suc n)
  have more: "\<forall>r tr. runs srv rely (subscribe_loop n h key grp consumer t) r tr x \<longrightarrow> delivered key grp tr x" for t
    using Suc.IH by blast
  have read: "runs srv rely (read_group key grp consumer (subscribe_loop n h key grp consumer t)) r tr x \<Longrightarrow> delivered key grp tr x" for t r tr
    by (erule read_group_delivered) (rule more)
  have claim: "runs srv rely (claim_loop n h key grp consumer ''0-0'' (\<lambda>out. case out of
        Some e \<Rightarrow> Ret (Some e) | None \<Rightarrow> read_group key grp consumer (subscribe_loop n h key grp consumer t))) r tr x \<Longrightarrow> delivered key grp tr x" for t r tr
    by (erule claim_loop_delivered) (use read in blast)
  from Suc.prems show ?case unfolding subscribe_loop.simps
    by (elim runs_CtxErrE runs_NowE) (auto split: option.splits if_splits elim!: runs_NowE intro!: delivered_quiet intro: read claim)
qed

text \<open>C7: the Redis host acknowledges exactly what its handler took. Whatever the server replies and other clients do, a
  subscription hands the messages it received (new ones and those it claimed from other subscribers) to the handler in order
  and acknowledges each message it took before it hands over the next one; the first message that is refused ends the
  subscription with the handler's error and stays unacknowledged, and so do those behind it.\<close>

theorem redis_delivery:
  assumes "runs srv rely (redis_SubscribeSession n h consumer sid lastEventID) r tr x"
  shows "all_work tr = taken (streamKey h sid) (groupName h) (all_received tr) \<or>
     (\<exists>ms i d rest e. all_received tr = ms @ (i, d) # rest \<and>
        all_work tr = taken (streamKey h sid) (groupName h) ms @ [Refused i d e] \<and> x = Some e)"
proof -
  let ?key = "streamKey h sid" and ?grp = "groupName h" and ?start = "if lastEventID \<noteq> [] then lastEventID else ''$''"
  let ?loop = "Now (\<lambda>t. subscribe_loop n h ?key ?grp consumer t)"
  from assms obtain r0 rep r1 tr' where s: "tr = Ran r0 (XGROUP ?key ?grp ?start) rep r1 # tr'"
    "runs srv rely (case cmd_err rep of Some e \<Rightarrow> if is_busygroup e then ?loop else Ret (Some e) | None \<Rightarrow> ?loop) r1 tr' x"
    unfolding redis_SubscribeSession_def Let_def by (rule runs_DoE) blast
  have loop: "runs srv rely ?loop r1 tr' x \<Longrightarrow> delivered ?key ?grp tr' x"
    by (erule runs_NowE) (auto intro!: delivered_quiet dest: subscribe_loop_delivered)
  have "delivered ?key ?grp tr' x" using s(2) loop by (auto split: option.splits if_splits)
  then have "delivered ?key ?grp tr x" unfolding s(1) by (rule delivered_quiet [rotated 2]) simp_all
  then show ?thesis unfolding delivered_def .
qed

theorem redis_delivery_witness:
  "let h = \<lparr>rh_keyPrefix = ''p:'', rh_streamMaxLen = 10, rh_claimMinIdle = 5, rh_claimInterval = 10\<rparr>;
       key = streamKey h ''s''; grp = groupName h; e = ErrText ''no'';
       tr = [Ran () (XGROUP key grp ''$'') Done (), Clock 0,
             Clock 5, Ran () (XREADGROUP key grp ''c'' 1) (Entries [(''1-0'', ''m'')]) (), Handled ''1-0'' ''m'' None, Ran () (XACK key grp ''1-0'') Done (),
             Clock 20, Clock 20, Ran () (XAUTOCLAIM key grp ''c'' 5 ''0-0'' 16) (Claimed [(''0-7'', ''x''), (''0-8'', ''y'')] ''0-9'') (), Handled ''0-7'' ''x'' (Some e)]
   in runs (\<lambda>_ _ _ _. True) (=) (redis_SubscribeSession 3 h ''c'' ''s'' []) () tr (Some e) \<and>
      (all_work tr = taken key grp (all_received tr) \<or>
       (\<exists>ms i d rest e'. all_received tr = ms @ (i, d) # rest \<and> all_work tr = taken key grp ms @ [Refused i d e'] \<and> Some e = Some e'))"
proof -
  define h where "h = \<lparr>rh_keyPrefix = ''p:'', rh_streamMaxLen = 10, rh_claimMinIdle = 5, rh_claimInterval = 10\<rparr>"
  define key where "key = streamKey h ''s''"
  define grp where "grp = groupName h"
  define e where "e = ErrText ''no''"
  define tr where "tr = [Ran () (XGROUP key grp ''$'') Done (), Clock 0,
             Clock 5, Ran () (XREADGROUP key grp ''c'' 1) (Entries [(''1-0'', ''m'')]) (), Handled ''1-0'' ''m'' None, Ran () (XACK key grp ''1-0'') Done (),
             Clock 20, Clock 20, Ran () (XAUTOCLAIM key grp ''c'' 5 ''0-0'' 16) (Claimed [(''0-7'', ''x''), (''0-8'', ''y'')] ''0-9'') (), Handled ''0-7'' ''x'' (Some e)]"
  have three: "(3::nat) = Suc (Suc (Suc 0))" by simp
  have f: "rh_claimInterval h = 10" "rh_claimMinIdle h = 5" by (simp_all add: h_def)
  let ?runs = "runs (\<lambda>_ _ _ _. True) (=)"
  have claim: "?runs (subscribe_loop (Suc (Suc 0)) h key grp ''c'' 0) ()
     [Clock 20, Clock 20, Ran () (XAUTOCLAIM key grp ''c'' 5 ''0-0'' 16) (Claimed [(''0-7'', ''x''), (''0-8'', ''y'')] ''0-9'') (), Handled ''0-7'' ''x'' (Some e)] (Some e)"
    unfolding subscribe_loop.simps(2) [of "Suc 0"] claim_loop.simps
    by (rule runs.check [where c = None]) (simp add: runs_simps f)
  have "?runs (subscribe_loop (Suc (Suc (Suc 0))) h key grp ''c'' 0) () (tl (tl tr)) (Some e)"
    unfolding subscribe_loop.simps(2) [of "Suc (Suc 0)"] read_group_def tr_def
    by (rule runs.check [where c = None]) (simp add: runs_simps f claim del: subscribe_loop.simps)
  then have run: "?runs (redis_SubscribeSession 3 h ''c'' ''s'' []) () tr (Some e)"
    unfolding redis_SubscribeSession_def Let_def three key_def [symmetric] grp_def [symmetric] tr_def
    by (simp add: runs_simps del: subscribe_loop.simps)
  from redis_delivery [OF run] run show ?thesis
    unfolding Let_def h_def [symmetric] key_def [symmetric] grp_def [symmetric] e_def [symmetric] tr_def [symmetric] by blast
qed

end
