(* ===== verification/TypedTools.thy ===== *)
theory TypedTools
  imports Server ToolWriter
begin

section \<open>Typed tools and dynamic capabilities (mcpservice/static_tools.go, tools.go, prompts.go, resources.go, progress.go)\<close>

text \<open>
  Tools made from a Go function with typed arguments, and capabilities made from functions. What a Go type \<open>A\<close> brings is a
  record: its zero value, what \<open>encoding/json\<close> makes of a document (leniently and with unknown fields refused), and the
  schema the package invopop/jsonschema reflects. A handler is the application's function; it is given by the calls it
  makes on its writer, each with what the context says at that moment, and by the error it returns.
\<close>

subsection \<open>Reflected schemas\<close>

record js_keywords =
  js_Type :: string
  js_Description :: string
  js_Enum :: "json list"
  js_Required :: "string list"
  js_Ref :: string
  js_Pattern :: string
  js_Format :: string
  js_Examples :: "json list"
  js_Default :: "json option"
  js_ContentEncoding :: string
  js_ContentMediaType :: string
  js_Minimum :: string
  js_Maximum :: string

datatype js_schema = JS
  (js_kw: js_keywords)
  (js_Items: "js_schema option")
  (js_Properties: "(string \<times> js_schema option) list option")
  (js_AdditionalProperties: "js_schema option")
  (js_AllOf: "js_schema list")
  (js_AnyOf: "js_schema list")
  (js_OneOf: "js_schema list")
  (js_Not: "js_schema option")

record Reflector =
  rf_DoNotReference :: bool
  rf_ExpandedStruct :: bool
  rf_AllowAdditionalProperties :: bool

record 'a go_type =
  gt_zero :: 'a
  gt_Unmarshal :: "json \<Rightarrow> go_error + 'a"
  gt_DecodeStrict :: "json \<Rightarrow> go_error + 'a"
  gt_Reflect :: "Reflector \<Rightarrow> js_schema option"

fun toMCPProperty :: "js_schema option \<Rightarrow> SchemaProperty"
  and mcp_properties :: "(string \<times> js_schema option) list \<Rightarrow> (string, SchemaProperty) gomap \<Rightarrow> (string, SchemaProperty) gomap" where
  "toMCPProperty None = SchemaProperty [] [] None [] []"
| "toMCPProperty (Some (JS kw items props addl allOf anyOf oneOf nt)) = SchemaProperty (js_Type kw) (js_Description kw)
     (if js_Type kw = ''array'' then (case items of None \<Rightarrow> None | Some i \<Rightarrow> Some (toMCPProperty (Some i))) else None)
     (if js_Type kw = ''object'' then (case props of None \<Rightarrow> [] | Some ps \<Rightarrow> mcp_properties ps []) else [])
     (js_Enum kw)"
| "mcp_properties [] m = m"
| "mcp_properties ((k, s) # ps) m = mcp_properties ps (mput k (toMCPProperty s) m)"

definition reflect_object :: "js_schema option \<Rightarrow> ((string, SchemaProperty) gomap \<times> string list) option" where
  "reflect_object s = (case s of
       None \<Rightarrow> None
     | Some s \<Rightarrow> if js_Type (js_kw s) \<noteq> ''object'' then None
         else Some (case js_Properties s of None \<Rightarrow> [] | Some ps \<Rightarrow> mcp_properties ps [], js_Required (js_kw s)))"

definition reflectToMCPInputSchema :: "'a go_type \<Rightarrow> bool \<Rightarrow> ToolInputSchema" where
  "reflectToMCPInputSchema ty allow =
     (case reflect_object (gt_Reflect ty \<lparr>rf_DoNotReference = True, rf_ExpandedStruct = True, rf_AllowAdditionalProperties = allow\<rparr>) of
       None \<Rightarrow> \<lparr>tis_Type = ''object'', tis_Properties = [], tis_Required = [], tis_AdditionalProperties = allow\<rparr>
     | Some (props, required) \<Rightarrow> \<lparr>tis_Type = ''object'', tis_Properties = props, tis_Required = required, tis_AdditionalProperties = allow\<rparr>)"

definition reflectToMCPOutputSchema :: "'o go_type \<Rightarrow> ToolOutputSchema" where
  "reflectToMCPOutputSchema ty =
     (case reflect_object (gt_Reflect ty \<lparr>rf_DoNotReference = True, rf_ExpandedStruct = True, rf_AllowAdditionalProperties = False\<rparr>) of
       None \<Rightarrow> \<lparr>tos_Type = ''object'', tos_Properties = [], tos_Required = []\<rparr>
     | Some (props, required) \<Rightarrow> \<lparr>tos_Type = ''object'', tos_Properties = props, tos_Required = required\<rparr>)"

subsection \<open>Options\<close>

record toolConfig =
  cfg_description :: string
  cfg_allowAdditionalProperties :: bool
  cfg_meta :: "(string, json) gomap"

type_synonym ToolOption = "toolConfig \<Rightarrow> toolConfig"

definition WithToolDescription :: "string \<Rightarrow> ToolOption" where
  "WithToolDescription d cfg = cfg\<lparr>cfg_description := d\<rparr>"

definition WithToolAllowAdditionalProperties :: "bool \<Rightarrow> ToolOption" where
  "WithToolAllowAdditionalProperties allow cfg = cfg\<lparr>cfg_allowAdditionalProperties := allow\<rparr>"

definition WithToolMeta :: "(string, json) gomap \<Rightarrow> ToolOption" where
  "WithToolMeta m cfg = (if m = [] then cfg else cfg\<lparr>cfg_meta := foldl (\<lambda>acc (k, v). mput k v acc) (cfg_meta cfg) m\<rparr>)"

definition tool_config :: "ToolOption list \<Rightarrow> toolConfig" where
  "tool_config opts = foldl (\<lambda>cfg opt. opt cfg) \<lparr>cfg_description = [], cfg_allowAdditionalProperties = False, cfg_meta = []\<rparr> opts"

subsection \<open>Tools with typed arguments\<close>

record 'a ToolRequest =
  tr_name :: string
  tr_raw :: raw
  tr_args :: 'a

text \<open>The arguments of a call: the zero value without any.\<close>

definition decode_args :: "'a go_type \<Rightarrow> bool \<Rightarrow> raw \<Rightarrow> go_error + 'a" where
  "decode_args ty lenient r = (case r of
       None \<Rightarrow> Inr (gt_zero ty)
     | Some j \<Rightarrow> if lenient then gt_Unmarshal ty j else gt_DecodeStrict ty j)"

definition invalid_arguments :: "go_error \<Rightarrow> CallToolResult" where
  "invalid_arguments e = Errorf (''invalid arguments: '' @ error_text e)"

definition NewTool :: "'a go_type \<Rightarrow> string \<Rightarrow> (ctx \<Rightarrow> string \<Rightarrow> 'a ToolRequest \<Rightarrow> w_call list \<times> go_error option) \<Rightarrow> ToolOption list \<Rightarrow> StaticTool" where
  "NewTool ty name fn opts = (let cfg = tool_config opts in
     \<lparr>st_Descriptor = \<lparr>t_Name = name, t_Description = cfg_description cfg,
        t_InputSchema = reflectToMCPInputSchema ty (cfg_allowAdditionalProperties cfg), t_OutputSchema = None, t_Meta = cloneMeta (cfg_meta cfg)\<rparr>,
      st_Handler = Some (\<lambda>c sess req. case decode_args ty (cfg_allowAdditionalProperties cfg) (ctr_Arguments req) of
          Inl e \<Rightarrow> Inr (invalid_arguments e)
        | Inr a \<Rightarrow> (case fn c sess \<lparr>tr_name = ctr_Name req, tr_raw = ctr_Arguments req, tr_args = a\<rparr> of
            (calls, Some e) \<Rightarrow> Inl e
          | (calls, None) \<Rightarrow> Inr (snd (w_Result (fold w_exec calls newToolResponseWriter)))))\<rparr>)"

definition TypedTool :: "'a go_type \<Rightarrow> Tool \<Rightarrow> (ctx \<Rightarrow> string \<Rightarrow> 'a \<Rightarrow> go_error + CallToolResult) \<Rightarrow> StaticTool" where
  "TypedTool ty desc fn = \<lparr>st_Descriptor = desc, st_Handler = Some (\<lambda>c sess req. case decode_args ty True (ctr_Arguments req) of
       Inl e \<Rightarrow> Inr (invalid_arguments e)
     | Inr a \<Rightarrow> fn c sess a)\<rparr>"

text \<open>Typed output. \<open>ot_nil\<close> says which values are a nil interface; \<open>any_value\<close> is what a document becomes as \<open>any\<close>, where
  numbers are \<open>float64\<close>.\<close>

record 'o out_type =
  ot_nil :: "'o \<Rightarrow> bool"
  ot_Marshal :: "'o \<Rightarrow> go_error + json"
  ot_go :: "'o go_type"

datatype 'o tw_call = Plain w_call | SetStructured 'o

record 'o toolResponseWriterTyped =
  tw_base :: toolResponseWriter
  tw_structured :: "'o option"

fun tw_exec :: "'o tw_call \<Rightarrow> 'o toolResponseWriterTyped \<Rightarrow> 'o toolResponseWriterTyped" where
  "tw_exec (Plain c) tw = tw\<lparr>tw_base := w_exec c (tw_base tw)\<rparr>"
| "tw_exec (SetStructured v) tw = tw\<lparr>tw_structured := Some v\<rparr>"

fun any_value :: "json \<Rightarrow> json" and any_values :: "json list \<Rightarrow> json list" and any_members :: "(string \<times> json) list \<Rightarrow> (string, json) gomap \<Rightarrow> (string, json) gomap" where
  "any_value (JInt n) = JInt (f64_round n)"
| "any_value (JArr vs) = JArr (any_values vs)"
| "any_value (JObj kvs) = JObj (any_members kvs [])"
| "any_value j = j"
| "any_values [] = []"
| "any_values (v # vs) = any_value v # any_values vs"
| "any_members [] m = m"
| "any_members ((k, v) # kvs) m = any_members kvs (mput k (any_value v) m)"

definition structured_content :: "'o out_type \<Rightarrow> 'o option \<Rightarrow> (string, json) gomap option" where
  "structured_content ot s = (case s of
       None \<Rightarrow> None
     | Some v \<Rightarrow> if ot_nil ot v then None else (case ot_Marshal ot v of
           Inl e \<Rightarrow> None
         | Inr (JObj kvs) \<Rightarrow> Some (any_members kvs [])
         | Inr JNull \<Rightarrow> Some []
         | Inr _ \<Rightarrow> None))"

definition NewToolWithOutput :: "'a go_type \<Rightarrow> 'o out_type \<Rightarrow> string \<Rightarrow> (ctx \<Rightarrow> string \<Rightarrow> 'a ToolRequest \<Rightarrow> 'o tw_call list \<times> go_error option) \<Rightarrow>
    ToolOption list \<Rightarrow> StaticTool" where
  "NewToolWithOutput ty ot name fn opts = (let cfg = tool_config opts in
     \<lparr>st_Descriptor = \<lparr>t_Name = name, t_Description = cfg_description cfg,
        t_InputSchema = reflectToMCPInputSchema ty (cfg_allowAdditionalProperties cfg),
        t_OutputSchema = Some (reflectToMCPOutputSchema (ot_go ot)), t_Meta = cloneMeta (cfg_meta cfg)\<rparr>,
      st_Handler = Some (\<lambda>c sess req. case decode_args ty (cfg_allowAdditionalProperties cfg) (ctr_Arguments req) of
          Inl e \<Rightarrow> Inr (invalid_arguments e)
        | Inr a \<Rightarrow> (case fn c sess \<lparr>tr_name = ctr_Name req, tr_raw = ctr_Arguments req, tr_args = a\<rparr> of
            (calls, Some e) \<Rightarrow> Inl e
          | (calls, None) \<Rightarrow>
              (let tw = fold tw_exec calls \<lparr>tw_base = newToolResponseWriter, tw_structured = None\<rparr>;
                   res = snd (w_Result (tw_base tw))
               in Inr (case structured_content ot (tw_structured tw) of None \<Rightarrow> res | Some m \<Rightarrow> res\<lparr>ctres_StructuredContent := m\<rparr>))))\<rparr>)"

subsection \<open>What the published schema admits\<close>

text \<open>The meaning of the keywords that a published property keeps, and of a reflected schema, where \<open>rest\<close> is the meaning of the
  other keywords of a node.\<close>

fun type_admits :: "string \<Rightarrow> json \<Rightarrow> bool" where
  "type_admits t (JStr _) \<longleftrightarrow> t \<in> {[], ''string''}"
| "type_admits t (JBool _) \<longleftrightarrow> t \<in> {[], ''boolean''}"
| "type_admits t (JInt _) \<longleftrightarrow> t \<in> {[], ''integer'', ''number''}"
| "type_admits t (JFlt _) \<longleftrightarrow> t \<in> {[], ''number''}"
| "type_admits t JNull \<longleftrightarrow> t \<in> {[], ''null''}"
| "type_admits t (JArr _) \<longleftrightarrow> t \<in> {[], ''array''}"
| "type_admits t (JObj _) \<longleftrightarrow> t \<in> {[], ''object''}"

definition node_admits :: "string \<Rightarrow> json list \<Rightarrow> json \<Rightarrow> bool" where
  "node_admits t enum v \<longleftrightarrow> type_admits t v \<and> (enum = [] \<or> v \<in> set enum)"

fun elements :: "json \<Rightarrow> json list" where
  "elements (JArr vs) = vs"
| "elements _ = []"

fun members :: "json \<Rightarrow> (string \<times> json) list" where
  "members (JObj kvs) = kvs"
| "members _ = []"

fun js_admits :: "(js_schema \<Rightarrow> json \<Rightarrow> bool) \<Rightarrow> js_schema option \<Rightarrow> json \<Rightarrow> bool"
  and js_props_admit :: "(js_schema \<Rightarrow> json \<Rightarrow> bool) \<Rightarrow> (string \<times> js_schema option) list \<Rightarrow> json \<Rightarrow> bool" where
  "js_admits rest None v \<longleftrightarrow> True"
| "js_admits rest (Some (JS kw items props addl allOf anyOf oneOf nt)) v \<longleftrightarrow>
     node_admits (js_Type kw) (js_Enum kw) v \<and>
     list_all (js_admits rest items) (elements v) \<and>
     (case props of None \<Rightarrow> True | Some ps \<Rightarrow> js_props_admit rest ps v) \<and>
     rest (JS kw items props addl allOf anyOf oneOf nt) v"
| "js_props_admit rest [] v \<longleftrightarrow> True"
| "js_props_admit rest ((k, s) # ps) v \<longleftrightarrow>
     (case mget (members v) k of None \<Rightarrow> True | Some x \<Rightarrow> js_admits rest s x) \<and> js_props_admit rest ps v"

fun sp_admits :: "SchemaProperty \<Rightarrow> json \<Rightarrow> bool"
  and sp_props_admit :: "(string \<times> SchemaProperty) list \<Rightarrow> json \<Rightarrow> bool" where
  "sp_admits (SchemaProperty ty desc items props enum) v \<longleftrightarrow> node_admits ty enum v \<and>
     (case items of None \<Rightarrow> True | Some i \<Rightarrow> list_all (sp_admits i) (elements v)) \<and> sp_props_admit props v"
| "sp_props_admit [] v \<longleftrightarrow> True"
| "sp_props_admit ((k, p) # ps) v \<longleftrightarrow>
     (case mget (members v) k of None \<Rightarrow> True | Some x \<Rightarrow> sp_admits p x) \<and> sp_props_admit ps v"

definition input_admits :: "ToolInputSchema \<Rightarrow> json \<Rightarrow> bool" where
  "input_admits s v \<longleftrightarrow> type_admits (tis_Type s) v \<and> sp_props_admit (tis_Properties s) v \<and>
     list_all (\<lambda>k. mget (members v) k \<noteq> None) (tis_Required s)"

text \<open>Schemas in which only the published keywords restrict anything, no name is described twice, and items and properties
  belong to arrays and objects.\<close>

fun plain_schema :: "(js_schema \<Rightarrow> json \<Rightarrow> bool) \<Rightarrow> js_schema option \<Rightarrow> bool"
  and plain_props :: "(js_schema \<Rightarrow> json \<Rightarrow> bool) \<Rightarrow> (string \<times> js_schema option) list \<Rightarrow> bool" where
  "plain_schema rest None \<longleftrightarrow> True"
| "plain_schema rest (Some (JS kw items props addl allOf anyOf oneOf nt)) \<longleftrightarrow>
     (\<forall>v. rest (JS kw items props addl allOf anyOf oneOf nt) v) \<and>
     (items \<noteq> None \<longrightarrow> js_Type kw = ''array'') \<and> (props \<noteq> None \<longrightarrow> js_Type kw = ''object'') \<and>
     plain_schema rest items \<and> (case props of None \<Rightarrow> True | Some ps \<Rightarrow> distinct (map fst ps) \<and> plain_props rest ps)"
| "plain_props rest [] \<longleftrightarrow> True"
| "plain_props rest ((k, s) # ps) \<longleftrightarrow> plain_schema rest s \<and> plain_props rest ps"

lemma sp_props_admit_iff:
  "sp_props_admit ps v \<longleftrightarrow> (\<forall>(k, p) \<in> set ps. case mget (members v) k of None \<Rightarrow> True | Some x \<Rightarrow> sp_admits p x)"
  by (induction ps) auto

lemma set_mput_subset: "set (mput k v m) \<subseteq> insert (k, v) (set m)"
  by (induction m) (auto simp: mput_def split: if_splits)

lemma set_mput_fresh: "k \<notin> fst ` set m \<Longrightarrow> set (mput k v m) = insert (k, v) (set m)"
  by (induction m) (auto simp: mput_def)

lemma published_sound:
  "js_admits rest s v \<Longrightarrow> sp_admits (toMCPProperty s) v"
  "js_props_admit rest ps v \<Longrightarrow> sp_props_admit m v \<Longrightarrow> sp_props_admit (mcp_properties ps m) v"
proof (induction s and ps m arbitrary: v and v rule: toMCPProperty_mcp_properties.induct)
  case 1
  show ?case by (simp add: node_admits_def) (cases v; simp)
next
  case (2 kw items props addl allOf anyOf oneOf nt)
  from 2(3) have n: "node_admits (js_Type kw) (js_Enum kw) v" "list_all (js_admits rest items) (elements v)"
    "case props of None \<Rightarrow> True | Some ps \<Rightarrow> js_props_admit rest ps v" by simp_all
  have "list_all (sp_admits (toMCPProperty (Some i))) (elements v)" if "js_Type kw = ''array''" "items = Some i" for i
    using n(2) 2(1) [OF that] by (simp add: that(2) list_all_iff)
  moreover have "sp_props_admit (mcp_properties ps []) v" if "js_Type kw = ''object''" "props = Some ps" for ps
    using n(3) 2(2) [OF that] by (simp add: that(2))
  ultimately show ?case using n(1) by (simp split: option.split)
next
  case (3 m)
  then show ?case by simp
next
  case (4 k s ps m)
  have "sp_props_admit (mput k (toMCPProperty s) m) v"
    using 4(1,3,4) set_mput_subset [of k "toMCPProperty s" m] unfolding sp_props_admit_iff by (fastforce split: option.splits)
  then show ?case using 4(2,3) by simp
qed

lemma published_complete:
  "plain_schema rest s \<Longrightarrow> sp_admits (toMCPProperty s) v \<Longrightarrow> js_admits rest s v"
  "plain_props rest ps \<Longrightarrow> distinct (map fst ps) \<Longrightarrow> fst ` set m \<inter> fst ` set ps = {} \<Longrightarrow>
   sp_props_admit (mcp_properties ps m) v \<Longrightarrow> js_props_admit rest ps v \<and> sp_props_admit m v"
proof (induction s and ps m arbitrary: v and v rule: toMCPProperty_mcp_properties.induct)
  case (2 kw items props addl allOf anyOf oneOf nt)
  have "list_all (js_admits rest items) (elements v)"
    using 2 by (cases items) (auto simp: list_all_iff)
  moreover have "case props of None \<Rightarrow> True | Some ps \<Rightarrow> js_props_admit rest ps v"
    using 2 by (cases props) auto
  ultimately show ?case using 2(3,4) by (auto split: option.splits)
next
  case (4 k s ps m)
  let ?m = "mput k (toMCPProperty s) m"
  have m: "set ?m = insert (k, toMCPProperty s) (set m)" using 4(5) by (intro set_mput_fresh) auto
  have IH: "js_props_admit rest ps v" "sp_props_admit ?m v" using 4 m by auto
  from IH(2) have "sp_props_admit m v" "case mget (members v) k of None \<Rightarrow> True | Some x \<Rightarrow> sp_admits (toMCPProperty s) x"
    unfolding sp_props_admit_iff m by auto
  with IH(1) 4(1) 4(3) show ?case by (auto split: option.splits)
qed simp_all

text \<open>C33: what a tool publishes follows from the type of its arguments. Arguments that satisfy the schema reflected from a type
  with an object at its root, with all its required members, satisfy the published input schema; the published schema admits
  nothing else when the reflected one restricts arguments only by types, enumerations, items, properties and the members
  required at the root.\<close>

theorem published_schema_sound:
  assumes "gt_Reflect ty \<lparr>rf_DoNotReference = True, rf_ExpandedStruct = True, rf_AllowAdditionalProperties = allow\<rparr> = Some s"
    and "js_Type (js_kw s) = ''object''" and "js_Enum (js_kw s) = []"
  shows "(js_admits rest (Some s) v \<and> (\<forall>k \<in> set (js_Required (js_kw s)). mget (members v) k \<noteq> None) \<longrightarrow> input_admits (reflectToMCPInputSchema ty allow) v) \<and>
    (plain_schema rest (Some s) \<longrightarrow> input_admits (reflectToMCPInputSchema ty allow) v \<longrightarrow>
      js_admits rest (Some s) v \<and> (\<forall>k \<in> set (js_Required (js_kw s)). mget (members v) k \<noteq> None))"
proof -
  obtain kw items props addl allOf anyOf oneOf nt where s: "s = JS kw items props addl allOf anyOf oneOf nt" by (cases s)
  have p: "toMCPProperty (Some s) = SchemaProperty ''object'' (js_Description kw) None (case props of None \<Rightarrow> [] | Some ps \<Rightarrow> mcp_properties ps []) []"
    using assms(2,3) s by simp
  have i: "input_admits (reflectToMCPInputSchema ty allow) v \<longleftrightarrow>
      sp_admits (toMCPProperty (Some s)) v \<and> (\<forall>k \<in> set (js_Required (js_kw s)). mget (members v) k \<noteq> None)"
    unfolding p using assms s
    by (auto simp: input_admits_def reflectToMCPInputSchema_def reflect_object_def node_admits_def list_all_iff split: option.splits)
  show ?thesis
    unfolding i using published_sound(1) [of rest "Some s" v] published_complete(1) [of rest "Some s" v] by blast
qed

text \<open>A type with one required string member and an optional list of whole numbers.\<close>

definition wit_kw :: "string \<Rightarrow> string list \<Rightarrow> js_keywords" where
  "wit_kw t req = \<lparr>js_Type = t, js_Description = [], js_Enum = [], js_Required = req, js_Ref = [], js_Pattern = [], js_Format = [],
     js_Examples = [], js_Default = None, js_ContentEncoding = [], js_ContentMediaType = [], js_Minimum = [], js_Maximum = []\<rparr>"

definition wit_schema :: js_schema where
  "wit_schema = JS (wit_kw ''object'' [''q'']) None (Some [(''q'', Some (JS (wit_kw ''string'' []) None None None [] [] [] None)),
     (''n'', Some (JS (wit_kw ''array'' []) (Some (JS (wit_kw ''integer'' []) None None None [] [] [] None)) None None [] [] [] None))]) None [] [] [] None"

fun wit_decode :: "bool \<Rightarrow> json \<Rightarrow> go_error + string" where
  "wit_decode strict (JObj kvs) = (case dec_field as_string ''q'' [] kvs of
       None \<Rightarrow> Inl (ErrText ''json: wrong type'')
     | Some q \<Rightarrow> if strict \<and> (\<exists>(k, v) \<in> set kvs. \<not> key_eq k ''q'') then Inl (ErrText ''json: unknown field'') else Inr q)"
| "wit_decode strict JNull = Inr []"
| "wit_decode strict _ = Inl (ErrText ''json: wrong type'')"

definition wit_go :: "string go_type" where
  "wit_go = \<lparr>gt_zero = [], gt_Unmarshal = wit_decode False, gt_DecodeStrict = wit_decode True, gt_Reflect = (\<lambda>_. Some wit_schema)\<rparr>"

theorem published_schema_sound_witness:
  "input_admits (reflectToMCPInputSchema wit_go False) (JObj [(''q'', JStr ''x''), (''n'', JArr [JInt 1])]) \<and>
   \<not> input_admits (reflectToMCPInputSchema wit_go False) (JObj [(''n'', JArr [JInt 1])]) \<and>
   \<not> input_admits (reflectToMCPInputSchema wit_go False) (JObj [(''q'', JStr ''x''), (''n'', JArr [JStr ''1''])])"
proof -
  have r: "gt_Reflect wit_go R = Some wit_schema" for R by (simp add: wit_go_def)
  have k: "js_Type (js_kw wit_schema) = ''object''" "js_Enum (js_kw wit_schema) = []" "js_Required (js_kw wit_schema) = [''q'']"
    by (simp_all add: wit_schema_def wit_kw_def)
  have p: "plain_schema (\<lambda>_ _. True) (Some wit_schema)" by (simp add: wit_schema_def wit_kw_def)
  note thm1 = published_schema_sound [OF r k(1,2), where rest = "\<lambda>_ _. True" and allow = False, unfolded k(3)]
  have "js_admits (\<lambda>_ _. True) (Some wit_schema) (JObj [(''q'', JStr ''x''), (''n'', JArr [JInt 1])])"
    "\<not> js_admits (\<lambda>_ _. True) (Some wit_schema) (JObj [(''q'', JStr ''x''), (''n'', JArr [JStr ''1''])])"
    by (simp_all add: wit_schema_def wit_kw_def node_admits_def)
  then show ?thesis
    using thm1 [of "JObj [(''q'', JStr ''x''), (''n'', JArr [JInt 1])]"] thm1 [of "JObj [(''n'', JArr [JInt 1])]"]
      thm1 [of "JObj [(''q'', JStr ''x''), (''n'', JArr [JStr ''1''])]"] p by simp
qed

text \<open>The flag that forbids other members never reaches the client: \<open>false\<close> is a zero value, which the encoder omits.\<close>

lemma strict_flag_unpublished:
  "mget (members (enc_ToolInputSchema s)) ''additionalProperties'' = (if tis_AdditionalProperties s then Some (JBool True) else None)"
  by (simp add: enc_ToolInputSchema_def bool_nz_def obj_nz_def list_nz_def)

subsection \<open>Calling typed tools\<close>

text \<open>C32: a typed tool that was added to a container is called through it with its decoded arguments. Arguments the decoder
  refuses are answered with a tool error without running the function; otherwise the function gets them (the zero value without
  arguments), its error is returned as it is, and the result has the blocks it wrote, in order.\<close>

theorem typed_tool_call:
  assumes "tools_Add (NewTool ty name fn opts) st = (st', True)" and "name \<noteq> []"
    and "ctr_Name req = name" and "lenient = cfg_allowAdditionalProperties (tool_config opts)"
  shows "case (case ctr_Arguments req of None \<Rightarrow> Inr (gt_zero ty) | Some j \<Rightarrow> if lenient then gt_Unmarshal ty j else gt_DecodeStrict ty j) of
      Inl e \<Rightarrow> tools_Call c sess (Some req) st' = Inr (Errorf (''invalid arguments: '' @ error_text e)) \<and>
        ctres_IsError (Errorf (''invalid arguments: '' @ error_text e))
    | Inr a \<Rightarrow> (case fn c sess \<lparr>tr_name = name, tr_raw = ctr_Arguments req, tr_args = a\<rparr> of
        (calls, Some e) \<Rightarrow> tools_Call c sess (Some req) st' = Inl e
      | (calls, None) \<Rightarrow> \<exists>res. tools_Call c sess (Some req) st' = Inr res \<and> ctres_Content res = written calls)"
proof -
  obtain h where n: "t_Name (st_Descriptor (NewTool ty name fn opts)) = name" "st_Handler (NewTool ty name fn opts) = Some h"
    by (simp add: NewTool_def Let_def)
  have "mget (tc_handlers st') name = Some h"
    using assms(1) n by (auto simp: tools_Add_def Let_def split: if_splits)
  then have c: "tools_Call c sess (Some req) st' = h c sess req" using assms(2,3) by (simp add: tools_Call_def)
  have "ctres_Content (snd (w_Result (fold w_exec calls newToolResponseWriter))) = written calls" for calls
    using writer_content [of calls "[]"] by simp
  then show ?thesis unfolding c decode_args_def [symmetric] using assms(3,4) n(2)
    by (auto simp: NewTool_def Let_def invalid_arguments_def Errorf_def split: sum.split prod.split option.split)
qed

theorem typed_tool_call_witness:
  "let t = NewTool wit_go ''say'' (\<lambda>c s r. ([CText None (tr_args r)], None)) [];
       st' = fst (tools_Add t (NewToolsContainer []));
       call = (\<lambda>a. tools_Call None ''s'' (Some \<lparr>ctr_Name = ''say'', ctr_Arguments = Some a\<rparr>) st')
   in (\<exists>res. call (JObj [(''q'', JStr ''hi'')]) = Inr res \<and> ctres_Content res = [text_block ''hi'']) \<and>
      (\<exists>res. call (JObj [(''q'', JStr ''hi''), (''n'', JArr [])]) = Inr res \<and> ctres_IsError res)"
proof -
  define fn where "fn = (\<lambda>(c :: ctx) (s :: string) r :: string ToolRequest. ([CText None (tr_args r)], None :: go_error option))"
  define st' where "st' = fst (tools_Add (NewTool wit_go ''say'' fn []) (NewToolsContainer []))"
  have added: "tools_Add (NewTool wit_go ''say'' fn []) (NewToolsContainer []) = (st', True)"
    by (simp add: st'_def tools_Add_def NewToolsContainer_def tools_Replace_def Let_def)
  have cfg: "cfg_allowAdditionalProperties (tool_config []) = False" by (simp add: tool_config_def)
  have d: "gt_DecodeStrict wit_go (JObj [(''q'', JStr ''hi'')]) = Inr ''hi''"
    "gt_DecodeStrict wit_go (JObj [(''q'', JStr ''hi''), (''n'', JArr [])]) = Inl (ErrText ''json: unknown field'')"
    by (simp_all add: wit_go_def key_eq_def lower_char_def)
  show ?thesis
    using typed_tool_call [OF added, of "\<lparr>ctr_Name = ''say'', ctr_Arguments = Some (JObj [(''q'', JStr ''hi'')])\<rparr>" False None "''s''"]
      typed_tool_call [OF added, of "\<lparr>ctr_Name = ''say'', ctr_Arguments = Some (JObj [(''q'', JStr ''hi''), (''n'', JArr [])])\<rparr>" False None "''s''"] d
    unfolding Let_def fn_def [symmetric] st'_def [symmetric] cfg by (simp add: fn_def)
qed

text \<open>With typed output the last structured value is attached to the result when it encodes as an object, and dropped without a
  trace otherwise.\<close>

fun plain_calls :: "'o tw_call list \<Rightarrow> w_call list" where
  "plain_calls [] = []"
| "plain_calls (Plain c # cs) = c # plain_calls cs"
| "plain_calls (SetStructured v # cs) = plain_calls cs"

fun last_structured :: "'o option \<Rightarrow> 'o tw_call list \<Rightarrow> 'o option" where
  "last_structured s [] = s"
| "last_structured s (Plain c # cs) = last_structured s cs"
| "last_structured s (SetStructured v # cs) = last_structured (Some v) cs"

lemma tw_run:
  "tw_base (fold tw_exec cs tw) = fold w_exec (plain_calls cs) (tw_base tw)"
  "tw_structured (fold tw_exec cs tw) = last_structured (tw_structured tw) cs"
  by (induction cs arbitrary: tw rule: plain_calls.induct) simp_all

lemma typed_output_call:
  assumes "st_Handler (NewToolWithOutput ty ot name fn opts) = Some h"
    and "decode_args ty (cfg_allowAdditionalProperties (tool_config opts)) (ctr_Arguments req) = Inr a"
    and "fn c sess \<lparr>tr_name = ctr_Name req, tr_raw = ctr_Arguments req, tr_args = a\<rparr> = (calls, None)"
  shows "\<exists>res. h c sess req = Inr res \<and> ctres_Content res = written (plain_calls calls) \<and>
    ctres_StructuredContent res = (case structured_content ot (last_structured None calls) of None \<Rightarrow> [] | Some m \<Rightarrow> m)"
proof -
  let ?res = "snd (w_Result (fold w_exec (plain_calls calls) newToolResponseWriter))"
  have r: "ctres_Content ?res = written (plain_calls calls)" "ctres_StructuredContent ?res = []"
    using writer_content [of "plain_calls calls" "[]"] by (simp_all add: w_Result_def Let_def)
  have "h = the (st_Handler (NewToolWithOutput ty ot name fn opts))" using assms(1) by simp
  then have "h c sess req = Inr (case structured_content ot (last_structured None calls) of None \<Rightarrow> ?res | Some m \<Rightarrow> ?res\<lparr>ctres_StructuredContent := m\<rparr>)"
    unfolding NewToolWithOutput_def Let_def using assms(2,3) by (simp add: tw_run split: option.split)
  with r show ?thesis by (simp split: option.split)
qed

subsection \<open>Dynamic capabilities\<close>

text \<open>A capability made of functions; a function that is not set is \<open>None\<close>, and so is a change subscriber.\<close>

record dynamicTools =
  dt_listFn :: "(ctx \<Rightarrow> SessionHandle \<Rightarrow> string option \<Rightarrow> go_error + Tool Page) option"
  dt_callFn :: "(ctx \<Rightarrow> SessionHandle \<Rightarrow> CallToolRequestReceived \<Rightarrow> go_error + CallToolResult option) option"
  dt_changeSub :: "ChangeNotifier option"

type_synonym DynamicToolsOption = "dynamicTools \<Rightarrow> dynamicTools"

definition WithToolsListFn :: "(ctx \<Rightarrow> SessionHandle \<Rightarrow> string option \<Rightarrow> go_error + Tool Page) option \<Rightarrow> DynamicToolsOption" where
  "WithToolsListFn f d = d\<lparr>dt_listFn := f\<rparr>"

definition WithToolsCallFn :: "(ctx \<Rightarrow> SessionHandle \<Rightarrow> CallToolRequestReceived \<Rightarrow> go_error + CallToolResult option) option \<Rightarrow> DynamicToolsOption" where
  "WithToolsCallFn f d = d\<lparr>dt_callFn := f\<rparr>"

definition WithToolsChangeSubscriber :: "ChangeNotifier option \<Rightarrow> DynamicToolsOption" where
  "WithToolsChangeSubscriber sub d = d\<lparr>dt_changeSub := sub\<rparr>"

definition dt_ListTools :: "dynamicTools \<Rightarrow> ctx \<Rightarrow> SessionHandle \<Rightarrow> string option \<Rightarrow> go_error + Tool Page" where
  "dt_ListTools d c s cursor = (case dt_listFn d of None \<Rightarrow> Inr (NewPage []) | Some f \<Rightarrow> f c s cursor)"

definition dt_CallTool :: "dynamicTools \<Rightarrow> ctx \<Rightarrow> SessionHandle \<Rightarrow> CallToolRequestReceived \<Rightarrow> go_error + CallToolResult option" where
  "dt_CallTool d c s req =
     (if ctr_Name req = [] then Inl (ErrText ''invalid tool request: missing name'')
      else case dt_callFn d of None \<Rightarrow> Inl (ErrText (''tool not found: '' @ ctr_Name req)) | Some f \<Rightarrow> f c s req)"

definition dt_GetListChangedCapability :: "dynamicTools \<Rightarrow> ctx \<Rightarrow> SessionHandle \<Rightarrow> unit got" where
  "dt_GetListChangedCapability d c s = Inr (case dt_changeSub d of None \<Rightarrow> None | Some _ \<Rightarrow> Some (Some ()))"

definition NewDynamicTools :: "DynamicToolsOption list \<Rightarrow> ToolsCapability" where
  "NewDynamicTools opts = (let d = foldl (\<lambda>d opt. opt d) \<lparr>dt_listFn = None, dt_callFn = None, dt_changeSub = None\<rparr> opts in
     \<lparr>tcap_ListTools = dt_ListTools d, tcap_CallTool = dt_CallTool d, tcap_ListChanged = dt_GetListChangedCapability d\<rparr>)"

record dynamicPrompts =
  dp_listFn :: "(ctx \<Rightarrow> SessionHandle \<Rightarrow> string option \<Rightarrow> go_error + Prompt Page) option"
  dp_getFn :: "(ctx \<Rightarrow> SessionHandle \<Rightarrow> GetPromptRequestReceived \<Rightarrow> go_error + GetPromptResult option) option"
  dp_change :: "ChangeNotifier option"

type_synonym DynamicPromptsOption = "dynamicPrompts \<Rightarrow> dynamicPrompts"

definition WithPromptsListFunc :: "(ctx \<Rightarrow> SessionHandle \<Rightarrow> string option \<Rightarrow> go_error + Prompt Page) option \<Rightarrow> DynamicPromptsOption" where
  "WithPromptsListFunc f d = d\<lparr>dp_listFn := f\<rparr>"

definition WithPromptsGetFunc :: "(ctx \<Rightarrow> SessionHandle \<Rightarrow> GetPromptRequestReceived \<Rightarrow> go_error + GetPromptResult option) option \<Rightarrow> DynamicPromptsOption" where
  "WithPromptsGetFunc f d = d\<lparr>dp_getFn := f\<rparr>"

definition WithPromptsChangeSubscriber :: "ChangeNotifier option \<Rightarrow> DynamicPromptsOption" where
  "WithPromptsChangeSubscriber sub d = d\<lparr>dp_change := sub\<rparr>"

definition dp_ListPrompts :: "dynamicPrompts \<Rightarrow> ctx \<Rightarrow> SessionHandle \<Rightarrow> string option \<Rightarrow> go_error + Prompt Page" where
  "dp_ListPrompts d c s cursor = (case dp_listFn d of None \<Rightarrow> Inr (NewPage []) | Some f \<Rightarrow> f c s cursor)"

definition dp_GetPrompt :: "dynamicPrompts \<Rightarrow> ctx \<Rightarrow> SessionHandle \<Rightarrow> GetPromptRequestReceived \<Rightarrow> go_error + GetPromptResult option" where
  "dp_GetPrompt d c s req =
     (if gpr_Name req = [] then Inl (ErrText ''invalid prompt request: missing name'')
      else case dp_getFn d of None \<Rightarrow> Inl (ErrText (''prompt not found: '' @ gpr_Name req)) | Some f \<Rightarrow> f c s req)"

definition dp_GetListChangedCapability :: "dynamicPrompts \<Rightarrow> ctx \<Rightarrow> SessionHandle \<Rightarrow> unit got" where
  "dp_GetListChangedCapability d c s = Inr (case dp_change d of None \<Rightarrow> None | Some _ \<Rightarrow> Some (Some ()))"

definition NewDynamicPrompts :: "DynamicPromptsOption list \<Rightarrow> PromptsCapability" where
  "NewDynamicPrompts opts = (let d = foldl (\<lambda>d opt. opt d) \<lparr>dp_listFn = None, dp_getFn = None, dp_change = None\<rparr> opts in
     \<lparr>pcap_ListPrompts = dp_ListPrompts d, pcap_GetPrompt = dp_GetPrompt d, pcap_ListChanged = dp_GetListChangedCapability d\<rparr>)"

record dynamicResources =
  dr_listFn :: "(ctx \<Rightarrow> SessionHandle \<Rightarrow> string option \<Rightarrow> go_error + McpResource Page) option"
  dr_listTplFn :: "(ctx \<Rightarrow> SessionHandle \<Rightarrow> string option \<Rightarrow> go_error + McpResourceTemplate Page) option"
  dr_readFn :: "(ctx \<Rightarrow> SessionHandle \<Rightarrow> string \<Rightarrow> go_error + ResourceContents list) option"
  dr_subCap :: "ResourceSubscriptionCapability option"
  dr_changeSub :: "ChangeNotifier option"

type_synonym DynamicResourcesOption = "dynamicResources \<Rightarrow> dynamicResources"

definition WithResourcesListFunc :: "(ctx \<Rightarrow> SessionHandle \<Rightarrow> string option \<Rightarrow> go_error + McpResource Page) option \<Rightarrow> DynamicResourcesOption" where
  "WithResourcesListFunc f d = d\<lparr>dr_listFn := f\<rparr>"

definition WithResourcesListTemplatesFunc :: "(ctx \<Rightarrow> SessionHandle \<Rightarrow> string option \<Rightarrow> go_error + McpResourceTemplate Page) option \<Rightarrow> DynamicResourcesOption" where
  "WithResourcesListTemplatesFunc f d = d\<lparr>dr_listTplFn := f\<rparr>"

definition WithResourcesReadFunc :: "(ctx \<Rightarrow> SessionHandle \<Rightarrow> string \<Rightarrow> go_error + ResourceContents list) option \<Rightarrow> DynamicResourcesOption" where
  "WithResourcesReadFunc f d = d\<lparr>dr_readFn := f\<rparr>"

definition WithResourcesSubscriptionCapability :: "ResourceSubscriptionCapability option \<Rightarrow> DynamicResourcesOption" where
  "WithResourcesSubscriptionCapability cap d = d\<lparr>dr_subCap := cap\<rparr>"

definition WithResourcesChangeSubscriber :: "ChangeNotifier option \<Rightarrow> DynamicResourcesOption" where
  "WithResourcesChangeSubscriber sub d = d\<lparr>dr_changeSub := sub\<rparr>"

definition dr_ListResources :: "dynamicResources \<Rightarrow> ctx \<Rightarrow> SessionHandle \<Rightarrow> string option \<Rightarrow> go_error + McpResource Page" where
  "dr_ListResources d c s cursor = (case dr_listFn d of None \<Rightarrow> Inr (NewPage []) | Some f \<Rightarrow> f c s cursor)"

definition dr_ListResourceTemplates :: "dynamicResources \<Rightarrow> ctx \<Rightarrow> SessionHandle \<Rightarrow> string option \<Rightarrow> go_error + McpResourceTemplate Page" where
  "dr_ListResourceTemplates d c s cursor = (case dr_listTplFn d of None \<Rightarrow> Inr (NewPage []) | Some f \<Rightarrow> f c s cursor)"

definition dr_ReadResource :: "dynamicResources \<Rightarrow> ctx \<Rightarrow> SessionHandle \<Rightarrow> string \<Rightarrow> go_error + ResourceContents list" where
  "dr_ReadResource d c s uri = (case dr_readFn d of None \<Rightarrow> Inl (ErrText (''resource not found: '' @ uri)) | Some f \<Rightarrow> f c s uri)"

definition dr_GetSubscriptionCapability :: "dynamicResources \<Rightarrow> ctx \<Rightarrow> SessionHandle \<Rightarrow> ResourceSubscriptionCapability got" where
  "dr_GetSubscriptionCapability d c s = Inr (case dr_subCap d of None \<Rightarrow> None | Some cap \<Rightarrow> Some (Some cap))"

definition dr_GetListChangedCapability :: "dynamicResources \<Rightarrow> ctx \<Rightarrow> SessionHandle \<Rightarrow> unit got" where
  "dr_GetListChangedCapability d c s = Inr (case dr_changeSub d of None \<Rightarrow> None | Some _ \<Rightarrow> Some (Some ()))"

definition dr_capability :: "dynamicResources \<Rightarrow> ResourcesCapability" where
  "dr_capability d = \<lparr>rcap_ListResources = dr_ListResources d, rcap_ListResourceTemplates = dr_ListResourceTemplates d,
     rcap_ReadResource = dr_ReadResource d, rcap_Subscription = dr_GetSubscriptionCapability d,
     rcap_ListChanged = dr_GetListChangedCapability d, rcap_isEventSource = False\<rparr>"

definition NewDynamicResources :: "DynamicResourcesOption list \<Rightarrow> dynamicResources" where
  "NewDynamicResources opts = foldl (\<lambda>d opt. opt d)
     \<lparr>dr_listFn = None, dr_listTplFn = None, dr_readFn = None, dr_subCap = None, dr_changeSub = None\<rparr> opts"

definition dr_ProvideResources :: "dynamicResources option \<Rightarrow> ctx \<Rightarrow> SessionHandle \<Rightarrow> ResourcesCapability got" where
  "dr_ProvideResources d c s = Inr (case d of None \<Rightarrow> None | Some d \<Rightarrow> Some (Some (dr_capability d)))"

subsection \<open>Listening for changes\<close>

text \<open>\<open>Register\<close> of the three adapters from a change subscriber subscribes and starts a goroutine, unless the subscriber or the
  callback is nil. One turn of the goroutine: it blocks, ends (the context is done or the channel closed and drained), or
  calls the callback; \<open>pick\<close> is the choice of \<open>select\<close> when both of its cases are ready.\<close>

definition change_Register :: "ChangeNotifier option \<Rightarrow> bool \<Rightarrow> ChangeNotifier option \<times> nat option \<times> bool" where
  "change_Register sub has_fn = (case sub of
       None \<Rightarrow> (None, None, False)
     | Some cn \<Rightarrow> if \<not> has_fn then (Some cn, None, False)
         else let (cn', i) = Subscriber cn in (Some cn', Some i, True))"

datatype turn = Blocked | Ended | Called

definition listener_turn :: "ctx \<Rightarrow> bool \<Rightarrow> nat \<Rightarrow> ChangeNotifier \<Rightarrow> ChangeNotifier \<times> turn" where
  "listener_turn c pick i cn = (case chan_receive i (cn_chans cn) of
       None \<Rightarrow> (cn, if c = None then Blocked else Ended)
     | Some (cs, ok) \<Rightarrow> if c \<noteq> None \<and> \<not> pick then (cn, Ended)
         else (cn\<lparr>cn_chans := cs\<rparr>, if ok then Called else Ended))"

text \<open>A listener among other users of the notifier: \<open>owed\<close> says whether the set changed since the callback last ran.\<close>

inductive listening :: "nat \<Rightarrow> ChangeNotifier \<Rightarrow> nat list \<Rightarrow> bool \<Rightarrow> bool" where
  registered: "cn_reach (Running cn q) \<Longrightarrow> change_Register (Some cn) True = (Some cn', Some i, True) \<Longrightarrow> listening i cn' q False"
| change: "listening i cn q owed \<Longrightarrow> Notify cn = Some cn' \<Longrightarrow> listening i cn' q (owed \<or> \<not> cn_closed cn)"
| subscribe: "listening i cn q owed \<Longrightarrow> Subscriber cn = (cn', j) \<Longrightarrow> listening i cn' q owed"
| close: "listening i cn q owed \<Longrightarrow> Close cn = (cn', is) \<Longrightarrow> listening i cn' (q @ is) owed"
| close_one: "listening i cn (j # q) owed \<Longrightarrow> close_chan j cn = Some cn' \<Longrightarrow> listening i cn' q owed"
| other_receives: "listening i cn q owed \<Longrightarrow> chan_receive j (cn_chans cn) = Some (cs, b) \<Longrightarrow> j \<noteq> i \<Longrightarrow> listening i (cn\<lparr>cn_chans := cs\<rparr>) q owed"
| called: "listening i cn q owed \<Longrightarrow> listener_turn None pick i cn = (cn', Called) \<Longrightarrow> listening i cn' q False"

lemma nth_update_at: "j < length cs \<Longrightarrow> cs[a := x] ! j = (if a = j then x else cs ! j)"
  by simp

lemma send_all_full:
  "send_all is cs = Some cs' \<Longrightarrow> length cs' = length cs \<and>
     (\<forall>j < length cs. ch_full (cs' ! j) = (ch_full (cs ! j) \<or> j \<in> set is))"
proof (induction "is" arbitrary: cs)
  case (Cons a as)
  let ?cs = "cs[a := (cs ! a)\<lparr>ch_full := True\<rparr>]"
  have "send_all as ?cs = Some cs'" using Cons.prems by (auto simp: chan_send_def split: if_splits)
  from Cons.IH [OF this] show ?case by (auto simp: nth_update_at)
qed simp

lemma listening_inv:
  "listening i cn q owed \<Longrightarrow> i < length (cn_chans cn) \<and> (\<not> cn_closed cn \<longrightarrow> i \<in> set (cn_subscribers cn)) \<and> ch_full (cn_chans cn ! i) = owed"
proof (induction rule: listening.induct)
  case (registered cn q cn' i)
  then have "Subscriber cn = (cn', i)" by (auto simp: change_Register_def split: prod.splits)
  then show ?case by (auto simp: Subscriber_def Let_def split: if_splits)
next
  case (change i cn q owed cn')
  then show ?case using send_all_full by (fastforce simp: Notify_def split: if_splits)
next
  case (other_receives i cn q owed j cs b)
  then show ?case by (auto simp: chan_receive_def nth_list_update split: if_splits)
next
  case (called i cn q owed pick cn')
  then show ?case by (auto simp: listener_turn_def chan_receive_def split: if_splits option.splits)
qed (auto simp: Subscriber_def Close_def close_chan_def Let_def nth_append nth_update_at split: if_splits)

text \<open>C34: a registered listener misses no change. However notifications, other subscribers, other listeners and closing interleave,
  after a change the listener's next turn calls its callback (even when the notifier was closed meanwhile), and without a change
  it never does.\<close>

theorem change_reaches_listener:
  assumes "listening i cn q owed"
  shows "(snd (listener_turn None pick i cn) = Called \<longleftrightarrow> owed) \<and>
    (owed \<longrightarrow> listening i (fst (listener_turn None pick i cn)) q False)"
proof -
  have "ch_full (cn_chans cn ! i) = owed" using listening_inv [OF assms] by simp
  then have c: "snd (listener_turn None pick i cn) = Called \<longleftrightarrow> owed"
    by (auto simp: listener_turn_def chan_receive_def)
  have "listening i (fst (listener_turn None pick i cn)) q False" if owed
    by (rule listening.called [OF assms, of pick]) (use c that in \<open>simp add: prod_eq_iff\<close>)
  with c show ?thesis by blast
qed

theorem change_reaches_listener_witness:
  "let cn1 = fst (Subscriber cn_zero); cn2 = the (Notify cn1); cn3 = fst (Close cn2) in
   snd (listener_turn None True 0 cn1) \<noteq> Called \<and> snd (listener_turn None True 0 cn3) = Called"
proof -
  define cn1 where "cn1 = fst (Subscriber cn_zero)"
  define cn2 where "cn2 = the (Notify cn1)"
  define cn3 where "cn3 = fst (Close cn2)"
  have s1: "listening 0 cn1 [] False"
    by (rule listening.registered [OF cn_reach.init]) (simp add: change_Register_def cn1_def Subscriber_def cn_zero_def Let_def)
  have n: "Notify cn1 = Some cn2" "\<not> cn_closed cn1"
    by (simp_all add: cn2_def cn1_def Subscriber_def cn_zero_def Let_def Notify_def chan_send_def)
  have s2: "listening 0 cn2 [] True" using listening.change [OF s1 n(1)] n(2) by simp
  have "Close cn2 = (cn3, snd (Close cn2))" by (simp add: cn3_def)
  from listening.close [OF s2 this] have s3: "listening 0 cn3 (snd (Close cn2)) True" by simp
  show ?thesis
    using change_reaches_listener [OF s1, of True] change_reaches_listener [OF s3, of True]
    unfolding Let_def cn1_def [symmetric] cn2_def [symmetric] cn3_def [symmetric] by simp
qed

subsection \<open>Progress\<close>

text \<open>A context as far as it carries a progress reporter.\<close>

type_synonym progress_ctx = "(string \<Rightarrow> string \<Rightarrow> go_error option) option"

definition WithProgressReporter :: "progress_ctx \<Rightarrow> (string \<Rightarrow> string \<Rightarrow> go_error option) option \<Rightarrow> progress_ctx" where
  "WithProgressReporter c pr = (case pr of None \<Rightarrow> c | Some r \<Rightarrow> Some r)"

definition ProgressFrom :: "progress_ctx \<Rightarrow> (string \<Rightarrow> string \<Rightarrow> go_error option) option" where
  "ProgressFrom c = c"

text \<open>The report that is made, if any, and whether one was attempted.\<close>

definition ReportProgress :: "progress_ctx \<Rightarrow> string \<Rightarrow> string \<Rightarrow> go_error option option \<times> bool" where
  "ReportProgress c progress tot = (case ProgressFrom c of Some report \<Rightarrow> (Some (report progress tot), True) | None \<Rightarrow> (None, False))"

end
