(* ===== verification/Projection.thy ===== *)
theory Projection
  imports TypedTools ElicitStructs
begin

section \<open>Projecting types into elicitation schemas (internal/elicitation/projection.go, internal/validation/elicitation.go)\<close>

text \<open>
  A second way from a struct type to an elicitation schema, through the schema that invopop/jsonschema reflects for named types
  and by hand for anonymous ones, with the decoder that belongs to it. The reflector (\<open>reflect\<close>), \<open>strconv.ParseFloat\<close>
  (\<open>pf\<close>) and the order in which a map of fields is walked (\<open>ord\<close>) are arguments. Types, fields and values are those of
  \<open>Elicitation\<close>. \<open>None\<close> of an operation is a panic.
\<close>

datatype rtype = RStruct stype | RPointer rtype | RKind string

record fieldMeta =
  fm_Name :: string
  fm_Index :: nat
  fm_Required :: bool
  fm_Kind :: kind
  fm_EnumSet :: "string list option"
  fm_Min :: "rat option"
  fm_Max :: "rat option"
  fm_IsPointer :: bool

text \<open>The protocol's schema, with numbers as values; \<open>ClientCalls\<close> has its form on the wire.\<close>

record primitive =
  pr_Type :: string
  pr_Description :: string
  pr_Minimum :: rat
  pr_Maximum :: rat
  pr_Enum :: "any list"

record elicit_schema =
  el_Type :: string
  el_Properties :: "(string, primitive) gomap"
  el_Required :: "string list"

record cachedProjection =
  cp_schema :: elicit_schema
  cp_fields :: "fieldMeta list"

subsection \<open>Validation of a schema\<close>

fun dedup_required :: "(string, primitive) gomap \<Rightarrow> string list \<Rightarrow> string list \<Rightarrow> go_error + string list" where
  "dedup_required props [] req = Inr req"
| "dedup_required props (n # ns) req =
     (if mget props n = None then Inl (ErrText (''required property missing: '' @ n))
      else dedup_required props ns (if n \<in> set req then req else req @ [n]))"

fun hashable :: "any \<Rightarrow> bool" where
  "hashable (GStrs _) = False"
| "hashable (GOther _) = False"
| "hashable _ = True"

fun validate_props :: "(string \<times> primitive) list \<Rightarrow> go_error option option" where
  "validate_props [] = Some None"
| "validate_props ((n, p) # ps) =
     (if pr_Type p = [] then Some (Some (ErrText (''property '' @ n @ '' missing type'')))
      else if pr_Minimum p \<noteq> 0 \<and> pr_Maximum p \<noteq> 0 \<and> pr_Minimum p > pr_Maximum p
        then Some (Some (ErrText (''property '' @ n @ '' minimum greater than maximum'')))
      else if length (pr_Enum p) > 1 then
        (if \<not> list_all hashable (pr_Enum p) then None
         else if length (remdups (pr_Enum p)) \<noteq> length (pr_Enum p)
           then Some (Some (ErrText (''duplicate enum values for property '' @ n)))
         else validate_props ps)
      else validate_props ps)"

text \<open>The schema may have been normalised when an error is returned; the caller that gets one discards it.\<close>

definition validate_schema :: "elicit_schema option \<Rightarrow> (go_error + elicit_schema) option" where
  "validate_schema s = (case s of
       None \<Rightarrow> Some (Inl (ErrText ''nil schema''))
     | Some s \<Rightarrow>
         if el_Type s \<noteq> ''object'' then Some (Inl (ErrText ''elicitation schema type must be object''))
         else if el_Properties s = [] then Some (Inl (ErrText ''elicitation schema requires at least one property''))
         else case dedup_required (el_Properties s) (el_Required s) [] of
             Inl e \<Rightarrow> Some (Inl e)
           | Inr req \<Rightarrow> (case validate_props (el_Properties s) of
               None \<Rightarrow> None
             | Some (Some e) \<Rightarrow> Some (Inl e)
             | Some None \<Rightarrow> Some (Inr (s\<lparr>el_Required := req\<rparr>))))"

subsection \<open>Fields\<close>

definition parseJSONName :: "sfield \<Rightarrow> string \<times> bool" where
  "parseJSONName f = (if sf_json f = [] then ([], False)
     else let parts = Split (sf_json f) CHR '','' in (hd parts, ''omitempty'' \<in> set (tl parts)))"

fun lowerFirstExported :: "string \<Rightarrow> string" where
  "lowerFirstExported [] = []"
| "lowerFirstExported (c # cs) = lower_char c # cs"

fun field_table :: "nat \<Rightarrow> sfield list \<Rightarrow> (string, nat) gomap \<Rightarrow> (string, nat) gomap" where
  "field_table i [] m = m"
| "field_table i (f # fs) m =
     (let name = fst (parseJSONName f) in
      if \<not> sf_exported f \<or> name = ''-'' then field_table (Suc i) fs m
      else field_table (Suc i) fs (mput (if name = [] then lowerFirstExported (sf_Name f) else name) i m))"

fun kind_text :: "kind \<Rightarrow> string" where
  "kind_text KString = ''string''"
| "kind_text KBool = ''bool''"
| "kind_text (KInt w) = ''int''"
| "kind_text (KUint w) = ''uint''"
| "kind_text KFloat32 = ''float32''"
| "kind_text KFloat64 = ''float64''"
| "kind_text KOther = ''other''"

fun number_kind :: "kind \<Rightarrow> bool" where
  "number_kind (KInt _) = True"
| "number_kind (KUint _) = True"
| "number_kind KFloat32 = True"
| "number_kind KFloat64 = True"
| "number_kind _ = False"

definition mapSchemaTypeToProtocol :: "string \<Rightarrow> kind \<Rightarrow> string option" where
  "mapSchemaTypeToProtocol vType k =
     (if vType = ''string'' then (if k = KString then Some ''string'' else None)
      else if vType = ''integer'' \<or> vType = ''number'' then (if number_kind k then Some ''number'' else None)
      else if vType = ''boolean'' then (if k = KBool then Some ''boolean'' else None)
      else None)"

subsection \<open>Anonymous types\<close>

definition anon_tag_part :: "(string \<Rightarrow> rat option) \<Rightarrow> string \<Rightarrow> primitive \<Rightarrow> primitive" where
  "anon_tag_part pf p ps =
     (if CHR ''='' \<notin> set p then ps
      else let k = takeWhile (\<lambda>c. c \<noteq> CHR ''='') p; v = drop 1 (dropWhile (\<lambda>c. c \<noteq> CHR ''='') p) in
        if k = ''description'' then ps\<lparr>pr_Description := v\<rparr>
        else if k = ''minimum'' then (case pf v of Some f \<Rightarrow> ps\<lparr>pr_Minimum := f\<rparr> | None \<Rightarrow> ps)
        else if k = ''maximum'' then (case pf v of Some f \<Rightarrow> ps\<lparr>pr_Maximum := f\<rparr> | None \<Rightarrow> ps)
        else ps)"

definition anon_type :: "kind \<Rightarrow> string option" where
  "anon_type k = (if k = KString then Some ''string'' else if k = KBool then Some ''boolean'' else if number_kind k then Some ''number'' else None)"

definition anon_field :: "(string \<Rightarrow> rat option) \<Rightarrow> sfield list \<Rightarrow> string \<times> nat \<Rightarrow> go_error + primitive \<times> fieldMeta" where
  "anon_field pf fs ni = (case ni of (name, i) \<Rightarrow> let sf = fs ! i in
     (case anon_type (sf_kind sf) of
       None \<Rightarrow> Inl (ErrText (''elicitation: unsupported field kind '' @ kind_text (sf_kind sf)))
     | Some typ \<Rightarrow>
         let ps0 = \<lparr>pr_Type = typ, pr_Description = [], pr_Minimum = 0, pr_Maximum = 0, pr_Enum = []\<rparr>;
             ps = (if sf_jsonschema sf \<noteq> [] then foldl (\<lambda>ps p. anon_tag_part pf p ps) ps0 (Split (sf_jsonschema sf) CHR '','') else ps0)
         in Inr (ps, \<lparr>fm_Name = name, fm_Index = i, fm_Required = \<not> sf_ptr sf, fm_Kind = sf_kind sf, fm_EnumSet = None,
              fm_Min = (if pr_Minimum ps \<noteq> 0 then Some (pr_Minimum ps) else None),
              fm_Max = (if pr_Maximum ps \<noteq> 0 then Some (pr_Maximum ps) else None), fm_IsPointer = sf_ptr sf\<rparr>)))"

subsection \<open>Named types\<close>

fun enum_strings :: "json list \<Rightarrow> string list option" where
  "enum_strings [] = Some []"
| "enum_strings (JStr s # js) = map_option (Cons s) (enum_strings js)"
| "enum_strings (_ # js) = None"

definition bound_of :: "(string \<Rightarrow> rat option) \<Rightarrow> string \<Rightarrow> rat option" where
  "bound_of pf t = (if t \<noteq> [] then pf t else None)"

definition unsupported :: "string \<Rightarrow> js_schema \<Rightarrow> go_error option" where
  "unsupported name v = (let kw = js_kw v in
     if js_Type kw = ''object'' \<or> js_Type kw = ''array'' \<or> js_Ref kw \<noteq> [] \<or> js_AllOf v \<noteq> [] \<or> js_AnyOf v \<noteq> [] \<or> js_OneOf v \<noteq> [] \<or> js_Not v \<noteq> None
       then Some (ErrText (''elicitation: unsupported schema feature on field '' @ name))
     else if js_Items v \<noteq> None \<or> js_AdditionalProperties v \<noteq> None
       then Some (ErrText (''elicitation: complex collection feature on field '' @ name))
     else if js_Pattern kw \<noteq> [] \<or> js_Format kw \<noteq> [] \<or> js_Examples kw \<noteq> [] \<or> js_Default kw \<noteq> None \<or> js_ContentEncoding kw \<noteq> [] \<or> js_ContentMediaType kw \<noteq> []
       then Some (ErrText (''elicitation: unsupported supplemental keyword on field '' @ name))
     else None)"

definition named_enum :: "string \<Rightarrow> string \<Rightarrow> json list \<Rightarrow> go_error + string list" where
  "named_enum name typ vs =
     (if vs \<noteq> [] \<and> typ \<noteq> ''string'' then Inl (ErrText (''elicitation: enum only on string ('' @ name @ '')''))
      else case enum_strings vs of
          None \<Rightarrow> Inl (ErrText (''elicitation: non-string enum value field '' @ name))
        | Some enum \<Rightarrow> Inr enum)"

definition named_field :: "(string \<Rightarrow> rat option) \<Rightarrow> (string, nat) gomap \<Rightarrow> sfield list \<Rightarrow> string list \<Rightarrow> string \<times> js_schema option \<Rightarrow> go_error + primitive \<times> fieldMeta" where
  "named_field pf tbl fs required nv = (case nv of (name, None) \<Rightarrow> Inl (ErrText (''elicitation: nil property schema for '' @ name))
     | (name, Some v) \<Rightarrow> (case unsupported name v of
         Some e \<Rightarrow> Inl e
       | None \<Rightarrow> (case mget tbl name of
           None \<Rightarrow> Inl (ErrText (''elicitation: property '' @ name @ '' not matched to struct field''))
         | Some i \<Rightarrow> (case mapSchemaTypeToProtocol (js_Type (js_kw v)) (sf_kind (fs ! i)) of
             None \<Rightarrow> Inl (ErrText (''elicitation: unsupported type mapping for field '' @ name))
           | Some typ \<Rightarrow> (case named_enum name typ (js_Enum (js_kw v)) of
               Inl e \<Rightarrow> Inl e
             | Inr enum \<Rightarrow>
                 (let mi = bound_of pf (js_Minimum (js_kw v)); ma = bound_of pf (js_Maximum (js_kw v)) in
                  Inr (\<lparr>pr_Type = typ, pr_Description = js_Description (js_kw v), pr_Minimum = (case mi of Some f \<Rightarrow> f | None \<Rightarrow> 0),
                         pr_Maximum = (case ma of Some f \<Rightarrow> f | None \<Rightarrow> 0), pr_Enum = map GStr enum\<rparr>,
                       \<lparr>fm_Name = name, fm_Index = i, fm_Required = (name \<in> set required \<and> \<not> sf_ptr (fs ! i)), fm_Kind = sf_kind (fs ! i),
                         fm_EnumSet = (if enum \<noteq> [] then Some enum else None), fm_Min = mi, fm_Max = ma, fm_IsPointer = sf_ptr (fs ! i)\<rparr>)))))))"

subsection \<open>The projection\<close>

fun project_loop :: "('e \<Rightarrow> go_error + primitive \<times> fieldMeta) \<Rightarrow> 'e list \<Rightarrow> elicit_schema \<times> fieldMeta list \<Rightarrow> go_error + elicit_schema \<times> fieldMeta list" where
  "project_loop f [] acc = Inr acc"
| "project_loop f (e # es) (out, metas) = (case f e of
       Inl err \<Rightarrow> Inl err
     | Inr (ps, fm) \<Rightarrow> project_loop f es (out\<lparr>el_Properties := mput (fm_Name fm) ps (el_Properties out),
         el_Required := (if fm_Required fm then el_Required out @ [fm_Name fm] else el_Required out)\<rparr>, metas @ [fm]))"

definition project_fields :: "(string \<Rightarrow> rat option) \<Rightarrow> (stype \<Rightarrow> js_schema option) \<Rightarrow> ((string, nat) gomap \<Rightarrow> (string, nat) gomap) \<Rightarrow> stype \<Rightarrow>
    go_error + elicit_schema \<times> fieldMeta list" where
  "project_fields pf reflect ord t =
     (let tbl = field_table 0 (st_fields t) []; out = \<lparr>el_Type = ''object'', el_Properties = [], el_Required = []\<rparr> in
      if st_name t = [] then project_loop (anon_field pf (st_fields t)) (ord tbl) (out, [])
      else (case reflect t of
          None \<Rightarrow> Inl (ErrText ''elicitation: projected root not object'')
        | Some rt \<Rightarrow>
            if js_Type (js_kw rt) \<noteq> ''object'' then Inl (ErrText ''elicitation: projected root not object'')
            else (case js_Properties rt of
                None \<Rightarrow> Inr (out, [])
              | Some ps \<Rightarrow> project_loop (named_field pf tbl (st_fields t) (js_Required (js_kw rt))) ps (out, []))))"

type_synonym proj_cache = "(stype, cachedProjection) gomap"

definition project :: "(string \<Rightarrow> rat option) \<Rightarrow> (stype \<Rightarrow> js_schema option) \<Rightarrow> ((string, nat) gomap \<Rightarrow> (string, nat) gomap) \<Rightarrow> proj_cache \<Rightarrow> rtype \<Rightarrow>
    (proj_cache \<times> (go_error + cachedProjection)) option" where
  "project pf reflect ord cache ty = (case (case ty of RPointer u \<Rightarrow> u | _ \<Rightarrow> ty) of
       RPointer _ \<Rightarrow> Some (cache, Inl (ErrText ''elicitation: type must be struct kind, got ptr''))
     | RKind k \<Rightarrow> Some (cache, Inl (ErrText (''elicitation: type must be struct kind, got '' @ k)))
     | RStruct t \<Rightarrow> (case (if st_name t \<noteq> [] then mget cache t else None) of
           Some cp \<Rightarrow> Some (cache, Inr cp)
         | None \<Rightarrow> (case project_fields pf reflect ord t of
               Inl e \<Rightarrow> Some (cache, Inl e)
             | Inr (out, metas) \<Rightarrow>
                 if el_Properties out = [] then Some (cache, Inl (ErrText ''elicitation: struct has no exported fields''))
                 else (case validate_schema (Some out) of
                     None \<Rightarrow> None
                   | Some (Inl e) \<Rightarrow> Some (cache, Inl e)
                   | Some (Inr out') \<Rightarrow> let cp = \<lparr>cp_schema = out', cp_fields = metas\<rparr>
                       in Some (if st_name t \<noteq> [] then mput t cp cache else cache, Inr cp)))))"

definition ProjectSchema :: "(string \<Rightarrow> rat option) \<Rightarrow> (stype \<Rightarrow> js_schema option) \<Rightarrow> ((string, nat) gomap \<Rightarrow> (string, nat) gomap) \<Rightarrow> proj_cache \<Rightarrow> rtype \<Rightarrow>
    (proj_cache \<times> (go_error + elicit_schema \<times> cachedProjection)) option" where
  "ProjectSchema pf reflect ord cache ty = (case project pf reflect ord cache ty of
       None \<Rightarrow> None
     | Some (cache', Inl e) \<Rightarrow> Some (cache', Inl e)
     | Some (cache', Inr cp) \<Rightarrow> Some (cache', Inr (cp_schema cp, cp)))"

subsection \<open>Decoding\<close>

fun toFloat :: "any \<Rightarrow> rat option" where
  "toFloat (GNum f) = Some f"
| "toFloat (GInt n) = Some (of_int (f64_round n))"
| "toFloat _ = None"

definition checkBounds :: "string \<Rightarrow> rat \<Rightarrow> rat option \<Rightarrow> rat option \<Rightarrow> go_error option" where
  "checkBounds name v mi ma =
     (if below_min v mi then Some (ErrText (''elicitation: field '' @ name @ '' below minimum''))
      else if above_max v ma then Some (ErrText (''elicitation: field '' @ name @ '' above maximum''))
      else None)"

text \<open>The value to store for a field, by its kind.\<close>

definition coerce :: "float_lib \<Rightarrow> fieldMeta \<Rightarrow> any \<Rightarrow> go_error + fval" where
  "coerce fl fm val =
     (let err = (\<lambda>t. Inl (ErrText (''elicitation: field '' @ fm_Name fm @ t)));
          num = (\<lambda>f. case checkBounds (fm_Name fm) f (fm_Min fm) (fm_Max fm) of
                   Some e \<Rightarrow> Inl e
                 | None \<Rightarrow> Inr (set_number fl (fm_Kind fm) f (zero_val (fm_Kind fm)))) in
      case fm_Kind fm of
        KString \<Rightarrow> (case val of
            GStr s \<Rightarrow> (case fm_EnumSet fm of
                None \<Rightarrow> Inr (FStr s)
              | Some es \<Rightarrow> if s \<in> set es then Inr (FStr s) else err '' enum mismatch'')
          | _ \<Rightarrow> err '' expected string'')
      | KBool \<Rightarrow> (case val of GBool b \<Rightarrow> Inr (FBool b) | _ \<Rightarrow> err '' expected boolean'')
      | KUint w \<Rightarrow> (case toFloat val of
            None \<Rightarrow> err '' expected non-negative number''
          | Some f \<Rightarrow> if f < 0 then err '' expected non-negative number'' else num f)
      | KOther \<Rightarrow> Inl (ErrText (''elicitation: unsupported field kind '' @ kind_text (fm_Kind fm)))
      | _ \<Rightarrow> (case toFloat val of None \<Rightarrow> err '' expected number'' | Some f \<Rightarrow> num f))"

text \<open>One field: a nil pointer is allocated first, a null changes nothing else.\<close>

definition decode_field :: "float_lib \<Rightarrow> fieldMeta \<Rightarrow> any \<Rightarrow> cell \<Rightarrow> cell \<times> go_error option" where
  "decode_field fl fm val c =
     (let c1 = (if fm_IsPointer fm \<and> c = None then Some (zero_val (fm_Kind fm)) else c) in
      if val = GNil then (c1, if fm_Required fm then Some (ErrText (''elicitation: required field '' @ fm_Name fm @ '' is null'')) else None)
      else case coerce fl fm val of Inl e \<Rightarrow> (c1, Some e) | Inr v \<Rightarrow> (Some v, None))"

text \<open>The loop over the answer on the fields of the target; a target whose field is of another type is a panic.\<close>

fun decode_loop :: "float_lib \<Rightarrow> sfield list \<Rightarrow> (string, fieldMeta) gomap \<Rightarrow> (string, any) gomap \<Rightarrow> cell list \<Rightarrow> string list \<Rightarrow>
    (cell list \<times> (go_error + string list)) option" where
  "decode_loop fl fs flds [] cells seen = Some (cells, Inr seen)"
| "decode_loop fl fs flds ((name, val) # m) cells seen = (case mget flds name of
       None \<Rightarrow> decode_loop fl fs flds m cells seen
     | Some fm \<Rightarrow>
         if \<not> (fm_Index fm < length fs \<and> sf_kind (fs ! fm_Index fm) = fm_Kind fm \<and> sf_ptr (fs ! fm_Index fm) = fm_IsPointer fm) then None
         else (case decode_field fl fm val (cells ! fm_Index fm) of
             (c, Some e) \<Rightarrow> Some (cells[fm_Index fm := c], Inl e)
           | (c, None) \<Rightarrow> decode_loop fl fs flds m (cells[fm_Index fm := c]) (name # seen)))"

fun missing_field :: "fieldMeta list \<Rightarrow> string list \<Rightarrow> go_error option" where
  "missing_field [] seen = None"
| "missing_field (fm # fms) seen =
     (if fm_Required fm \<and> fm_Name fm \<notin> set seen then Some (ErrText (''elicitation: missing required field '' @ fm_Name fm)) else missing_field fms seen)"

text \<open>The answer: a map, possibly nil, or another value with what encoding it gives and what decoding that as a map gives.\<close>

datatype raw_answer = RawMap "(string, any) gomap option" | RawOther "go_error + go_error + (string, any) gomap option"

fun coerce_answer :: "raw_answer \<Rightarrow> go_error + (string, any) gomap" where
  "coerce_answer (RawMap None) = Inl (ErrText ''elicitation: response content not an object'')"
| "coerce_answer (RawMap (Some m)) = Inr m"
| "coerce_answer (RawOther (Inl e)) = Inl (Wrapped ''elicitation: cannot coerce response'' e)"
| "coerce_answer (RawOther (Inr (Inl e))) = Inl (Wrapped ''elicitation: cannot parse response'' e)"
| "coerce_answer (RawOther (Inr (Inr None))) = Inl (ErrText ''elicitation: response content not an object'')"
| "coerce_answer (RawOther (Inr (Inr (Some m)))) = Inr m"

definition fieldByName :: "fieldMeta list \<Rightarrow> (string, fieldMeta) gomap" where
  "fieldByName fms = foldl (\<lambda>m fm. mput (fm_Name fm) fm m) [] fms"

definition decodeInto :: "float_lib \<Rightarrow> cachedProjection \<Rightarrow> struct_ptr option \<Rightarrow> raw_answer \<Rightarrow> bool \<Rightarrow> struct_store \<Rightarrow> (struct_store \<times> go_error option) option" where
  "decodeInto fl cp ptr raw strict store = (case ptr of
       None \<Rightarrow> Some (store, Some (ErrText ''elicitation: decode target nil''))
     | Some NotPtr \<Rightarrow> Some (store, Some (ErrText ''elicitation: decode target must be non-nil pointer''))
     | Some PtrToOther \<Rightarrow> Some (store, Some (ErrText ''elicitation: decode target must point to struct''))
     | Some (StructAt i) \<Rightarrow> (case coerce_answer raw of
           Inl e \<Rightarrow> Some (store, Some e)
         | Inr m \<Rightarrow>
             let flds = fieldByName (cp_fields cp); obj = store ! i in
             (case filter (\<lambda>(k, v). strict \<and> mget flds k = None) m of
               (k, v) # _ \<Rightarrow> Some (store, Some (ErrText (''elicitation: unknown field '' @ k @ '' in response'')))
             | [] \<Rightarrow> (case decode_loop fl (st_fields (so_type obj)) flds m (so_cells obj) [] of
                   None \<Rightarrow> None
                 | Some (cells, r) \<Rightarrow> Some (store[i := obj\<lparr>so_cells := cells\<rparr>],
                     (case r of Inl e \<Rightarrow> Some e | Inr seen \<Rightarrow> missing_field (cp_fields cp) seen))))))"

definition DecodeForTyped :: "float_lib \<Rightarrow> cachedProjection \<Rightarrow> struct_ptr option \<Rightarrow> raw_answer \<Rightarrow> bool \<Rightarrow> struct_store \<Rightarrow> (struct_store \<times> go_error option) option" where
  "DecodeForTyped = decodeInto"

subsection \<open>What a projection knows of its type\<close>

definition table_name :: "sfield \<Rightarrow> string option" where
  "table_name f = (let name = fst (parseJSONName f) in
     if \<not> sf_exported f \<or> name = ''-'' then None else Some (if name = [] then lowerFirstExported (sf_Name f) else name))"

lemma field_table_sound:
  "mget (field_table i fs m) n = Some k \<Longrightarrow> mget m n = Some k \<or> (\<exists>j < length fs. k = i + j \<and> table_name (fs ! j) = Some n)"
proof (induction i fs m rule: field_table.induct)
  case (2 i f fs m)
  let ?m = "case table_name f of None \<Rightarrow> m | Some name \<Rightarrow> mput name i m"
  have "field_table i (f # fs) m = field_table (Suc i) fs ?m" by (simp add: table_name_def Let_def)
  with 2 consider "mget ?m n = Some k" | j where "j < length fs" "k = Suc i + j" "table_name (fs ! j) = Some n"
    by (auto simp: table_name_def Let_def split: if_splits)
  then show ?case
  proof cases
    case 1
    then show ?thesis by (auto split: option.splits if_splits)
  next
    case (2 j)
    then show ?thesis by (intro disjI2 exI [of _ "Suc j"]) simp
  qed
qed simp

lemma field_table_wf: "wf_map m \<Longrightarrow> wf_map (field_table i fs m)"
  by (induction i fs m rule: field_table.induct) (simp_all add: Let_def)

definition meta_of :: "sfield list \<Rightarrow> primitive \<Rightarrow> fieldMeta \<Rightarrow> bool" where
  "meta_of fs ps fm \<longleftrightarrow> fm_Index fm < length fs \<and> table_name (fs ! fm_Index fm) = Some (fm_Name fm) \<and>
     sf_kind (fs ! fm_Index fm) = fm_Kind fm \<and> sf_ptr (fs ! fm_Index fm) = fm_IsPointer fm \<and>
     anon_type (fm_Kind fm) = Some (pr_Type ps) \<and>
     pr_Enum ps = (case fm_EnumSet fm of None \<Rightarrow> [] | Some es \<Rightarrow> map GStr es) \<and>
     (pr_Minimum ps \<noteq> 0 \<longrightarrow> fm_Min fm = Some (pr_Minimum ps)) \<and> (pr_Maximum ps \<noteq> 0 \<longrightarrow> fm_Max fm = Some (pr_Maximum ps))"

lemma anon_tags_keep: "pr_Type (foldl (\<lambda>ps p. anon_tag_part pf p ps) ps0 parts) = pr_Type ps0 \<and> pr_Enum (foldl (\<lambda>ps p. anon_tag_part pf p ps) ps0 parts) = pr_Enum ps0"
  by (induction parts arbitrary: ps0) (simp_all add: anon_tag_part_def Let_def split: option.split)

lemma anon_field_meta:
  assumes "anon_field pf fs (n, i) = Inr (ps, fm)" and "mget (field_table 0 fs []) n = Some i"
  shows "fm_Name fm = n \<and> meta_of fs ps fm"
proof -
  have "i < length fs" "table_name (fs ! i) = Some n" using field_table_sound [OF assms(2)] by auto
  with assms(1) show ?thesis
    by (auto simp: anon_field_def meta_of_def Let_def anon_tags_keep split: option.splits if_splits)
qed

lemma mapSchemaType_anon: "mapSchemaTypeToProtocol v k = Some typ \<Longrightarrow> anon_type k = Some typ"
  by (cases k) (auto simp: mapSchemaTypeToProtocol_def anon_type_def split: if_splits)

lemma named_field_meta:
  assumes "named_field pf (field_table 0 fs []) fs req (n, v) = Inr (ps, fm)"
  shows "fm_Name fm = n \<and> meta_of fs ps fm"
proof -
  from assms obtain v' i ty enum where v: "v = Some v'" and i: "mget (field_table 0 fs []) n = Some i"
    and t: "mapSchemaTypeToProtocol (js_Type (js_kw v')) (sf_kind (fs ! i)) = Some ty"
    and e: "named_enum n ty (js_Enum (js_kw v')) = Inr enum" and u: "unsupported n v' = None"
    unfolding named_field_def by (simp split: option.split_asm sum.split_asm)
  have "i < length fs" "table_name (fs ! i) = Some n" using field_table_sound [OF i] by auto
  moreover have "fm_Name fm = n" "fm_Index fm = i" "fm_Kind fm = sf_kind (fs ! i)" "fm_IsPointer fm = sf_ptr (fs ! i)" "pr_Type ps = ty"
      "pr_Enum ps = map GStr enum" "fm_EnumSet fm = (if enum \<noteq> [] then Some enum else None)"
      "pr_Minimum ps = (case fm_Min fm of Some f \<Rightarrow> f | None \<Rightarrow> 0)" "pr_Maximum ps = (case fm_Max fm of Some f \<Rightarrow> f | None \<Rightarrow> 0)"
    using assms v i t e u by (auto simp: named_field_def Let_def)
  ultimately show ?thesis
    using mapSchemaType_anon [OF t] by (auto simp: meta_of_def split: option.splits)
qed

definition projected :: "sfield list \<Rightarrow> elicit_schema \<times> fieldMeta list \<Rightarrow> bool" where
  "projected fs om \<longleftrightarrow> (case om of (out, metas) \<Rightarrow> el_Type out = ''object'' \<and> wf_map (el_Properties out) \<and> distinct (map fm_Name metas) \<and>
     set (mkeys (el_Properties out)) = fm_Name ` set metas \<and> el_Required out = map fm_Name (filter fm_Required metas) \<and>
     (\<forall>fm \<in> set metas. \<exists>ps. mget (el_Properties out) (fm_Name fm) = Some ps \<and> meta_of fs ps fm))"

lemma project_loop_sound:
  assumes "project_loop f es (out, metas) = Inr om" and "distinct (map nm es)" and "projected fs (out, metas)"
    and "\<forall>e \<in> set es. nm e \<notin> fm_Name ` set metas"
    and "\<forall>e \<in> set es. \<forall>ps fm. f e = Inr (ps, fm) \<longrightarrow> fm_Name fm = nm e \<and> meta_of fs ps fm"
  shows "projected fs om"
  using assms
proof (induction es arbitrary: out metas)
  case Nil
  then show ?case by simp
next
  case (Cons e es)
  obtain ps fm where e: "f e = Inr (ps, fm)" using Cons.prems(1) by (auto split: sum.splits)
  have fm: "fm_Name fm = nm e" "meta_of fs ps fm" using Cons.prems(5) e by auto
  let ?out = "out\<lparr>el_Properties := mput (fm_Name fm) ps (el_Properties out),
         el_Required := (if fm_Required fm then el_Required out @ [fm_Name fm] else el_Required out)\<rparr>"
  have "set (mkeys (mput (fm_Name fm) ps (el_Properties out))) = insert (fm_Name fm) (set (mkeys (el_Properties out)))" by simp
  moreover have "mget (mput (fm_Name fm) ps (el_Properties out)) (fm_Name fm') = mget (el_Properties out) (fm_Name fm')" if "fm' \<in> set metas" for fm'
  proof -
    have "fm_Name fm' \<noteq> nm e" using that Cons.prems(4) by (metis image_eqI list.set_intros(1))
    then show ?thesis using fm(1) by simp
  qed
  ultimately have "projected fs (?out, metas @ [fm])"
    using Cons.prems(3,4) fm by (auto simp: projected_def)
  moreover have "project_loop f es (?out, metas @ [fm]) = Inr om" using Cons.prems(1) e by simp
  moreover have "\<forall>e' \<in> set es. nm e' \<notin> fm_Name ` set (metas @ [fm])" using Cons.prems(2,4) fm(1) by (auto simp: image_iff)
  ultimately show ?case using Cons.IH [of ?out "metas @ [fm]"] Cons.prems(2,5) by simp
qed

text \<open>The parameters: the reflector lists no property twice, a map is walked in some order.\<close>

definition reflector_ok :: "(stype \<Rightarrow> js_schema option) \<Rightarrow> bool" where
  "reflector_ok reflect \<longleftrightarrow> (\<forall>t rt ps. reflect t = Some rt \<and> js_Properties rt = Some ps \<longrightarrow> distinct (map fst ps))"

definition order_ok :: "((string, nat) gomap \<Rightarrow> (string, nat) gomap) \<Rightarrow> bool" where
  "order_ok ord \<longleftrightarrow> (\<forall>m. wf_map m \<longrightarrow> set (ord m) = set m \<and> distinct (map fst (ord m)))"

definition cache_projected :: "proj_cache \<Rightarrow> bool" where
  "cache_projected cache \<longleftrightarrow> (\<forall>t cp. mget cache t = Some cp \<longrightarrow> projected (st_fields t) (cp_schema cp, cp_fields cp))"

lemma project_fields_projected:
  assumes "reflector_ok reflect" and "order_ok ord" and "project_fields pf reflect ord t = Inr om"
  shows "projected (st_fields t) om"
proof -
  let ?tbl = "field_table 0 (st_fields t) []" and ?out = "\<lparr>el_Type = ''object'', el_Properties = [], el_Required = []\<rparr>"
  have init: "projected (st_fields t) (?out, [])" by (simp add: projected_def mkeys_def)
  show ?thesis
  proof (cases "st_name t = []")
    case True
    have wf: "wf_map ?tbl" by (rule field_table_wf) simp
    with assms(2) have o: "set (ord ?tbl) = set ?tbl" "distinct (map fst (ord ?tbl))" by (simp_all add: order_ok_def)
    have "project_loop (anon_field pf (st_fields t)) (ord ?tbl) (?out, []) = Inr om"
      using assms(3) True by (simp add: project_fields_def)
    then show ?thesis
      by (rule project_loop_sound [where nm = fst]) (use init o anon_field_meta wf_map_mget [OF wf] in auto)
  next
    case False
    then obtain rt where rt: "reflect t = Some rt" using assms(3) by (auto simp: project_fields_def Let_def split: option.splits)
    show ?thesis
    proof (cases "js_Properties rt")
      case None
      with assms(3) False rt init show ?thesis by (auto simp: project_fields_def Let_def split: if_splits)
    next
      case (Some ps)
      have "project_loop (named_field pf ?tbl (st_fields t) (js_Required (js_kw rt))) ps (?out, []) = Inr om"
        using assms(3) False rt Some by (auto simp: project_fields_def Let_def split: if_splits)
      moreover have "distinct (map fst ps)" using assms(1) rt Some by (auto simp: reflector_ok_def)
      ultimately show ?thesis
        by (rule project_loop_sound [where nm = fst]) (use init named_field_meta in auto)
    qed
  qed
qed

lemma dedup_distinct: "distinct (req @ ns) \<Longrightarrow> \<forall>n \<in> set ns. mget props n \<noteq> None \<Longrightarrow> dedup_required props ns req = Inr (req @ ns)"
  by (induction ns arbitrary: req) auto

lemma validate_props_runs: "\<forall>(n, p) \<in> set ps. list_all hashable (pr_Enum p) \<Longrightarrow> validate_props ps \<noteq> None"
  by (induction ps) auto

lemma projected_validates:
  assumes "projected fs (out, metas)" and "el_Properties out \<noteq> []"
  shows "\<exists>r. validate_schema (Some out) = Some r \<and> (\<forall>out'. r = Inr out' \<longrightarrow> out' = out)"
proof -
  have p: "el_Type out = ''object''" "wf_map (el_Properties out)" "distinct (map fm_Name metas)"
    "set (mkeys (el_Properties out)) = fm_Name ` set metas" "el_Required out = map fm_Name (filter fm_Required metas)"
    "\<forall>fm \<in> set metas. \<exists>ps. mget (el_Properties out) (fm_Name fm) = Some ps \<and> meta_of fs ps fm"
    using assms(1) by (simp_all add: projected_def)
  have "distinct (el_Required out)" using p(3,5) by (simp add: distinct_map_filter)
  then have d: "dedup_required (el_Properties out) (el_Required out) [] = Inr (el_Required out)"
    using dedup_distinct [of "[]" "el_Required out" "el_Properties out"] p(5,6) by fastforce
  have "list_all hashable (pr_Enum ps)" if "(n, ps) \<in> set (el_Properties out)" for n ps
  proof -
    have g: "mget (el_Properties out) n = Some ps" using that wf_map_mget [OF p(2)] by blast
    then have "n \<in> fm_Name ` set metas" unfolding p(4) [symmetric] by (simp add: mkeys_iff)
    with p(6) g obtain fm where "meta_of fs ps fm" by auto
    then show ?thesis by (auto simp: meta_of_def list_all_iff split: option.splits)
  qed
  then have "validate_props (el_Properties out) \<noteq> None" by (intro validate_props_runs) auto
  with d p(1) assms(2) show ?thesis by (auto simp: validate_schema_def split: option.splits)
qed

lemma project_projected:
  assumes "reflector_ok reflect" and "order_ok ord" and "cache_projected cache"
  shows "\<exists>cache' r. project pf reflect ord cache (RStruct t) = Some (cache', r) \<and> cache_projected cache' \<and>
    (\<forall>cp. r = Inr cp \<longrightarrow> projected (st_fields t) (cp_schema cp, cp_fields cp))"
proof (cases "if st_name t \<noteq> [] then mget cache t else None")
  case (Some cp)
  with assms(3) show ?thesis by (auto simp: project_def cache_projected_def split: if_splits)
next
  case None
  show ?thesis
  proof (cases "project_fields pf reflect ord t")
    case (Inl e)
    with None assms(3) show ?thesis by (simp add: project_def)
  next
    case (Inr om)
    obtain out metas where om: "om = (out, metas)" by (cases om)
    have p: "projected (st_fields t) (out, metas)" using project_fields_projected [OF assms(1,2) Inr] om by simp
    show ?thesis
    proof (cases "el_Properties out = []")
      case True
      with None Inr om assms(3) show ?thesis by (simp add: project_def)
    next
      case False
      from projected_validates [OF p False] obtain r where r: "validate_schema (Some out) = Some r" "\<forall>out'. r = Inr out' \<longrightarrow> out' = out" by blast
      show ?thesis
      proof (cases r)
        case (Inl e)
        with None Inr om False r assms(3) show ?thesis by (simp add: project_def)
      next
        case i: (Inr out')
        with r(2) have "out' = out" by simp
        with None Inr om False r(1) i p assms(3) show ?thesis by (auto simp: project_def Let_def cache_projected_def)
      qed
    qed
  qed
qed

subsection \<open>The decoder\<close>

definition answer_ok :: "float_lib \<Rightarrow> fieldMeta \<Rightarrow> any \<Rightarrow> bool" where
  "answer_ok fl fm v \<longleftrightarrow> (if v = GNil then \<not> fm_Required fm else \<exists>x. coerce fl fm v = Inr x)"

lemma decode_field_ok: "snd (decode_field fl fm v c) = None \<longleftrightarrow> answer_ok fl fm v"
  by (auto simp: decode_field_def answer_ok_def Let_def split: sum.splits)

text \<open>The metadata by name, for the fields of a type.\<close>

definition decodes :: "sfield list \<Rightarrow> (string, fieldMeta) gomap \<Rightarrow> bool" where
  "decodes fs flds \<longleftrightarrow> (\<forall>n fm. mget flds n = Some fm \<longrightarrow> fm_Name fm = n \<and> fm_Index fm < length fs \<and>
     table_name (fs ! fm_Index fm) = Some n \<and> sf_kind (fs ! fm_Index fm) = fm_Kind fm \<and> sf_ptr (fs ! fm_Index fm) = fm_IsPointer fm)"

lemma decodes_index: "decodes fs flds \<Longrightarrow> mget flds n = Some fm \<Longrightarrow> mget flds n' = Some fm' \<Longrightarrow> fm_Index fm = fm_Index fm' \<Longrightarrow> n = n'"
  unfolding decodes_def by (metis option.inject)

definition decoded :: "float_lib \<Rightarrow> (string, fieldMeta) gomap \<Rightarrow> (string, any) gomap \<Rightarrow> cell list \<Rightarrow> cell list \<Rightarrow> bool" where
  "decoded fl flds m old new \<longleftrightarrow> length new = length old \<and>
     (\<forall>n fm. mget flds n = Some fm \<longrightarrow> new ! fm_Index fm = (case mget m n of None \<Rightarrow> old ! fm_Index fm | Some v \<Rightarrow> fst (decode_field fl fm v (old ! fm_Index fm)))) \<and>
     (\<forall>j. (\<forall>n fm. mget flds n = Some fm \<longrightarrow> fm_Index fm \<noteq> j) \<longrightarrow> new ! j = old ! j)"

lemma decoded_step:
  assumes d: "decodes fs flds" and f: "mget flds k = Some fm" and new: "mget m k = None" and len: "length cells = length fs"
    and r: "decoded fl flds m (cells[fm_Index fm := fst (decode_field fl fm v (cells ! fm_Index fm))]) cells'"
  shows "decoded fl flds ((k, v) # m) cells cells'"
proof -
  let ?c = "fst (decode_field fl fm v (cells ! fm_Index fm))"
  have lt: "fm_Index fm < length cells" using d f len by (auto simp: decodes_def)
  have "cells' ! fm_Index fm' = (case mget ((k, v) # m) n of None \<Rightarrow> cells ! fm_Index fm' | Some v \<Rightarrow> fst (decode_field fl fm' v (cells ! fm_Index fm')))"
    if g: "mget flds n = Some fm'" for n fm'
  proof (cases "n = k")
    case True
    with r f g new lt show ?thesis by (simp add: decoded_def)
  next
    case False
    then have "fm_Index fm' \<noteq> fm_Index fm" using decodes_index [OF d g f] by blast
    then have "cells[fm_Index fm := ?c] ! fm_Index fm' = cells ! fm_Index fm'" by simp
    with r g False show ?thesis by (cases "mget m n") (simp_all add: decoded_def)
  qed
  moreover have "cells' ! j = cells ! j" if "\<forall>n fm. mget flds n = Some fm \<longrightarrow> fm_Index fm \<noteq> j" for j
    using r that f by (auto simp: decoded_def)
  ultimately show ?thesis using r by (simp add: decoded_def)
qed

lemma decode_loop_outcome:
  assumes d: "decodes fs flds" and "length cells = length fs" and "wf_map m"
  shows "if \<forall>(k, v) \<in> set m. \<forall>fm. mget flds k = Some fm \<longrightarrow> answer_ok fl fm v
    then \<exists>cells' seen'. decode_loop fl fs flds m cells seen = Some (cells', Inr seen') \<and> decoded fl flds m cells cells' \<and>
      set seen' = set seen \<union> {n. mget m n \<noteq> None \<and> mget flds n \<noteq> None}
    else \<exists>cells' e. decode_loop fl fs flds m cells seen = Some (cells', Inl e)"
  using assms(2,3)
proof (induction m arbitrary: cells seen)
  case Nil
  then show ?case by (simp add: decoded_def)
next
  case (Cons kv m)
  obtain k v where kv: "kv = (k, v)" by fastforce
  have wf: "wf_map m" and new: "mget m k = None" using Cons.prems(2) kv by (simp_all add: wf_map_def mkeys_def mget_None_iff)
  show ?case
  proof (cases "mget flds k")
    case None
    have same: "mget flds n \<noteq> None \<Longrightarrow> mget (kv # m) n = mget m n" for n using None by (auto simp: kv)
    have "{n. mget (kv # m) n \<noteq> None \<and> mget flds n \<noteq> None} = {n. mget m n \<noteq> None \<and> mget flds n \<noteq> None}" using same by auto
    moreover have "decoded fl flds (kv # m) cells c = decoded fl flds m cells c" for c
      by (simp add: decoded_def same)
    moreover have "decode_loop fl fs flds (kv # m) cells seen = decode_loop fl fs flds m cells seen" using None by (simp add: kv)
    moreover have "(\<forall>(k, v) \<in> set (kv # m). \<forall>fm. mget flds k = Some fm \<longrightarrow> answer_ok fl fm v) \<longleftrightarrow> (\<forall>(k, v) \<in> set m. \<forall>fm. mget flds k = Some fm \<longrightarrow> answer_ok fl fm v)"
      using None by (simp add: kv)
    ultimately show ?thesis using Cons.IH [OF Cons.prems(1) wf, of seen] by (simp only:)
  next
    case (Some fm)
    let ?i = "fm_Index fm" and ?c = "fst (decode_field fl fm v (cells ! fm_Index fm))"
    have match: "?i < length fs" "sf_kind (fs ! ?i) = fm_Kind fm" "sf_ptr (fs ! ?i) = fm_IsPointer fm" using d Some by (auto simp: decodes_def)
    show ?thesis
    proof (cases "answer_ok fl fm v")
      case False
      then obtain c e where e: "decode_field fl fm v (cells ! ?i) = (c, Some e)"
        using decode_field_ok [of fl fm v "cells ! ?i"] by (cases "decode_field fl fm v (cells ! ?i)") auto
      have "decode_loop fl fs flds (kv # m) cells seen = Some (cells[?i := c], Inl e)" using e Some match by (simp add: kv)
      with False Some show ?thesis by (auto simp: kv)
    next
      case True
      then obtain c where e: "decode_field fl fm v (cells ! ?i) = (c, None)"
        using decode_field_ok [of fl fm v "cells ! ?i"] by (cases "decode_field fl fm v (cells ! ?i)") auto
      have run: "decode_loop fl fs flds (kv # m) cells seen = decode_loop fl fs flds m (cells[?i := ?c]) (k # seen)"
        using Some match e by (simp add: kv)
      have all: "(\<forall>(k, v) \<in> set (kv # m). \<forall>fm. mget flds k = Some fm \<longrightarrow> answer_ok fl fm v) \<longleftrightarrow> (\<forall>(k, v) \<in> set m. \<forall>fm. mget flds k = Some fm \<longrightarrow> answer_ok fl fm v)"
        using True Some by (simp add: kv)
      have seen: "set (k # seen) \<union> {n. mget m n \<noteq> None \<and> mget flds n \<noteq> None} = set seen \<union> {n. mget (kv # m) n \<noteq> None \<and> mget flds n \<noteq> None}"
        using Some by (auto simp: kv)
      have step: "decoded fl flds m (cells[?i := ?c]) c \<Longrightarrow> decoded fl flds (kv # m) cells c" for c
        unfolding kv by (rule decoded_step [OF d Some new Cons.prems(1)])
      have "length (cells[?i := ?c]) = length fs" using Cons.prems(1) by simp
      from Cons.IH [OF this wf, of "k # seen"] show ?thesis unfolding all run seen using step by (auto split: if_splits)
    qed
  qed
qed

lemma fieldByName_get:
  assumes "distinct (map fm_Name fms)"
  shows "mget (fieldByName fms) n = Some fm \<longleftrightarrow> fm \<in> set fms \<and> fm_Name fm = n"
proof -
  have "mget (foldl (\<lambda>m fm. mput (fm_Name fm) fm m) m fms) n = Some fm \<longleftrightarrow>
      fm \<in> set fms \<and> fm_Name fm = n \<or> n \<notin> fm_Name ` set fms \<and> mget m n = Some fm" if "distinct (map fm_Name fms)" for m
    using that by (induction fms arbitrary: m) auto
  from this [OF assms, of "[]"] show ?thesis by (simp add: fieldByName_def)
qed

lemma missing_field_None: "missing_field fms seen = None \<longleftrightarrow> (\<forall>fm \<in> set fms. fm_Required fm \<longrightarrow> fm_Name fm \<in> set seen)"
  by (induction fms) auto

text \<open>What the published schema says of an answer; a bound of zero is not published.\<close>

definition published_ok :: "primitive \<Rightarrow> any \<Rightarrow> bool" where
  "published_ok ps v \<longleftrightarrow> (pr_Type ps = ''string'' \<longrightarrow> (\<exists>s. v = GStr s)) \<and> (pr_Type ps = ''boolean'' \<longrightarrow> (\<exists>b. v = GBool b)) \<and>
     (pr_Type ps = ''number'' \<longrightarrow> (\<exists>f. toFloat v = Some f \<and> (pr_Minimum ps \<noteq> 0 \<longrightarrow> pr_Minimum ps \<le> f) \<and> (pr_Maximum ps \<noteq> 0 \<longrightarrow> f \<le> pr_Maximum ps))) \<and>
     (pr_Type ps = ''string'' \<longrightarrow> pr_Enum ps \<noteq> [] \<longrightarrow> v \<in> set (pr_Enum ps))"

lemma checkBounds_None: "checkBounds n f mi ma = None \<longleftrightarrow> (\<forall>b. mi = Some b \<longrightarrow> b \<le> f) \<and> (\<forall>b. ma = Some b \<longrightarrow> f \<le> b)"
  by (auto simp: checkBounds_def below_min_def above_max_def split: option.splits)

lemma coerce_number:
  assumes "coerce fl fm v = Inr x" and "number_kind (fm_Kind fm)"
  shows "\<exists>f. toFloat v = Some f \<and> checkBounds (fm_Name fm) f (fm_Min fm) (fm_Max fm) = None"
  using assms by (cases "fm_Kind fm") (auto simp: coerce_def Let_def split: option.splits if_splits)

lemma coerce_published:
  assumes "meta_of fs ps fm" and "coerce fl fm v = Inr x"
  shows "published_ok ps v"
proof -
  have t: "anon_type (fm_Kind fm) = Some (pr_Type ps)" and e: "pr_Enum ps = (case fm_EnumSet fm of None \<Rightarrow> [] | Some es \<Rightarrow> map GStr es)"
    and b: "pr_Minimum ps \<noteq> 0 \<longrightarrow> fm_Min fm = Some (pr_Minimum ps)" "pr_Maximum ps \<noteq> 0 \<longrightarrow> fm_Max fm = Some (pr_Maximum ps)"
    using assms(1) by (simp_all add: meta_of_def)
  consider "fm_Kind fm = KString" "pr_Type ps = ''string''" | "fm_Kind fm = KBool" "pr_Type ps = ''boolean''" | "number_kind (fm_Kind fm)" "pr_Type ps = ''number''"
    using t by (auto simp: anon_type_def split: if_splits)
  then show ?thesis
  proof cases
    case 1
    with assms(2) e show ?thesis by (auto simp: published_ok_def coerce_def Let_def split: any.splits option.splits if_splits)
  next
    case 2
    with assms(2) show ?thesis by (auto simp: published_ok_def coerce_def Let_def split: any.splits)
  next
    case 3
    with coerce_number [OF assms(2) 3(1)] b show ?thesis by (auto simp: published_ok_def checkBounds_None)
  qed
qed

text \<open>A projection and its decoder.\<close>

definition fields_accept :: "float_lib \<Rightarrow> fieldMeta list \<Rightarrow> (string, any) gomap \<Rightarrow> bool" where
  "fields_accept fl fms m \<longleftrightarrow> (\<forall>fm \<in> set fms. case mget m (fm_Name fm) of None \<Rightarrow> \<not> fm_Required fm | Some v \<Rightarrow> answer_ok fl fm v)"

lemma known_field: "distinct (map fm_Name fms) \<Longrightarrow> mget (fieldByName fms) k = None \<longleftrightarrow> k \<notin> fm_Name ` set fms"
proof -
  assume "distinct (map fm_Name fms)"
  then have "(\<exists>fm. mget (fieldByName fms) k = Some fm) \<longleftrightarrow> k \<in> fm_Name ` set fms" by (auto simp: fieldByName_get)
  then show ?thesis by (cases "mget (fieldByName fms) k") simp_all
qed

lemma projected_decodes: "projected fs (out, fms) \<Longrightarrow> decodes fs (fieldByName fms)"
  by (auto simp: decodes_def fieldByName_get projected_def meta_of_def)

lemma accepted_published:
  assumes "projected fs (out, fms)" and "fields_accept fl fms m"
  shows "mget (el_Properties out) n = Some ps \<Longrightarrow> mget m n = Some v \<Longrightarrow> v \<noteq> GNil \<Longrightarrow> published_ok ps v"
    and "n \<in> set (el_Required out) \<Longrightarrow> \<exists>v. mget m n = Some v \<and> v \<noteq> GNil"
proof -
  assume ps: "mget (el_Properties out) n = Some ps" and v: "mget m n = Some v" "v \<noteq> GNil"
  have "n \<in> set (mkeys (el_Properties out))" using ps by (simp add: mkeys_iff)
  then obtain fm where fm: "fm \<in> set fms" "fm_Name fm = n" using assms(1) by (auto simp: projected_def)
  then have "meta_of fs ps fm" using assms(1) ps by (auto simp: projected_def)
  moreover have "answer_ok fl fm v" using assms(2) fm v(1) by (auto simp: fields_accept_def)
  then obtain x where "coerce fl fm v = Inr x" using v(2) by (auto simp: answer_ok_def)
  ultimately show "published_ok ps v" by (rule coerce_published)
next
  assume "n \<in> set (el_Required out)"
  then obtain fm where fm: "fm \<in> set fms" "fm_Name fm = n" "fm_Required fm" using assms(1) by (auto simp: projected_def)
  with assms(2) show "\<exists>v. mget m n = Some v \<and> v \<noteq> GNil" by (force simp: fields_accept_def answer_ok_def split: option.splits if_splits)
qed

lemma decode_outcome:
  assumes p: "projected (st_fields (so_type (store ! i))) (out, cp_fields cp)"
    and len: "length (so_cells (store ! i)) = length (st_fields (so_type (store ! i)))" and m: "wf_map m"
  shows "\<exists>store' err. decodeInto fl cp (Some (StructAt i)) (RawMap (Some m)) strict store = Some (store', err) \<and>
    (err = None \<longleftrightarrow> (strict \<longrightarrow> (\<forall>k \<in> set (mkeys m). k \<in> fm_Name ` set (cp_fields cp))) \<and> fields_accept fl (cp_fields cp) m) \<and>
    (err = None \<longrightarrow> (\<exists>cells. store' = store[i := (store ! i)\<lparr>so_cells := cells\<rparr>] \<and>
       decoded fl (fieldByName (cp_fields cp)) m (so_cells (store ! i)) cells))"
proof -
  let ?flds = "fieldByName (cp_fields cp)"
  have dist: "distinct (map fm_Name (cp_fields cp))" using p by (simp add: projected_def)
  note get = fieldByName_get [OF dist] and known = known_field [OF dist]
  let ?good = "\<forall>(k, v) \<in> set m. \<forall>fm. mget ?flds k = Some fm \<longrightarrow> answer_ok fl fm v"
  have good: "?good \<longleftrightarrow> (\<forall>fm \<in> set (cp_fields cp). \<forall>v. mget m (fm_Name fm) = Some v \<longrightarrow> answer_ok fl fm v)"
    using wf_map_mget [OF m] by (fastforce simp: get)
  let ?unknown = "filter (\<lambda>(k, v). strict \<and> mget ?flds k = None) m"
  have unk: "?unknown = [] \<longleftrightarrow> (strict \<longrightarrow> (\<forall>k \<in> set (mkeys m). k \<in> fm_Name ` set (cp_fields cp)))"
    by (auto simp: filter_empty_conv known mkeys_def)
  note out = decode_loop_outcome [OF projected_decodes [OF p] len m, of fl "[]"]
  consider (unknown) k v rest where "?unknown = (k, v) # rest" | (bad) "?unknown = []" "\<not> ?good" | (good) "?unknown = []" ?good
    by (cases ?unknown) auto
  then show ?thesis
  proof cases
    case unknown
    then have "decodeInto fl cp (Some (StructAt i)) (RawMap (Some m)) strict store =
        Some (store, Some (ErrText (''elicitation: unknown field '' @ k @ '' in response'')))"
      unfolding decodeInto_def Let_def by simp
    moreover have "\<not> (strict \<longrightarrow> (\<forall>k \<in> set (mkeys m). k \<in> fm_Name ` set (cp_fields cp)))" using unk unknown by simp
    ultimately show ?thesis by (intro exI conjI) (assumption, simp_all)
  next
    case bad
    with out obtain cells e where r: "decode_loop fl (st_fields (so_type (store ! i))) ?flds m (so_cells (store ! i)) [] = Some (cells, Inl e)" by auto
    have "decodeInto fl cp (Some (StructAt i)) (RawMap (Some m)) strict store = Some (store[i := (store ! i)\<lparr>so_cells := cells\<rparr>], Some e)"
      unfolding decodeInto_def Let_def using bad(1) r by simp
    moreover have "\<not> fields_accept fl (cp_fields cp) m" using bad(2) unfolding good fields_accept_def by fastforce
    ultimately show ?thesis by (intro exI conjI) (assumption, simp_all)
  next
    case good
    with out obtain cells seen where r: "decode_loop fl (st_fields (so_type (store ! i))) ?flds m (so_cells (store ! i)) [] = Some (cells, Inr seen)"
      and c: "decoded fl ?flds m (so_cells (store ! i)) cells" and seen: "set seen = {n. mget m n \<noteq> None \<and> mget ?flds n \<noteq> None}" by auto
    have run: "decodeInto fl cp (Some (StructAt i)) (RawMap (Some m)) strict store =
        Some (store[i := (store ! i)\<lparr>so_cells := cells\<rparr>], missing_field (cp_fields cp) seen)"
      unfolding decodeInto_def Let_def using good(1) r by simp
    have "missing_field (cp_fields cp) seen = None \<longleftrightarrow> (\<forall>fm \<in> set (cp_fields cp). fm_Required fm \<longrightarrow> mget m (fm_Name fm) \<noteq> None)"
      unfolding missing_field_None seen by (auto simp: known)
    then have "missing_field (cp_fields cp) seen = None \<longleftrightarrow> fields_accept fl (cp_fields cp) m"
      using good(2) unfolding \<open>?good \<longleftrightarrow> _\<close> by (auto simp: fields_accept_def split: option.splits)
    with run c good(1) unk show ?thesis by (intro exI [of _ "store[i := (store ! i)\<lparr>so_cells := cells\<rparr>]"] exI [of _ "missing_field (cp_fields cp) seen"]) blast
  qed
qed


definition proj_type :: stype where
  "proj_type = \<lparr>st_name = [], st_fields = [
     \<lparr>sf_Name = ''Name'', sf_exported = True, sf_json = ''name'', sf_jsonschema = [], sf_ptr = False, sf_kind = KString\<rparr>,
     \<lparr>sf_Name = ''Count'', sf_exported = True, sf_json = [], sf_jsonschema = ''minimum=1'', sf_ptr = True, sf_kind = KInt 64\<rparr>]\<rparr>"

definition proj_parse :: "string \<Rightarrow> rat option" where
  "proj_parse s = map_option of_nat (parse_digits 0 s)"

definition proj_wit :: cachedProjection where
  "proj_wit = \<lparr>cp_schema = \<lparr>el_Type = ''object'', el_Properties = [
       (''name'', \<lparr>pr_Type = ''string'', pr_Description = [], pr_Minimum = 0, pr_Maximum = 0, pr_Enum = []\<rparr>),
       (''count'', \<lparr>pr_Type = ''number'', pr_Description = [], pr_Minimum = 1, pr_Maximum = 0, pr_Enum = []\<rparr>)], el_Required = [''name'']\<rparr>,
     cp_fields = [\<lparr>fm_Name = ''name'', fm_Index = 0, fm_Required = True, fm_Kind = KString, fm_EnumSet = None, fm_Min = None, fm_Max = None, fm_IsPointer = False\<rparr>,
       \<lparr>fm_Name = ''count'', fm_Index = 1, fm_Required = False, fm_Kind = KInt 64, fm_EnumSet = None, fm_Min = Some 1, fm_Max = None, fm_IsPointer = True\<rparr>]\<rparr>"

lemma proj_wit_project: "project proj_parse (\<lambda>_. None) (\<lambda>m. m) [] (RStruct proj_type) = Some ([], Inr proj_wit)"
proof -
  have t: "field_table 0 (st_fields proj_type) [] = [(''name'', 0), (''count'', Suc 0)]"
    by (simp add: proj_type_def parseJSONName_def Split_def lower_char_def mput_def) (simp add: char_of_def bit_iff_odd)
  have tag: "anon_tag_part proj_parse ''minimum=1'' ps = ps\<lparr>pr_Minimum := 1\<rparr>" for ps
    by (simp add: anon_tag_part_def proj_parse_def is_digit_def digit_val_def)
  have s: "Split ''minimum=1'' CHR '','' = [''minimum=1'']" by (simp add: Split_def)
  have "project_fields proj_parse (\<lambda>_. None) (\<lambda>m. m) proj_type = Inr (cp_schema proj_wit, cp_fields proj_wit)"
    unfolding project_fields_def Let_def t by (simp add: proj_type_def anon_field_def anon_type_def tag s Let_def proj_wit_def mput_def)
  moreover have "validate_schema (Some (cp_schema proj_wit)) = Some (Inr (cp_schema proj_wit))"
    by (simp add: validate_schema_def proj_wit_def)
  ultimately show ?thesis by (simp add: project_def Let_def) (simp add: proj_type_def proj_wit_def)
qed


text \<open>A null for an optional pointer field allocates it: the field holds the zero value afterwards, not a nil pointer.\<close>

lemma null_allocates_pointer:
  "fm_IsPointer fm \<Longrightarrow> \<not> fm_Required fm \<Longrightarrow> decode_field fl fm GNil None = (Some (zero_val (fm_Kind fm)), None)"
  by (simp add: decode_field_def)

text \<open>The target keeps what was stored before a refused value.\<close>

lemma refused_answer_changes_target:
  "\<exists>cells e. decode_loop fl (st_fields proj_type) (fieldByName (cp_fields proj_wit)) [(''name'', GStr ''bob''), (''count'', GStr ''x'')] (zero_struct proj_type) [] =
     Some (cells, Inl e) \<and> cells \<noteq> zero_struct proj_type"
  by (simp add: proj_type_def proj_wit_def fieldByName_def mput_def decode_field_def coerce_def zero_struct_def zero_cell_def)

end
