(* ===== verification/HttpServe.thy ===== *)
theory HttpServe
  imports StreamingHttp
begin

section \<open>Serving with the request log (streaminghttp/handler.go: ServeHTTP, loggingResponseWriter)\<close>

text \<open>
  With verbose request logging the handlers write through a wrapper that records the status, the content type and the number of
  bytes. What a handler does to its writer is given as a tree of calls, so that one handler runs on either writer; routing by
  net/http picks the handler and is an argument. The wrapper changes nothing the client sees, and what it records is true as long
  as nothing is flushed before the header.
\<close>

datatype writing =
    Finish
  | SetHeader string string writing
  | SendHeader int writing
  | Send string "bool \<Rightarrow> writing"
  | FlushAll writing

primrec on_writer :: "writing \<Rightarrow> ResponseWriter \<Rightarrow> ResponseWriter" where
  "on_writer Finish w = w"
| "on_writer (SetHeader k v p) w = on_writer p (set_header k v w)"
| "on_writer (SendHeader code p) w = on_writer p (WriteHeader code w)"
| "on_writer (Send bs k) w = on_writer (k (snd (rw_Write bs w))) (fst (rw_Write bs w))"
| "on_writer (FlushAll p) w = on_writer p (WriteHeader 200 w)"

record loggingResponseWriter =
  lw_inner :: ResponseWriter
  lw_status :: int
  lw_wroteHeader :: bool
  lw_bytes :: nat
  lw_contentType :: string

definition note_type :: "loggingResponseWriter \<Rightarrow> loggingResponseWriter" where
  "note_type lw = (let ct = get_header (rw_header (lw_inner lw)) ''Content-Type'' in if ct \<noteq> [] then lw\<lparr>lw_contentType := ct\<rparr> else lw)"

definition lw_WriteHeader :: "int \<Rightarrow> loggingResponseWriter \<Rightarrow> loggingResponseWriter" where
  "lw_WriteHeader code lw =
     (let lw1 = (if \<not> lw_wroteHeader lw then note_type (lw\<lparr>lw_status := code, lw_wroteHeader := True\<rparr>) else lw)
      in lw1\<lparr>lw_inner := WriteHeader code (lw_inner lw1)\<rparr>)"

definition lw_Write :: "string \<Rightarrow> loggingResponseWriter \<Rightarrow> loggingResponseWriter \<times> bool" where
  "lw_Write bs lw =
     (let lw1 = (if \<not> lw_wroteHeader lw then lw_WriteHeader 200 lw else lw);
          (w, ok) = rw_Write bs (lw_inner lw1);
          lw2 = lw1\<lparr>lw_inner := w, lw_bytes := lw_bytes lw1 + (if ok then length bs else 0)\<rparr>
      in (if lw_contentType lw2 = [] then note_type lw2 else lw2, ok))"

primrec on_logging :: "writing \<Rightarrow> loggingResponseWriter \<Rightarrow> loggingResponseWriter" where
  "on_logging Finish lw = lw"
| "on_logging (SetHeader k v p) lw = on_logging p (lw\<lparr>lw_inner := set_header k v (lw_inner lw)\<rparr>)"
| "on_logging (SendHeader code p) lw = on_logging p (lw_WriteHeader code lw)"
| "on_logging (Send bs k) lw = on_logging (k (snd (lw_Write bs lw))) (fst (lw_Write bs lw))"
| "on_logging (FlushAll p) lw = on_logging p (lw\<lparr>lw_inner := WriteHeader 200 (lw_inner lw)\<rparr>)"

text \<open>The response, and the status, content type and size of the log record, if there is one.\<close>

definition ServeHTTP :: "bool \<Rightarrow> writing \<Rightarrow> ResponseWriter \<Rightarrow> ResponseWriter \<times> (int \<times> string \<times> nat) option" where
  "ServeHTTP verboseRequests p w =
     (if \<not> verboseRequests then (on_writer p w, None)
      else if \<not> rw_flusher w then (WriteHeader 500 w, None)
      else let lrw = on_logging p \<lparr>lw_inner = w, lw_status = 0, lw_wroteHeader = False, lw_bytes = 0, lw_contentType = []\<rparr> in
        (lw_inner lrw, Some (if lw_status lrw = 0 then 200 else lw_status lrw, lw_contentType lrw, lw_bytes lrw)))"

lemma note_type_simps [simp]:
  "lw_inner (note_type lw) = lw_inner lw" "lw_status (note_type lw) = lw_status lw"
  "lw_wroteHeader (note_type lw) = lw_wroteHeader lw" "lw_bytes (note_type lw) = lw_bytes lw"
  by (simp_all add: note_type_def Let_def)

lemma WriteHeader_twice [simp]: "WriteHeader code (WriteHeader c w) = WriteHeader c w"
  by (simp add: WriteHeader_def split: option.split)

lemma Write_after_header [simp]: "rw_Write bs (WriteHeader 200 w) = rw_Write bs w"
  by (simp add: rw_Write_def)

lemma lw_Write_inner: "lw_inner (fst (lw_Write bs lw)) = fst (rw_Write bs (lw_inner lw))" "snd (lw_Write bs lw) = snd (rw_Write bs (lw_inner lw))"
  by (simp_all add: lw_Write_def lw_WriteHeader_def Let_def split: prod.split)

lemma logging_inner: "lw_inner (on_logging p lw) = on_writer p (lw_inner lw)"
  by (induction p arbitrary: lw) (simp_all add: lw_Write_inner lw_WriteHeader_def Let_def)

text \<open>What the wrapper has recorded: the status and the size of what was sent so far.\<close>

definition recorded :: "loggingResponseWriter \<Rightarrow> bool" where
  "recorded lw \<longleftrightarrow> rw_status (lw_inner lw) = (if lw_wroteHeader lw then Some (lw_status lw) else None) \<and>
     lw_bytes lw = length (rw_body (lw_inner lw)) \<and> (\<not> lw_wroteHeader lw \<longrightarrow> lw_status lw = 0)"

primrec header_first :: "bool \<Rightarrow> writing \<Rightarrow> bool" where
  "header_first sent Finish = True"
| "header_first sent (SetHeader k v p) = header_first sent p"
| "header_first sent (SendHeader code p) = (code \<noteq> 0 \<and> header_first True p)"
| "header_first sent (Send bs k) = (\<forall>ok. header_first True (k ok))"
| "header_first sent (FlushAll p) = (sent \<and> header_first sent p)"

lemma recorded_WriteHeader: "recorded lw \<Longrightarrow> recorded (lw_WriteHeader code lw) \<and> lw_wroteHeader (lw_WriteHeader code lw)"
  by (auto simp: recorded_def lw_WriteHeader_def WriteHeader_def Let_def split: option.split)

lemma recorded_Write: "recorded lw \<Longrightarrow> recorded (fst (lw_Write bs lw)) \<and> lw_wroteHeader (fst (lw_Write bs lw))"
proof -
  assume "recorded lw"
  then have "recorded (if \<not> lw_wroteHeader lw then lw_WriteHeader 200 lw else lw) \<and> lw_wroteHeader (if \<not> lw_wroteHeader lw then lw_WriteHeader 200 lw else lw)"
    using recorded_WriteHeader by simp
  then show ?thesis
    unfolding lw_Write_def Let_def by (auto simp: recorded_def rw_Write_def WriteHeader_def Let_def split: option.splits nat.splits prod.splits)
qed

lemma recorded_run: "recorded lw \<Longrightarrow> header_first (lw_wroteHeader lw) p \<Longrightarrow> recorded (on_logging p lw)"
proof (induction p arbitrary: lw)
  case (SendHeader code p)
  then show ?case using recorded_WriteHeader [of lw code] by simp
next
  case (Send bs k)
  then show ?case using recorded_Write [of lw bs] by simp
next
  case (FlushAll p)
  then have "WriteHeader 200 (lw_inner lw) = lw_inner lw" by (simp add: recorded_def WriteHeader_def)
  moreover have "recorded (on_logging p lw)" using FlushAll.prems by (intro FlushAll.IH) auto
  ultimately show ?case by simp
qed (simp_all add: recorded_def set_header_def)

text \<open>The request log is transparent: the client gets the same response with and without it (a writer that cannot flush is refused),
  and a handler that sends its header before it flushes is logged with the status and the size of its response.\<close>

theorem request_log_transparent:
  assumes "rw_flusher w"
  shows "fst (ServeHTTP True p w) = fst (ServeHTTP False p w)"
    and "rw_status w = None \<Longrightarrow> rw_body w = [] \<Longrightarrow> header_first False p \<Longrightarrow>
      \<exists>ct. snd (ServeHTTP True p w) = Some (case rw_status (fst (ServeHTTP False p w)) of Some c \<Rightarrow> if c = 0 then 200 else c | None \<Rightarrow> 200, ct,
        length (rw_body (fst (ServeHTTP False p w))))"
proof -
  let ?lw = "\<lparr>lw_inner = w, lw_status = 0, lw_wroteHeader = False, lw_bytes = 0, lw_contentType = []\<rparr>"
  show "fst (ServeHTTP True p w) = fst (ServeHTTP False p w)" using assms by (simp add: ServeHTTP_def Let_def logging_inner)
  assume "rw_status w = None" "rw_body w = []" "header_first False p"
  then have "recorded (on_logging p ?lw)" by (intro recorded_run) (simp_all add: recorded_def)
  then show "\<exists>ct. snd (ServeHTTP True p w) = Some (case rw_status (fst (ServeHTTP False p w)) of Some c \<Rightarrow> if c = 0 then 200 else c | None \<Rightarrow> 200, ct,
        length (rw_body (fst (ServeHTTP False p w))))"
    using assms by (auto simp: ServeHTTP_def Let_def logging_inner recorded_def split: if_splits)
qed

end
