(* ===== verification/Spec2Isabelle.thy ===== *)
theory Spec2Isabelle
  imports ClientCalls HttpSessions Stdio ToolWriter Reflection FsUpdates RedisSessions Projection HttpServe
begin

section \<open>Verification of mcp-server-go\<close>

text \<open>
  mcp-server-go is a library for servers of the Model Context Protocol. A transport receives JSON-RPC
  messages, the engine turns them into calls of the application's capabilities, and a session host keeps
  sessions, their ordered message streams and a bus between the instances of a server. The theories
  follow that structure; all paths are under src/.

  \<^bold>\<open>Parts and theories.\<close>
  \<^item> \<open>Prelude\<close>, \<open>Json\<close>: Go maps (association lists), errors, contexts, decimal numerals; JSON documents
    and what \<^verbatim>\<open>encoding/json\<close> does with them.
  \<^item> \<open>JsonRpc\<close> (internal/jsonrpc): identifiers, messages, validation, encoding. A message that is
    accepted is exactly one of request, notification and response; encoding and decoding are inverse
    for every identifier a float64 can carry.
  \<^item> \<open>Sessions\<close> (sessions/metadata.go, host.go): the metadata and the host interface, a record of
    operations with its contract, the locale \<open>session_host\<close>. The engine's lemmas about sessions are
    proved once inside it and hold for the memory host through the interpretation \<open>mem\<close>.
  \<^item> \<open>MemoryHost\<close>, \<open>MemoryDelivery\<close> (sessions/memoryhost): the in-memory host. Subscriptions are cut
    at the points where they release their lock and interleave freely; the system refines an abstract
    ledger in which each message has at most one holder, nothing acknowledged is handed out again, a
    resumed subscriber gets what it missed in order, publishing and deleting wake everyone.
  \<^item> \<open>RedisHost\<close>, \<open>RedisSessions\<close> (sessions/redishost): the host over Redis. An operation is a program over Redis
    commands, run on any server with steps of other clients in between; \<open>kv_laws\<close> says what is assumed of the server.
    Changing a session is one atomic step or none, and a message is acknowledged exactly when its handler took it.
    Subscriptions take the number of turns they are watched for, and the properties hold for every number.
  \<^item> \<open>McpTypes\<close> (mcp): protocol payloads. \<open>Pagination\<close>, \<open>Notifier\<close>, \<open>Containers\<close>, \<open>Resources\<close>,
    \<open>ToolWriter\<close> (mcpservice): paging (locale \<open>pager\<close>, interpreted for each list operation), change
    notification, the static containers of tools, prompts and resources, and the writer of tool results.
  \<^item> \<open>TypedTools\<close> (mcpservice/static_tools.go, tools.go, prompts.go, resources.go, progress.go): tools made from typed
    functions, the schemas they publish, capabilities made from functions, and listeners for changes. The argument type,
    with what encoding/json and the schema reflector make of it, is a record that the definitions take.
  \<^item> \<open>Server\<close> (mcpservice/server.go, providers.go, capabilities.go, logging.go,
    internal/engine/session_handle.go): what the engine sees of the application.
  \<^item> \<open>EngineCore\<close>, \<open>EngineRequests\<close>, \<open>EngineEvents\<close> (internal/engine/engine.go): sessions from
    initialize to delete, all request handlers, and the consumer of the bus with cancellation,
    rendez-vous and list-changed notifications.
  \<^item> \<open>ClientCalls\<close> (internal/engine/roots_capability.go, sampling_capability.go, elicitation_capability.go,
    internal/createmessage, sessions/sampling): calls to the client, cut where they wait for its response. A
    response posted to any instance reaches the call that waits; an elicitation is accepted only when the
    decoder took the content.
  \<^item> \<open>GoStrings\<close>, \<open>GoPaths\<close>: what the code uses of strings, path, path/filepath, io/fs and net/url, with laws.
  \<^item> \<open>Auth\<close> (auth, internal/jwtauth): configuration and the two authenticators; a token that is accepted was
    verified under the key set of the issuer with an allowed algorithm, is typed, unexpired and in scope. The JWT
    and OIDC libraries are parameters.
  \<^item> \<open>HttpWire\<close>, \<open>StreamingHttp\<close>, \<open>HttpSessions\<close>, \<open>HttpServe\<close> (streaminghttp/handler.go, internal/wellknown): the
    event-stream writer and the challenge header with readers that invert them; the POST, GET and DELETE handlers
    over the engine and the memory host. A session changes only for its authenticated user, every POST is
    answered, a reconnecting GET gets what it missed, and the request log changes no response.
  \<^item> \<open>Stdio\<close> (stdio/handler.go): the line-based transport as a step relation of reader, request goroutines and
    session pump; one session at most, one line per request.
  \<^item> \<open>Elicitation\<close>, \<open>ElicitSchemas\<close>, \<open>ElicitStructs\<close>, \<open>Reflection\<close> (elicitation): the schema builder, the
    reflection of structs, the canonical schema text and the decoders. Both encoders print the document their
    input describes, so equal descriptions give equal bytes; the decoders accept what that document admits. The
    locales \<open>field_map\<close>, \<open>answer_loop\<close> and \<open>default_loop\<close> are the loops the struct decoders share, interpreted
    for the builder and for reflection.
  \<^item> \<open>Projection\<close> (internal/elicitation, internal/validation): a second way from struct types to schemas, which nothing else
    calls yet, with its validation and its decoder. The decoder accepts nothing that the schema excludes.
  \<^item> \<open>FsResources\<close>, \<open>FsSafety\<close>, \<open>FsUpdates\<close> (mcpservice/fs_resources.go): files as resources. Reads stay below
    the root, listed URIs read back, and no marked change is lost between debouncers, notifiers and subscribers.

  \<^bold>\<open>Conventions.\<close> Mutexes make the pieces between lock operations atomic; a piece is one definition and
  handlers compose their pieces, so that a property may put other steps between them. \<open>None\<close> of a step
  is a Go panic. \<open>time.Now\<close>, \<open>uuid.NewString\<close> and the application's functions are arguments. Logging is
  left out. Offsets are 64-bit with wrap-around written out; \<open>walk\<close> and \<open>sub_run\<close> take fuel, and their
  properties give the fuel that suffices: one page per item and one more, one turn per message and one
  more.

  \<^bold>\<open>Not modelled.\<close> Log attributes and log output, the examples, and the conformance suite for session hosts, which is
  test code.
\<close>

end
